(* ===== verification/Cfgate_Prelude.thy ===== *)
theory Cfgate_Prelude
  imports Main "HOL-Library.Sublist" "HOL-Library.State_Monad" "HOL-Library.Monad_Syntax"
begin

text \<open>
  The shared vocabulary of the development: the parts of Go and of its standard library that
  the sources use (package strings, strconv, fmt, errors, fixed-width integer conversions),
  errors as values, effectful calls as state transformers, and the lemmas on strings, maps and
  state transformers that the component theories share.

  A Go string is a sequence of bytes: the model's \<open>string\<close> is a list of 8-bit characters, and
  \<open>length\<close> is Go's \<open>len\<close>.
\<close>

named_theorems go_strings \<open>computation rules for the string library\<close>
named_theorems api_defs \<open>definitions unfolded when a handler is executed symbolically\<close>

section \<open>Package strings\<close>

definition HasPrefix :: "string \<Rightarrow> string \<Rightarrow> bool" where
  "HasPrefix s p \<longleftrightarrow> take (length p) s = p"

definition HasSuffix :: "string \<Rightarrow> string \<Rightarrow> bool" where
  "HasSuffix s p \<longleftrightarrow> length p \<le> length s \<and> drop (length s - length p) s = p"

definition TrimPrefix :: "string \<Rightarrow> string \<Rightarrow> string" where
  "TrimPrefix s p = (if HasPrefix s p then drop (length p) s else s)"

text \<open>\<open>strings.Index\<close>: the position of the first occurrence; None is Go's -1.\<close>

fun Index :: "string \<Rightarrow> string \<Rightarrow> nat option" where
  "Index [] p = (if p = [] then Some 0 else None)"
| "Index (c # s) p = (if HasPrefix (c # s) p then Some 0 else map_option Suc (Index s p))"

definition Contains :: "string \<Rightarrow> string \<Rightarrow> bool" where
  "Contains s p \<longleftrightarrow> Index s p \<noteq> None"

text \<open>\<open>strings.Split\<close> with a one-byte separator.\<close>

fun Split :: "string \<Rightarrow> char \<Rightarrow> string list" where
  "Split [] d = [[]]"
| "Split (c # s) d =
     (if c = d then [] # Split s d
      else (case Split s d of [] \<Rightarrow> [[c]] | w # ws \<Rightarrow> (c # w) # ws))"

text \<open>\<open>strings.SplitN\<close> with a one-byte separator and a count of two.\<close>

fun SplitN2 :: "string \<Rightarrow> char \<Rightarrow> string list" where
  "SplitN2 [] d = [[]]"
| "SplitN2 (c # s) d =
     (if c = d then [[], s]
      else (case SplitN2 s d of [] \<Rightarrow> [[c]] | w # ws \<Rightarrow> (c # w) # ws))"

fun Join :: "string list \<Rightarrow> string \<Rightarrow> string" where
  "Join [] d = []"
| "Join [w] d = w"
| "Join (w # v # ws) d = w @ d @ Join (v # ws) d"

text \<open>
  \<open>strings.ToLower\<close>. Two code points outside ASCII have an ASCII lower case: U+212A (KELVIN
  SIGN, the bytes E2 84 AA) and U+0130 (the bytes C4 B0). All other bytes outside ASCII stay
  outside ASCII; the sources compare the result with ASCII patterns only, so such bytes are left
  as they are.
\<close>

definition lower_char :: "char \<Rightarrow> char" where
  "lower_char c = (let n = of_char c :: nat in if 65 \<le> n \<and> n \<le> 90 then char_of (n + 32) else c)"

fun ToLower :: "string \<Rightarrow> string" where
  "ToLower [] = []"
| "ToLower (a # s) =
     (if of_char a = (226::nat) then
        (case s of
           b # d # t \<Rightarrow>
             if of_char b = (132::nat) \<and> of_char d = (170::nat) then CHR ''k'' # ToLower t
             else a # ToLower s
         | _ \<Rightarrow> a # ToLower s)
      else if of_char a = (196::nat) then
        (case s of
           b # t \<Rightarrow> if of_char b = (176::nat) then CHR ''i'' # ToLower t else a # ToLower s
         | [] \<Rightarrow> [a])
      else lower_char a # ToLower s)"

text \<open>\<open>strings.ToUpper\<close> of a string of one byte: a lone byte outside ASCII is not a code point,
  and Go replaces it with U+FFFD (the bytes EF BF BD).\<close>

definition upper_byte :: "char \<Rightarrow> string" where
  "upper_byte c = (let n = of_char c :: nat in
     if 97 \<le> n \<and> n \<le> 122 then [char_of (n - 32)]
     else if n < 128 then [c]
     else [char_of (239::nat), char_of (191::nat), char_of (189::nat)])"

section \<open>Decimal numbers: fmt's verb d and strconv.Atoi\<close>

definition digit_char :: "nat \<Rightarrow> char" where
  "digit_char n = char_of (48 + n)"

fun nat_str :: "nat \<Rightarrow> string" where
  "nat_str n = (if n < 10 then [digit_char n] else nat_str (n div 10) @ [digit_char (n mod 10)])"

declare nat_str.simps [simp del]

definition int_str :: "int \<Rightarrow> string" where
  "int_str i = (if i < 0 then ''-'' @ nat_str (nat (- i)) else nat_str (nat i))"

definition is_digit :: "char \<Rightarrow> bool" where
  "is_digit c \<longleftrightarrow> (48::nat) \<le> of_char c \<and> of_char c \<le> (57::nat)"

definition digit_val :: "char \<Rightarrow> nat" where
  "digit_val c = of_char c - 48"

fun digits_val :: "nat \<Rightarrow> string \<Rightarrow> nat option" where
  "digits_val acc [] = Some acc"
| "digits_val acc (c # s) = (if is_digit c then digits_val (10 * acc + digit_val c) s else None)"

text \<open>\<open>strconv.Atoi\<close> on a 64-bit platform: None is a syntax or range error.\<close>

definition Atoi :: "string \<Rightarrow> int option" where
  "Atoi s =
     (let (neg, ds) = (case s of [] \<Rightarrow> (False, [])
                       | c # t \<Rightarrow> if c = CHR ''-'' then (True, t)
                                 else if c = CHR ''+'' then (False, t) else (False, s))
      in if ds = [] then None
         else (case digits_val 0 ds of
                 None \<Rightarrow> None
               | Some n \<Rightarrow> (let i = (if neg then - int n else int n)
                           in if - (2 ^ 63) \<le> i \<and> i < 2 ^ 63 then Some i else None)))"

text \<open>
  fmt's verb q (\<open>strconv.Quote\<close>). Bytes outside ASCII are copied, which is what Go does for
  printable code points in valid UTF-8.
\<close>

definition hex_digit :: "nat \<Rightarrow> char" where
  "hex_digit n = (if n < 10 then char_of (48 + n) else char_of (87 + n))"

definition quote_byte :: "char \<Rightarrow> string" where
  "quote_byte c = (let n = of_char c :: nat; bs = char_of (92::nat) in
     if n = 34 \<or> n = 92 then [bs, c]
     else if n = 7 then [bs, CHR ''a''] else if n = 8 then [bs, CHR ''b'']
     else if n = 9 then [bs, CHR ''t''] else if n = 10 then [bs, CHR ''n'']
     else if n = 11 then [bs, CHR ''v''] else if n = 12 then [bs, CHR ''f'']
     else if n = 13 then [bs, CHR ''r'']
     else if n < 32 \<or> n = 127 then [bs, CHR ''x'', hex_digit (n div 16), hex_digit (n mod 16)]
     else [c])"

definition quote :: "string \<Rightarrow> string" where
  "quote s = [char_of (34::nat)] @ concat (map quote_byte s) @ [char_of (34::nat)]"

section \<open>Integer conversions\<close>

text \<open>Go's \<open>int32(x)\<close>: two's complement truncation to 32 bits.\<close>

definition to_int32 :: "int \<Rightarrow> int" where
  "to_int32 i = (i + 2 ^ 31) mod 2 ^ 32 - 2 ^ 31"

section \<open>Errors\<close>

text \<open>
  A Go error is its message and, for errors of the Kubernetes API machinery, the reason that
  \<open>apierrors.IsNotFound\<close> and \<open>apierrors.IsAlreadyExists\<close> read (through wrapping with
  \<open>%w\<close>, which keeps it).
\<close>

datatype api_reason = NotFound | AlreadyExists | OtherReason

record go_error =
  err_msg :: string
  err_reason :: api_reason

definition errorf :: "string \<Rightarrow> go_error" where
  "errorf m = \<lparr>err_msg = m, err_reason = OtherReason\<rparr>"

text \<open>\<open>fmt.Errorf("<m>: %w", err)\<close>.\<close>

definition wrapf :: "string \<Rightarrow> go_error \<Rightarrow> go_error" where
  "wrapf m e = e\<lparr>err_msg := m @ '': '' @ err_msg e\<rparr>"

definition IsNotFound :: "go_error \<Rightarrow> bool" where
  "IsNotFound e \<longleftrightarrow> err_reason e = NotFound"

definition IsAlreadyExists :: "go_error \<Rightarrow> bool" where
  "IsAlreadyExists e \<longleftrightarrow> err_reason e = AlreadyExists"

text \<open>A run-time panic (nil dereference) as a value, for the code paths that can reach one.\<close>

datatype 'a go_exn = Panic | Done 'a

type_synonym 'a res = "go_error + 'a"
type_synonym ('w, 'a) io = "('w, 'a) state"

abbreviation ret :: "'a \<Rightarrow> ('s, 'a) io" where
  "ret \<equiv> State_Monad.return"

section \<open>Objects, names and maps\<close>

record NamespacedName =
  nn_Namespace :: string
  nn_Name :: string

type_synonym strmap = "(string \<times> string) list"

text \<open>
  A Go map that is iterated is an association list with distinct keys, in the order in which
  this iteration visits it; \<open>map_put\<close> is assignment, \<open>map_of\<close> is lookup.
\<close>

fun map_put :: "'k \<Rightarrow> 'v \<Rightarrow> ('k \<times> 'v) list \<Rightarrow> ('k \<times> 'v) list" where
  "map_put k v [] = [(k, v)]"
| "map_put k v ((k', v') # m) = (if k = k' then (k, v) # m else (k', v') # map_put k v m)"

fun map_del :: "'k \<Rightarrow> ('k \<times> 'v) list \<Rightarrow> ('k \<times> 'v) list" where
  "map_del k [] = []"
| "map_del k ((k', v') # m) = (if k = k' then map_del k m else (k', v') # map_del k m)"

fun map_puts :: "('k \<times> 'v) list \<Rightarrow> ('k \<times> 'v) list \<Rightarrow> ('k \<times> 'v) list" where
  "map_puts [] m = m"
| "map_puts ((k, v) # kvs) m = map_puts kvs (map_put k v m)"

section \<open>Lemmas: strings\<close>

lemma HasPrefix_prefix [go_strings]: "HasPrefix s p \<longleftrightarrow> prefix p s"
  by (auto simp: HasPrefix_def prefix_def) (metis append_take_drop_id)

lemma HasPrefix_append [simp]: "HasPrefix (p @ s) p"
  by (simp add: HasPrefix_def)

lemma HasPrefix_Nil [simp]: "HasPrefix s []"
  by (simp add: HasPrefix_def)

lemma TrimPrefix_append [simp]: "TrimPrefix (p @ s) p = s"
  by (simp add: TrimPrefix_def HasPrefix_def)

lemma HasSuffix_append [simp]: "HasSuffix (s @ p) p"
  by (simp add: HasSuffix_def)

lemma Index_None_iff: "Index s p = None \<longleftrightarrow> \<not> sublist p s"
  by (induction s) (auto simp: HasPrefix_prefix sublist_Cons_right)

lemma Contains_sublist: "Contains s p \<longleftrightarrow> sublist p s"
  by (simp add: Contains_def Index_None_iff)

lemma Contains_append_left [intro]: "Contains s p \<Longrightarrow> Contains (r @ s) p"
  by (auto simp: Contains_sublist sublist_append)

lemma Contains_append_right [intro]: "Contains s p \<Longrightarrow> Contains (s @ r) p"
  by (auto simp: Contains_sublist sublist_append)

lemma Contains_self [simp, intro]: "Contains s s"
  by (simp add: Contains_sublist)

lemma Contains_infix [simp, intro]: "Contains (r @ p @ t) p"
  by (auto simp: Contains_sublist sublist_def)

lemma Contains_err_wrapf [intro]: "Contains (err_msg e) p \<Longrightarrow> Contains (err_msg (wrapf m e)) p"
  using Contains_append_left [of "err_msg e" p "m @ '': ''"] by (simp add: wrapf_def)

lemma Split_not_Nil [simp]: "Split s d \<noteq> []"
  by (induction s) (auto split: list.splits)

lemma Split_no_sep: "d \<notin> set s \<Longrightarrow> Split s d = [s]"
  by (induction s) auto

lemma Split_append_sep: "d \<notin> set p \<Longrightarrow> Split (p @ d # s) d = p # Split s d"
  by (induction p) auto

lemma Split_parts_no_sep: "w \<in> set (Split s d) \<Longrightarrow> d \<notin> set w"
  by (induction s arbitrary: w) (auto split: if_splits list.splits)

lemma Join_Split: "Join (Split s d) [d] = s"
proof (induction s)
  case (Cons c s)
  obtain w ws where ws: "Split s d = w # ws"
    by (cases "Split s d") auto
  with Cons show ?case
    by (cases ws) auto
qed simp

lemma Split_Join:
  "ws \<noteq> [] \<Longrightarrow> \<forall>w\<in>set ws. d \<notin> set w \<Longrightarrow> Split (Join ws [d]) d = ws"
proof (induction ws)
  case (Cons w ws)
  then show ?case
    by (cases ws) (simp_all add: Split_no_sep Split_append_sep)
qed simp

lemma SplitN2_no_sep: "d \<notin> set s \<Longrightarrow> SplitN2 s d = [s]"
  by (induction s) auto

lemma SplitN2_append: "d \<notin> set p \<Longrightarrow> SplitN2 (p @ d # s) d = [p, s]"
  by (induction p) auto

section \<open>Lemmas: numbers\<close>

lemma of_char_char_of_small: "n < 256 \<Longrightarrow> of_char (char_of n) = (n::nat)"
  by (simp add: of_char_of)

lemma digit_char_is_digit [simp]: "n < 10 \<Longrightarrow> is_digit (digit_char n)"
  by (simp add: is_digit_def digit_char_def of_char_char_of_small)

lemma digit_val_digit_char [simp]: "n < 10 \<Longrightarrow> digit_val (digit_char n) = n"
  by (simp add: digit_val_def digit_char_def of_char_char_of_small)

lemma digits_val_append:
  "digits_val acc (s @ t) =
     (case digits_val acc s of None \<Rightarrow> None | Some n \<Rightarrow> digits_val n t)"
  by (induction s arbitrary: acc) auto

lemma digits_val_nat_str: "digits_val 0 (nat_str n) = Some n"
proof (induction n rule: nat_str.induct)
  case (1 n)
  show ?case
  proof (cases "n < 10")
    case True
    then show ?thesis by (simp add: nat_str.simps [of n])
  next
    case False
    with 1 show ?thesis
      by (simp add: nat_str.simps [of n] digits_val_append)
  qed
qed

lemma nat_str_digits: "c \<in> set (nat_str n) \<Longrightarrow> is_digit c"
proof (induction n rule: nat_str.induct)
  case (1 n)
  then show ?case
    by (cases "n < 10") (auto simp: nat_str.simps [of n])
qed

lemma nat_str_not_Nil [simp]: "nat_str n \<noteq> []"
  by (simp add: nat_str.simps [of n])

lemma not_digit_sign: "\<not> is_digit CHR ''-''" "\<not> is_digit CHR ''+''"
  by (simp_all add: is_digit_def)

lemma Atoi_digits:
  assumes "ds \<noteq> []" and "\<And>c. c \<in> set ds \<Longrightarrow> is_digit c" and "digits_val 0 ds = Some n"
    and "int n < 2 ^ 63"
  shows "Atoi ds = Some (int n)"
proof -
  obtain c t where ds: "ds = c # t" using assms(1) by (cases ds) auto
  then have "c \<noteq> CHR ''-''" "c \<noteq> CHR ''+''"
    using assms(2) not_digit_sign by auto
  with ds assms(3,4) show ?thesis by (simp add: Atoi_def)
qed

lemma Atoi_int_str:
  assumes "- (2 ^ 63) \<le> i" "i < 2 ^ 63"
  shows "Atoi (int_str i) = Some i"
proof (cases "i < 0")
  case True
  then have "digits_val 0 (nat_str (nat (- i))) = Some (nat (- i))"
    by (simp add: digits_val_nat_str)
  with True assms show ?thesis by (simp add: Atoi_def int_str_def)
next
  case False
  then have "Atoi (nat_str (nat i)) = Some (int (nat i))"
    using assms by (intro Atoi_digits) (auto simp: digits_val_nat_str nat_str_digits)
  with False show ?thesis by (simp add: int_str_def)
qed

lemma Atoi_range: "Atoi s = Some i \<Longrightarrow> - (2 ^ 63) \<le> i \<and> i < 2 ^ 63"
  by (auto simp: Atoi_def Let_def split: list.splits if_splits option.splits prod.splits)

lemma to_int32_id: "- (2 ^ 31) \<le> i \<Longrightarrow> i < 2 ^ 31 \<Longrightarrow> to_int32 i = i"
  by (simp add: to_int32_def)

lemma to_int32_range: "- (2 ^ 31) \<le> to_int32 i \<and> to_int32 i < 2 ^ 31"
proof -
  have "0 \<le> (i + 2 ^ 31) mod 2 ^ 32" "(i + 2 ^ 31) mod 2 ^ 32 < (2 ^ 32 :: int)"
    by (simp_all add: pos_mod_bound)
  then show ?thesis by (simp add: to_int32_def)
qed

section \<open>Lemmas: errors\<close>

lemma err_reason_wrapf [simp]: "err_reason (wrapf m e) = err_reason e"
  by (simp add: wrapf_def)

lemma err_reason_errorf [simp]: "err_reason (errorf m) = OtherReason"
  by (simp add: errorf_def)

section \<open>Lemmas: maps\<close>

lemma map_of_map_put [simp]: "map_of (map_put k v m) = (map_of m)(k \<mapsto> v)"
  by (induction m) (auto simp: fun_eq_iff)

lemma keys_map_put [simp]: "fst ` set (map_put k v m) = insert k (fst ` set m)"
proof (induction m)
  case (Cons x m)
  then show ?case by (cases x) (simp add: insert_commute)
qed simp

lemma distinct_map_put [simp]:
  "distinct (map fst m) \<Longrightarrow> distinct (map fst (map_put k v m))"
proof (induction m)
  case (Cons x m)
  obtain k' v' where x: "x = (k', v')" by (cases x)
  with Cons show ?case
    by (cases "k = k'") (simp_all only: map_put.simps if_True if_False list.map fst_conv
        distinct.simps set_map keys_map_put, auto)
qed simp

lemma map_of_map_del [simp]: "map_of (map_del k m) = (map_of m)(k := None)"
  by (induction m) (auto simp: fun_eq_iff)

lemma keys_map_del [simp]: "fst ` set (map_del k m) = fst ` set m - {k}"
proof (induction m)
  case (Cons x m)
  then show ?case by (cases x) auto
qed simp

lemma distinct_map_del [simp]:
  "distinct (map fst m) \<Longrightarrow> distinct (map fst (map_del k m))"
proof (induction m)
  case (Cons x m)
  obtain k' v' where x: "x = (k', v')" by (cases x)
  with Cons show ?case
    by (cases "k = k'") (simp_all only: map_del.simps if_True if_False list.map fst_conv
        distinct.simps set_map keys_map_del, auto)
qed simp

lemma distinct_map_puts [simp]:
  "distinct (map fst m) \<Longrightarrow> distinct (map fst (map_puts kvs m))"
  by (induction kvs arbitrary: m) auto

lemma keys_map_puts [simp]: "fst ` set (map_puts kvs m) = fst ` set kvs \<union> fst ` set m"
proof (induction kvs arbitrary: m)
  case (Cons x kvs)
  then show ?case by (cases x) simp
qed simp

lemma map_of_map_puts: "map_of (map_puts kvs m) = map_of m ++ map_of (rev kvs)"
proof (induction kvs arbitrary: m)
  case (Cons x kvs)
  obtain k v where x: "x = (k, v)" by (cases x)
  with Cons show ?case
    by (simp add: map_add_def fun_eq_iff split: option.splits)
qed simp

section \<open>Keyed stores\<close>

text \<open>
  The interface of a cache: a store whose keys are represented by a value of another type (both
  caches of the program concatenate the parts of a key into one string). What a lookup returns
  after a store is determined by the representations. The client's lemma: a cache that agrees
  with a reference function keeps agreeing when it memoises that function, provided the function
  does not tell apart keys with the same representation.
\<close>

locale keyed_store =
  fixes get :: "'m \<Rightarrow> 'k \<Rightarrow> 'v option"
    and put :: "'m \<Rightarrow> 'k \<Rightarrow> 'v \<Rightarrow> 'm"
    and rep :: "'k \<Rightarrow> 'r"
  assumes get_put: "get (put m k v) k' = (if rep k = rep k' then Some v else get m k')"
begin

lemma get_put_same: "get (put m k v) k = Some v"
  by (simp add: get_put)

lemma put_put: "get (put (put m k v) k v') k' = get (put m k v') k'"
  by (simp add: get_put)

definition agrees :: "('k \<Rightarrow> 'v) \<Rightarrow> 'm \<Rightarrow> bool" where
  "agrees f m \<longleftrightarrow> (\<forall>k v. get m k = Some v \<longrightarrow> v = f k)"

lemma agrees_memo:
  assumes "agrees f m" "\<And>k k'. rep k = rep k' \<Longrightarrow> f k = f k'"
  shows "agrees f (put m k (f k))"
  unfolding agrees_def
proof (intro allI impI)
  fix k' v assume g: "get (put m k (f k)) k' = Some v"
  show "v = f k'"
  proof (cases "rep k = rep k'")
    case True
    with g have "v = f k" by (simp add: get_put)
    with assms(2) [OF True] show ?thesis by simp
  next
    case False
    with g have "get m k' = Some v" by (simp add: get_put)
    with assms(1) show ?thesis unfolding agrees_def by blast
  qed
qed

end

section \<open>Lemmas: state transformers\<close>

lemma bind_cong_run:
  assumes "m = n" "\<And>a s s'. run_state n s = (a, s') \<Longrightarrow> run_state (f a) s' = run_state (g a) s'"
  shows "State_Monad.bind m f = State_Monad.bind n g"
  using assms by (intro state_ext) (auto split: prod.splits)

end
