(* ===== verification/Status_Conditions.thy ===== *)
theory Status_Conditions
  imports Cfgate_Prelude
begin

text \<open>
  Status conditions: internal/controller/status/conditions.go. The condition list of a status,
  the merge that every controller uses to set conditions, the constructors of the individual
  conditions, the aggregated Ready conditions, and the Gateway API policy ancestor list. The
  clock reading \<open>time.Now()\<close> is the argument \<open>now\<close>.
\<close>

section \<open>Data\<close>

datatype ConditionStatus = StTrue | StFalse | StUnknown

record Condition =
  c_Type :: string
  c_Status :: ConditionStatus
  c_ObservedGeneration :: int
  c_LastTransitionTime :: int
  c_Reason :: string
  c_Message :: string

definition MaxConditionMessageLength :: nat where
  "MaxConditionMessageLength = 32768"

section \<open>Merging\<close>

definition truncateConditionMessage :: "string \<Rightarrow> string" where
  "truncateConditionMessage msg =
     (if length msg \<le> MaxConditionMessageLength then msg
      else take (MaxConditionMessageLength - 3) msg @ ''...'')"

text \<open>The index of the existing conditions: a later condition of a type overwrites an earlier one.\<close>

fun index_conditions :: "Condition list \<Rightarrow> (string \<rightharpoonup> Condition) \<Rightarrow> (string \<rightharpoonup> Condition)" where
  "index_conditions [] m = m"
| "index_conditions (c # cs) m = index_conditions cs (m(c_Type c \<mapsto> c))"

definition merge_update :: "int \<Rightarrow> (string \<rightharpoonup> Condition) \<Rightarrow> Condition \<Rightarrow> Condition" where
  "merge_update now existing u =
     (let u = u\<lparr>c_Message := truncateConditionMessage (c_Message u)\<rparr> in
      case existing (c_Type u) of
        Some prev \<Rightarrow>
          (let u = (if c_Status prev = c_Status u
                    then u\<lparr>c_LastTransitionTime := c_LastTransitionTime prev\<rparr>
                    else u\<lparr>c_LastTransitionTime := now\<rparr>)
           in if c_ObservedGeneration u = 0
              then u\<lparr>c_ObservedGeneration := c_ObservedGeneration prev\<rparr> else u)
      | None \<Rightarrow> u\<lparr>c_LastTransitionTime := now\<rparr>)"

definition MergeConditions :: "int \<Rightarrow> Condition list \<Rightarrow> Condition list \<Rightarrow> Condition list" where
  "MergeConditions now conditions updates =
     (if updates = [] then conditions
      else let existing = index_conditions conditions Map.empty;
               result = map (merge_update now existing) updates;
               processed = map c_Type updates
           in result @ filter (\<lambda>c. c_Type c \<notin> List.set processed) conditions)"

definition SetCondition :: "int \<Rightarrow> Condition list \<Rightarrow> Condition \<Rightarrow> Condition list" where
  "SetCondition now conditions condition = MergeConditions now conditions [condition]"

fun FindCondition :: "Condition list \<Rightarrow> string \<Rightarrow> Condition option" where
  "FindCondition [] t = None"
| "FindCondition (c # cs) t = (if c_Type c = t then Some c else FindCondition cs t)"

definition RemoveCondition :: "Condition list \<Rightarrow> string \<Rightarrow> Condition list" where
  "RemoveCondition conditions t = filter (\<lambda>c. c_Type c \<noteq> t) conditions"

definition ConditionTrue :: "Condition list \<Rightarrow> string \<Rightarrow> bool" where
  "ConditionTrue conditions t =
     (case FindCondition conditions t of None \<Rightarrow> False | Some c \<Rightarrow> c_Status c = StTrue)"

definition ConditionFalse :: "Condition list \<Rightarrow> string \<Rightarrow> bool" where
  "ConditionFalse conditions t =
     (case FindCondition conditions t of None \<Rightarrow> False | Some c \<Rightarrow> c_Status c = StFalse)"

definition ConditionUnknown :: "Condition list \<Rightarrow> string \<Rightarrow> bool" where
  "ConditionUnknown conditions t =
     (case FindCondition conditions t of None \<Rightarrow> True | Some c \<Rightarrow> c_Status c = StUnknown)"

section \<open>Messages and constructors\<close>

text \<open>\<open>Error2ConditionMsg\<close>; None is the nil error.\<close>

definition Error2ConditionMsg :: "go_error option \<Rightarrow> string" where
  "Error2ConditionMsg err =
     (case err of
        None \<Rightarrow> ''''
      | Some e \<Rightarrow>
          (case err_msg e of
             [] \<Rightarrow> ''''
           | c # rest \<Rightarrow>
               (let msg = upper_byte c @ rest
                in if \<not> HasSuffix msg ''.'' then msg @ ''.'' else msg)))"

definition NewCondition :: "int \<Rightarrow> string \<Rightarrow> ConditionStatus \<Rightarrow> string \<Rightarrow> string \<Rightarrow> int \<Rightarrow> Condition" where
  "NewCondition now conditionType status reason message generation =
     \<lparr>c_Type = conditionType, c_Status = status, c_ObservedGeneration = generation,
      c_LastTransitionTime = now, c_Reason = reason,
      c_Message = truncateConditionMessage message\<rparr>"

definition NewCredentialsValidCondition :: "int \<Rightarrow> bool \<Rightarrow> string \<Rightarrow> string \<Rightarrow> int \<Rightarrow> Condition" where
  "NewCredentialsValidCondition now valid reason message generation =
     NewCondition now ''CredentialsValid'' (if valid then StTrue else StFalse) reason message generation"

definition NewTunnelCreatedCondition :: "int \<Rightarrow> bool \<Rightarrow> string \<Rightarrow> string \<Rightarrow> int \<Rightarrow> Condition" where
  "NewTunnelCreatedCondition now created reason message generation =
     NewCondition now ''TunnelCreated'' (if created then StTrue else StFalse) reason message generation"

definition NewTunnelConfiguredCondition :: "int \<Rightarrow> bool \<Rightarrow> string \<Rightarrow> string \<Rightarrow> int \<Rightarrow> Condition" where
  "NewTunnelConfiguredCondition now configured reason message generation =
     NewCondition now ''TunnelConfigured'' (if configured then StTrue else StFalse) reason message
       generation"

definition NewDeploymentReadyCondition :: "int \<Rightarrow> bool \<Rightarrow> string \<Rightarrow> string \<Rightarrow> int \<Rightarrow> Condition" where
  "NewDeploymentReadyCondition now ready reason message generation =
     NewCondition now ''DeploymentReady'' (if ready then StTrue else StFalse) reason message generation"

definition NewZonesResolvedCondition :: "int \<Rightarrow> bool \<Rightarrow> string \<Rightarrow> string \<Rightarrow> int \<Rightarrow> Condition" where
  "NewZonesResolvedCondition now resolved reason message generation =
     NewCondition now ''ZonesResolved'' (if resolved then StTrue else StFalse) reason message generation"

definition NewRecordsSyncedCondition :: "int \<Rightarrow> bool \<Rightarrow> string \<Rightarrow> string \<Rightarrow> int \<Rightarrow> Condition" where
  "NewRecordsSyncedCondition now synced reason message generation =
     NewCondition now ''RecordsSynced'' (if synced then StTrue else StFalse) reason message generation"

definition NewOwnershipVerifiedCondition :: "int \<Rightarrow> bool \<Rightarrow> string \<Rightarrow> string \<Rightarrow> int \<Rightarrow> Condition" where
  "NewOwnershipVerifiedCondition now verified reason message generation =
     NewCondition now ''OwnershipVerified'' (if verified then StTrue else StFalse) reason message
       generation"

definition NewTargetsResolvedCondition :: "int \<Rightarrow> bool \<Rightarrow> string \<Rightarrow> string \<Rightarrow> int \<Rightarrow> Condition" where
  "NewTargetsResolvedCondition now resolved reason message generation =
     NewCondition now ''TargetsResolved'' (if resolved then StTrue else StFalse) reason message generation"

definition NewApplicationCreatedCondition :: "int \<Rightarrow> bool \<Rightarrow> string \<Rightarrow> string \<Rightarrow> int \<Rightarrow> Condition" where
  "NewApplicationCreatedCondition now created reason message generation =
     NewCondition now ''ApplicationCreated'' (if created then StTrue else StFalse) reason message
       generation"

definition NewPoliciesAttachedCondition :: "int \<Rightarrow> bool \<Rightarrow> string \<Rightarrow> string \<Rightarrow> int \<Rightarrow> Condition" where
  "NewPoliciesAttachedCondition now attached reason message generation =
     NewCondition now ''PoliciesAttached'' (if attached then StTrue else StFalse) reason message
       generation"

definition NewServiceTokensReadyCondition :: "int \<Rightarrow> bool \<Rightarrow> string \<Rightarrow> string \<Rightarrow> int \<Rightarrow> Condition" where
  "NewServiceTokensReadyCondition now ready reason message generation =
     NewCondition now ''ServiceTokensReady'' (if ready then StTrue else StFalse) reason message
       generation"

definition NewPolicyAcceptedCondition :: "int \<Rightarrow> bool \<Rightarrow> string \<Rightarrow> string \<Rightarrow> int \<Rightarrow> Condition" where
  "NewPolicyAcceptedCondition now accepted reason message generation =
     NewCondition now ''Accepted'' (if accepted then StTrue else StFalse) reason message generation"

section \<open>The aggregated Ready conditions\<close>

text \<open>The loop that looks for the first condition, in the given order, that is present and not
  True; it is written out in each of the three aggregating functions.\<close>

fun first_failing :: "Condition list \<Rightarrow> string list \<Rightarrow> Condition option" where
  "first_failing conditions [] = None"
| "first_failing conditions (t # ts) =
     (case FindCondition conditions t of
        Some c \<Rightarrow> if c_Status c \<noteq> StTrue then Some c else first_failing conditions ts
      | None \<Rightarrow> first_failing conditions ts)"

definition NewTunnelReadyCondition :: "int \<Rightarrow> Condition list \<Rightarrow> int \<Rightarrow> Condition" where
  "NewTunnelReadyCondition now conditions generation =
     (let ready = ConditionTrue conditions ''CredentialsValid'' \<and>
                  ConditionTrue conditions ''TunnelCreated'' \<and>
                  ConditionTrue conditions ''TunnelConfigured'' \<and>
                  ConditionTrue conditions ''DeploymentReady''
      in if ready
         then NewCondition now ''Ready'' StTrue ''ReconcileSuccess'' ''Tunnel is ready.'' generation
         else case first_failing conditions
                     [''CredentialsValid'', ''TunnelCreated'', ''TunnelConfigured'', ''DeploymentReady''] of
                Some c \<Rightarrow> NewCondition now ''Ready'' StFalse (c_Reason c) (c_Message c) generation
              | None \<Rightarrow> NewCondition now ''Ready'' StUnknown ''Reconciling'' ''Reconciling tunnel.''
                          generation)"

definition NewDNSReadyCondition :: "int \<Rightarrow> Condition list \<Rightarrow> int \<Rightarrow> Condition" where
  "NewDNSReadyCondition now conditions generation =
     (let ready = ConditionTrue conditions ''CredentialsValid'' \<and>
                  ConditionTrue conditions ''ZonesResolved'' \<and>
                  ConditionTrue conditions ''RecordsSynced''
      in if ready
         then NewCondition now ''Ready'' StTrue ''ReconcileSuccess'' ''DNS sync is ready.'' generation
         else case first_failing conditions
                     [''CredentialsValid'', ''ZonesResolved'', ''RecordsSynced''] of
                Some c \<Rightarrow> NewCondition now ''Ready'' StFalse (c_Reason c) (c_Message c) generation
              | None \<Rightarrow> NewCondition now ''Ready'' StUnknown ''Reconciling'' ''Reconciling DNS sync.''
                          generation)"

definition NewAccessPolicyReadyCondition :: "int \<Rightarrow> Condition list \<Rightarrow> bool \<Rightarrow> int \<Rightarrow> Condition" where
  "NewAccessPolicyReadyCondition now conditions hasServiceTokens generation =
     (let ready = ConditionTrue conditions ''CredentialsValid'' \<and>
                  ConditionTrue conditions ''TargetsResolved'' \<and>
                  ConditionTrue conditions ''ApplicationCreated'' \<and>
                  ConditionTrue conditions ''PoliciesAttached'';
          ready = (if hasServiceTokens
                   then ready \<and> ConditionTrue conditions ''ServiceTokensReady'' else ready);
          checkOrder = [''CredentialsValid'', ''TargetsResolved'', ''ApplicationCreated'',
                        ''PoliciesAttached''];
          checkOrder = (if hasServiceTokens then checkOrder @ [''ServiceTokensReady''] else checkOrder)
      in if ready
         then NewCondition now ''Ready'' StTrue ''ReconcileSuccess'' ''Access policy is ready.''
                generation
         else case first_failing conditions checkOrder of
                Some c \<Rightarrow> NewCondition now ''Ready'' StFalse (c_Reason c) (c_Message c) generation
              | None \<Rightarrow> NewCondition now ''Ready'' StUnknown ''Reconciling''
                          ''Reconciling access policy.'' generation)"

section \<open>Policy ancestors\<close>

record ParentReference =
  pr_Group :: "string option"
  pr_Kind :: "string option"
  pr_Namespace :: "string option"
  pr_Name :: string
  pr_SectionName :: "string option"
  pr_Port :: "int option"

record PolicyAncestorStatus =
  as_AncestorRef :: ParentReference
  as_ControllerName :: string
  as_Conditions :: "Condition list"

definition ancestorRefEqual :: "ParentReference \<Rightarrow> ParentReference \<Rightarrow> bool" where
  "ancestorRefEqual a b =
     (let aGroup = (case pr_Group a of None \<Rightarrow> ''gateway.networking.k8s.io'' | Some g \<Rightarrow> g);
          bGroup = (case pr_Group b of None \<Rightarrow> ''gateway.networking.k8s.io'' | Some g \<Rightarrow> g)
      in if aGroup \<noteq> bGroup then False
         else let aKind = (case pr_Kind a of None \<Rightarrow> ''Gateway'' | Some k \<Rightarrow> k);
                  bKind = (case pr_Kind b of None \<Rightarrow> ''Gateway'' | Some k \<Rightarrow> k)
              in if aKind \<noteq> bKind then False else pr_Name a = pr_Name b)"

definition NewPolicyAncestorStatus ::
  "ParentReference \<Rightarrow> string \<Rightarrow> Condition list \<Rightarrow> PolicyAncestorStatus" where
  "NewPolicyAncestorStatus ancestorRef controllerName conditions =
     \<lparr>as_AncestorRef = ancestorRef, as_ControllerName = controllerName, as_Conditions = conditions\<rparr>"

text \<open>\<open>SetPolicyAncestorStatus\<close> on the ancestor list of a policy status that is not nil.\<close>

fun SetPolicyAncestorStatus ::
  "PolicyAncestorStatus list \<Rightarrow> PolicyAncestorStatus \<Rightarrow> PolicyAncestorStatus list" where
  "SetPolicyAncestorStatus [] a = [a]"
| "SetPolicyAncestorStatus (e # es) a =
     (if ancestorRefEqual (as_AncestorRef e) (as_AncestorRef a) \<and>
         as_ControllerName e = as_ControllerName a
      then a # es
      else e # SetPolicyAncestorStatus es a)"

section \<open>The interface of a condition list\<close>

text \<open>
  What a controller relies on when it sets conditions: the condition just set is the one found
  under its type, with the status and reason that were set; every other type is unaffected; types
  stay distinct. Two providers exist: \<open>status.SetCondition\<close> (here) and apimachinery's
  \<open>meta.SetStatusCondition\<close> (a parameter of the tunnel controller's model).
\<close>

definition cond_types_distinct :: "Condition list \<Rightarrow> bool" where
  "cond_types_distinct cs \<longleftrightarrow> distinct (map c_Type cs)"

locale condition_list =
  fixes set_cond :: "int \<Rightarrow> Condition list \<Rightarrow> Condition \<Rightarrow> Condition list"
  assumes find_set_same:
      "\<exists>d. FindCondition (set_cond now cs c) (c_Type c) = Some d \<and> c_Status d = c_Status c \<and>
           c_Reason d = c_Reason c"
    and find_set_other:
      "t \<noteq> c_Type c \<Longrightarrow> FindCondition (set_cond now cs c) t = FindCondition cs t"
    and set_distinct: "cond_types_distinct cs \<Longrightarrow> cond_types_distinct (set_cond now cs c)"
begin

lemma ConditionTrue_set:
  "ConditionTrue (set_cond now cs c) t =
     (if t = c_Type c then c_Status c = StTrue else ConditionTrue cs t)"
  using find_set_same [of now cs c] find_set_other [of t c now cs]
  by (auto simp: ConditionTrue_def)

lemma ConditionFalse_set:
  "ConditionFalse (set_cond now cs c) t =
     (if t = c_Type c then c_Status c = StFalse else ConditionFalse cs t)"
  using find_set_same [of now cs c] find_set_other [of t c now cs]
  by (auto simp: ConditionFalse_def)

fun set_all :: "(int \<times> Condition) list \<Rightarrow> Condition list \<Rightarrow> Condition list" where
  "set_all [] cs = cs"
| "set_all ((now, c) # us) cs = set_all us (set_cond now cs c)"

lemma set_all_other:
  "t \<notin> c_Type ` snd ` List.set us \<Longrightarrow> FindCondition (set_all us cs) t = FindCondition cs t"
  by (induction us cs rule: set_all.induct) (auto simp: find_set_other)

lemma set_all_distinct: "cond_types_distinct cs \<Longrightarrow> cond_types_distinct (set_all us cs)"
  by (induction us cs rule: set_all.induct) (auto simp: set_distinct)

end

section \<open>Lemmas\<close>

lemma FindCondition_append:
  "FindCondition (xs @ ys) t =
     (case FindCondition xs t of Some c \<Rightarrow> Some c | None \<Rightarrow> FindCondition ys t)"
  by (induction xs) auto

lemma FindCondition_None_iff: "FindCondition cs t = None \<longleftrightarrow> t \<notin> c_Type ` List.set cs"
  by (induction cs) auto

lemma FindCondition_Some: "FindCondition cs t = Some c \<Longrightarrow> c \<in> List.set cs \<and> c_Type c = t"
  by (induction cs) (auto split: if_splits)

lemma FindCondition_filter_other:
  "P t \<Longrightarrow> FindCondition (filter (\<lambda>c. P (c_Type c)) cs) t = FindCondition cs t"
  by (induction cs) auto

lemma c_Type_merge_update [simp]: "c_Type (merge_update now ex u) = c_Type u"
  by (simp add: merge_update_def Let_def split: option.splits)

lemma c_Status_merge_update [simp]: "c_Status (merge_update now ex u) = c_Status u"
  by (simp add: merge_update_def Let_def split: option.splits)

lemma c_Reason_merge_update [simp]: "c_Reason (merge_update now ex u) = c_Reason u"
  by (simp add: merge_update_def Let_def split: option.splits)

lemma length_truncateConditionMessage:
  "length (truncateConditionMessage msg) \<le> MaxConditionMessageLength"
  by (simp add: truncateConditionMessage_def MaxConditionMessageLength_def)

lemma c_Message_merge_update [simp]:
  "c_Message (merge_update now ex u) = truncateConditionMessage (c_Message u)"
  by (simp add: merge_update_def Let_def split: option.splits)

lemma index_conditions_distinct:
  "cond_types_distinct cs \<Longrightarrow>
     index_conditions cs m t =
       (case FindCondition cs t of Some c \<Rightarrow> Some c | None \<Rightarrow> m t)"
proof (induction cs arbitrary: m)
  case (Cons a cs)
  show ?case
  proof (cases "t = c_Type a")
    case True
    with Cons.prems have "FindCondition cs t = None"
      by (simp add: cond_types_distinct_def FindCondition_None_iff)
    with Cons True show ?thesis by (simp add: cond_types_distinct_def)
  next
    case False
    with Cons show ?thesis by (simp add: cond_types_distinct_def split: option.splits)
  qed
qed simp

lemma c_Types_MergeConditions:
  "map c_Type (MergeConditions now cs us) =
     map c_Type us @ filter (\<lambda>t. t \<notin> c_Type ` List.set us) (map c_Type cs)"
  by (auto simp: MergeConditions_def Let_def filter_map comp_def)

lemma MergeConditions_find_other:
  "t \<notin> c_Type ` List.set us \<Longrightarrow> FindCondition (MergeConditions now cs us) t = FindCondition cs t"
proof -
  assume t: "t \<notin> c_Type ` List.set us"
  then have "FindCondition (map (merge_update now ex) us) t = None" for ex
    by (auto simp: FindCondition_None_iff)
  with t show ?thesis
    by (simp add: MergeConditions_def Let_def FindCondition_append
        FindCondition_filter_other [where P = "\<lambda>t. t \<notin> c_Type ` List.set us"])
qed

lemma FindCondition_map_updates:
  "distinct (map c_Type us) \<Longrightarrow> u \<in> List.set us \<Longrightarrow>
     FindCondition (map (merge_update now ex) us) (c_Type u) = Some (merge_update now ex u)"
  by (induction us) auto

lemma MergeConditions_find_same:
  assumes "distinct (map c_Type us)" "u \<in> List.set us"
  shows "FindCondition (MergeConditions now cs us) (c_Type u) =
     Some (merge_update now (index_conditions cs Map.empty) u)"
proof -
  from assms(2) have "us \<noteq> []" by auto
  then show ?thesis
    using FindCondition_map_updates [OF assms, of now]
    by (simp add: MergeConditions_def Let_def FindCondition_append)
qed

lemma MergeConditions_distinct:
  assumes "cond_types_distinct cs" "distinct (map c_Type us)"
  shows "cond_types_distinct (MergeConditions now cs us)"
  using assms unfolding cond_types_distinct_def c_Types_MergeConditions by auto

interpretation status_conds: condition_list SetCondition
proof
  show "\<exists>d. FindCondition (SetCondition now cs c) (c_Type c) = Some d \<and> c_Status d = c_Status c \<and>
          c_Reason d = c_Reason c" for now cs c
    unfolding SetCondition_def by (subst MergeConditions_find_same) auto
  show "t \<noteq> c_Type c \<Longrightarrow> FindCondition (SetCondition now cs c) t = FindCondition cs t" for t c now cs
    by (simp add: SetCondition_def MergeConditions_find_other)
  show "cond_types_distinct cs \<Longrightarrow> cond_types_distinct (SetCondition now cs c)" for cs now c
    by (simp add: SetCondition_def MergeConditions_distinct)
qed

lemma first_failing_None_iff:
  "first_failing cs ts = None \<longleftrightarrow> (\<forall>t\<in>List.set ts. ConditionTrue cs t \<or> FindCondition cs t = None)"
  by (induction ts) (auto simp: ConditionTrue_def split: option.splits)

lemma first_failing_Some:
  "first_failing cs ts = Some c \<Longrightarrow>
     c_Type c \<in> List.set ts \<and> FindCondition cs (c_Type c) = Some c \<and> c_Status c \<noteq> StTrue"
  by (induction ts) (auto split: option.splits if_splits dest: FindCondition_Some)

section \<open>Properties\<close>

text \<open>Merging distinct updates into a condition list whose types are distinct yields a list
  with distinct types, in which every updated type is found with the update's status, reason and
  truncated message, and the transition time is the old one exactly when the condition existed
  with the same status, otherwise the current time; every type that is not updated is found
  exactly as before.\<close>

theorem MergeConditions_spec:
  assumes "cond_types_distinct cs" "distinct (map c_Type us)"
  shows "cond_types_distinct (MergeConditions now cs us) \<and>
    (\<forall>u\<in>List.set us. \<exists>d. FindCondition (MergeConditions now cs us) (c_Type u) = Some d \<and>
        c_Status d = c_Status u \<and> c_Reason d = c_Reason u \<and>
        c_Message d = truncateConditionMessage (c_Message u) \<and>
        c_LastTransitionTime d =
          (case FindCondition cs (c_Type u) of
             Some p \<Rightarrow> if c_Status p = c_Status u then c_LastTransitionTime p else now
           | None \<Rightarrow> now)) \<and>
    (\<forall>t. t \<notin> c_Type ` List.set us \<longrightarrow>
        FindCondition (MergeConditions now cs us) t = FindCondition cs t)"
proof (intro conjI ballI allI impI)
  fix u assume u: "u \<in> List.set us"
  let ?d = "merge_update now (index_conditions cs Map.empty) u"
  have "c_LastTransitionTime ?d =
     (case FindCondition cs (c_Type u) of
        Some p \<Rightarrow> if c_Status p = c_Status u then c_LastTransitionTime p else now | None \<Rightarrow> now)"
    using index_conditions_distinct [OF assms(1), of Map.empty "c_Type u"]
    by (auto simp: merge_update_def Let_def split: option.splits)
  with MergeConditions_find_same [OF assms(2) u, of now cs]
  show "\<exists>d. FindCondition (MergeConditions now cs us) (c_Type u) = Some d \<and>
        c_Status d = c_Status u \<and> c_Reason d = c_Reason u \<and>
        c_Message d = truncateConditionMessage (c_Message u) \<and>
        c_LastTransitionTime d =
          (case FindCondition cs (c_Type u) of
             Some p \<Rightarrow> if c_Status p = c_Status u then c_LastTransitionTime p else now
           | None \<Rightarrow> now)"
    by simp
qed (use assms in \<open>simp_all add: MergeConditions_distinct MergeConditions_find_other\<close>)

theorem MergeConditions_spec_witness:
  "let a = NewCondition 5 ''Ready'' StFalse ''r'' ''m'' 1; b = NewCondition 9 ''Ready'' StFalse ''s'' ''n'' 2
   in cond_types_distinct [a] \<and> distinct (map c_Type [b]) \<and>
      (\<exists>d. FindCondition (MergeConditions 9 [a] [b]) (c_Type b) = Some d \<and> c_LastTransitionTime d = 5 \<and>
           c_Reason d = ''s'')"
  using MergeConditions_spec [of "[NewCondition 5 ''Ready'' StFalse ''r'' ''m'' 1]"
      "[NewCondition 9 ''Ready'' StFalse ''s'' ''n'' 2]" 9]
  by (auto simp: cond_types_distinct_def NewCondition_def Let_def)

text \<open>No condition message that the package builds or merges exceeds the limit of the API
  server, and messages within the limit are stored unchanged.\<close>

theorem condition_message_bound:
  "length (c_Message (NewCondition now t s r m g)) \<le> 32768 \<and>
   (\<forall>c\<in>List.set (MergeConditions now cs [u]). c \<notin> List.set cs \<longrightarrow> length (c_Message c) \<le> 32768) \<and>
   (length m \<le> 32768 \<longrightarrow> c_Message (NewCondition now t s r m g) = m)"
proof -
  have "length (truncateConditionMessage x) \<le> 32768" for x
    using length_truncateConditionMessage by (simp add: MaxConditionMessageLength_def)
  then show ?thesis
    by (auto simp: NewCondition_def MergeConditions_def Let_def truncateConditionMessage_def
        MaxConditionMessageLength_def)
qed

theorem condition_message_bound_witness:
  "c_Message (NewCondition 0 ''Ready'' StTrue ''r'' ''ok'' 1) = ''ok''"
  using condition_message_bound [of 0 "''Ready''" StTrue "''r''" "''ok''" 1] by simp

text \<open>The aggregated Ready condition of CloudflareDNS is True exactly when credentials are
  valid, zones are resolved and records are synced; it is False exactly when one of the three is
  present and not True, and then it carries the reason of such a condition; otherwise (the
  missing ones aside, all hold) it is Unknown.\<close>

theorem NewDNSReadyCondition_spec:
  "c_Type (NewDNSReadyCondition now cs g) = ''Ready'' \<and>
   (c_Status (NewDNSReadyCondition now cs g) = StTrue \<longleftrightarrow>
      ConditionTrue cs ''CredentialsValid'' \<and> ConditionTrue cs ''ZonesResolved'' \<and>
      ConditionTrue cs ''RecordsSynced'') \<and>
   (c_Status (NewDNSReadyCondition now cs g) = StFalse \<longleftrightarrow>
      (\<exists>c. FindCondition cs (c_Type c) = Some c \<and> c_Status c \<noteq> StTrue \<and>
           c_Type c \<in> {''CredentialsValid'', ''ZonesResolved'', ''RecordsSynced''} \<and>
           c_Reason (NewDNSReadyCondition now cs g) = c_Reason c))"
  (is "_ \<and> (_ \<longleftrightarrow> ?allT) \<and> _")
proof (cases ?allT)
  case True
  then have "\<not> (\<exists>c. FindCondition cs (c_Type c) = Some c \<and> c_Status c \<noteq> StTrue \<and>
           c_Type c \<in> {''CredentialsValid'', ''ZonesResolved'', ''RecordsSynced''})"
    by (auto simp: ConditionTrue_def split: option.splits)
  moreover have "NewDNSReadyCondition now cs g =
     NewCondition now ''Ready'' StTrue ''ReconcileSuccess'' ''DNS sync is ready.'' g"
    using True by (simp add: NewDNSReadyCondition_def)
  ultimately show ?thesis using True
    by (auto simp: NewCondition_def)
next
  case False
  let ?ts = "[''CredentialsValid'', ''ZonesResolved'', ''RecordsSynced'']"
  have eq: "NewDNSReadyCondition now cs g =
     (case first_failing cs ?ts of
        Some c \<Rightarrow> NewCondition now ''Ready'' StFalse (c_Reason c) (c_Message c) g
      | None \<Rightarrow> NewCondition now ''Ready'' StUnknown ''Reconciling'' ''Reconciling DNS sync.'' g)"
    using False by (auto simp: NewDNSReadyCondition_def Let_def)
  show ?thesis
  proof (cases "first_failing cs ?ts")
    case None
    then have "\<forall>t\<in>List.set ?ts. ConditionTrue cs t \<or> FindCondition cs t = None"
      by (simp only: first_failing_None_iff)
    with None eq False show ?thesis
      by (auto simp: NewCondition_def ConditionTrue_def)
  next
    case (Some c)
    with first_failing_Some [OF Some] eq False show ?thesis
      by (auto simp: NewCondition_def)
  qed
qed

text \<open>Setting the status of a policy ancestor replaces the entry of the first matching
  ancestor and leaves every entry of another ancestor untouched; matching compares group, kind
  and name only, so the namespace of the reference plays no role and the entry of one Gateway
  overwrites that of another Gateway with the same name in a different namespace.\<close>

theorem SetPolicyAncestorStatus_ignores_namespace:
  "ancestorRefEqual r (r\<lparr>pr_Namespace := ns\<rparr>) \<and>
   (as_AncestorRef b = (as_AncestorRef a)\<lparr>pr_Namespace := ns\<rparr> \<and>
    as_ControllerName b = as_ControllerName a \<longrightarrow> SetPolicyAncestorStatus [a] b = [b])"
  by (simp add: ancestorRefEqual_def)

theorem SetPolicyAncestorStatus_ignores_namespace_witness:
  "let r = \<lparr>pr_Group = None, pr_Kind = None, pr_Namespace = Some ''a'', pr_Name = ''gw'',
            pr_SectionName = None, pr_Port = None\<rparr>;
       a = NewPolicyAncestorStatus r ''cfgate'' [];
       b = NewPolicyAncestorStatus (r\<lparr>pr_Namespace := Some ''b''\<rparr>) ''cfgate'' []
   in a \<noteq> b \<and> SetPolicyAncestorStatus [a] b = [b]"
  using SetPolicyAncestorStatus_ignores_namespace
    [of "\<lparr>pr_Group = None, pr_Kind = None, pr_Namespace = Some ''a'', pr_Name = ''gw'',
          pr_SectionName = None, pr_Port = None\<rparr>" "Some ''b''"
        "NewPolicyAncestorStatus \<lparr>pr_Group = None, pr_Kind = None, pr_Namespace = Some ''b'',
          pr_Name = ''gw'', pr_SectionName = None, pr_Port = None\<rparr> ''cfgate'' []"
        "NewPolicyAncestorStatus \<lparr>pr_Group = None, pr_Kind = None, pr_Namespace = Some ''a'',
          pr_Name = ''gw'', pr_SectionName = None, pr_Port = None\<rparr> ''cfgate'' []"]
  by (simp add: NewPolicyAncestorStatus_def)

end
