(* ===== verification/Api_Types.thy ===== *)
theory Api_Types
  imports Status_Conditions
begin

text \<open>
  The custom resources CloudflareTunnel and CloudflareDNS (api/v1alpha1): their specifications and
  statuses as records, with the Kubernetes metadata the controllers read. \<open>int32\<close> and
  \<open>int64\<close> fields are integers; the conversions the code makes are written out where it makes
  them. A pointer field is an option; times are integers (nanoseconds).
\<close>

section \<open>Metadata\<close>

record ObjectMeta =
  om_Namespace :: string
  om_Name :: string
  om_Generation :: int
  om_DeletionTimestamp :: "int option"
  om_Finalizers :: "string list"
  om_Annotations :: strmap

section \<open>cloudflaretunnel_types.go\<close>

record SecretRef =
  sr_Name :: string
  sr_Namespace :: string

record SecretReference =
  sref_Name :: string
  sref_Namespace :: string

record CloudflareConfig =
  cc_AccountID :: string
  cc_AccountName :: string
  cc_SecretRef :: SecretRef
  cc_APIToken :: string

record MetricsConfig =
  mc_Enabled :: bool
  mc_Port :: int

text \<open>Resource lists map a resource name to a quantity, kept in its written form.\<close>

record ResourceRequirements =
  rq_Limits :: "strmap option"
  rq_Requests :: "strmap option"

record Toleration =
  to_Key :: string
  to_Operator :: string
  to_Value :: string
  to_Effect :: string
  to_TolerationSeconds :: "int option"

record CloudflaredConfig =
  cd_Replicas :: int
  cd_Image :: string
  cd_ImagePullPolicy :: string
  cd_Protocol :: string
  cd_Resources :: ResourceRequirements
  cd_NodeSelector :: strmap
  cd_Tolerations :: "Toleration list"
  cd_PodAnnotations :: strmap
  cd_ExtraArgs :: "string list"
  cd_Metrics :: MetricsConfig

record CAPoolSecretRef =
  cap_Name :: string
  cap_Key :: string

record OriginDefaults =
  od_ConnectTimeout :: string
  od_NoTLSVerify :: bool
  od_HTTP2Origin :: bool
  od_CAPoolSecretRef :: "CAPoolSecretRef option"

record CloudflareTunnelSpec =
  ts_TunnelName :: string
  ts_Cloudflare :: CloudflareConfig
  ts_Cloudflared :: CloudflaredConfig
  ts_OriginDefaults :: OriginDefaults
  ts_FallbackTarget :: string
  ts_FallbackCredentialsRef :: "SecretReference option"

record CloudflareTunnelStatus =
  tst_TunnelID :: string
  tst_TunnelName :: string
  tst_TunnelDomain :: string
  tst_AccountID :: string
  tst_Replicas :: int
  tst_ReadyReplicas :: int
  tst_ObservedGeneration :: int
  tst_LastSyncTime :: "int option"
  tst_ConnectedRouteCount :: int
  tst_Conditions :: "Condition list"

record CloudflareTunnel =
  ct_Meta :: ObjectMeta
  ct_Spec :: CloudflareTunnelSpec
  ct_Status :: CloudflareTunnelStatus

section \<open>cloudflaredns_types.go\<close>

record DNSTunnelRef =
  dt_Name :: string
  dt_Namespace :: string

text \<open>\<open>DNSPolicy\<close> is a string type; these are its declared values.\<close>

definition DNSPolicySync :: string where "DNSPolicySync = ''sync''"

definition DNSPolicyUpsertOnly :: string where "DNSPolicyUpsertOnly = ''upsert-only''"

definition DNSPolicyCreateOnly :: string where "DNSPolicyCreateOnly = ''create-only''"

record ExternalTarget =
  et_Type :: string
  et_Value :: string

record DNSZoneConfig =
  zc_Name :: string
  zc_ID :: string
  zc_Proxied :: "bool option"

record DNSNamespaceSelector =
  ns_MatchLabels :: strmap
  ns_MatchNames :: "string list"

record DNSGatewayRoutesSource =
  gr_Enabled :: bool
  gr_AnnotationFilter :: string
  gr_NamespaceSelector :: "DNSNamespaceSelector option"

record DNSExplicitHostname =
  eh_Hostname :: string
  eh_Target :: string
  eh_Proxied :: "bool option"
  eh_TTL :: int

record DNSHostnameSource =
  hs_GatewayRoutes :: DNSGatewayRoutesSource
  hs_Explicit :: "DNSExplicitHostname list"

record DNSRecordDefaults =
  rd_Proxied :: bool
  rd_TTL :: int

record DNSTXTRecordOwnership =
  to_Enabled :: "bool option"
  to_Prefix :: string

record DNSCommentOwnership =
  co_Enabled :: bool
  co_Template :: string

record DNSOwnershipConfig =
  oc_OwnerID :: string
  oc_TXTRecord :: DNSTXTRecordOwnership
  oc_Comment :: DNSCommentOwnership

record DNSCleanupPolicy =
  cp_DeleteOnRouteRemoval :: "bool option"
  cp_DeleteOnResourceRemoval :: "bool option"
  cp_OnlyManaged :: "bool option"

record CloudflareDNSSpec =
  ds_TunnelRef :: "DNSTunnelRef option"
  ds_ExternalTarget :: "ExternalTarget option"
  ds_Zones :: "DNSZoneConfig list"
  ds_Policy :: string
  ds_Source :: DNSHostnameSource
  ds_Defaults :: DNSRecordDefaults
  ds_Ownership :: DNSOwnershipConfig
  ds_CleanupPolicy :: DNSCleanupPolicy
  ds_Cloudflare :: "CloudflareConfig option"
  ds_FallbackCredentialsRef :: "SecretReference option"

record DNSRecordSyncStatus =
  rs_Hostname :: string
  rs_Type :: string
  rs_Target :: string
  rs_Proxied :: bool
  rs_TTL :: int
  rs_Status :: string
  rs_RecordID :: string
  rs_ZoneID :: string
  rs_Error :: string

record CloudflareDNSStatus =
  dst_SyncedRecords :: int
  dst_PendingRecords :: int
  dst_FailedRecords :: int
  dst_Records :: "DNSRecordSyncStatus list"
  dst_ResolvedTarget :: string
  dst_ObservedGeneration :: int
  dst_LastSyncTime :: "int option"
  dst_Conditions :: "Condition list"

record CloudflareDNS =
  cdns_Meta :: ObjectMeta
  cdns_Spec :: CloudflareDNSSpec
  cdns_Status :: CloudflareDNSStatus

section \<open>Objects of the cluster\<close>

text \<open>\<open>sec_Owner\<close> is the controller reference, the name of the owning object.\<close>

record Secret =
  sec_Name :: string
  sec_Namespace :: string
  sec_UID :: string
  sec_ResourceVersion :: string
  sec_Labels :: strmap
  sec_Owner :: "string option"
  sec_Type :: string
  sec_Data :: strmap
  sec_StringData :: strmap

definition zero_Secret :: Secret where
  "zero_Secret = \<lparr>sec_Name = '''', sec_Namespace = '''', sec_UID = '''', sec_ResourceVersion = '''',
     sec_Labels = [], sec_Owner = None, sec_Type = '''', sec_Data = [], sec_StringData = []\<rparr>"

record HTTPPathMatch =
  pm_Value :: "string option"

record HTTPRouteMatch =
  rm_Path :: "HTTPPathMatch option"

record HTTPBackendRef =
  br_Kind :: "string option"
  br_Namespace :: "string option"
  br_Name :: string
  br_Port :: "int option"

record HTTPRouteRule =
  rr_Matches :: "HTTPRouteMatch list"
  rr_BackendRefs :: "HTTPBackendRef list"

record RouteParentStatus =
  rps_ParentRef :: ParentReference
  rps_ControllerName :: string
  rps_Conditions :: "Condition list"

record HTTPRoute =
  hr_Meta :: ObjectMeta
  hr_ParentRefs :: "ParentReference list"
  hr_Hostnames :: "string list"
  hr_Rules :: "HTTPRouteRule list"
  hr_Parents :: "RouteParentStatus list"

text \<open>A listener of a Gateway; \<open>li_AllowedFrom\<close> is \<open>AllowedRoutes.Namespaces.From\<close>, None when a
  pointer on the way is nil. The status of a listener lists the kinds of route it supports as
  pairs of group and kind.\<close>

record Listener =
  li_Name :: string
  li_Hostname :: "string option"
  li_AllowedFrom :: "string option"

record ListenerStatus =
  ls_Name :: string
  ls_AttachedRoutes :: int
  ls_SupportedKinds :: "(string option \<times> string) list"
  ls_Conditions :: "Condition list"

record Gateway =
  gw_Meta :: ObjectMeta
  gw_GatewayClassName :: string
  gw_Listeners :: "Listener list"
  gw_Addresses :: "(string option \<times> string) list"
  gw_Conditions :: "Condition list"
  gw_ListenerStatus :: "ListenerStatus list"

record GatewayClass =
  gc_Meta :: ObjectMeta
  gc_ControllerName :: string
  gc_Conditions :: "Condition list"

section \<open>Finalizers\<close>

text \<open>
  \<open>controllerutil.ContainsFinalizer\<close>, \<open>AddFinalizer\<close> and \<open>RemoveFinalizer\<close> belong to
  controller-runtime: they are parameters of the controllers' models. The locale states what the
  controllers rely on; the standard instance is the documented behaviour (membership, append if
  absent, remove every occurrence).
\<close>

record FinalizerLib =
  fl_Contains :: "ObjectMeta \<Rightarrow> string \<Rightarrow> bool"
  fl_Add :: "ObjectMeta \<Rightarrow> string \<Rightarrow> ObjectMeta"
  fl_Remove :: "ObjectMeta \<Rightarrow> string \<Rightarrow> ObjectMeta"

locale finalizer_lib =
  fixes lib :: FinalizerLib
  assumes contains_add: "fl_Contains lib (fl_Add lib m f) f"
    and contains_remove: "\<not> fl_Contains lib (fl_Remove lib m f) f"
    and remove_other: "g \<noteq> f \<Longrightarrow> fl_Contains lib (fl_Remove lib m f) g = fl_Contains lib m g"
    and remove_deletion: "om_DeletionTimestamp (fl_Remove lib m f) = om_DeletionTimestamp m"

definition std_finalizers :: FinalizerLib where
  "std_finalizers =
     \<lparr>fl_Contains = (\<lambda>m f. f \<in> List.set (om_Finalizers m)),
      fl_Add = (\<lambda>m f. if f \<in> List.set (om_Finalizers m) then m
                      else m\<lparr>om_Finalizers := om_Finalizers m @ [f]\<rparr>),
      fl_Remove = (\<lambda>m f. m\<lparr>om_Finalizers := filter (\<lambda>g. g \<noteq> f) (om_Finalizers m)\<rparr>)\<rparr>"

interpretation std_fin: finalizer_lib std_finalizers
  by unfold_locales (auto simp: std_finalizers_def)

end
