(* ===== verification/Credential_Cache.thy ===== *)
theory Credential_Cache
  imports Api_Types
begin

text \<open>
  The credential cache: internal/cloudflare/cache.go. The cache maps the UID and resource version
  of a Secret to a client with an expiry time. \<open>time.Now()\<close> is an argument; a client is a
  value of any type, absent for Go's nil interface. The operations are given twice: as functions
  (one caller), and as a step relation in which any number of goroutines interleave at the points
  where the code gives up the lock.
\<close>

section \<open>Operations\<close>

record 'c cacheEntry =
  ce_client :: "'c option"
  ce_expiresAt :: int

record 'c CredentialCache =
  crc_entries :: "(string \<times> 'c cacheEntry) list"
  crc_ttl :: int

definition DefaultCacheTTL :: int where
  "DefaultCacheTTL = 30 * 1000000000"

definition NewCredentialCache :: "int \<Rightarrow> 'c CredentialCache" where
  "NewCredentialCache ttl = \<lparr>crc_entries = [], crc_ttl = (if ttl \<le> 0 then DefaultCacheTTL else ttl)\<rparr>"

definition cacheKey :: "Secret \<Rightarrow> string" where
  "cacheKey secret = sec_UID secret @ '':'' @ sec_ResourceVersion secret"

text \<open>The map accesses that happen under the lock.\<close>

definition entry_read :: "'c CredentialCache \<Rightarrow> Secret \<Rightarrow> 'c cacheEntry option" where
  "entry_read c secret = map_of (crc_entries c) (cacheKey secret)"

definition entry_delete :: "'c CredentialCache \<Rightarrow> Secret \<Rightarrow> 'c CredentialCache" where
  "entry_delete c secret = c\<lparr>crc_entries := map_del (cacheKey secret) (crc_entries c)\<rparr>"

definition entry_write :: "'c CredentialCache \<Rightarrow> Secret \<Rightarrow> 'c cacheEntry \<Rightarrow> 'c CredentialCache" where
  "entry_write c secret e = c\<lparr>crc_entries := map_put (cacheKey secret) e (crc_entries c)\<rparr>"

definition expired :: "int \<Rightarrow> 'c cacheEntry \<Rightarrow> bool" where
  "expired now e \<longleftrightarrow> now > ce_expiresAt e"

definition crc_Get :: "int \<Rightarrow> 'c CredentialCache \<Rightarrow> Secret \<Rightarrow> 'c option \<times> 'c CredentialCache" where
  "crc_Get now c secret =
     (case entry_read c secret of
        None \<Rightarrow> (None, c)
      | Some entry \<Rightarrow>
          if expired now entry then (None, entry_delete c secret)
          else (ce_client entry, c))"

definition crc_Set :: "int \<Rightarrow> 'c CredentialCache \<Rightarrow> Secret \<Rightarrow> 'c option \<Rightarrow> 'c CredentialCache" where
  "crc_Set now c secret client =
     entry_write c secret \<lparr>ce_client = client, ce_expiresAt = now + crc_ttl c\<rparr>"

text \<open>\<open>now1\<close> and \<open>now2\<close> are the clock readings of the inner Get and Set.\<close>

definition crc_GetOrCreate ::
  "int \<Rightarrow> int \<Rightarrow> 'c CredentialCache \<Rightarrow> Secret \<Rightarrow> 'c option res \<Rightarrow> 'c option res \<times> 'c CredentialCache" where
  "crc_GetOrCreate now1 now2 c secret created =
     (case crc_Get now1 c secret of
        (Some client, c1) \<Rightarrow> (Inr (Some client), c1)
      | (None, c1) \<Rightarrow>
          (case created of
             Inl err \<Rightarrow> (Inl err, c1)
           | Inr client \<Rightarrow> (Inr client, crc_Set now2 c1 secret client)))"

definition crc_Invalidate :: "'c CredentialCache \<Rightarrow> Secret \<Rightarrow> 'c CredentialCache" where
  "crc_Invalidate c secret = entry_delete c secret"

definition crc_Clear :: "'c CredentialCache \<Rightarrow> 'c CredentialCache" where
  "crc_Clear c = c\<lparr>crc_entries := []\<rparr>"

fun cleanup_loop :: "int \<Rightarrow> (string \<times> 'c cacheEntry) list \<Rightarrow> (string \<times> 'c cacheEntry) list \<Rightarrow>
  (string \<times> 'c cacheEntry) list" where
  "cleanup_loop now [] m = m"
| "cleanup_loop now ((key, entry) # rest) m =
     cleanup_loop now rest (if expired now entry then map_del key m else m)"

definition crc_Cleanup :: "int \<Rightarrow> 'c CredentialCache \<Rightarrow> 'c CredentialCache" where
  "crc_Cleanup now c = c\<lparr>crc_entries := cleanup_loop now (crc_entries c) (crc_entries c)\<rparr>"

definition crc_Size :: "'c CredentialCache \<Rightarrow> nat" where
  "crc_Size c = length (crc_entries c)"

section \<open>Concurrent callers\<close>

text \<open>
  A goroutine in \<open>GetOrCreate\<close>: it reads the entry under the read lock, compares the expiry
  with the clock, deletes an expired entry under the write lock, creates a client, stores it.
  \<open>sys_made\<close> records every client that a \<open>createFn\<close> returned, with the key it was created
  for; it is not part of the program.
\<close>

datatype 'c pc =
    Idle
  | Reading Secret
  | Checking Secret "'c cacheEntry"
  | Expiring Secret
  | Creating Secret
  | Storing Secret 'c
  | Returned Secret 'c
  | Failed Secret

record 'c sys =
  sys_cache :: "'c CredentialCache"
  sys_now :: int
  sys_pc :: "nat \<Rightarrow> 'c pc"
  sys_made :: "(string \<times> 'c) list"

abbreviation goto :: "'c sys \<Rightarrow> nat \<Rightarrow> 'c pc \<Rightarrow> 'c sys" where
  "goto s t p \<equiv> s\<lparr>sys_pc := (sys_pc s)(t := p)\<rparr>"

inductive cache_step :: "'c sys \<Rightarrow> 'c sys \<Rightarrow> bool" where
  tick: "now \<ge> sys_now s \<Longrightarrow> cache_step s (s\<lparr>sys_now := now\<rparr>)"
| call: "sys_pc s t = Idle \<Longrightarrow> cache_step s (goto s t (Reading secret))"
| read: "sys_pc s t = Reading secret \<Longrightarrow>
     cache_step s (goto s t (case entry_read (sys_cache s) secret of
       None \<Rightarrow> Creating secret | Some entry \<Rightarrow> Checking secret entry))"
| check: "sys_pc s t = Checking secret entry \<Longrightarrow>
     cache_step s (goto s t (if expired (sys_now s) entry then Expiring secret
       else case ce_client entry of None \<Rightarrow> Creating secret | Some client \<Rightarrow> Returned secret client))"
| expire: "sys_pc s t = Expiring secret \<Longrightarrow>
     cache_step s (goto (s\<lparr>sys_cache := entry_delete (sys_cache s) secret\<rparr>) t (Creating secret))"
| create: "sys_pc s t = Creating secret \<Longrightarrow>
     cache_step s (goto (s\<lparr>sys_made := (cacheKey secret, client) # sys_made s\<rparr>) t (Storing secret client))"
| fail: "sys_pc s t = Creating secret \<Longrightarrow> cache_step s (goto s t (Failed secret))"
| store: "sys_pc s t = Storing secret client \<Longrightarrow>
     cache_step s (goto (s\<lparr>sys_cache := crc_Set (sys_now s) (sys_cache s) secret (Some client)\<rparr>) t
       (Returned secret client))"
| invalidate: "cache_step s (s\<lparr>sys_cache := crc_Invalidate (sys_cache s) secret\<rparr>)"
| clear: "cache_step s (s\<lparr>sys_cache := crc_Clear (sys_cache s)\<rparr>)"
| cleanup: "now \<le> sys_now s \<Longrightarrow> cache_step s (s\<lparr>sys_cache := crc_Cleanup now (sys_cache s)\<rparr>)"

inductive_cases cache_stepE: "cache_step s s'"

definition cache_init :: "int \<Rightarrow> int \<Rightarrow> 'c sys" where
  "cache_init ttl now =
     \<lparr>sys_cache = NewCredentialCache ttl, sys_now = now, sys_pc = (\<lambda>t. Idle), sys_made = []\<rparr>"

abbreviation cache_steps :: "'c sys \<Rightarrow> 'c sys \<Rightarrow> bool" where
  "cache_steps \<equiv> rtranclp cache_step"

section \<open>Lemmas\<close>

lemma entry_read_delete [simp]:
  "entry_read (entry_delete c s) s' = (if cacheKey s = cacheKey s' then None else entry_read c s')"
  by (simp add: entry_read_def entry_delete_def)

lemma entry_read_write [simp]:
  "entry_read (entry_write c s e) s' = (if cacheKey s = cacheKey s' then Some e else entry_read c s')"
  by (simp add: entry_read_def entry_write_def)

interpretation credential_store: keyed_store entry_read entry_write cacheKey
  by unfold_locales simp

text \<open>The well-formedness of a cache: a map, with a positive lifetime.\<close>

definition crc_wf :: "'c CredentialCache \<Rightarrow> bool" where
  "crc_wf c \<longleftrightarrow> distinct (map fst (crc_entries c)) \<and> crc_ttl c > 0"

lemma cleanup_loop_lookup:
  "distinct (map fst es) \<Longrightarrow>
   map_of (cleanup_loop now es m) k =
     (case map_of es k of Some e \<Rightarrow> if expired now e then None else map_of m k | None \<Rightarrow> map_of m k)"
proof (induction now es m rule: cleanup_loop.induct)
  case (2 now key entry rest m)
  then have "map_of rest key = None" by (simp add: map_of_eq_None_iff)
  with 2 show ?case by (cases "k = key") (simp_all split: option.split)
qed simp

lemma cleanup_loop_distinct [simp]:
  "distinct (map fst m) \<Longrightarrow> distinct (map fst (cleanup_loop now es m))"
  by (induction now es m rule: cleanup_loop.induct) auto

lemma entry_read_Cleanup:
  assumes "crc_wf c"
  shows "entry_read (crc_Cleanup now c) s =
    (case entry_read c s of Some e \<Rightarrow> if expired now e then None else Some e | None \<Rightarrow> None)"
  using assms
  by (auto simp: entry_read_def crc_Cleanup_def crc_wf_def cleanup_loop_lookup split: option.splits)

lemma crc_wf_ops [simp]:
  "crc_wf (NewCredentialCache ttl)"
  "crc_wf c \<Longrightarrow> crc_wf (entry_delete c s)"
  "crc_wf c \<Longrightarrow> crc_wf (entry_write c s e)"
  "crc_wf c \<Longrightarrow> crc_wf (crc_Set now c s cl)"
  "crc_wf c \<Longrightarrow> crc_wf (crc_Invalidate c s)"
  "crc_wf c \<Longrightarrow> crc_wf (crc_Clear c)"
  "crc_wf c \<Longrightarrow> crc_wf (crc_Cleanup now c)"
  by (auto simp: crc_wf_def NewCredentialCache_def DefaultCacheTTL_def entry_delete_def entry_write_def
      crc_Set_def crc_Invalidate_def crc_Clear_def crc_Cleanup_def)

lemma crc_wf_Get: "crc_wf c \<Longrightarrow> crc_wf (snd (crc_Get now c s))"
  by (simp add: crc_Get_def split: option.split)

lemma crc_ttl_simps [simp]:
  "crc_ttl (crc_Set now c s cl) = crc_ttl c" "crc_ttl (entry_delete c s) = crc_ttl c"
  by (simp_all add: crc_Set_def entry_write_def entry_delete_def)

text \<open>The invariant of concurrent use: every client that is cached, about to be stored or returned
  was created for a Secret with the same key.\<close>

definition made_for :: "'c sys \<Rightarrow> Secret \<Rightarrow> 'c \<Rightarrow> bool" where
  "made_for s secret client \<longleftrightarrow> (cacheKey secret, client) \<in> List.set (sys_made s)"

fun pc_ok :: "'c sys \<Rightarrow> 'c pc \<Rightarrow> bool" where
  "pc_ok s (Checking secret e) = (\<forall>c. ce_client e = Some c \<longrightarrow> made_for s secret c)"
| "pc_ok s (Storing secret c) = made_for s secret c"
| "pc_ok s (Returned secret c) = made_for s secret c"
| "pc_ok s p = True"

definition cache_ok :: "'c sys \<Rightarrow> bool" where
  "cache_ok s \<longleftrightarrow> (\<forall>secret e c. entry_read (sys_cache s) secret = Some e \<longrightarrow> ce_client e = Some c \<longrightarrow>
     made_for s secret c)"

definition sys_inv :: "'c sys \<Rightarrow> bool" where
  "sys_inv s \<longleftrightarrow> crc_wf (sys_cache s) \<and> cache_ok s \<and> (\<forall>t. pc_ok s (sys_pc s t))"

lemma made_for_mono:
  "List.set (sys_made s) \<subseteq> List.set (sys_made s') \<Longrightarrow> made_for s x c \<Longrightarrow> made_for s' x c"
  by (auto simp: made_for_def)

lemma pc_ok_mono: "List.set (sys_made s) \<subseteq> List.set (sys_made s') \<Longrightarrow> pc_ok s p \<Longrightarrow> pc_ok s' p"
  by (cases p) (auto intro: made_for_mono)

lemma sys_inv_goto:
  assumes "sys_inv s" "pc_ok s p"
  shows "sys_inv (goto s t p)"
  using assms by (auto simp: sys_inv_def cache_ok_def made_for_def intro: pc_ok_mono [of s])

lemma sys_inv_cache:
  assumes "sys_inv s" "crc_wf c"
    and "\<And>secret e. entry_read c secret = Some e \<Longrightarrow>
           entry_read (sys_cache s) secret = Some e \<or>
           (\<forall>cl. ce_client e = Some cl \<longrightarrow> made_for s secret cl)"
  shows "sys_inv (s\<lparr>sys_cache := c\<rparr>)"
  using assms
  by (fastforce simp: sys_inv_def cache_ok_def made_for_def intro: pc_ok_mono [of s])

lemma sys_inv_made:
  assumes "sys_inv s"
  shows "sys_inv (s\<lparr>sys_made := m # sys_made s\<rparr>)"
  using assms
  by (auto simp: sys_inv_def cache_ok_def made_for_def intro: pc_ok_mono [of s])

lemma sys_inv_tick: "sys_inv s \<Longrightarrow> sys_inv (s\<lparr>sys_now := now\<rparr>)"
  by (auto simp: sys_inv_def cache_ok_def made_for_def intro: pc_ok_mono [of s])

lemma sys_inv_read:
  assumes "sys_inv s" "sys_pc s t = p"
  shows "pc_ok s p" "entry_read (sys_cache s) secret = Some e \<Longrightarrow> pc_ok s (Checking secret e)"
    "crc_wf (sys_cache s)"
  using assms by (auto simp: sys_inv_def cache_ok_def)

lemma sys_inv_step:
  assumes "cache_step s s'" "sys_inv s"
  shows "sys_inv s'"
  using assms
proof (cases rule: cache_step.cases)
  case (tick now)
  with assms show ?thesis by (simp add: sys_inv_tick)
next
  case (read t secret)
  with assms sys_inv_read [OF assms(2) read(2)] show ?thesis
    by (auto intro!: sys_inv_goto split: option.split)
next
  case (check t secret entry)
  with assms sys_inv_read(1) [OF assms(2) check(2)] show ?thesis
    by (auto intro!: sys_inv_goto split: option.split)
next
  case (expire t secret)
  have "sys_inv (s\<lparr>sys_cache := entry_delete (sys_cache s) secret\<rparr>)"
    using assms(2) by (intro sys_inv_cache) (auto simp: sys_inv_read(3) split: if_splits)
  from sys_inv_goto [OF this, of "Creating secret" t] expire show ?thesis by simp
next
  case (create t secret client)
  have "pc_ok (s\<lparr>sys_made := (cacheKey secret, client) # sys_made s\<rparr>) (Storing secret client)"
    by (simp add: made_for_def)
  from sys_inv_goto [OF sys_inv_made [OF assms(2)] this, of t] create show ?thesis by simp
next
  case (store t secret client)
  have made: "made_for s secret client" using sys_inv_read(1) [OF assms(2) store(2)] by simp
  have "sys_inv (s\<lparr>sys_cache := crc_Set (sys_now s) (sys_cache s) secret (Some client)\<rparr>)"
    using assms(2) made
    by (intro sys_inv_cache) (auto simp: crc_Set_def made_for_def sys_inv_read(3) split: if_splits)
  from sys_inv_goto [OF this, of "Returned secret client" t] store made show ?thesis
    by (simp add: made_for_def)
next
  case (invalidate secret)
  with assms show ?thesis
    by (auto simp: crc_Invalidate_def sys_inv_read(3) intro!: sys_inv_cache split: if_splits)
next
  case clear
  have "crc_wf (crc_Clear (sys_cache s))" using sys_inv_read(3) [OF assms(2)] by simp
  with clear assms show ?thesis
    by (auto simp: crc_Clear_def entry_read_def intro!: sys_inv_cache)
next
  case (cleanup now)
  with assms sys_inv_read(3) [OF assms(2)] show ?thesis
    by (auto simp: entry_read_Cleanup intro!: sys_inv_cache split: option.splits if_splits)
qed (auto intro!: sys_inv_goto)

lemma sys_inv_reachable:
  assumes "cache_steps (cache_init ttl now) s"
  shows "sys_inv s"
  using assms
proof (induction rule: rtranclp_induct)
  case base
  show ?case
    by (simp add: sys_inv_def cache_init_def cache_ok_def entry_read_def NewCredentialCache_def
        crc_wf_def DefaultCacheTTL_def)
next
  case (step y z)
  then show ?case using sys_inv_step by blast
qed

text \<open>A goroutine that runs alone makes the steps of the sequential operation.\<close>

lemma step_run:
  assumes "cache_step s s1" "cache_steps s1 s2"
  shows "cache_steps s s2"
  using assms by (rule converse_rtranclp_into_rtranclp)

lemma run_store:
  assumes "sys_pc s t = Creating secret"
  shows "cache_steps s (s\<lparr>sys_cache := crc_Set (sys_now s) (sys_cache s) secret (Some cl),
     sys_pc := (sys_pc s)(t := Returned secret cl), sys_made := (cacheKey secret, cl) # sys_made s\<rparr>)"
    (is "cache_steps s ?s2")
proof -
  let ?s1 = "goto (s\<lparr>sys_made := (cacheKey secret, cl) # sys_made s\<rparr>) t (Storing secret cl)"
  have "cache_step s ?s1" using assms by (rule create)
  moreover have "cache_step ?s1 ?s2"
    using store [of ?s1 t secret cl] by (cases s) simp
  ultimately show ?thesis by (blast intro: step_run)
qed

lemma run_lookup:
  assumes "sys_pc s t = Idle" "crc_Get (sys_now s) (sys_cache s) secret = (found, c1)"
  shows "cache_steps s (s\<lparr>sys_cache := c1,
     sys_pc := (sys_pc s)(t := (case found of None \<Rightarrow> Creating secret | Some cl \<Rightarrow> Returned secret cl))\<rparr>)"
    (is "cache_steps s ?end")
proof -
  let ?s1 = "goto s t (Reading secret)"
  have c: "cache_step s ?s1" using assms(1) by (rule call)
  show ?thesis
  proof (cases "entry_read (sys_cache s) secret")
    case None
    have "cache_step ?s1 ?end"
      using read [of ?s1 t secret] None assms(2) by (cases s) (auto simp: crc_Get_def)
    with c show ?thesis by (blast intro: step_run)
  next
    case (Some e)
    let ?s2 = "goto s t (Checking secret e)"
    have r: "cache_step ?s1 ?s2" using read [of ?s1 t secret] Some by simp
    show ?thesis
    proof (cases "expired (sys_now s) e")
      case False
      have "cache_step ?s2 ?end"
        using check [of ?s2 t secret e] Some False assms(2) by (cases s) (auto simp: crc_Get_def)
      with c r show ?thesis by (blast intro: step_run)
    next
      case True
      let ?s3 = "goto s t (Expiring secret)"
      have "cache_step ?s2 ?s3" using check [of ?s2 t secret e] True by simp
      moreover have "cache_step ?s3 ?end"
        using expire [of ?s3 t secret] Some True assms(2) by (cases s) (auto simp: crc_Get_def)
      ultimately show ?thesis using c r by (blast intro: step_run)
    qed
  qed
qed

section \<open>Properties\<close>

text \<open>A client stored for a Secret is returned until its lifetime is over and never
  afterwards, and no other key is affected: a lookup within the lifetime returns it and keeps
  the cache, a later lookup returns nothing and drops the entry, and a lookup for a Secret with a
  different key behaves as if nothing had been stored.\<close>

theorem credential_lifetime:
  shows "crc_Get t (crc_Set now c s (Some cl)) s' =
    (if cacheKey s = cacheKey s' then
       (if t \<le> now + crc_ttl c then (Some cl, crc_Set now c s (Some cl))
        else (None, entry_delete (crc_Set now c s (Some cl)) s))
     else (fst (crc_Get t c s'),
           if \<exists>e. entry_read c s' = Some e \<and> expired t e
           then entry_delete (crc_Set now c s (Some cl)) s' else crc_Set now c s (Some cl)))"
proof (cases "cacheKey s = cacheKey s'")
  case True
  then show ?thesis
    by (auto simp: crc_Get_def crc_Set_def expired_def entry_delete_def)
next
  case False
  then show ?thesis
    by (auto simp: crc_Get_def crc_Set_def split: option.split)
qed

text \<open>Secrets share a cache entry exactly when they are the same object at the same resource
  version (a UID contains no colon), so a changed Secret never yields the old client.\<close>

theorem cacheKey_identifies_version:
  assumes "CHR '':'' \<notin> List.set (sec_UID s)" "CHR '':'' \<notin> List.set (sec_UID s')"
  shows "cacheKey s = cacheKey s' \<longleftrightarrow>
    sec_UID s = sec_UID s' \<and> sec_ResourceVersion s = sec_ResourceVersion s'"
proof
  assume "cacheKey s = cacheKey s'"
  then have "SplitN2 (cacheKey s) CHR '':'' = SplitN2 (cacheKey s') CHR '':''" by simp
  with assms show "sec_UID s = sec_UID s' \<and> sec_ResourceVersion s = sec_ResourceVersion s'"
    by (simp add: cacheKey_def SplitN2_append)
qed (simp add: cacheKey_def)

definition wit_secret :: Secret where
  "wit_secret = zero_Secret\<lparr>sec_UID := ''u'', sec_ResourceVersion := ''1''\<rparr>"

theorem cacheKey_identifies_version_witness:
  "cacheKey wit_secret \<noteq> cacheKey (wit_secret\<lparr>sec_ResourceVersion := ''2''\<rparr>)"
  using cacheKey_identifies_version [of wit_secret "wit_secret\<lparr>sec_ResourceVersion := ''2''\<rparr>"]
  by (simp add: wit_secret_def)

text \<open>C13: However many goroutines use the cache at once, and whatever else is invalidated, cleared
  or cleaned up in between, a client that \<open>GetOrCreate\<close> returns for a Secret was created by a
  \<open>createFn\<close> for a Secret with the same key; and the cache stays a map with a positive
  lifetime.\<close>

theorem concurrent_clients_genuine:
  assumes "cache_steps (cache_init ttl now) s"
  shows "crc_wf (sys_cache s) \<and>
    (\<forall>t secret client. sys_pc s t = Returned secret client \<longrightarrow>
       (cacheKey secret, client) \<in> List.set (sys_made s))"
proof (intro conjI allI impI)
  note inv = sys_inv_reachable [OF assms]
  show "crc_wf (sys_cache s)" using inv by (simp add: sys_inv_def)
  fix t secret client assume "sys_pc s t = Returned secret client"
  from sys_inv_read(1) [OF inv this] show "(cacheKey secret, client) \<in> List.set (sys_made s)"
    by (simp add: made_for_def)
qed



theorem concurrent_clients_genuine_witness:
  "\<exists>s. cache_steps (cache_init 5 0) s \<and> sys_pc s 0 = Returned wit_secret ''c'' \<and>
     (cacheKey wit_secret, ''c'') \<in> List.set (sys_made s)"
proof -
  let ?s0 = "cache_init 5 0 :: string sys"
  have "sys_pc ?s0 0 = Idle" "crc_Get (sys_now ?s0) (sys_cache ?s0) wit_secret = (None, sys_cache ?s0)"
    by (simp_all add: cache_init_def crc_Get_def entry_read_def NewCredentialCache_def)
  from run_lookup [OF this] have a: "cache_steps ?s0 (goto ?s0 0 (Creating wit_secret))" by simp
  obtain s where s: "cache_steps (goto ?s0 0 (Creating wit_secret)) s"
      "sys_pc s 0 = Returned wit_secret ''c''"
    using run_store [of "goto ?s0 0 (Creating wit_secret)" 0 wit_secret "''c''"] by fastforce
  from a s(1) have "cache_steps ?s0 s" by simp
  with concurrent_clients_genuine [OF this] s(2) show ?thesis by blast
qed

end
