(* ===== verification/Cf_Types.thy ===== *)
theory Cf_Types
  imports Cfgate_Prelude
begin

text \<open>
  The domain types of package cloudflare and its \<open>Client\<close> interface
  (internal/cloudflare/client.go). Go's \<open>*T\<close> results that may be nil are options; an
  operation of the interface is a state transformer over the world \<open>'w\<close>, the state of
  everything outside the process, so that other processes may change it between any two calls.
  The Access, service token and certificate operations of the interface belong to the access
  component, which is not modelled.
\<close>

record Tunnel =
  tn_ID :: string
  tn_Name :: string
  tn_Status :: string
  tn_AccountTag :: string
  tn_CreatedAt :: string

record CreateTunnelParams =
  tp_Name :: string
  tp_ConfigSrc :: string

record IPRule =
  ipr_Prefix :: string
  ipr_Ports :: "int list"
  ipr_Allow :: bool

record AccessConfig =
  ac_Required :: bool
  ac_TeamName :: string
  ac_AudTag :: "string list"

record OriginRequestConfig =
  or_ConnectTimeout :: string
  or_TLSTimeout :: string
  or_TCPKeepAlive :: string
  or_NoHappyEyeballs :: bool
  or_KeepAliveConnections :: int
  or_KeepAliveTimeout :: string
  or_HTTPHostHeader :: string
  or_OriginServerName :: string
  or_CAPool :: string
  or_NoTLSVerify :: bool
  or_DisableChunkedEncoding :: bool
  or_BastionMode :: bool
  or_ProxyAddress :: string
  or_ProxyPort :: int
  or_ProxyType :: string
  or_IPRules :: "IPRule list"
  or_HTTP2Origin :: bool
  or_MatchSNIToHost :: bool
  or_Access :: "AccessConfig option"

text \<open>The zero value of the struct, from which composite literals set some fields.\<close>

definition zero_OriginRequestConfig :: OriginRequestConfig where
  "zero_OriginRequestConfig =
     \<lparr>or_ConnectTimeout = [], or_TLSTimeout = [], or_TCPKeepAlive = [], or_NoHappyEyeballs = False,
      or_KeepAliveConnections = 0, or_KeepAliveTimeout = [], or_HTTPHostHeader = [],
      or_OriginServerName = [], or_CAPool = [], or_NoTLSVerify = False,
      or_DisableChunkedEncoding = False, or_BastionMode = False, or_ProxyAddress = [],
      or_ProxyPort = 0, or_ProxyType = [], or_IPRules = [], or_HTTP2Origin = False,
      or_MatchSNIToHost = False, or_Access = None\<rparr>"

record IngressRule =
  ir_Hostname :: string
  ir_Path :: string
  ir_Service :: string
  ir_OriginRequest :: "OriginRequestConfig option"

record WarpRoutingConfig =
  wr_Enabled :: bool

record TunnelConfiguration =
  tc_Ingress :: "IngressRule list"
  tc_OriginRequest :: "OriginRequestConfig option"
  tc_WarpRouting :: "WarpRoutingConfig option"

record DNSRecord =
  dr_ID :: string
  dr_Type :: string
  dr_Name :: string
  dr_Content :: string
  dr_TTL :: int
  dr_Proxied :: bool
  dr_Comment :: string
  dr_ZoneID :: string
  dr_ZoneName :: string

record Zone =
  zn_ID :: string
  zn_Name :: string
  zn_Status :: string
  zn_AccountID :: string

record Account =
  acc_ID :: string
  acc_Name :: string

record APIError =
  ae_Code :: int
  ae_Message :: string

definition APIError_Error :: "APIError \<Rightarrow> string" where
  "APIError_Error e = ''cloudflare API error (code '' @ int_str (ae_Code e) @ ''): '' @ ae_Message e"

text \<open>
  The interface. A create or update that succeeds returns the stored record; \<open>unit res\<close> is
  an operation that returns only an error.
\<close>

record 'w Client =
  GetTunnel :: "string \<Rightarrow> string \<Rightarrow> ('w, Tunnel option res) io"
  GetTunnelByName :: "string \<Rightarrow> string \<Rightarrow> ('w, Tunnel option res) io"
  CreateTunnel :: "string \<Rightarrow> CreateTunnelParams \<Rightarrow> ('w, Tunnel res) io"
  DeleteTunnel :: "string \<Rightarrow> string \<Rightarrow> ('w, unit res) io"
  DeleteTunnelConnections :: "string \<Rightarrow> string \<Rightarrow> ('w, unit res) io"
  GetTunnelToken :: "string \<Rightarrow> string \<Rightarrow> ('w, string res) io"
  UpdateTunnelConfiguration :: "string \<Rightarrow> string \<Rightarrow> TunnelConfiguration \<Rightarrow> ('w, unit res) io"
  ListDNSRecords :: "string \<Rightarrow> ('w, DNSRecord list res) io"
  ListDNSRecordsByNameType :: "string \<Rightarrow> string \<Rightarrow> string \<Rightarrow> ('w, DNSRecord list res) io"
  CreateDNSRecord :: "string \<Rightarrow> DNSRecord \<Rightarrow> ('w, DNSRecord res) io"
  UpdateDNSRecord :: "string \<Rightarrow> string \<Rightarrow> DNSRecord \<Rightarrow> ('w, DNSRecord res) io"
  DeleteDNSRecord :: "string \<Rightarrow> string \<Rightarrow> ('w, unit res) io"
  ListZones :: "('w, Zone list res) io"
  GetZoneByName :: "string \<Rightarrow> ('w, Zone option res) io"
  ValidateToken :: "string \<Rightarrow> ('w, unit res) io"
  ListAccounts :: "('w, Account list res) io"
  GetAccountByName :: "string \<Rightarrow> ('w, Account option res) io"

end
