(* ===== verification/Dns_Service.thy ===== *)
theory Dns_Service
  imports Cf_Types
begin

text \<open>
  The DNS service: internal/cloudflare/dns.go. Record lookup through the per-reconcile cache,
  creation, update and deletion under a lifecycle policy, ownership TXT records, ownership tests
  and the builders of records. The state of the service is its cache (absent, or a map) and the
  world behind the client.
\<close>

section \<open>Policies\<close>

definition PolicySync :: string where "PolicySync = ''sync''"

definition PolicyUpsertOnly :: string where "PolicyUpsertOnly = ''upsert-only''"

definition PolicyCreateOnly :: string where "PolicyCreateOnly = ''create-only''"

record PolicyChecker =
  pc_policy :: string

definition AllowsCreate :: "PolicyChecker \<Rightarrow> bool" where
  "AllowsCreate p = True"

definition AllowsUpdate :: "PolicyChecker \<Rightarrow> bool" where
  "AllowsUpdate p = (pc_policy p \<noteq> PolicyCreateOnly)"

definition AllowsDelete :: "PolicyChecker \<Rightarrow> bool" where
  "AllowsDelete p = (pc_policy p = PolicySync)"

section \<open>The record cache\<close>

text \<open>An entry that holds None is a remembered "not found" (Go's nil record, found = true).\<close>

record DNSRecordCache =
  rc_entries :: "string \<rightharpoonup> DNSRecord option"

definition NewDNSRecordCache :: DNSRecordCache where
  "NewDNSRecordCache = \<lparr>rc_entries = Map.empty\<rparr>"

definition cache_key :: "string \<Rightarrow> string \<Rightarrow> string \<Rightarrow> string" where
  "cache_key zoneID name recordType = zoneID @ '':'' @ name @ '':'' @ recordType"

definition cache_Get :: "DNSRecordCache \<Rightarrow> string \<Rightarrow> string \<Rightarrow> string \<Rightarrow> DNSRecord option option" where
  "cache_Get c zoneID name recordType = rc_entries c (cache_key zoneID name recordType)"

definition cache_Set ::
  "DNSRecordCache \<Rightarrow> string \<Rightarrow> string \<Rightarrow> string \<Rightarrow> DNSRecord option \<Rightarrow> DNSRecordCache" where
  "cache_Set c zoneID name recordType record =
     c\<lparr>rc_entries := (rc_entries c)(cache_key zoneID name recordType \<mapsto> record)\<rparr>"

section \<open>The service and its effects\<close>

record 'w DNSService =
  svc_cache :: "DNSRecordCache option"
  svc_world :: 'w

definition NewDNSService :: "'w \<Rightarrow> 'w DNSService" where
  "NewDNSService w = \<lparr>svc_cache = None, svc_world = w\<rparr>"

definition WithCache :: "'w DNSService \<Rightarrow> DNSRecordCache \<Rightarrow> 'w DNSService" where
  "WithCache s cache = s\<lparr>svc_cache := Some cache\<rparr>"

text \<open>A call of the client: it acts on the world only.\<close>

definition api :: "('w, 'a) io \<Rightarrow> ('w DNSService, 'a) io" where
  "api m = State (\<lambda>s. case run_state m (svc_world s) of (a, w) \<Rightarrow> (a, s\<lparr>svc_world := w\<rparr>))"

definition cache_lookup ::
  "string \<Rightarrow> string \<Rightarrow> string \<Rightarrow> ('w DNSService, DNSRecord option option) io" where
  "cache_lookup zoneID name recordType =
     State (\<lambda>s. (case svc_cache s of None \<Rightarrow> None | Some c \<Rightarrow> cache_Get c zoneID name recordType, s))"

definition cache_store ::
  "string \<Rightarrow> string \<Rightarrow> string \<Rightarrow> DNSRecord option \<Rightarrow> ('w DNSService, unit) io" where
  "cache_store zoneID name recordType record =
     State (\<lambda>s. ((), s\<lparr>svc_cache := map_option (\<lambda>c. cache_Set c zoneID name recordType record)
                                      (svc_cache s)\<rparr>))"

section \<open>Error classification\<close>

definition IsDuplicateRecordError :: "go_error \<Rightarrow> bool" where
  "IsDuplicateRecordError err \<longleftrightarrow> Contains (err_msg err) ''81053'' \<or> Contains (err_msg err) ''81058''"

definition IsRecordNotFoundError :: "go_error \<Rightarrow> bool" where
  "IsRecordNotFoundError err \<longleftrightarrow>
     Contains (err_msg err) ''81044'' \<or> Contains (err_msg err) ''not found'' \<or>
     Contains (err_msg err) ''404''"

section \<open>Ownership\<close>

record OwnershipParams =
  op_Hostname :: string
  op_OwnerID :: string
  op_Resource :: string
  op_Prefix :: string

record OwnershipMetadata =
  omd_Heritage :: string
  omd_OwnerID :: string
  omd_Resource :: string

definition IsOwnedByCfgate :: "DNSRecord option \<Rightarrow> string \<Rightarrow> bool" where
  "IsOwnedByCfgate rcd ownerID =
     (case rcd of
        None \<Rightarrow> False
      | Some r \<Rightarrow>
          if HasPrefix (dr_Content r) ''heritage=cfgate'' then
            (if ownerID = '''' then True
             else Contains (dr_Content r) (''cfgate/owner='' @ ownerID))
          else if Contains (dr_Comment r) ''managed by cfgate'' then True
          else False)"

definition parse_part :: "string \<Rightarrow> OwnershipMetadata \<Rightarrow> OwnershipMetadata" where
  "parse_part part meta =
     (let meta = (if HasPrefix part ''cfgate/owner=''
                  then meta\<lparr>omd_OwnerID := TrimPrefix part ''cfgate/owner=''\<rparr> else meta)
      in if HasPrefix part ''cfgate/resource=''
         then meta\<lparr>omd_Resource := TrimPrefix part ''cfgate/resource=''\<rparr> else meta)"

definition ParseOwnershipRecord :: "string \<Rightarrow> OwnershipMetadata res" where
  "ParseOwnershipRecord content =
     (let meta = \<lparr>omd_Heritage = ''cfgate'', omd_OwnerID = '''', omd_Resource = ''''\<rparr> in
      if HasPrefix content ''heritage=cfgate''
      then Inr (fold parse_part (Split content (CHR '','')) meta)
      else if Contains content ''managed by cfgate'' then
        Inr (case Index content ''tunnel='' of
               None \<Rightarrow> meta
             | Some idx \<Rightarrow>
                 (let tunnelPart = drop (idx + length ''tunnel='') content in
                  case Index tunnelPart '','' of
                    Some n \<Rightarrow> meta\<lparr>omd_Resource := take n tunnelPart\<rparr>
                  | None \<Rightarrow> meta\<lparr>omd_Resource := tunnelPart\<rparr>))
      else Inl (errorf (''unrecognized ownership format: '' @ content)))"

section \<open>Builders, zones, limits\<close>

definition BuildCNAMERecord :: "string \<Rightarrow> string \<Rightarrow> bool \<Rightarrow> int \<Rightarrow> string \<Rightarrow> DNSRecord" where
  "BuildCNAMERecord hostname tunnelDomain proxied ttl comment =
     \<lparr>dr_ID = '''', dr_Type = ''CNAME'', dr_Name = hostname, dr_Content = tunnelDomain,
      dr_TTL = (if ttl \<le> 0 then 1 else ttl), dr_Proxied = proxied, dr_Comment = comment,
      dr_ZoneID = '''', dr_ZoneName = ''''\<rparr>"

definition BuildOwnershipTXTRecord :: "string \<Rightarrow> string \<Rightarrow> string \<Rightarrow> string \<Rightarrow> DNSRecord" where
  "BuildOwnershipTXTRecord hostname ownerID resource pre =
     \<lparr>dr_ID = '''', dr_Type = ''TXT'', dr_Name = pre @ ''.'' @ hostname,
      dr_Content = ''heritage=cfgate,cfgate/owner='' @ ownerID @ '',cfgate/resource='' @ resource,
      dr_TTL = 1, dr_Proxied = False, dr_Comment = ''cfgate ownership record'',
      dr_ZoneID = '''', dr_ZoneName = ''''\<rparr>"

text \<open>\<open>ExtractZoneFromHostname\<close>: the public suffix list (golang.org/x/net/publicsuffix) is the
  parameter \<open>etld1\<close>, with Inl for its error.\<close>

definition ExtractZoneFromHostname :: "(string \<Rightarrow> string res) \<Rightarrow> string \<Rightarrow> string" where
  "ExtractZoneFromHostname etld1 hostname =
     (case etld1 hostname of
        Inl err \<Rightarrow>
          (let parts = Split hostname (CHR ''.'') in
           if length parts < 2 then hostname
           else Join (drop (length parts - 2) parts) ''.'')
      | Inr etld \<Rightarrow> etld)"

definition cf_ValidateTTL :: "int \<Rightarrow> go_error option" where
  "cf_ValidateTTL ttl =
     (if ttl = 1 then None
      else if ttl < 60 \<or> ttl > 86400
      then Some (errorf (''TTL must be 1 (auto) or between 60 and 86400 seconds, got '' @ int_str ttl))
      else None)"

definition recordsMatch :: "DNSRecord \<Rightarrow> DNSRecord \<Rightarrow> bool" where
  "recordsMatch a b \<longleftrightarrow> dr_Content a = dr_Content b \<and> dr_Proxied a = dr_Proxied b \<and>
     dr_TTL a = dr_TTL b \<and> dr_Comment a = dr_Comment b"

section \<open>Operations\<close>

definition FindRecordByName ::
  "'w Client \<Rightarrow> string \<Rightarrow> string \<Rightarrow> string \<Rightarrow> ('w DNSService, DNSRecord option res) io" where
  "FindRecordByName c zoneID name recordType = do {
     hit \<leftarrow> cache_lookup zoneID name recordType;
     case hit of
       Some cached \<Rightarrow> ret (Inr cached)
     | None \<Rightarrow> do {
         records \<leftarrow> api (ListDNSRecordsByNameType c zoneID name recordType);
         case records of
           Inl err \<Rightarrow> ret (Inl (wrapf ''failed to find DNS record'' err))
         | Inr rs \<Rightarrow> do {
             let result = find (\<lambda>r. dr_Name r = name \<and> dr_Type r = recordType) rs;
             cache_store zoneID name recordType result;
             ret (Inr result)
           }
       }
   }"

definition createRecord ::
  "'w Client \<Rightarrow> string \<Rightarrow> DNSRecord \<Rightarrow> ('w DNSService, (DNSRecord option \<times> bool) res) io" where
  "createRecord c zoneID desired = do {
     r \<leftarrow> api (CreateDNSRecord c zoneID desired);
     case r of
       Inl err \<Rightarrow>
         if IsDuplicateRecordError err then do {
           found \<leftarrow> FindRecordByName c zoneID (dr_Name desired) (dr_Type desired);
           case found of
             Inl findErr \<Rightarrow> ret (Inl (wrapf ''failed to find record after duplicate error'' findErr))
           | Inr x \<Rightarrow> ret (Inr (x, False))
         }
         else ret (Inl (wrapf ''failed to create DNS record'' err))
     | Inr record \<Rightarrow> ret (Inr (Some record, True))
   }"

definition updateRecord ::
  "'w Client \<Rightarrow> string \<Rightarrow> string \<Rightarrow> DNSRecord \<Rightarrow> ('w DNSService, (DNSRecord option \<times> bool) res) io" where
  "updateRecord c zoneID recordID desired = do {
     r \<leftarrow> api (UpdateDNSRecord c zoneID recordID desired);
     case r of
       Inl err \<Rightarrow> ret (Inl (wrapf ''failed to update DNS record'' err))
     | Inr record \<Rightarrow> ret (Inr (Some record, True))
   }"

definition SyncRecord ::
  "'w Client \<Rightarrow> string \<Rightarrow> DNSRecord \<Rightarrow> string \<Rightarrow> ('w DNSService, (DNSRecord option \<times> bool) res) io" where
  "SyncRecord c zoneID desired ownerID = do {
     existing \<leftarrow> FindRecordByName c zoneID (dr_Name desired) (dr_Type desired);
     case existing of
       Inl err \<Rightarrow> ret (Inl (wrapf ''failed to find existing record'' err))
     | Inr None \<Rightarrow> do {
         r \<leftarrow> api (CreateDNSRecord c zoneID desired);
         case r of
           Inl err \<Rightarrow>
             if IsDuplicateRecordError err then do {
               found \<leftarrow> FindRecordByName c zoneID (dr_Name desired) (dr_Type desired);
               case found of
                 Inl findErr \<Rightarrow>
                   ret (Inl (wrapf ''failed to find record after duplicate error'' findErr))
               | Inr x \<Rightarrow> ret (Inr (x, False))
             }
             else ret (Inl (wrapf ''failed to create DNS record'' err))
         | Inr record \<Rightarrow> ret (Inr (Some record, True))
       }
     | Inr (Some ex) \<Rightarrow>
         if \<not> IsOwnedByCfgate (Some ex) ownerID then ret (Inr (Some ex, False))
         else if recordsMatch ex desired then ret (Inr (Some ex, False))
         else do {
           r \<leftarrow> api (UpdateDNSRecord c zoneID (dr_ID ex) desired);
           case r of
             Inl err \<Rightarrow> ret (Inl (wrapf ''failed to update DNS record'' err))
           | Inr record \<Rightarrow> ret (Inr (Some record, True))
         }
   }"

definition SyncRecordWithPolicy ::
  "'w Client \<Rightarrow> string \<Rightarrow> DNSRecord \<Rightarrow> string \<Rightarrow> string \<Rightarrow>
     ('w DNSService, (DNSRecord option \<times> bool) res) io" where
  "SyncRecordWithPolicy c zoneID desired ownerID policy = do {
     existing \<leftarrow> FindRecordByName c zoneID (dr_Name desired) (dr_Type desired);
     case existing of
       Inl err \<Rightarrow> ret (Inl (wrapf ''failed to find existing record'' err))
     | Inr ex \<Rightarrow>
         (let checker = \<lparr>pc_policy = policy\<rparr> in
          case ex of
            None \<Rightarrow>
              if \<not> AllowsCreate checker then ret (Inr (None, False))
              else createRecord c zoneID desired
          | Some e \<Rightarrow>
              if \<not> IsOwnedByCfgate (Some e) ownerID then ret (Inr (Some e, False))
              else if recordsMatch e desired then ret (Inr (Some e, False))
              else if \<not> AllowsUpdate checker then ret (Inr (Some e, False))
              else updateRecord c zoneID (dr_ID e) desired)
   }"

definition DeleteRecord :: "'w Client \<Rightarrow> string \<Rightarrow> string \<Rightarrow> ('w DNSService, unit res) io" where
  "DeleteRecord c zoneID recordID = do {
     r \<leftarrow> api (DeleteDNSRecord c zoneID recordID);
     case r of
       Inl err \<Rightarrow> if IsRecordNotFoundError err then ret (Inr ())
                  else ret (Inl (wrapf ''failed to delete DNS record'' err))
     | Inr u \<Rightarrow> ret (Inr ())
   }"

definition DeleteRecordWithPolicy ::
  "'w Client \<Rightarrow> string \<Rightarrow> string \<Rightarrow> string \<Rightarrow> ('w DNSService, unit res) io" where
  "DeleteRecordWithPolicy c zoneID recordID policy =
     (if \<not> AllowsDelete \<lparr>pc_policy = policy\<rparr> then ret (Inr ())
      else DeleteRecord c zoneID recordID)"

definition ListManagedRecords ::
  "'w Client \<Rightarrow> string \<Rightarrow> string \<Rightarrow> ('w DNSService, DNSRecord list res) io" where
  "ListManagedRecords c zoneID ownerID = do {
     records \<leftarrow> api (ListDNSRecords c zoneID);
     case records of
       Inl err \<Rightarrow> ret (Inl (wrapf ''failed to list DNS records'' err))
     | Inr rs \<Rightarrow> ret (Inr (filter (\<lambda>r. IsOwnedByCfgate (Some r) ownerID) rs))
   }"

definition CreateOwnershipRecord ::
  "'w Client \<Rightarrow> string \<Rightarrow> OwnershipParams \<Rightarrow> ('w DNSService, unit res) io" where
  "CreateOwnershipRecord c zoneID params =
     (let record = BuildOwnershipTXTRecord (op_Hostname params) (op_OwnerID params)
                     (op_Resource params) (op_Prefix params) in
      do {
        existing \<leftarrow> FindRecordByName c zoneID (dr_Name record) (dr_Type record);
        case existing of
          Inl err \<Rightarrow> ret (Inl (wrapf ''failed to check existing ownership record'' err))
        | Inr (Some e) \<Rightarrow>
            if dr_Content e = dr_Content record \<and> dr_Comment e = dr_Comment record
            then ret (Inr ())
            else do {
              r \<leftarrow> api (UpdateDNSRecord c zoneID (dr_ID e) record);
              case r of
                Inl err \<Rightarrow> ret (Inl (wrapf ''failed to update ownership record'' err))
              | Inr u \<Rightarrow> ret (Inr ())
            }
        | Inr None \<Rightarrow> do {
            r \<leftarrow> api (CreateDNSRecord c zoneID record);
            case r of
              Inl err \<Rightarrow> if IsDuplicateRecordError err then ret (Inr ())
                         else ret (Inl (wrapf ''failed to create ownership record'' err))
            | Inr u \<Rightarrow> ret (Inr ())
          }
      })"

definition DeleteOwnershipRecord ::
  "'w Client \<Rightarrow> string \<Rightarrow> string \<Rightarrow> string \<Rightarrow> ('w DNSService, unit res) io" where
  "DeleteOwnershipRecord c zoneID hostname pre = do {
     record \<leftarrow> FindRecordByName c zoneID (pre @ ''.'' @ hostname) ''TXT'';
     case record of
       Inl err \<Rightarrow> ret (Inl (wrapf ''failed to find ownership record'' err))
     | Inr None \<Rightarrow> ret (Inr ())
     | Inr (Some r) \<Rightarrow> DeleteRecord c zoneID (dr_ID r)
   }"

definition ResolveZone :: "'w Client \<Rightarrow> string \<Rightarrow> ('w DNSService, Zone option res) io" where
  "ResolveZone c zoneName = api (GetZoneByName c zoneName)"

section \<open>The cache as a keyed store\<close>

interpretation record_cache: keyed_store
  "\<lambda>c (z, n, t). cache_Get c z n t" "\<lambda>c (z, n, t) r. cache_Set c z n t r" "\<lambda>(z, n, t). cache_key z n t"
  by unfold_locales (auto simp: cache_Get_def cache_Set_def)

lemma cache_Get_Set_same [simp]: "cache_Get (cache_Set c z n t r) z n t = Some r"
  using record_cache.get_put_same [of c "(z, n, t)" r] by simp

section \<open>Running the primitives\<close>

lemma run_api [simp]:
  "run_state (api m) s = (fst (run_state m (svc_world s)),
                          s\<lparr>svc_world := snd (run_state m (svc_world s))\<rparr>)"
  by (simp add: api_def split: prod.splits)

lemma run_cache_lookup [simp]:
  "run_state (cache_lookup z n t) s =
     (case svc_cache s of None \<Rightarrow> None | Some c \<Rightarrow> cache_Get c z n t, s)"
  by (simp add: cache_lookup_def)

lemma run_cache_store [simp]:
  "run_state (cache_store z n t r) s =
     ((), s\<lparr>svc_cache := map_option (\<lambda>c. cache_Set c z n t r) (svc_cache s)\<rparr>)"
  by (simp add: cache_store_def)

definition cached :: "'w DNSService \<Rightarrow> string \<Rightarrow> string \<Rightarrow> string \<Rightarrow> DNSRecord option option" where
  "cached s z n t = (case svc_cache s of None \<Rightarrow> None | Some c \<Rightarrow> cache_Get c z n t)"

lemma FindRecordByName_hit:
  "cached s z n t = Some r \<Longrightarrow> run_state (FindRecordByName c z n t) s = (Inr r, s)"
  by (simp add: FindRecordByName_def cached_def)

lemma FindRecordByName_miss:
  assumes "cached s z n t = None"
  shows "run_state (FindRecordByName c z n t) s =
    (case run_state (ListDNSRecordsByNameType c z n t) (svc_world s) of
       (Inl err, w) \<Rightarrow> (Inl (wrapf ''failed to find DNS record'' err), s\<lparr>svc_world := w\<rparr>)
     | (Inr rs, w) \<Rightarrow>
         (let r = find (\<lambda>r. dr_Name r = n \<and> dr_Type r = t) rs in
          (Inr r, s\<lparr>svc_world := w,
                    svc_cache := map_option (\<lambda>c. cache_Set c z n t r) (svc_cache s)\<rparr>)))"
  using assms
  by (auto simp: FindRecordByName_def cached_def Let_def split: prod.splits sum.splits)

lemma FindRecordByName_caches:
  assumes "run_state (FindRecordByName c z n t) s = (Inr r, s')" "svc_cache s \<noteq> None"
  shows "cached s' z n t = Some r"
proof (cases "cached s z n t")
  case None
  with assms show ?thesis
    by (auto simp: FindRecordByName_miss cached_def Let_def split: prod.splits sum.splits)
next
  case (Some r')
  with assms show ?thesis by (auto simp: FindRecordByName_hit)
qed

section \<open>Ownership\<close>

lemma parse_part_other:
  "\<not> HasPrefix p ''cfgate/owner='' \<Longrightarrow> \<not> HasPrefix p ''cfgate/resource='' \<Longrightarrow> parse_part p m = m"
  by (simp add: parse_part_def)

lemma parse_part_owner:
  "parse_part (''cfgate/owner='' @ x) m = m\<lparr>omd_OwnerID := x\<rparr>"
  by (simp add: parse_part_def TrimPrefix_def HasPrefix_def)

lemma parse_part_resource:
  "parse_part (''cfgate/resource='' @ x) m = m\<lparr>omd_Resource := x\<rparr>"
  by (simp add: parse_part_def TrimPrefix_def HasPrefix_def)

lemma Split_ownership_content:
  assumes "CHR '','' \<notin> List.set ownerID" "CHR '','' \<notin> List.set resource"
  shows "Split (''heritage=cfgate,cfgate/owner='' @ ownerID @ '',cfgate/resource='' @ resource)
           (CHR '','') =
         [''heritage=cfgate'', ''cfgate/owner='' @ ownerID, ''cfgate/resource='' @ resource]"
proof -
  have "Split ((''cfgate/owner='' @ ownerID) @ CHR '','' # (''cfgate/resource='' @ resource))
      (CHR '','') = (''cfgate/owner='' @ ownerID) # Split (''cfgate/resource='' @ resource) (CHR '','')"
    using assms(1) by (intro Split_append_sep) simp
  moreover have "Split (''cfgate/resource='' @ resource) (CHR '','') = [''cfgate/resource='' @ resource]"
    using assms(2) by (intro Split_no_sep) simp
  ultimately show ?thesis
    using Split_append_sep [of "CHR '',''" "''heritage=cfgate''"
        "(''cfgate/owner='' @ ownerID) @ CHR '','' # (''cfgate/resource='' @ resource)"]
    by simp
qed

lemma owned_TXT:
  "IsOwnedByCfgate (Some (BuildOwnershipTXTRecord h (ownerID @ sfx) rsc pre)) ownerID"
proof -
  have "Contains (''heritage=cfgate,'' @ (''cfgate/owner='' @ ownerID) @ sfx @ '',cfgate/resource='' @ rsc)
      (''cfgate/owner='' @ ownerID)"
    by (rule Contains_infix)
  then show ?thesis
    by (simp add: IsOwnedByCfgate_def BuildOwnershipTXTRecord_def HasPrefix_def)
qed

section \<open>The contract of the zone API\<close>

text \<open>
  What the service relies on in a client, with the zone contents \<open>zone w z\<close> as the abstract
  state: lookups do not change a zone and return its matching records; a successful create adds
  a record with the given data and a fresh identifier; a successful update replaces the record
  with that identifier; a successful delete removes it; a failed operation changes no zone.
\<close>

text \<open>TXT records have no proxy setting: the API is never sent one for them.\<close>

definition sendable :: "DNSRecord \<Rightarrow> bool" where
  "sendable d \<longleftrightarrow> (dr_Type d = ''TXT'' \<longrightarrow> \<not> dr_Proxied d)"

definition same_data :: "DNSRecord \<Rightarrow> DNSRecord \<Rightarrow> bool" where
  "same_data x d \<longleftrightarrow> dr_Type x = dr_Type d \<and> dr_Name x = dr_Name d \<and> recordsMatch x d"

text \<open>
  The abstract effect of a sync on the contents of a zone. \<open>sync_needed\<close> says when an existing
  record is rewritten; \<open>sync_zone\<close> relates the contents before, the reported record and
  modification flag, and the contents after.
\<close>

definition sync_needed :: "string \<Rightarrow> string \<Rightarrow> DNSRecord \<Rightarrow> DNSRecord \<Rightarrow> bool" where
  "sync_needed policy ownerID d e \<longleftrightarrow>
     IsOwnedByCfgate (Some e) ownerID \<and> \<not> recordsMatch e d \<and> policy \<noteq> PolicyCreateOnly"

definition sync_zone ::
  "string \<Rightarrow> string \<Rightarrow> DNSRecord \<Rightarrow> DNSRecord list \<Rightarrow> DNSRecord option \<Rightarrow> bool \<Rightarrow> DNSRecord list \<Rightarrow> bool" where
  "sync_zone policy ownerID d rs x m rs' \<longleftrightarrow>
     (case find (\<lambda>r. dr_Name r = dr_Name d \<and> dr_Type r = dr_Type d) rs of
        None \<Rightarrow>
          (m \<and> (\<exists>y. x = Some y \<and> same_data y d \<and> dr_ID y \<notin> dr_ID ` List.set rs \<and> rs' = rs @ [y])) \<or>
          (\<not> m \<and> x = None \<and> rs' = rs)
      | Some e \<Rightarrow>
          if sync_needed policy ownerID d e
          then m \<and> (\<exists>y. x = Some y \<and> same_data y d \<and> dr_ID y = dr_ID e \<and>
                 rs' = map (\<lambda>q. if dr_ID q = dr_ID e then y else q) rs)
          else \<not> m \<and> x = Some e \<and> rs' = rs)"

lemma find_append_None: "find P xs = None \<Longrightarrow> find P (xs @ ys) = find P ys"
  by (induction xs) auto

lemma find_replaced:
  assumes "find P rs = Some e" "P y"
  shows "find P (map (\<lambda>q. if dr_ID q = dr_ID e then y else q) rs) = Some y"
  using assms by (induction rs) (auto split: if_splits)

text \<open>After a sync that reports a record, the contents need no further change.\<close>

lemma sync_zone_stable:
  assumes "sync_zone policy ownerID d rs (Some x) m rs'"
  shows "\<exists>e. find (\<lambda>r. dr_Name r = dr_Name d \<and> dr_Type r = dr_Type d) rs' = Some e \<and>
     \<not> sync_needed policy ownerID d e \<and> (m \<longrightarrow> same_data e d)"
proof (cases "find (\<lambda>r. dr_Name r = dr_Name d \<and> dr_Type r = dr_Type d) rs")
  case None
  with assms have "same_data x d" "rs' = rs @ [x]" by (auto simp: sync_zone_def)
  then show ?thesis using None
    by (auto simp: find_append_None same_data_def sync_needed_def)
next
  case (Some e)
  show ?thesis
  proof (cases "sync_needed policy ownerID d e")
    case True
    with assms Some have "same_data x d"
        "rs' = map (\<lambda>q. if dr_ID q = dr_ID e then x else q) rs" by (auto simp: sync_zone_def)
    with find_replaced [OF Some, of x] show ?thesis
      by (auto simp: same_data_def sync_needed_def)
  next
    case False
    with assms Some show ?thesis by (auto simp: sync_zone_def)
  qed
qed

locale dns_zone_api =
  fixes c :: "'w Client"
    and zone :: "'w \<Rightarrow> string \<Rightarrow> DNSRecord list"
  assumes list_by: "run_state (ListDNSRecordsByNameType c z n t) w = (rl, w') \<Longrightarrow>
      zone w' = zone w \<and>
      (\<forall>rs. rl = Inr rs \<longrightarrow> rs = filter (\<lambda>x. dr_Name x = n \<and> dr_Type x = t) (zone w z))"
    and list_all: "run_state (ListDNSRecords c z) w = (ra, w') \<Longrightarrow>
      zone w' = zone w \<and> (\<forall>rs. ra = Inr rs \<longrightarrow> rs = zone w z)"
    and create: "sendable d \<Longrightarrow> run_state (CreateDNSRecord c z d) w = (rc, w') \<Longrightarrow>
      (case rc of Inl e \<Rightarrow> zone w' = zone w
       | Inr x \<Rightarrow> same_data x d \<and> dr_ID x \<notin> dr_ID ` List.set (zone w z) \<and>
                  zone w' = (zone w)(z := zone w z @ [x]))"
    and update: "sendable d \<Longrightarrow> run_state (UpdateDNSRecord c z i d) w = (ru, w') \<Longrightarrow>
      (case ru of Inl e \<Rightarrow> zone w' = zone w
       | Inr x \<Rightarrow> same_data x d \<and> dr_ID x = i \<and>
                  zone w' = (zone w)(z := map (\<lambda>y. if dr_ID y = i then x else y) (zone w z)))"
    and delete: "run_state (DeleteDNSRecord c z i) w = (rd, w') \<Longrightarrow>
      (case rd of Inl e \<Rightarrow> zone w' = zone w
       | Inr u \<Rightarrow> zone w' = (zone w)(z := filter (\<lambda>y. dr_ID y \<noteq> i) (zone w z)))"
begin

text \<open>The record of a zone that a lookup by name and type finds.\<close>

definition lookup_zone :: "'w \<Rightarrow> string \<Rightarrow> string \<Rightarrow> string \<Rightarrow> DNSRecord option" where
  "lookup_zone w z n t = find (\<lambda>r. dr_Name r = n \<and> dr_Type r = t) (zone w z)"

lemma find_filter_same: "find P (filter P xs) = find P xs"
  by (induction xs) auto

lemma FindRecordByName_fresh:
  assumes "cached s z n t = None" "run_state (FindRecordByName c z n t) s = (r, s')"
  shows "zone (svc_world s') = zone (svc_world s) \<and>
    (\<forall>x. r = Inr x \<longrightarrow> x = lookup_zone (svc_world s) z n t)"
proof -
  obtain q w' where q: "run_state (ListDNSRecordsByNameType c z n t) (svc_world s) = (q, w')"
    by (cases "run_state (ListDNSRecordsByNameType c z n t) (svc_world s)")
  from list_by [OF q] assms q show ?thesis
    by (cases q) (auto simp: FindRecordByName_miss Let_def lookup_zone_def find_filter_same)
qed

lemma updateRecord_zone:
  assumes ok: "sendable d" and "run_state (updateRecord c z i d) s = (r, s')"
  shows "case r of Inl e \<Rightarrow> zone (svc_world s') = zone (svc_world s)
    | Inr (x, m) \<Rightarrow> m \<and> (\<exists>y. x = Some y \<and> same_data y d \<and> dr_ID y = i \<and>
        zone (svc_world s') = (zone (svc_world s))(z :=
          map (\<lambda>q. if dr_ID q = i then y else q) (zone (svc_world s) z)))"
proof -
  obtain q w' where q: "run_state (UpdateDNSRecord c z i d) (svc_world s) = (q, w')"
    by (cases "run_state (UpdateDNSRecord c z i d) (svc_world s)")
  from update [OF ok q] assms(2) q show ?thesis
    by (cases q) (auto simp: updateRecord_def)
qed

lemma createRecord_cases:
  assumes "run_state (createRecord c z d) s = (r, s')" and ok: "sendable d"
    and hit: "cached s z (dr_Name d) (dr_Type d) = None \<or>
              cached s z (dr_Name d) (dr_Type d) = Some None"
    and none: "lookup_zone (svc_world s) z (dr_Name d) (dr_Type d) = None"
  shows "case r of Inl e \<Rightarrow> zone (svc_world s') = zone (svc_world s)
    | Inr (x, m) \<Rightarrow>
        (m \<and> (\<exists>y. x = Some y \<and> same_data y d \<and> dr_ID y \<notin> dr_ID ` List.set (zone (svc_world s) z) \<and>
           zone (svc_world s') = (zone (svc_world s))(z := zone (svc_world s) z @ [y]))) \<or>
        (\<not> m \<and> x = None \<and> zone (svc_world s') = zone (svc_world s))"
proof -
  obtain q w where q: "run_state (CreateDNSRecord c z d) (svc_world s) = (q, w)"
    by (cases "run_state (CreateDNSRecord c z d) (svc_world s)")
  show ?thesis
  proof (cases q)
    case (Inr y)
    with create [OF ok q] assms(1) q show ?thesis by (auto simp: createRecord_def)
  next
    case (Inl err)
    have zw: "zone w = zone (svc_world s)" using create [OF ok q] Inl by simp
    show ?thesis
    proof (cases "IsDuplicateRecordError err")
      case False
      with Inl zw assms(1) q show ?thesis by (auto simp: createRecord_def)
    next
      case True
      let ?s = "s\<lparr>svc_world := w\<rparr>"
      obtain f s2 where f: "run_state (FindRecordByName c z (dr_Name d) (dr_Type d)) ?s = (f, s2)"
        by (cases "run_state (FindRecordByName c z (dr_Name d) (dr_Type d)) ?s")
      have "zone (svc_world s2) = zone w \<and> (\<forall>x. f = Inr x \<longrightarrow> x = None)"
      proof (cases "cached s z (dr_Name d) (dr_Type d)")
        case None
        then have "cached ?s z (dr_Name d) (dr_Type d) = None" by (simp add: cached_def)
        from FindRecordByName_fresh [OF this f] none zw show ?thesis
          by (simp add: lookup_zone_def)
      next
        case (Some x)
        with hit have "cached ?s z (dr_Name d) (dr_Type d) = Some None" by (simp add: cached_def)
        with f show ?thesis by (auto simp: FindRecordByName_hit)
      qed
      with True Inl zw f assms(1) q show ?thesis
        by (cases f) (auto simp: createRecord_def)
    qed
  qed
qed

lemma FindRecordByName_world_only:
  assumes "cached s z n t = None" "run_state (FindRecordByName c z n t) s = (Inr x, s')"
  shows "cached s' z n t = None \<or> cached s' z n t = Some x"
  using FindRecordByName_caches [OF assms(2)] assms
  by (cases "svc_cache s")
     (auto simp: FindRecordByName_miss cached_def Let_def split: prod.splits sum.splits)

lemma SyncRecordWithPolicy_zone:
  assumes "cached s z (dr_Name d) (dr_Type d) = None" and ok: "sendable d"
    and run: "run_state (SyncRecordWithPolicy c z d ownerID policy) s = (r, s')"
  shows "(\<forall>z'. z' \<noteq> z \<longrightarrow> zone (svc_world s') z' = zone (svc_world s) z') \<and>
    (case r of Inl e \<Rightarrow> zone (svc_world s') z = zone (svc_world s) z
     | Inr (x, m) \<Rightarrow> sync_zone policy ownerID d (zone (svc_world s) z) x m (zone (svc_world s') z))"
proof -
  let ?find = "FindRecordByName c z (dr_Name d) (dr_Type d)"
  obtain f s1 where f: "run_state ?find s = (f, s1)" by (cases "run_state ?find s")
  have z1: "zone (svc_world s1) = zone (svc_world s)"
      and fx: "\<And>x. f = Inr x \<Longrightarrow> x = lookup_zone (svc_world s) z (dr_Name d) (dr_Type d)"
    using FindRecordByName_fresh [OF assms(1) f] by auto
  show ?thesis
  proof (cases f)
    case (Inl e)
    with f run z1 show ?thesis by (auto simp: SyncRecordWithPolicy_def)
  next
    case (Inr ex)
    note ex = fx [OF Inr]
    show ?thesis
    proof (cases ex)
      case None
      have run': "run_state (createRecord c z d) s1 = (r, s')"
        using run f Inr None by (simp add: SyncRecordWithPolicy_def AllowsCreate_def)
      have "cached s1 z (dr_Name d) (dr_Type d) = None \<or>
            cached s1 z (dr_Name d) (dr_Type d) = Some None"
        using FindRecordByName_world_only [OF assms(1), of ex s1] f Inr None by simp
      moreover have "lookup_zone (svc_world s1) z (dr_Name d) (dr_Type d) = None"
        using ex None z1 by (simp add: lookup_zone_def)
      ultimately show ?thesis
        using createRecord_cases [OF run' ok] ex None z1
        by (auto simp: sync_zone_def lookup_zone_def split: sum.splits prod.splits)
    next
      case (Some e)
      have found: "find (\<lambda>r. dr_Name r = dr_Name d \<and> dr_Type r = dr_Type d) (zone (svc_world s) z) =
          Some e"
        using ex Some by (simp add: lookup_zone_def)
      show ?thesis
      proof (cases "sync_needed policy ownerID d e")
        case True
        then have "run_state (updateRecord c z (dr_ID e) d) s1 = (r, s')"
          using run f Inr Some
          by (simp add: SyncRecordWithPolicy_def sync_needed_def AllowsUpdate_def)
        from updateRecord_zone [OF ok this] found True z1 show ?thesis
          by (auto simp: sync_zone_def split: sum.splits prod.splits)
      next
        case False
        then have "r = Inr (Some e, False) \<and> s' = s1"
          using run f Inr Some
          by (auto simp: SyncRecordWithPolicy_def sync_needed_def AllowsUpdate_def split: if_splits)
        with found False z1 show ?thesis by (simp add: sync_zone_def)
      qed
    qed
  qed
qed

lemma SyncRecordWithPolicy_stable:
  assumes "cached s z (dr_Name d) (dr_Type d) = None" and ok: "sendable d"
    and run: "run_state (SyncRecordWithPolicy c z d ownerID policy) s = (r, s')"
    and e: "lookup_zone (svc_world s) z (dr_Name d) (dr_Type d) = Some e"
    and no: "\<not> sync_needed policy ownerID d e"
  shows "zone (svc_world s') = zone (svc_world s) \<and> (\<forall>x m. r = Inr (x, m) \<longrightarrow> x = Some e \<and> \<not> m)"
proof -
  have "\<forall>z'. zone (svc_world s') z' = zone (svc_world s) z'"
      "\<forall>x m. r = Inr (x, m) \<longrightarrow> x = Some e \<and> \<not> m"
    using SyncRecordWithPolicy_zone [OF assms(1) ok run] e no
    by (auto simp: sync_zone_def lookup_zone_def split: sum.splits)
  then show ?thesis by auto
qed

end

section \<open>Properties\<close>

text \<open>C8: Lifecycle policies restrict the calls that are made. Syncing a record never depends on
  (so never calls) the delete operation of the client, whatever the policy; under the
  create-only policy it never calls the update operation either; and a delete under any policy
  but sync returns success without touching the service or the world.\<close>

theorem policy_restricts_calls:
  "SyncRecordWithPolicy (c\<lparr>DeleteDNSRecord := del\<rparr>) z d ownerID policy =
     SyncRecordWithPolicy c z d ownerID policy \<and>
   SyncRecordWithPolicy (c\<lparr>UpdateDNSRecord := upd\<rparr>) z d ownerID ''create-only'' =
     SyncRecordWithPolicy c z d ownerID ''create-only'' \<and>
   DeleteRecordWithPolicy (c\<lparr>DeleteDNSRecord := del\<rparr>) z i ''upsert-only'' = ret (Inr ()) \<and>
   DeleteRecordWithPolicy (c\<lparr>DeleteDNSRecord := del\<rparr>) z i ''create-only'' = ret (Inr ())"
proof -
  have f: "FindRecordByName (c\<lparr>DeleteDNSRecord := del\<rparr>) = FindRecordByName c"
      "FindRecordByName (c\<lparr>UpdateDNSRecord := upd\<rparr>) = FindRecordByName c"
    by (simp_all add: FindRecordByName_def fun_eq_iff cong: option.case_cong)
  have cr: "createRecord (c\<lparr>DeleteDNSRecord := del\<rparr>) = createRecord c"
      "createRecord (c\<lparr>UpdateDNSRecord := upd\<rparr>) = createRecord c"
    by (simp_all add: createRecord_def f fun_eq_iff cong: sum.case_cong if_cong)
  have up: "updateRecord (c\<lparr>DeleteDNSRecord := del\<rparr>) = updateRecord c"
    by (simp add: updateRecord_def fun_eq_iff)
  show ?thesis
    by (simp add: SyncRecordWithPolicy_def f cr up AllowsUpdate_def PolicyCreateOnly_def
        DeleteRecordWithPolicy_def AllowsDelete_def PolicySync_def
        cong: option.case_cong sum.case_cong if_cong)
qed

text \<open>A record that exists but is not owned is never written: the sync returns it with
  modified = false, and the state of service and world is the one the lookup left.\<close>

theorem unowned_record_untouched:
  assumes "run_state (FindRecordByName c z (dr_Name d) (dr_Type d)) s = (Inr (Some e), s')"
    and "\<not> IsOwnedByCfgate (Some e) ownerID"
  shows "run_state (SyncRecordWithPolicy c z d ownerID policy) s = (Inr (Some e, False), s') \<and>
         run_state (SyncRecord c z d ownerID) s = (Inr (Some e, False), s')"
  using assms by (simp add: SyncRecordWithPolicy_def SyncRecord_def)

text \<open>A client whose zone holds one foreign record, for the witness.\<close>

definition foreign_record :: DNSRecord where
  "foreign_record = (BuildCNAMERecord ''app.example.com'' ''other.example.net'' False 300 ''by hand'')
     \<lparr>dr_ID := ''r1''\<rparr>"

definition one_record_client :: "DNSRecord \<Rightarrow> unit Client" where
  "one_record_client r =
     \<lparr>GetTunnel = (\<lambda>_ _. ret (Inr None)), GetTunnelByName = (\<lambda>_ _. ret (Inr None)),
      CreateTunnel = (\<lambda>_ _. ret (Inl (errorf ''read only''))),
      DeleteTunnel = (\<lambda>_ _. ret (Inl (errorf ''read only''))),
      DeleteTunnelConnections = (\<lambda>_ _. ret (Inl (errorf ''read only''))),
      GetTunnelToken = (\<lambda>_ _. ret (Inl (errorf ''read only''))),
      UpdateTunnelConfiguration = (\<lambda>_ _ _. ret (Inl (errorf ''read only''))),
      ListDNSRecords = (\<lambda>_. ret (Inr [r])),
      ListDNSRecordsByNameType =
        (\<lambda>_ n t. ret (Inr (if dr_Name r = n \<and> dr_Type r = t then [r] else []))),
      CreateDNSRecord = (\<lambda>_ _. ret (Inl (errorf ''81053''))),
      UpdateDNSRecord = (\<lambda>_ _ _. ret (Inl (errorf ''read only''))),
      DeleteDNSRecord = (\<lambda>_ _. ret (Inl (errorf ''read only''))),
      ListZones = ret (Inr []), GetZoneByName = (\<lambda>_. ret (Inr None)),
      ValidateToken = (\<lambda>_. ret (Inr ())), ListAccounts = ret (Inr []),
      GetAccountByName = (\<lambda>_. ret (Inr None))\<rparr>"

theorem unowned_record_untouched_witness:
  "run_state (SyncRecordWithPolicy (one_record_client foreign_record) ''z''
      (BuildCNAMERecord ''app.example.com'' ''t.cfargotunnel.com'' True 1 ''managed by cfgate'')
      ''me'' ''sync'') (NewDNSService ()) = (Inr (Some foreign_record, False), NewDNSService ())"
proof -
  let ?d = "BuildCNAMERecord ''app.example.com'' ''t.cfargotunnel.com'' True 1 ''managed by cfgate''"
  have "run_state (FindRecordByName (one_record_client foreign_record) ''z'' (dr_Name ?d) (dr_Type ?d))
      (NewDNSService ()) = (Inr (Some foreign_record), NewDNSService ())"
    by (simp add: FindRecordByName_def Let_def one_record_client_def foreign_record_def BuildCNAMERecord_def
        NewDNSService_def)
  moreover have "\<not> IsOwnedByCfgate (Some foreign_record) ''me''"
    by (simp add: IsOwnedByCfgate_def foreign_record_def BuildCNAMERecord_def HasPrefix_def Contains_def)
  ultimately show ?thesis using unowned_record_untouched by blast
qed

text \<open>C28: The content of an ownership TXT record parses back to the owner and resource it was
  built from, for owner identifiers and resources without a comma.\<close>

theorem ownership_record_roundtrip:
  assumes "CHR '','' \<notin> List.set ownerID" "CHR '','' \<notin> List.set rsc"
  shows "ParseOwnershipRecord (dr_Content (BuildOwnershipTXTRecord h ownerID rsc pre)) =
    Inr \<lparr>omd_Heritage = ''cfgate'', omd_OwnerID = ownerID, omd_Resource = rsc\<rparr>"
proof -
  let ?m = "\<lparr>omd_Heritage = ''cfgate'', omd_OwnerID = '''', omd_Resource = ''''\<rparr>"
  have "fold parse_part
      [''heritage=cfgate'', ''cfgate/owner='' @ ownerID, ''cfgate/resource='' @ rsc] ?m =
      \<lparr>omd_Heritage = ''cfgate'', omd_OwnerID = ownerID, omd_Resource = rsc\<rparr>"
    by (simp add: parse_part_def HasPrefix_def TrimPrefix_def)
  then show ?thesis
    using Split_ownership_content [OF assms]
    by (simp add: ParseOwnershipRecord_def BuildOwnershipTXTRecord_def HasPrefix_def Let_def)
qed

theorem ownership_record_roundtrip_witness:
  "ParseOwnershipRecord (dr_Content (BuildOwnershipTXTRecord ''a.example.com'' ''prod/dns''
     ''CloudflareDNS/prod/dns'' ''_cfgate'')) =
    Inr \<lparr>omd_Heritage = ''cfgate'', omd_OwnerID = ''prod/dns'', omd_Resource = ''CloudflareDNS/prod/dns''\<rparr>"
  by (rule ownership_record_roundtrip) simp_all

text \<open>The ownership test recognises the TXT record written for an owner, but it tests for a
  substring: it also recognises the TXT record of every other owner whose identifier merely
  starts with the given one, and it attributes a record with a cfgate comment to every owner.\<close>

theorem ownership_test_overapproximates:
  "IsOwnedByCfgate (Some (BuildOwnershipTXTRecord h ownerID rsc pre)) ownerID \<and>
   IsOwnedByCfgate (Some (BuildOwnershipTXTRecord h (ownerID @ sfx) rsc pre)) ownerID \<and>
   IsOwnedByCfgate (Some (BuildCNAMERecord h ''t.cfargotunnel.com'' p ttl
      (''managed by cfgate, dns='' @ other))) ownerID"
proof (intro conjI)
  show "IsOwnedByCfgate (Some (BuildOwnershipTXTRecord h ownerID rsc pre)) ownerID"
    using owned_TXT [of h ownerID "[]" rsc pre] by simp
  show "IsOwnedByCfgate (Some (BuildOwnershipTXTRecord h (ownerID @ sfx) rsc pre)) ownerID"
    by (rule owned_TXT)
  have "Contains (''managed by cfgate'' @ '', dns='' @ other) ''managed by cfgate''"
    using Contains_infix [of "[]" "''managed by cfgate''" "'', dns='' @ other"] by simp
  then show "IsOwnedByCfgate (Some (BuildCNAMERecord h ''t.cfargotunnel.com'' p ttl
      (''managed by cfgate, dns='' @ other))) ownerID"
    by (simp add: IsOwnedByCfgate_def BuildCNAMERecord_def HasPrefix_def)
qed

text \<open>Within one reconcile a lookup is made at most once: after a successful lookup by a
  service that has a cache, looking the same record up again returns the same answer and changes
  nothing, for every client and whatever happened to the world in between.\<close>

theorem cached_lookup_stable:
  assumes "run_state (FindRecordByName c z n t) s = (Inr r, s')" "svc_cache s \<noteq> None"
  shows "run_state (FindRecordByName c' z n t) (s'\<lparr>svc_world := w\<rparr>) = (Inr r, s'\<lparr>svc_world := w\<rparr>)"
proof -
  have "cached (s'\<lparr>svc_world := w\<rparr>) z n t = Some r"
    using FindRecordByName_caches [OF assms] by (simp add: cached_def)
  then show ?thesis by (rule FindRecordByName_hit)
qed

theorem cached_lookup_stable_witness:
  "let s = WithCache (NewDNSService ()) NewDNSRecordCache;
       s' = snd (run_state (FindRecordByName (one_record_client foreign_record) ''z''
                   ''app.example.com'' ''CNAME'') s)
   in run_state (FindRecordByName (one_record_client (foreign_record\<lparr>dr_ID := ''r2''\<rparr>)) ''z''
        ''app.example.com'' ''CNAME'') s' = (Inr (Some foreign_record), s')"
proof -
  let ?s = "WithCache (NewDNSService ()) NewDNSRecordCache"
  let ?c = "one_record_client foreign_record"
  let ?r = "run_state (FindRecordByName ?c ''z'' ''app.example.com'' ''CNAME'') ?s"
  have "?r = (Inr (Some foreign_record), snd ?r)"
    by (simp add: FindRecordByName_def Let_def one_record_client_def foreign_record_def BuildCNAMERecord_def
        NewDNSService_def WithCache_def NewDNSRecordCache_def cache_Get_def)
  moreover have "svc_cache ?s \<noteq> None" by (simp add: WithCache_def)
  ultimately have "run_state (FindRecordByName (one_record_client (foreign_record\<lparr>dr_ID := ''r2''\<rparr>))
      ''z'' ''app.example.com'' ''CNAME'') ((snd ?r)\<lparr>svc_world := svc_world (snd ?r)\<rparr>) =
      (Inr (Some foreign_record), (snd ?r)\<lparr>svc_world := svc_world (snd ?r)\<rparr>)"
    by (rule cached_lookup_stable)
  moreover have "x\<lparr>svc_world := ()\<rparr> = x" for x :: "unit DNSService" by (cases x) simp
  ultimately show ?thesis by (simp add: Let_def)
qed

text \<open>When the lookup found no record and the creation is refused as a duplicate (for example
  because the host already has an address record, code 81053), a service with a cache answers the
  second lookup from the cache: the sync reports success without a record.\<close>

theorem duplicate_create_reports_no_record:
  assumes "run_state (FindRecordByName c z (dr_Name d) (dr_Type d)) s = (Inr None, s')"
    and "svc_cache s \<noteq> None"
    and "run_state (CreateDNSRecord c z d) (svc_world s') = (Inl err, w)"
    and "IsDuplicateRecordError err"
  shows "run_state (SyncRecordWithPolicy c z d ownerID policy) s = (Inr (None, False), s'\<lparr>svc_world := w\<rparr>)"
proof -
  have "cached (s'\<lparr>svc_world := w\<rparr>) z (dr_Name d) (dr_Type d) = Some None"
    using FindRecordByName_caches [OF assms(1,2)] by (simp add: cached_def)
  from FindRecordByName_hit [OF this] assms show ?thesis
    by (simp add: SyncRecordWithPolicy_def createRecord_def AllowsCreate_def)
qed

theorem duplicate_create_reports_no_record_witness:
  "fst (run_state (SyncRecordWithPolicy (one_record_client (foreign_record\<lparr>dr_Type := ''A''\<rparr>)) ''z''
      (BuildCNAMERecord ''app.example.com'' ''t.cfargotunnel.com'' True 1 ''managed by cfgate'')
      ''me'' ''sync'') (WithCache (NewDNSService ()) NewDNSRecordCache)) = Inr (None, False)"
proof -
  let ?c = "one_record_client (foreign_record\<lparr>dr_Type := ''A''\<rparr>)"
  let ?s = "WithCache (NewDNSService ()) NewDNSRecordCache"
  let ?d = "BuildCNAMERecord ''app.example.com'' ''t.cfargotunnel.com'' True 1 ''managed by cfgate''"
  let ?r = "run_state (FindRecordByName ?c ''z'' (dr_Name ?d) (dr_Type ?d)) ?s"
  have 1: "?r = (Inr None, snd ?r)"
    by (simp add: FindRecordByName_def Let_def one_record_client_def foreign_record_def BuildCNAMERecord_def
        NewDNSService_def WithCache_def NewDNSRecordCache_def cache_Get_def)
  have 2: "run_state (CreateDNSRecord ?c ''z'' ?d) (svc_world (snd ?r)) = (Inl (errorf ''81053''), ())"
    by (simp add: one_record_client_def)
  have "IsDuplicateRecordError (errorf ''81053'')"
    by (simp add: IsDuplicateRecordError_def errorf_def)
  with duplicate_create_reports_no_record [OF 1 _ 2] show ?thesis by (simp add: WithCache_def)
qed

end
