(* ===== verification/Client_Impl.thy ===== *)
theory Client_Impl
  imports Dns_Service
begin

text \<open>
  The implementation of the client interface on the Cloudflare SDK: the tunnel, DNS, zone, account
  and token operations of internal/cloudflare/client_impl.go. The SDK (cloudflare-go) is a
  parameter, the record \<open>Sdk\<close> of its operations; a paginated listing is the list of items the
  pager yields together with the error it ends with, if any. The locale \<open>sdk_dns\<close> states what
  the DNS part of the API promises, and the client is proved to provide the contract the DNS
  service relies on. An in-memory zone server shows that the promises can be kept.
\<close>

section \<open>The SDK\<close>

text \<open>The fields of the SDK's responses that the client reads. TTLs are floating point numbers in
  the SDK; the values are whole numbers far below the precision of the type.\<close>

record SdkRecord =
  sd_ID :: string
  sd_Type :: string
  sd_Name :: string
  sd_Content :: string
  sd_TTL :: int
  sd_Proxied :: bool
  sd_Comment :: string

datatype SdkBody =
    CNAMERecordParam string string int bool string
  | TXTRecordParam string string int string
  | ARecordParam string string int bool string

record SdkTunnel =
  st_ID :: string
  st_Name :: string
  st_Status :: string
  st_AccountTag :: string
  st_CreatedAt :: string

record SdkZone =
  sz_ID :: string
  sz_Name :: string
  sz_Status :: string
  sz_AccountID :: string

datatype ConfigSrc = ConfigSrcCloudflare | ConfigSrcLocal

text \<open>Optional parameters of an origin request; None is a parameter that is not sent.\<close>

record SdkOriginRequest =
  so_ConnectTimeout :: "int option"
  so_NoHappyEyeballs :: "bool option"
  so_KeepAliveConnections :: "int option"
  so_HTTPHostHeader :: "string option"
  so_OriginServerName :: "string option"
  so_CAPool :: "string option"
  so_NoTLSVerify :: "bool option"
  so_DisableChunkedEncoding :: "bool option"
  so_HTTP2Origin :: "bool option"

record SdkIngress =
  si_Hostname :: string
  si_Path :: string
  si_Service :: string
  si_OriginRequest :: "SdkOriginRequest option"

record SdkTunnelConfig =
  sc_Ingress :: "SdkIngress list"
  sc_OriginRequest :: "SdkOriginRequest option"

record 'w Sdk =
  TunnelsGet :: "string \<Rightarrow> string \<Rightarrow> ('w, SdkTunnel option res) io"
  TunnelsList :: "string \<Rightarrow> string option \<Rightarrow> ('w, SdkTunnel list res) io"
  TunnelsNew :: "string \<Rightarrow> string \<Rightarrow> string \<Rightarrow> ConfigSrc \<Rightarrow> ('w, SdkTunnel res) io"
  TunnelsDelete :: "string \<Rightarrow> string \<Rightarrow> ('w, unit res) io"
  ConnectionsDelete :: "string \<Rightarrow> string \<Rightarrow> ('w, unit res) io"
  TokenGet :: "string \<Rightarrow> string \<Rightarrow> ('w, string option res) io"
  ConfigurationsUpdate :: "string \<Rightarrow> string \<Rightarrow> SdkTunnelConfig \<Rightarrow> ('w, unit res) io"
  RecordsList :: "string \<Rightarrow> (string \<times> string) option \<Rightarrow> ('w, SdkRecord list \<times> go_error option) io"
  RecordsNew :: "string \<Rightarrow> SdkBody \<Rightarrow> ('w, SdkRecord res) io"
  RecordsUpdate :: "string \<Rightarrow> string \<Rightarrow> SdkBody \<Rightarrow> ('w, SdkRecord res) io"
  RecordsDelete :: "string \<Rightarrow> string \<Rightarrow> ('w, unit res) io"
  ZonesListAutoPaging :: "('w, SdkZone list \<times> go_error option) io"
  ZonesList :: "string \<Rightarrow> ('w, SdkZone list res) io"
  AccountsList :: "('w, (string \<times> string) list res) io"

definition not_found_text :: "go_error \<Rightarrow> bool" where
  "not_found_text err \<longleftrightarrow> Contains (err_msg err) ''not found'' \<or> Contains (err_msg err) ''404''"

section \<open>Conversions\<close>

definition tunnelFields :: "SdkTunnel \<Rightarrow> Tunnel" where
  "tunnelFields t = \<lparr>tn_ID = st_ID t, tn_Name = st_Name t, tn_Status = st_Status t,
     tn_AccountTag = st_AccountTag t, tn_CreatedAt = st_CreatedAt t\<rparr>"

definition tunnelFromAPI :: "SdkTunnel option \<Rightarrow> Tunnel option" where
  "tunnelFromAPI t = (case t of None \<Rightarrow> None | Some t \<Rightarrow> Some (tunnelFields t))"

definition recordFromAPI :: "string \<Rightarrow> SdkRecord \<Rightarrow> DNSRecord" where
  "recordFromAPI zoneID r = \<lparr>dr_ID = sd_ID r, dr_Type = sd_Type r, dr_Name = sd_Name r,
     dr_Content = sd_Content r, dr_TTL = sd_TTL r, dr_Proxied = sd_Proxied r,
     dr_Comment = sd_Comment r, dr_ZoneID = zoneID, dr_ZoneName = ''''\<rparr>"

definition zoneFromAPI :: "SdkZone \<Rightarrow> Zone" where
  "zoneFromAPI z = \<lparr>zn_ID = sz_ID z, zn_Name = sz_Name z, zn_Status = sz_Status z,
     zn_AccountID = sz_AccountID z\<rparr>"

definition ingressOriginRequestToAPI :: "OriginRequestConfig \<Rightarrow> SdkOriginRequest" where
  "ingressOriginRequestToAPI config =
     \<lparr>so_ConnectTimeout = (if or_ConnectTimeout config \<noteq> '''' then Some 30 else None),
      so_NoHappyEyeballs = (if or_NoHappyEyeballs config then Some True else None),
      so_KeepAliveConnections = (if or_KeepAliveConnections config > 0
                                 then Some (or_KeepAliveConnections config) else None),
      so_HTTPHostHeader = (if or_HTTPHostHeader config \<noteq> '''' then Some (or_HTTPHostHeader config)
                           else None),
      so_OriginServerName = (if or_OriginServerName config \<noteq> ''''
                             then Some (or_OriginServerName config) else None),
      so_CAPool = (if or_CAPool config \<noteq> '''' then Some (or_CAPool config) else None),
      so_NoTLSVerify = (if or_NoTLSVerify config then Some True else None),
      so_DisableChunkedEncoding = (if or_DisableChunkedEncoding config then Some True else None),
      so_HTTP2Origin = (if or_HTTP2Origin config then Some True else None)\<rparr>"

definition globalOriginRequestToAPI :: "OriginRequestConfig \<Rightarrow> SdkOriginRequest" where
  "globalOriginRequestToAPI config =
     \<lparr>so_ConnectTimeout = (if or_ConnectTimeout config \<noteq> '''' then Some 30 else None),
      so_NoHappyEyeballs = (if or_NoHappyEyeballs config then Some True else None),
      so_KeepAliveConnections = (if or_KeepAliveConnections config > 0
                                 then Some (or_KeepAliveConnections config) else None),
      so_HTTPHostHeader = (if or_HTTPHostHeader config \<noteq> '''' then Some (or_HTTPHostHeader config)
                           else None),
      so_OriginServerName = (if or_OriginServerName config \<noteq> ''''
                             then Some (or_OriginServerName config) else None),
      so_CAPool = (if or_CAPool config \<noteq> '''' then Some (or_CAPool config) else None),
      so_NoTLSVerify = (if or_NoTLSVerify config then Some True else None),
      so_DisableChunkedEncoding = (if or_DisableChunkedEncoding config then Some True else None),
      so_HTTP2Origin = (if or_HTTP2Origin config then Some True else None)\<rparr>"

definition generateTunnelSecret :: string where
  "generateTunnelSecret = ''Y2ZnYXRlLWdlbmVyYXRlZC1zZWNyZXQtdG9rZW4=''"

section \<open>Tunnel operations\<close>

definition ci_GetTunnel :: "'w Sdk \<Rightarrow> string \<Rightarrow> string \<Rightarrow> ('w, Tunnel option res) io" where
  "ci_GetTunnel sdk accountID tunnelID = do {
     r \<leftarrow> TunnelsGet sdk tunnelID accountID;
     case r of
       Inl err \<Rightarrow> if not_found_text err then ret (Inr None)
                  else ret (Inl (wrapf ''failed to get tunnel'' err))
     | Inr tunnel \<Rightarrow> ret (Inr (tunnelFromAPI tunnel))
   }"

definition ci_GetTunnelByName :: "'w Sdk \<Rightarrow> string \<Rightarrow> string \<Rightarrow> ('w, Tunnel option res) io" where
  "ci_GetTunnelByName sdk accountID name = do {
     r \<leftarrow> TunnelsList sdk accountID (Some name);
     case r of
       Inl err \<Rightarrow> ret (Inl (wrapf ''failed to list tunnels'' err))
     | Inr tunnels \<Rightarrow>
         ret (Inr (case find (\<lambda>t. st_Name t = name \<and> st_Status t \<noteq> ''deleted'') tunnels of
                     None \<Rightarrow> None
                   | Some t \<Rightarrow> Some \<lparr>tn_ID = st_ID t, tn_Name = st_Name t, tn_Status = st_Status t,
                                    tn_AccountTag = accountID, tn_CreatedAt = ''''\<rparr>))
   }"

definition ci_CreateTunnel :: "'w Sdk \<Rightarrow> string \<Rightarrow> CreateTunnelParams \<Rightarrow> ('w, Tunnel res) io" where
  "ci_CreateTunnel sdk accountID params =
     (let tunnelSecret = generateTunnelSecret;
          configSrc = (if tp_ConfigSrc params = ''local'' then ConfigSrcLocal else ConfigSrcCloudflare)
      in do {
        r \<leftarrow> TunnelsNew sdk accountID (tp_Name params) tunnelSecret configSrc;
        case r of
          Inl err \<Rightarrow> ret (Inl (wrapf ''failed to create tunnel'' err))
        | Inr tunnel \<Rightarrow> ret (Inr (tunnelFields tunnel))
      })"

definition ci_DeleteTunnel :: "'w Sdk \<Rightarrow> string \<Rightarrow> string \<Rightarrow> ('w, unit res) io" where
  "ci_DeleteTunnel sdk accountID tunnelID = do {
     r \<leftarrow> TunnelsDelete sdk tunnelID accountID;
     case r of
       Inl err \<Rightarrow> if not_found_text err then ret (Inr ())
                  else ret (Inl (wrapf ''failed to delete tunnel'' err))
     | Inr u \<Rightarrow> ret (Inr ())
   }"

definition ci_DeleteTunnelConnections :: "'w Sdk \<Rightarrow> string \<Rightarrow> string \<Rightarrow> ('w, unit res) io" where
  "ci_DeleteTunnelConnections sdk accountID tunnelID = do {
     r \<leftarrow> ConnectionsDelete sdk tunnelID accountID;
     case r of
       Inl err \<Rightarrow> if not_found_text err then ret (Inr ())
                  else ret (Inl (wrapf ''failed to delete tunnel connections'' err))
     | Inr u \<Rightarrow> ret (Inr ())
   }"

definition ci_GetTunnelToken :: "'w Sdk \<Rightarrow> string \<Rightarrow> string \<Rightarrow> ('w, string res) io" where
  "ci_GetTunnelToken sdk accountID tunnelID = do {
     r \<leftarrow> TokenGet sdk tunnelID accountID;
     case r of
       Inl err \<Rightarrow> ret (Inl (wrapf ''failed to get tunnel token'' err))
     | Inr None \<Rightarrow> ret (Inl (errorf ''token is nil''))
     | Inr (Some token) \<Rightarrow> ret (Inr token)
   }"

definition ci_ingress :: "IngressRule \<Rightarrow> SdkIngress" where
  "ci_ingress rule = \<lparr>si_Hostname = ir_Hostname rule, si_Path = ir_Path rule,
     si_Service = ir_Service rule,
     si_OriginRequest = map_option ingressOriginRequestToAPI (ir_OriginRequest rule)\<rparr>"

definition ci_UpdateTunnelConfiguration ::
  "'w Sdk \<Rightarrow> string \<Rightarrow> string \<Rightarrow> TunnelConfiguration \<Rightarrow> ('w, unit res) io" where
  "ci_UpdateTunnelConfiguration sdk accountID tunnelID config =
     (let cfConfig = \<lparr>sc_Ingress = map ci_ingress (tc_Ingress config),
                      sc_OriginRequest = map_option globalOriginRequestToAPI (tc_OriginRequest config)\<rparr>
      in do {
        r \<leftarrow> ConfigurationsUpdate sdk tunnelID accountID cfConfig;
        case r of
          Inl err \<Rightarrow> ret (Inl (wrapf ''failed to update tunnel configuration'' err))
        | Inr u \<Rightarrow> ret (Inr ())
      })"

section \<open>DNS operations\<close>

definition ci_ListDNSRecords :: "'w Sdk \<Rightarrow> string \<Rightarrow> ('w, DNSRecord list res) io" where
  "ci_ListDNSRecords sdk zoneID = do {
     page \<leftarrow> RecordsList sdk zoneID None;
     case page of
       (items, Some err) \<Rightarrow> ret (Inl (wrapf ''failed to list DNS records'' err))
     | (items, None) \<Rightarrow> ret (Inr (map (recordFromAPI zoneID) items))
   }"

definition ci_ListDNSRecordsByNameType ::
  "'w Sdk \<Rightarrow> string \<Rightarrow> string \<Rightarrow> string \<Rightarrow> ('w, DNSRecord list res) io" where
  "ci_ListDNSRecordsByNameType sdk zoneID name recordType = do {
     page \<leftarrow> RecordsList sdk zoneID (Some (name, recordType));
     case page of
       (items, Some err) \<Rightarrow> ret (Inl (wrapf ''failed to list DNS records by name and type'' err))
     | (items, None) \<Rightarrow> ret (Inr (map (recordFromAPI zoneID) items))
   }"

text \<open>The body of a create or update request; None is an unsupported record type.\<close>

definition record_body :: "DNSRecord \<Rightarrow> SdkBody option" where
  "record_body r =
     (if dr_Type r = ''CNAME'' then
        Some (CNAMERecordParam (dr_Name r) (dr_Content r) (dr_TTL r) (dr_Proxied r) (dr_Comment r))
      else if dr_Type r = ''TXT'' then
        Some (TXTRecordParam (dr_Name r) (dr_Content r) (dr_TTL r) (dr_Comment r))
      else if dr_Type r = ''A'' then
        Some (ARecordParam (dr_Name r) (dr_Content r) (dr_TTL r) (dr_Proxied r) (dr_Comment r))
      else None)"

definition ci_CreateDNSRecord :: "'w Sdk \<Rightarrow> string \<Rightarrow> DNSRecord \<Rightarrow> ('w, DNSRecord res) io" where
  "ci_CreateDNSRecord sdk zoneID rcd =
     (case record_body rcd of
        None \<Rightarrow> ret (Inl (errorf (''unsupported record type: '' @ dr_Type rcd)))
      | Some body \<Rightarrow> do {
          r \<leftarrow> RecordsNew sdk zoneID body;
          case r of
            Inl err \<Rightarrow> ret (Inl (wrapf ''failed to create DNS record'' err))
          | Inr result \<Rightarrow> ret (Inr (recordFromAPI zoneID result))
        })"

definition ci_UpdateDNSRecord ::
  "'w Sdk \<Rightarrow> string \<Rightarrow> string \<Rightarrow> DNSRecord \<Rightarrow> ('w, DNSRecord res) io" where
  "ci_UpdateDNSRecord sdk zoneID recordID rcd =
     (case record_body rcd of
        None \<Rightarrow> ret (Inl (errorf (''unsupported record type: '' @ dr_Type rcd)))
      | Some body \<Rightarrow> do {
          r \<leftarrow> RecordsUpdate sdk recordID zoneID body;
          case r of
            Inl err \<Rightarrow> ret (Inl (wrapf ''failed to update DNS record'' err))
          | Inr result \<Rightarrow> ret (Inr (recordFromAPI zoneID result))
        })"

definition ci_DeleteDNSRecord :: "'w Sdk \<Rightarrow> string \<Rightarrow> string \<Rightarrow> ('w, unit res) io" where
  "ci_DeleteDNSRecord sdk zoneID recordID = do {
     r \<leftarrow> RecordsDelete sdk recordID zoneID;
     case r of
       Inl err \<Rightarrow> if not_found_text err then ret (Inr ())
                  else ret (Inl (wrapf ''failed to delete DNS record'' err))
     | Inr u \<Rightarrow> ret (Inr ())
   }"

section \<open>Zones, token validation, accounts\<close>

definition ci_ListZones :: "'w Sdk \<Rightarrow> ('w, Zone list res) io" where
  "ci_ListZones sdk = do {
     page \<leftarrow> ZonesListAutoPaging sdk;
     case page of
       (items, Some err) \<Rightarrow> ret (Inl (wrapf ''failed to list zones'' err))
     | (items, None) \<Rightarrow> ret (Inr (map zoneFromAPI items))
   }"

definition ci_GetZoneByName :: "'w Sdk \<Rightarrow> string \<Rightarrow> ('w, Zone option res) io" where
  "ci_GetZoneByName sdk name = do {
     r \<leftarrow> ZonesList sdk name;
     case r of
       Inl err \<Rightarrow> ret (Inl (wrapf ''failed to list zones'' err))
     | Inr zones \<Rightarrow> ret (Inr (map_option zoneFromAPI (find (\<lambda>z. sz_Name z = name) zones)))
   }"

definition ci_ValidateToken :: "'w Sdk \<Rightarrow> string \<Rightarrow> ('w, unit res) io" where
  "ci_ValidateToken sdk accountID = do {
     zones \<leftarrow> ci_ListZones sdk;
     case zones of
       Inl err \<Rightarrow> ret (Inl (wrapf ''token validation failed (zone access)'' err))
     | Inr zs \<Rightarrow>
         if length zs = 0
         then ret (Inl (errorf ''token has no zone access - DNS operations will fail''))
         else do {
           r \<leftarrow> TunnelsList sdk accountID None;
           case r of
             Inl err \<Rightarrow> ret (Inl (wrapf ''token validation failed (tunnel access)'' err))
           | Inr ts \<Rightarrow> ret (Inr ())
         }
   }"

definition ci_ListAccounts :: "'w Sdk \<Rightarrow> ('w, Account list res) io" where
  "ci_ListAccounts sdk = do {
     resp \<leftarrow> AccountsList sdk;
     case resp of
       Inl err \<Rightarrow> ret (Inl (wrapf ''failed to list accounts'' err))
     | Inr accs \<Rightarrow> ret (Inr (map (\<lambda>(i, n). \<lparr>acc_ID = i, acc_Name = n\<rparr>) accs))
   }"

definition ci_GetAccountByName :: "'w Sdk \<Rightarrow> string \<Rightarrow> ('w, Account option res) io" where
  "ci_GetAccountByName sdk name = do {
     accounts \<leftarrow> ci_ListAccounts sdk;
     case accounts of
       Inl err \<Rightarrow> ret (Inl err)
     | Inr accs \<Rightarrow> ret (Inr (find (\<lambda>a. acc_Name a = name) accs))
   }"

definition clientImpl :: "'w Sdk \<Rightarrow> 'w Client" where
  "clientImpl sdk =
     \<lparr>GetTunnel = ci_GetTunnel sdk, GetTunnelByName = ci_GetTunnelByName sdk,
      CreateTunnel = ci_CreateTunnel sdk, DeleteTunnel = ci_DeleteTunnel sdk,
      DeleteTunnelConnections = ci_DeleteTunnelConnections sdk,
      GetTunnelToken = ci_GetTunnelToken sdk,
      UpdateTunnelConfiguration = ci_UpdateTunnelConfiguration sdk,
      ListDNSRecords = ci_ListDNSRecords sdk,
      ListDNSRecordsByNameType = ci_ListDNSRecordsByNameType sdk,
      CreateDNSRecord = ci_CreateDNSRecord sdk, UpdateDNSRecord = ci_UpdateDNSRecord sdk,
      DeleteDNSRecord = ci_DeleteDNSRecord sdk, ListZones = ci_ListZones sdk,
      GetZoneByName = ci_GetZoneByName sdk, ValidateToken = ci_ValidateToken sdk,
      ListAccounts = ci_ListAccounts sdk, GetAccountByName = ci_GetAccountByName sdk\<rparr>"

text \<open>\<open>NewClient\<close>; \<open>cfNewClient\<close> is the SDK's constructor, applied to the token.\<close>

definition NewClient :: "(string \<Rightarrow> 'w Sdk) \<Rightarrow> string \<Rightarrow> 'w Client res" where
  "NewClient cfNewClient apiToken =
     (if apiToken = '''' then Inl (errorf ''API token is required'')
      else Inr (clientImpl (cfNewClient apiToken)))"

section \<open>What the DNS API promises\<close>

text \<open>The stored record has the data of the request body.\<close>

fun has_body :: "SdkRecord \<Rightarrow> SdkBody \<Rightarrow> bool" where
  "has_body x (CNAMERecordParam n ct ttl p cm) =
     (sd_Type x = ''CNAME'' \<and> sd_Name x = n \<and> sd_Content x = ct \<and> sd_TTL x = ttl \<and>
      sd_Proxied x = p \<and> sd_Comment x = cm)"
| "has_body x (TXTRecordParam n ct ttl cm) =
     (sd_Type x = ''TXT'' \<and> sd_Name x = n \<and> sd_Content x = ct \<and> sd_TTL x = ttl \<and>
      \<not> sd_Proxied x \<and> sd_Comment x = cm)"
| "has_body x (ARecordParam n ct ttl p cm) =
     (sd_Type x = ''A'' \<and> sd_Name x = n \<and> sd_Content x = ct \<and> sd_TTL x = ttl \<and>
      sd_Proxied x = p \<and> sd_Comment x = cm)"

definition query_matches :: "(string \<times> string) option \<Rightarrow> SdkRecord \<Rightarrow> bool" where
  "query_matches q r = (case q of None \<Rightarrow> True | Some (n, t) \<Rightarrow> sd_Name r = n \<and> sd_Type r = t)"

lemma query_matches_simps [simp]:
  "query_matches None = (\<lambda>r. True)"
  "query_matches (Some (n, t)) = (\<lambda>r. sd_Name r = n \<and> sd_Type r = t)"
  by (simp_all add: fun_eq_iff query_matches_def)

locale sdk_dns =
  fixes sdk :: "'w Sdk"
    and store :: "'w \<Rightarrow> string \<Rightarrow> SdkRecord list"
  assumes sdk_list: "run_state (RecordsList sdk z q) w = ((rs, err), w') \<Longrightarrow>
      store w' = store w \<and> (err = None \<longrightarrow> rs = filter (query_matches q) (store w z))"
    and sdk_new: "run_state (RecordsNew sdk z b) w = (r, w') \<Longrightarrow>
      (case r of Inl e \<Rightarrow> store w' = store w
       | Inr x \<Rightarrow> has_body x b \<and> sd_ID x \<notin> sd_ID ` List.set (store w z) \<and>
                  store w' = (store w)(z := store w z @ [x]))"
    and sdk_update: "run_state (RecordsUpdate sdk i z b) w = (r, w') \<Longrightarrow>
      (case r of Inl e \<Rightarrow> store w' = store w
       | Inr x \<Rightarrow> has_body x b \<and> sd_ID x = i \<and>
                  store w' = (store w)(z := map (\<lambda>y. if sd_ID y = i then x else y) (store w z)))"
    and sdk_delete: "run_state (RecordsDelete sdk i z) w = (rd, w') \<Longrightarrow>
      (case rd of Inl e \<Rightarrow> store w' = store w \<and>
                           (not_found_text e \<longrightarrow> i \<notin> sd_ID ` List.set (store w z))
       | Inr u \<Rightarrow> store w' = (store w)(z := filter (\<lambda>y. sd_ID y \<noteq> i) (store w z)))"

text \<open>The zone contents as the client presents them.\<close>

definition client_zone :: "('w \<Rightarrow> string \<Rightarrow> SdkRecord list) \<Rightarrow> 'w \<Rightarrow> string \<Rightarrow> DNSRecord list" where
  "client_zone store w z = map (recordFromAPI z) (store w z)"

lemma recordFromAPI_simps [simp]:
  "dr_ID (recordFromAPI z r) = sd_ID r" "dr_Type (recordFromAPI z r) = sd_Type r"
  "dr_Name (recordFromAPI z r) = sd_Name r" "dr_Content (recordFromAPI z r) = sd_Content r"
  "dr_TTL (recordFromAPI z r) = sd_TTL r" "dr_Proxied (recordFromAPI z r) = sd_Proxied r"
  "dr_Comment (recordFromAPI z r) = sd_Comment r"
  by (simp_all add: recordFromAPI_def)

lemma clientImpl_simps [simp]:
  "ListDNSRecords (clientImpl sdk) = ci_ListDNSRecords sdk"
  "ListDNSRecordsByNameType (clientImpl sdk) = ci_ListDNSRecordsByNameType sdk"
  "CreateDNSRecord (clientImpl sdk) = ci_CreateDNSRecord sdk"
  "UpdateDNSRecord (clientImpl sdk) = ci_UpdateDNSRecord sdk"
  "DeleteDNSRecord (clientImpl sdk) = ci_DeleteDNSRecord sdk"
  by (simp_all add: clientImpl_def)

lemma has_body_same_data:
  "record_body d = Some b \<Longrightarrow> has_body x b \<Longrightarrow> sendable d \<Longrightarrow> same_data (recordFromAPI z x) d"
  by (auto simp: record_body_def same_data_def recordsMatch_def sendable_def split: if_splits)

context sdk_dns
begin

lemma ci_create_zone:
  assumes "sendable d" "run_state (ci_CreateDNSRecord sdk z d) w = (r, w')"
  shows "case r of Inl e \<Rightarrow> client_zone store w' = client_zone store w
       | Inr x \<Rightarrow> same_data x d \<and> dr_ID x \<notin> dr_ID ` List.set (client_zone store w z) \<and>
                  client_zone store w' = (client_zone store w)(z := client_zone store w z @ [x])"
proof (cases "record_body d")
  case None
  with assms show ?thesis by (auto simp: ci_CreateDNSRecord_def)
next
  case (Some b)
  obtain q w2 where q: "run_state (RecordsNew sdk z b) w = (q, w2)"
    by (cases "run_state (RecordsNew sdk z b) w")
  have "image dr_ID (List.set (client_zone store w z)) = sd_ID ` List.set (store w z)"
    by (auto simp: client_zone_def image_image)
  with sdk_new [OF q] Some q assms has_body_same_data [OF Some _ assms(1)] show ?thesis
    by (cases q) (auto simp: ci_CreateDNSRecord_def client_zone_def fun_eq_iff)
qed

lemma ci_update_zone:
  assumes "sendable d" "run_state (ci_UpdateDNSRecord sdk z i d) w = (r, w')"
  shows "case r of Inl e \<Rightarrow> client_zone store w' = client_zone store w
       | Inr x \<Rightarrow> same_data x d \<and> dr_ID x = i \<and>
                  client_zone store w' = (client_zone store w)(z :=
                    map (\<lambda>y. if dr_ID y = i then x else y) (client_zone store w z))"
proof (cases "record_body d")
  case None
  with assms show ?thesis by (auto simp: ci_UpdateDNSRecord_def)
next
  case (Some b)
  obtain q w2 where q: "run_state (RecordsUpdate sdk i z b) w = (q, w2)"
    by (cases "run_state (RecordsUpdate sdk i z b) w")
  with sdk_update [OF q] Some assms has_body_same_data [OF Some _ assms(1)] show ?thesis
    by (cases q) (auto simp: ci_UpdateDNSRecord_def client_zone_def fun_eq_iff)
qed

lemma ci_delete_zone:
  assumes "run_state (ci_DeleteDNSRecord sdk z i) w = (r, w')"
  shows "case r of Inl e \<Rightarrow> client_zone store w' = client_zone store w
       | Inr u \<Rightarrow> client_zone store w' = (client_zone store w)(z := filter (\<lambda>y. dr_ID y \<noteq> i) (client_zone store w z))"
proof -
  obtain q w2 where q: "run_state (RecordsDelete sdk i z) w = (q, w2)"
    by (cases "run_state (RecordsDelete sdk i z) w")
  show ?thesis
  proof (cases q)
    case (Inr u)
    with sdk_delete [OF q] q assms show ?thesis
      by (auto simp: ci_DeleteDNSRecord_def client_zone_def fun_eq_iff filter_map comp_def)
  next
    case (Inl e)
    have st: "store w2 = store w" using sdk_delete [OF q] Inl by simp
    show ?thesis
    proof (cases "not_found_text e")
      case True
      then have "i \<notin> sd_ID ` List.set (store w z)" using sdk_delete [OF q] Inl by simp
      then have "filter (\<lambda>y. sd_ID y \<noteq> i) (store w z) = store w z"
        by (auto simp: filter_id_conv)
      with True st Inl q assms show ?thesis
        by (auto simp: ci_DeleteDNSRecord_def client_zone_def fun_eq_iff filter_map comp_def)
    next
      case False
      with st Inl q assms show ?thesis
        by (auto simp: ci_DeleteDNSRecord_def client_zone_def fun_eq_iff)
    qed
  qed
qed

lemma ci_list_by_zone:
  assumes "run_state (ci_ListDNSRecordsByNameType sdk z n t) w = (r, w')"
  shows "client_zone store w' = client_zone store w \<and>
    (\<forall>rs. r = Inr rs \<longrightarrow> rs = filter (\<lambda>x. dr_Name x = n \<and> dr_Type x = t) (client_zone store w z))"
proof -
  obtain rs err w2 where q: "run_state (RecordsList sdk z (Some (n, t))) w = ((rs, err), w2)"
    by (metis prod.collapse)
  with sdk_list [OF q] assms show ?thesis
    by (cases err) (auto simp: ci_ListDNSRecordsByNameType_def client_zone_def fun_eq_iff filter_map
        comp_def)
qed

lemma ci_list_zone:
  assumes "run_state (ci_ListDNSRecords sdk z) w = (r, w')"
  shows "client_zone store w' = client_zone store w \<and> (\<forall>rs. r = Inr rs \<longrightarrow> rs = client_zone store w z)"
proof -
  obtain rs err w2 where q: "run_state (RecordsList sdk z None) w = ((rs, err), w2)"
    by (metis prod.collapse)
  with sdk_list [OF q] assms show ?thesis
    by (cases err) (auto simp: ci_ListDNSRecords_def client_zone_def fun_eq_iff)
qed

end

text \<open>The client provides what the DNS service relies on.\<close>

sublocale sdk_dns \<subseteq> impl: dns_zone_api "clientImpl sdk" "client_zone store"
proof
  fix z n t w r w'
  assume "run_state (ListDNSRecordsByNameType (clientImpl sdk) z n t) w = (r, w')"
  then show "client_zone store w' = client_zone store w \<and>
      (\<forall>rs. r = Inr rs \<longrightarrow> rs = filter (\<lambda>x. dr_Name x = n \<and> dr_Type x = t) (client_zone store w z))"
    using ci_list_by_zone by simp
next
  fix z w r w'
  assume "run_state (ListDNSRecords (clientImpl sdk) z) w = (r, w')"
  then show "client_zone store w' = client_zone store w \<and> (\<forall>rs. r = Inr rs \<longrightarrow> rs = client_zone store w z)"
    using ci_list_zone by simp
next
  fix d z w r w'
  assume "sendable d" "run_state (CreateDNSRecord (clientImpl sdk) z d) w = (r, w')"
  then show "case r of Inl e \<Rightarrow> client_zone store w' = client_zone store w
       | Inr x \<Rightarrow> same_data x d \<and> dr_ID x \<notin> dr_ID ` List.set (client_zone store w z) \<and>
                  client_zone store w' = (client_zone store w)(z := client_zone store w z @ [x])"
    using ci_create_zone by simp
next
  fix d z i w r w'
  assume "sendable d" "run_state (UpdateDNSRecord (clientImpl sdk) z i d) w = (r, w')"
  then show "case r of Inl e \<Rightarrow> client_zone store w' = client_zone store w
       | Inr x \<Rightarrow> same_data x d \<and> dr_ID x = i \<and> client_zone store w' = (client_zone store w)(z :=
           map (\<lambda>y. if dr_ID y = i then x else y) (client_zone store w z))"
    using ci_update_zone by simp
next
  fix z i w r w'
  assume "run_state (DeleteDNSRecord (clientImpl sdk) z i) w = (r, w')"
  then show "case r of Inl e \<Rightarrow> client_zone store w' = client_zone store w
       | Inr u \<Rightarrow> client_zone store w' = (client_zone store w)(z := filter (\<lambda>y. dr_ID y \<noteq> i) (client_zone store w z))"
    using ci_delete_zone by simp
qed

context sdk_dns
begin

lemmas client_provides = impl.dns_zone_api_axioms

end

section \<open>An in-memory zone server\<close>

text \<open>
  A server that keeps the promises: zones are lists of records, an identifier is fresh because it
  is longer than the concatenation of all identifiers in use, and a CNAME or A record is refused
  with the API's error 81053 when the name already has a CNAME or A record.
\<close>

definition mem_fresh :: "SdkRecord list \<Rightarrow> string" where
  "mem_fresh rs = ''r'' @ concat (map sd_ID rs)"

fun mem_record :: "string \<Rightarrow> SdkBody \<Rightarrow> SdkRecord" where
  "mem_record i (CNAMERecordParam n ct ttl p cm) =
     \<lparr>sd_ID = i, sd_Type = ''CNAME'', sd_Name = n, sd_Content = ct, sd_TTL = ttl, sd_Proxied = p,
      sd_Comment = cm\<rparr>"
| "mem_record i (TXTRecordParam n ct ttl cm) =
     \<lparr>sd_ID = i, sd_Type = ''TXT'', sd_Name = n, sd_Content = ct, sd_TTL = ttl, sd_Proxied = False,
      sd_Comment = cm\<rparr>"
| "mem_record i (ARecordParam n ct ttl p cm) =
     \<lparr>sd_ID = i, sd_Type = ''A'', sd_Name = n, sd_Content = ct, sd_TTL = ttl, sd_Proxied = p,
      sd_Comment = cm\<rparr>"

definition mem_conflict :: "SdkRecord list \<Rightarrow> SdkRecord \<Rightarrow> bool" where
  "mem_conflict rs x \<longleftrightarrow> sd_Type x \<noteq> ''TXT'' \<and>
     (\<exists>y\<in>List.set rs. sd_Name y = sd_Name x \<and> sd_Type y \<noteq> ''TXT'')"

definition mem_List :: "string \<Rightarrow> (string \<times> string) option \<Rightarrow>
  (string \<Rightarrow> SdkRecord list, SdkRecord list \<times> go_error option) io" where
  "mem_List z q = State (\<lambda>w. ((filter (query_matches q) (w z), None), w))"

definition mem_New :: "string \<Rightarrow> SdkBody \<Rightarrow> (string \<Rightarrow> SdkRecord list, SdkRecord res) io" where
  "mem_New z b = State (\<lambda>w. let x = mem_record (mem_fresh (w z)) b in
     if mem_conflict (w z) x then (Inl (errorf ''81053: An A or CNAME record already exists''), w)
     else (Inr x, w(z := w z @ [x])))"

definition mem_Update :: "string \<Rightarrow> string \<Rightarrow> SdkBody \<Rightarrow> (string \<Rightarrow> SdkRecord list, SdkRecord res) io" where
  "mem_Update i z b = State (\<lambda>w.
     if i \<in> sd_ID ` List.set (w z)
     then (Inr (mem_record i b), w(z := map (\<lambda>y. if sd_ID y = i then mem_record i b else y) (w z)))
     else (Inl (errorf ''404 record not found''), w))"

definition mem_Delete :: "string \<Rightarrow> string \<Rightarrow> (string \<Rightarrow> SdkRecord list, unit res) io" where
  "mem_Delete i z = State (\<lambda>w.
     if i \<in> sd_ID ` List.set (w z) then (Inr (), w(z := filter (\<lambda>y. sd_ID y \<noteq> i) (w z)))
     else (Inl (errorf ''404 record not found''), w))"

definition mem_sdk :: "(string \<Rightarrow> SdkRecord list) Sdk" where
  "mem_sdk =
     \<lparr>TunnelsGet = (\<lambda>t a. ret (Inr None)), TunnelsList = (\<lambda>a n. ret (Inr [])),
      TunnelsNew = (\<lambda>a n s c. ret (Inl (errorf ''tunnels are not served''))),
      TunnelsDelete = (\<lambda>t a. ret (Inl (errorf ''404''))),
      ConnectionsDelete = (\<lambda>t a. ret (Inl (errorf ''404''))),
      TokenGet = (\<lambda>t a. ret (Inl (errorf ''404''))),
      ConfigurationsUpdate = (\<lambda>t a c. ret (Inl (errorf ''404''))),
      RecordsList = mem_List, RecordsNew = mem_New, RecordsUpdate = mem_Update,
      RecordsDelete = mem_Delete, ZonesListAutoPaging = ret ([], None),
      ZonesList = (\<lambda>n. ret (Inr [])), AccountsList = ret (Inr [])\<rparr>"

lemma mem_fresh_new: "mem_fresh rs \<notin> sd_ID ` List.set rs"
proof
  assume "mem_fresh rs \<in> sd_ID ` List.set rs"
  then obtain r where r: "r \<in> List.set rs" "mem_fresh rs = sd_ID r" by auto
  have "length (sd_ID r) \<le> length (concat (map sd_ID rs))"
    using r(1) by (induction rs) (auto simp: trans_le_add2)
  with r show False by (simp add: mem_fresh_def flip: r(2))
qed

lemma mem_record_body [simp]: "has_body (mem_record i b) b" "sd_ID (mem_record i b) = i"
  by (cases b; simp)+

lemma mem_sdk_simps [simp]:
  "RecordsList mem_sdk = mem_List" "RecordsNew mem_sdk = mem_New"
  "RecordsUpdate mem_sdk = mem_Update" "RecordsDelete mem_sdk = mem_Delete"
  by (simp_all add: mem_sdk_def)

interpretation mem: sdk_dns mem_sdk "\<lambda>w. w"
proof
qed (auto simp: mem_List_def mem_New_def mem_Update_def mem_Delete_def mem_fresh_new Let_def
    not_found_text_def split: if_splits)

section \<open>Properties\<close>


text \<open>The witness: a CNAME for app.example.com, first into an empty zone, then again.\<close>

definition wit_record :: DNSRecord where
  "wit_record = BuildCNAMERecord ''app'' ''t.cfargotunnel.com'' True 1 ''managed by cfgate''"

definition wit_client :: "(string \<Rightarrow> SdkRecord list) Client" where
  "wit_client = clientImpl mem_sdk"

definition wit_empty :: "(string \<Rightarrow> SdkRecord list) DNSService" where
  "wit_empty = NewDNSService (\<lambda>z. [])"

lemmas wit_run = wit_record_def wit_client_def wit_empty_def BuildCNAMERecord_def NewDNSService_def
  SyncRecordWithPolicy_def FindRecordByName_def createRecord_def AllowsCreate_def
  ci_ListDNSRecordsByNameType_def mem_List_def Let_def ci_CreateDNSRecord_def record_body_def
  mem_New_def mem_fresh_def mem_conflict_def cached_def sendable_def

lemma wit_first:
  "run_state (SyncRecordWithPolicy (clientImpl mem_sdk) ''z'' wit_record ''ns/app'' ''sync'') wit_empty =
     (Inr (Some (wit_record\<lparr>dr_ID := ''r'', dr_ZoneID := ''z''\<rparr>), True),
      wit_empty\<lparr>svc_world := (\<lambda>z. [])(''z'' := [mem_record ''r''
        (CNAMERecordParam ''app'' ''t.cfargotunnel.com'' 1 True ''managed by cfgate'')])\<rparr>)"
  by (simp add: wit_run cache_lookup_def cache_store_def recordFromAPI_def)


text \<open>Syncing is idempotent across reconciles. When a sync reported a record, a later sync of
  the same record with the same policy, started from the zones the first one left and with no
  cached answer, changes no zone, and reports the record unmodified unless the API fails.\<close>

theorem sync_idempotent:
  assumes "sdk_dns sdk store" "cached s z (dr_Name d) (dr_Type d) = None" "sendable d"
    and "run_state (SyncRecordWithPolicy (clientImpl sdk) z d ownerID policy) s = (Inr (Some x, m), s1)"
    and "cached t z (dr_Name d) (dr_Type d) = None" "svc_world t = svc_world s1"
    and "run_state (SyncRecordWithPolicy (clientImpl sdk) z d ownerID policy) t = (r, t')"
  shows "client_zone store (svc_world t') = client_zone store (svc_world s1) \<and>
    (\<forall>y m'. r = Inr (y, m') \<longrightarrow> \<not> m' \<and> (\<exists>e. y = Some e \<and> (m \<longrightarrow> same_data e d)))"
proof -
  from assms(1) have api: "dns_zone_api (clientImpl sdk) (client_zone store)"
    by (rule sdk_dns.client_provides)
  have "sync_zone policy ownerID d (client_zone store (svc_world s) z) (Some x) m
          (client_zone store (svc_world t) z)"
    using dns_zone_api.SyncRecordWithPolicy_zone [OF api assms(2-4)] assms(6) by simp
  from sync_zone_stable [OF this] obtain e where
    "dns_zone_api.lookup_zone (client_zone store) (svc_world t) z (dr_Name d) (dr_Type d) = Some e"
    and "\<not> sync_needed policy ownerID d e" "m \<longrightarrow> same_data e d"
    by (auto simp: dns_zone_api.lookup_zone_def [OF api])
  with dns_zone_api.SyncRecordWithPolicy_stable [OF api assms(5,3,7)] assms(6) show ?thesis
    by auto
qed

definition wit_synced :: "(string \<Rightarrow> SdkRecord list) DNSService" where
  "wit_synced = wit_empty\<lparr>svc_world := (\<lambda>z. [])(''z'' := [mem_record ''r''
     (CNAMERecordParam ''app'' ''t.cfargotunnel.com'' 1 True ''managed by cfgate'')])\<rparr>"

theorem sync_idempotent_witness:
  "\<exists>r t'. run_state (SyncRecordWithPolicy (clientImpl mem_sdk) ''z'' wit_record ''ns/app'' ''sync'')
       wit_synced = (Inr (r, False), t') \<and>
     client_zone (\<lambda>w. w) (svc_world t') = client_zone (\<lambda>w. w) (svc_world wit_synced)"
proof -
  have "cached wit_empty ''z'' (dr_Name wit_record) (dr_Type wit_record) = None"
    "cached wit_synced ''z'' (dr_Name wit_record) (dr_Type wit_record) = None"
    by (simp_all add: wit_run wit_synced_def)
  moreover have "sendable wit_record" by (simp add: wit_run)
  moreover have "run_state (SyncRecordWithPolicy (clientImpl mem_sdk) ''z'' wit_record ''ns/app'' ''sync'')
       wit_synced = (Inr (Some (wit_record\<lparr>dr_ID := ''r'', dr_ZoneID := ''z''\<rparr>), False), wit_synced)"
    by (simp add: wit_run wit_synced_def cache_lookup_def cache_store_def recordFromAPI_def
        recordsMatch_def IsOwnedByCfgate_def)
  ultimately show ?thesis
    using sync_idempotent [OF mem.sdk_dns_axioms _ _ wit_first [folded wit_synced_def], of wit_synced]
    by blast
qed

text \<open>Deleting a record is idempotent. A delete that reports success leaves the zone without
  a record of that identifier and changes nothing else, also when the API answered that there is
  no such record; a delete that reports an error changed no zone.\<close>

theorem delete_record_effect:
  assumes "sdk_dns sdk store"
    and "run_state (ci_DeleteDNSRecord sdk z i) w = (r, w')"
  shows "case r of Inl e \<Rightarrow> client_zone store w' = client_zone store w
    | Inr u \<Rightarrow> client_zone store w' =
        (client_zone store w)(z := filter (\<lambda>y. dr_ID y \<noteq> i) (client_zone store w z))"
  using sdk_dns.ci_delete_zone [OF assms] .

theorem delete_record_effect_witness:
  "run_state (ci_DeleteDNSRecord mem_sdk ''z'' ''r'') (\<lambda>z. []) = (Inr (), \<lambda>z. []) \<and>
   client_zone (\<lambda>w. w) (\<lambda>z. []) =
     (client_zone (\<lambda>w. w) (\<lambda>z. []))(''z'' := filter (\<lambda>y. dr_ID y \<noteq> ''r'')
        (client_zone (\<lambda>w. w) (\<lambda>z. []) ''z''))"
proof -
  have run: "run_state (ci_DeleteDNSRecord mem_sdk ''z'' ''r'') (\<lambda>z. []) = (Inr (), \<lambda>z. [])"
    by (simp add: ci_DeleteDNSRecord_def mem_Delete_def not_found_text_def errorf_def Contains_def
        HasPrefix_def)
  from delete_record_effect [OF mem.sdk_dns_axioms run] run show ?thesis by simp
qed

text \<open>The configuration with every connect timeout, of the rules and of the defaults, replaced.\<close>

definition with_timeout :: "string \<Rightarrow> OriginRequestConfig \<Rightarrow> OriginRequestConfig" where
  "with_timeout t org = org\<lparr>or_ConnectTimeout := t\<rparr>"

definition config_with_timeout :: "string \<Rightarrow> TunnelConfiguration \<Rightarrow> TunnelConfiguration" where
  "config_with_timeout t cfg = cfg\<lparr>
     tc_Ingress := map (\<lambda>r. r\<lparr>ir_OriginRequest := map_option (with_timeout t) (ir_OriginRequest r)\<rparr>)
       (tc_Ingress cfg),
     tc_OriginRequest := map_option (with_timeout t) (tc_OriginRequest cfg)\<rparr>"

text \<open>The configured connect timeouts are not what is sent: any two configurations that differ
  only in their (non-empty) connect timeouts make the same API call, with 30 seconds for every
  rule that has origin settings.\<close>

theorem connect_timeout_is_constant:
  assumes "t \<noteq> ''''" "t' \<noteq> ''''"
  shows "ci_UpdateTunnelConfiguration sdk a i (config_with_timeout t cfg) =
           ci_UpdateTunnelConfiguration sdk a i (config_with_timeout t' cfg) \<and>
         (\<forall>r \<in> List.set (tc_Ingress (config_with_timeout t cfg)). \<forall>q.
            si_OriginRequest (ci_ingress r) = Some q \<longrightarrow> so_ConnectTimeout q = Some 30)"
proof -
  have eq: "ingressOriginRequestToAPI (with_timeout t org) = ingressOriginRequestToAPI (with_timeout t' org)"
      "globalOriginRequestToAPI (with_timeout t org) = globalOriginRequestToAPI (with_timeout t' org)"
      "so_ConnectTimeout (ingressOriginRequestToAPI (with_timeout t org)) = Some 30" for org
    using assms
    by (simp_all add: with_timeout_def ingressOriginRequestToAPI_def globalOriginRequestToAPI_def)
  then show ?thesis
    by (auto simp: ci_UpdateTunnelConfiguration_def config_with_timeout_def ci_ingress_def
        option.map_comp comp_def)
qed

definition wit_rule :: IngressRule where
  "wit_rule = \<lparr>ir_Hostname = ''app'', ir_Path = '''', ir_Service = ''http://svc'',
     ir_OriginRequest = Some (zero_OriginRequestConfig\<lparr>or_ConnectTimeout := ''5s''\<rparr>)\<rparr>"

theorem connect_timeout_is_constant_witness:
  "ci_UpdateTunnelConfiguration mem_sdk ''a'' ''i''
     (config_with_timeout ''5s'' \<lparr>tc_Ingress = [wit_rule], tc_OriginRequest = None, tc_WarpRouting = None\<rparr>) =
   ci_UpdateTunnelConfiguration mem_sdk ''a'' ''i''
     (config_with_timeout ''90s'' \<lparr>tc_Ingress = [wit_rule], tc_OriginRequest = None, tc_WarpRouting = None\<rparr>)"
  by (rule connect_timeout_is_constant [of "''5s''" "''90s''", THEN conjunct1]) simp_all

end
