(* ===== verification/Controller_Base.thy ===== *)
theory Controller_Base
  imports Credential_Cache Client_Impl
begin

text \<open>
  What the reconcilers share: the state of the process during a reconcile (the credential cache,
  which lives as long as the process, the record cache of the current DNS service, and the world
  behind the Kubernetes and Cloudflare APIs), the lifting of calls into it, the result of a
  reconcile, and the way a client is made from a Secret.
\<close>

record 'w ProcState =
  ps_cred :: "'w Client CredentialCache option"
  ps_svc :: "DNSRecordCache option"
  ps_world :: 'w

record Result =
  res_Requeue :: bool
  res_RequeueAfter :: int

definition no_requeue :: Result where
  "no_requeue = \<lparr>res_Requeue = False, res_RequeueAfter = 0\<rparr>"

definition seconds :: "int \<Rightarrow> int" where
  "seconds n = n * 1000000000"

definition requeue_after :: "int \<Rightarrow> Result" where
  "requeue_after d = \<lparr>res_Requeue = False, res_RequeueAfter = d\<rparr>"

text \<open>A call to the outside, an operation of the current DNS service, and the construction of a
  DNS service with or without a record cache.\<close>

definition k8s :: "('w, 'a) io \<Rightarrow> ('w ProcState, 'a) io" where
  "k8s m = State (\<lambda>s. case run_state m (ps_world s) of (a, w) \<Rightarrow> (a, s\<lparr>ps_world := w\<rparr>))"

definition svc :: "('w DNSService, 'a) io \<Rightarrow> ('w ProcState, 'a) io" where
  "svc m = State (\<lambda>s. case run_state m \<lparr>svc_cache = ps_svc s, svc_world = ps_world s\<rparr> of
     (a, t) \<Rightarrow> (a, s\<lparr>ps_svc := svc_cache t, ps_world := svc_world t\<rparr>))"

definition new_service :: "DNSRecordCache option \<Rightarrow> ('w ProcState, unit) io" where
  "new_service c = State (\<lambda>s. ((), s\<lparr>ps_svc := c\<rparr>))"

text \<open>\<open>createClientFromSecret\<close>, the same in both controllers.\<close>

definition createClientFromSecret ::
  "(string \<Rightarrow> 'w Sdk) \<Rightarrow> Secret \<Rightarrow> string \<Rightarrow> 'w Client res" where
  "createClientFromSecret cfNewClient secret tokenKey =
     (let tokenKey = (if tokenKey = '''' then ''CLOUDFLARE_API_TOKEN'' else tokenKey)
      in case map_of (sec_Data secret) tokenKey of
           None \<Rightarrow> Inl (errorf (''API token key '' @ quote tokenKey @ '' not found in secret''))
         | Some token \<Rightarrow> NewClient cfNewClient token)"

text \<open>The use of the credential cache: when the reconciler has one, \<open>GetOrCreate\<close> with the given
  creation (which never yields a nil client), else the creation itself. The two readings of the
  clock that \<open>Get\<close> and \<open>Set\<close> may make are both taken here.\<close>

definition cachedClient ::
  "('w, int) io \<Rightarrow> Secret \<Rightarrow> 'w Client res \<Rightarrow> ('w ProcState, 'w Client res) io" where
  "cachedClient now secret created = do {
     cc \<leftarrow> State (\<lambda>s. (ps_cred s, s));
     case cc of
       None \<Rightarrow> ret created
     | Some c \<Rightarrow> do {
         now1 \<leftarrow> k8s now;
         now2 \<leftarrow> k8s now;
         let (r, c') = crc_GetOrCreate now1 now2 c secret (map_sum id Some created);
         _ \<leftarrow> State (\<lambda>s. ((), s\<lparr>ps_cred := Some c'\<rparr>));
         ret (map_sum id the r)
       }
   }"

section \<open>Lemmas\<close>

lemma run_k8s [simp]:
  "run_state (k8s m) s = (case run_state m (ps_world s) of (a, w) \<Rightarrow> (a, s\<lparr>ps_world := w\<rparr>))"
  by (simp add: k8s_def)

lemma run_svc [simp]:
  "run_state (svc m) s =
     (case run_state m \<lparr>svc_cache = ps_svc s, svc_world = ps_world s\<rparr> of
        (a, t) \<Rightarrow> (a, s\<lparr>ps_svc := svc_cache t, ps_world := svc_world t\<rparr>))"
  by (simp add: svc_def)

lemma run_new_service [simp]: "run_state (new_service c) s = ((), s\<lparr>ps_svc := c\<rparr>)"
  by (simp add: new_service_def)

text \<open>The cache never yields a nil client, so \<open>cachedClient\<close> returns a client or the error of the
  creation.\<close>

lemma GetOrCreate_not_nil:
  "fst (crc_GetOrCreate now1 now2 c secret (map_sum id Some created)) \<noteq> Inr None"
  by (cases created) (auto simp: crc_GetOrCreate_def split: prod.split option.split)

end
