(* ===== verification/Annotations.thy ===== *)
theory Annotations
  imports Cfgate_Prelude
begin

text \<open>
  Annotations: internal/controller/annotations/annotations.go. The keys of the cfgate annotations,
  the typed getters, the validation of the values on a route, and the DNS settings read from a
  route. The annotations of an object are a \<open>strmap\<close>; a nil object or a nil map is the empty one.
  The hostname regular expression is kept as a regular expression, matched by derivatives, and
  proved equivalent to the RFC 1123 rule on the labels of the name.
\<close>

section \<open>Keys and limits\<close>

definition AnnotationPrefix :: string where
  "AnnotationPrefix = ''cfgate.io/''"

definition AnnotationTunnelTarget :: string where
  "AnnotationTunnelTarget = AnnotationPrefix @ ''tunnel-target''"

definition AnnotationTunnelRef :: string where
  "AnnotationTunnelRef = AnnotationPrefix @ ''tunnel-ref''"

definition AnnotationOriginProtocol :: string where
  "AnnotationOriginProtocol = AnnotationPrefix @ ''origin-protocol''"

definition AnnotationOriginSSLVerify :: string where
  "AnnotationOriginSSLVerify = AnnotationPrefix @ ''origin-ssl-verify''"

definition AnnotationTTL :: string where
  "AnnotationTTL = AnnotationPrefix @ ''ttl''"

definition AnnotationCloudflareProxied :: string where
  "AnnotationCloudflareProxied = AnnotationPrefix @ ''cloudflare-proxied''"

definition AnnotationAccessPolicy :: string where
  "AnnotationAccessPolicy = AnnotationPrefix @ ''access-policy''"

definition AnnotationHostname :: string where
  "AnnotationHostname = AnnotationPrefix @ ''hostname''"

definition MaxTTL :: int where "MaxTTL = 86400"

definition MinTTL :: int where "MinTTL = 1"

definition MaxHostnameLength :: nat where "MaxHostnameLength = 253"

definition MaxLabelLength :: nat where "MaxLabelLength = 63"

definition ValidOriginProtocols :: "string \<Rightarrow> bool" where
  "ValidOriginProtocols p \<longleftrightarrow> p = ''http'' \<or> p = ''https'' \<or> p = ''tcp'' \<or> p = ''udp''"

lemmas annotation_keys = AnnotationPrefix_def AnnotationTunnelTarget_def AnnotationTunnelRef_def
  AnnotationOriginProtocol_def AnnotationOriginSSLVerify_def AnnotationTTL_def
  AnnotationCloudflareProxied_def AnnotationAccessPolicy_def AnnotationHostname_def

section \<open>Regular expressions\<close>

text \<open>The part of Go's regexp syntax the package uses: character classes, concatenation,
  alternation, repetition; \<open>^\<close> and \<open>$\<close> anchor the match to the whole text.\<close>

datatype rexp = Zero | One | Chars string | Plus rexp rexp | Times rexp rexp | Star rexp

definition Opt :: "rexp \<Rightarrow> rexp" where
  "Opt r = Plus r One"

fun nullable :: "rexp \<Rightarrow> bool" where
  "nullable Zero = False"
| "nullable One = True"
| "nullable (Chars cs) = False"
| "nullable (Plus r s) = (nullable r \<or> nullable s)"
| "nullable (Times r s) = (nullable r \<and> nullable s)"
| "nullable (Star r) = True"

fun deriv :: "char \<Rightarrow> rexp \<Rightarrow> rexp" where
  "deriv c Zero = Zero"
| "deriv c One = Zero"
| "deriv c (Chars cs) = (if c \<in> List.set cs then One else Zero)"
| "deriv c (Plus r s) = Plus (deriv c r) (deriv c s)"
| "deriv c (Times r s) =
     (if nullable r then Plus (Times (deriv c r) s) (deriv c s) else Times (deriv c r) s)"
| "deriv c (Star r) = Times (deriv c r) (Star r)"

fun MatchString :: "rexp \<Rightarrow> string \<Rightarrow> bool" where
  "MatchString r [] = nullable r"
| "MatchString r (c # s) = MatchString (deriv c r) s"

definition alnum :: string where
  "alnum = ''abcdefghijklmnopqrstuvwxyz0123456789''"

definition label_rexp :: rexp where
  "label_rexp = Times (Chars alnum) (Opt (Times (Star (Chars (''-'' @ alnum))) (Chars alnum)))"

definition hostnameRegex :: rexp where
  "hostnameRegex = Times label_rexp (Star (Times (Chars ''.'') label_rexp))"

section \<open>Getters\<close>

definition GetAnnotation :: "strmap \<Rightarrow> string \<Rightarrow> string" where
  "GetAnnotation obj key = (case map_of obj key of None \<Rightarrow> '''' | Some v \<Rightarrow> v)"

definition GetAnnotationBool :: "strmap \<Rightarrow> string \<Rightarrow> bool \<Rightarrow> bool" where
  "GetAnnotationBool obj key defaultValue =
     (let value = GetAnnotation obj key in
      if value = '''' then defaultValue
      else let l = ToLower value in
           if l = ''true'' \<or> l = ''1'' \<or> l = ''yes'' then True
           else if l = ''false'' \<or> l = ''0'' \<or> l = ''no'' then False
           else defaultValue)"

definition GetAnnotationInt :: "strmap \<Rightarrow> string \<Rightarrow> int \<Rightarrow> int" where
  "GetAnnotationInt obj key defaultValue =
     (let value = GetAnnotation obj key in
      if value = '''' then defaultValue
      else case Atoi value of None \<Rightarrow> defaultValue | Some parsed \<Rightarrow> parsed)"

section \<open>Validation\<close>

text \<open>A validator returns nil (None) or an error.\<close>

definition ValidateOriginProtocol :: "string \<Rightarrow> go_error option" where
  "ValidateOriginProtocol value =
     (if value = '''' then None
      else if \<not> ValidOriginProtocols (ToLower value)
      then Some (errorf (''invalid origin protocol '' @ quote value @
                         '': must be one of http, https, tcp, udp''))
      else None)"

definition ValidateTTL :: "string \<Rightarrow> go_error option" where
  "ValidateTTL value =
     (if value = '''' then None
      else case Atoi value of
             None \<Rightarrow> Some (errorf (''invalid TTL '' @ quote value @ '': must be an integer''))
           | Some ttl \<Rightarrow>
               if ttl < MinTTL \<or> ttl > MaxTTL
               then Some (errorf (''invalid TTL '' @ int_str ttl @ '': must be between '' @
                                  int_str MinTTL @ '' and '' @ int_str MaxTTL))
               else None)"

fun check_labels :: "string list \<Rightarrow> go_error option" where
  "check_labels [] = None"
| "check_labels (label # labels) =
     (if length label > MaxLabelLength
      then Some (errorf (''hostname label '' @ quote label @ '' exceeds maximum length of '' @
                         int_str (int MaxLabelLength) @ '' characters''))
      else check_labels labels)"

definition ValidateHostname :: "string \<Rightarrow> go_error option" where
  "ValidateHostname value =
     (if value = '''' then Some (errorf ''hostname cannot be empty'')
      else if length value > MaxHostnameLength
      then Some (errorf (''hostname '' @ quote value @ '' exceeds maximum length of '' @
                         int_str (int MaxHostnameLength) @ '' characters''))
      else case check_labels (Split value (CHR ''.'')) of
             Some e \<Rightarrow> Some e
           | None \<Rightarrow>
               (let normalized = ToLower value in
                if \<not> MatchString hostnameRegex normalized
                then Some (errorf (''hostname '' @ quote value @ '' is not a valid RFC 1123 hostname''))
                else None))"

record ValidationResult =
  vr_Valid :: bool
  vr_Errors :: "string list"
  vr_Warnings :: "string list"

text \<open>Recording an error clears \<open>Valid\<close> and appends the message.\<close>

definition vr_fail :: "string \<Rightarrow> ValidationResult \<Rightarrow> ValidationResult" where
  "vr_fail msg r = r\<lparr>vr_Valid := False, vr_Errors := vr_Errors r @ [msg]\<rparr>"

definition vr_check :: "go_error option \<Rightarrow> ValidationResult \<Rightarrow> ValidationResult" where
  "vr_check err r = (case err of None \<Rightarrow> r | Some e \<Rightarrow> vr_fail (err_msg e) r)"

definition ValidateRouteAnnotations :: "strmap \<Rightarrow> bool \<Rightarrow> ValidationResult" where
  "ValidateRouteAnnotations obj requireHostname =
     (let result = \<lparr>vr_Valid = True, vr_Errors = [], vr_Warnings = []\<rparr>;
          protocol = GetAnnotation obj AnnotationOriginProtocol;
          result = (if protocol \<noteq> '''' then vr_check (ValidateOriginProtocol protocol) result
                    else result);
          ttl = GetAnnotation obj AnnotationTTL;
          result = (if ttl \<noteq> '''' then vr_check (ValidateTTL ttl) result else result);
          hostname = GetAnnotation obj AnnotationHostname
      in if requireHostname then
           (if hostname = '''' then vr_fail (''annotation '' @ AnnotationHostname @ '' is required'') result
            else vr_check (ValidateHostname hostname) result)
         else if hostname \<noteq> '''' then vr_check (ValidateHostname hostname) result
         else result)"

section \<open>DNS settings of a route\<close>

record DNSConfig =
  dc_TTL :: int
  dc_Proxied :: bool

definition ParseDNSConfig :: "strmap \<Rightarrow> DNSConfig" where
  "ParseDNSConfig obj =
     \<lparr>dc_TTL = GetAnnotationInt obj AnnotationTTL 1,
      dc_Proxied = GetAnnotationBool obj AnnotationCloudflareProxied True\<rparr>"

section \<open>The language of a regular expression\<close>

definition conc :: "string set \<Rightarrow> string set \<Rightarrow> string set" where
  "conc A B = {x @ y | x y. x \<in> A \<and> y \<in> B}"

inductive_set star :: "string set \<Rightarrow> string set" for A where
  star_Nil: "[] \<in> star A"
| star_app: "x \<in> A \<Longrightarrow> y \<in> star A \<Longrightarrow> x @ y \<in> star A"

fun lang :: "rexp \<Rightarrow> string set" where
  "lang Zero = {}"
| "lang One = {[]}"
| "lang (Chars cs) = {[c] | c. c \<in> List.set cs}"
| "lang (Plus r s) = lang r \<union> lang s"
| "lang (Times r s) = conc (lang r) (lang s)"
| "lang (Star r) = star (lang r)"

lemma nullable_iff: "nullable r \<longleftrightarrow> [] \<in> lang r"
  by (induction r) (auto simp: conc_def intro: star_Nil)

lemma star_Cons:
  assumes "c # s \<in> star A"
  shows "\<exists>x y. s = x @ y \<and> c # x \<in> A \<and> y \<in> star A"
proof -
  have "t \<in> star A \<Longrightarrow> t = c # s \<Longrightarrow> ?thesis" for t
  proof (induction rule: star.induct)
    case (star_app x y)
    then show ?case by (cases x) auto
  qed simp
  with assms show ?thesis by blast
qed

lemma star_ConsI: "c # x \<in> A \<Longrightarrow> y \<in> star A \<Longrightarrow> c # x @ y \<in> star A"
  using star_app [of "c # x" A y] by simp

lemma conc_Cons:
  "c # s \<in> conc A B \<longleftrightarrow> (\<exists>x y. s = x @ y \<and> c # x \<in> A \<and> y \<in> B) \<or> ([] \<in> A \<and> c # s \<in> B)"
  by (auto simp: conc_def Cons_eq_append_conv)

lemma deriv_lang: "s \<in> lang (deriv c r) \<longleftrightarrow> c # s \<in> lang r"
proof (induction r arbitrary: s)
  case (Times r1 r2)
  have "s \<in> conc (lang (deriv c r1)) (lang r2) \<longleftrightarrow>
      (\<exists>x y. s = x @ y \<and> c # x \<in> lang r1 \<and> y \<in> lang r2)"
    by (auto simp: conc_def Times.IH)
  then show ?case by (auto simp: conc_Cons nullable_iff Times.IH)
next
  case (Star r)
  have "s \<in> conc (lang (deriv c r)) (star (lang r)) \<longleftrightarrow>
      (\<exists>x y. s = x @ y \<and> c # x \<in> lang r \<and> y \<in> star (lang r))"
    by (auto simp: conc_def Star.IH)
  then show ?case by (auto intro: star_ConsI dest: star_Cons)
qed auto

lemma MatchString_lang: "MatchString r s \<longleftrightarrow> s \<in> lang r"
  by (induction s arbitrary: r) (simp_all add: nullable_iff deriv_lang)

section \<open>The hostname language is the RFC 1123 rule on labels\<close>

definition valid_label :: "string \<Rightarrow> bool" where
  "valid_label w \<longleftrightarrow> w \<noteq> [] \<and> hd w \<in> List.set alnum \<and> last w \<in> List.set alnum \<and>
     List.set w \<subseteq> List.set (''-'' @ alnum)"

lemma star_Chars: "star (lang (Chars cs)) = {s. List.set s \<subseteq> List.set cs}"
proof (intro set_eqI iffI CollectI)
  show "s \<in> star (lang (Chars cs)) \<Longrightarrow> List.set s \<subseteq> List.set cs" for s
    by (induction rule: star.induct) auto
  have "List.set s \<subseteq> List.set cs \<Longrightarrow> s \<in> star (lang (Chars cs))" for s
  proof (induction s)
    case (Cons c s)
    then show ?case
      using star_app [of "[c]" "lang (Chars cs)" s] by simp
  qed (rule star_Nil)
  then show "s \<in> {s. List.set s \<subseteq> List.set cs} \<Longrightarrow> s \<in> star (lang (Chars cs))" for s
    by blast
qed

lemma tail_lang:
  "v \<in> lang (Opt (Times (Star (Chars D)) (Chars C))) \<longleftrightarrow>
     v = [] \<or> (\<exists>x d. v = x @ [d] \<and> List.set x \<subseteq> List.set D \<and> d \<in> List.set C)"
  unfolding Opt_def lang.simps(2,4,5,6) star_Chars by (auto simp: conc_def)

lemma valid_label_iff:
  "valid_label w \<longleftrightarrow> (\<exists>c v. w = c # v \<and> c \<in> List.set alnum \<and>
     (v = [] \<or> (\<exists>x d. v = x @ [d] \<and> List.set x \<subseteq> List.set (''-'' @ alnum) \<and> d \<in> List.set alnum)))"
proof (cases w)
  case (Cons c v)
  then show ?thesis
    by (cases v rule: rev_cases) (auto simp: valid_label_def)
qed (simp add: valid_label_def)

lemma conc_Chars:
  "w \<in> conc (lang (Chars cs)) B \<longleftrightarrow> (\<exists>c v. w = c # v \<and> c \<in> List.set cs \<and> v \<in> B)"
proof
  assume "\<exists>c v. w = c # v \<and> c \<in> List.set cs \<and> v \<in> B"
  then obtain c v where "w = [c] @ v" "[c] \<in> lang (Chars cs)" "v \<in> B" by auto
  then show "w \<in> conc (lang (Chars cs)) B" unfolding conc_def by blast
qed (auto simp: conc_def)

lemma label_lang: "lang label_rexp = {w. valid_label w}"
  unfolding label_rexp_def lang.simps(5)
  by (intro set_eqI) (simp only: conc_Chars tail_lang valid_label_iff mem_Collect_eq)

lemma valid_label_no_dot: "valid_label w \<Longrightarrow> CHR ''.'' \<notin> List.set w"
proof -
  have "CHR ''.'' \<notin> List.set (''-'' @ alnum)" by (simp add: alnum_def)
  then show "valid_label w \<Longrightarrow> ?thesis" by (auto simp: valid_label_def)
qed

lemma star_dot_labels:
  "s \<in> star (conc {''.''} {w. valid_label w}) \<longleftrightarrow>
     (\<exists>ws. (\<forall>w\<in>List.set ws. valid_label w) \<and> s = concat (map ((#) (CHR ''.'')) ws))"
proof
  assume "s \<in> star (conc {''.''} {w. valid_label w})"
  then show "\<exists>ws. (\<forall>w\<in>List.set ws. valid_label w) \<and> s = concat (map ((#) (CHR ''.'')) ws)"
  proof (induction rule: star.induct)
    case star_Nil
    show ?case by (rule exI [of _ "[]"]) simp
  next
    case (star_app x y)
    then obtain w ws where "x = CHR ''.'' # w" "valid_label w" "\<forall>w\<in>List.set ws. valid_label w"
        "y = concat (map ((#) (CHR ''.'')) ws)"
      by (auto simp: conc_def)
    then show ?case by (intro exI [of _ "w # ws"]) simp
  qed
next
  assume "\<exists>ws. (\<forall>w\<in>List.set ws. valid_label w) \<and> s = concat (map ((#) (CHR ''.'')) ws)"
  then obtain ws where ws: "\<forall>w\<in>List.set ws. valid_label w"
      and s: "s = concat (map ((#) (CHR ''.'')) ws)" by blast
  from ws show "s \<in> star (conc {''.''} {w. valid_label w})"
    unfolding s
  proof (induction ws)
    case (Cons w ws)
    then have "CHR ''.'' # w \<in> conc {''.''} {w. valid_label w}" by (auto simp: conc_def)
    with Cons show ?case using star_app by fastforce
  qed (simp add: star_Nil)
qed

lemma Split_dotted:
  "\<forall>w\<in>List.set (v # ws). valid_label w \<Longrightarrow>
     Split (v @ concat (map ((#) (CHR ''.'')) ws)) (CHR ''.'') = v # ws"
proof (induction ws arbitrary: v)
  case Nil
  then show ?case by (simp add: Split_no_sep valid_label_no_dot)
next
  case (Cons w ws)
  then show ?case by (simp add: Split_append_sep valid_label_no_dot)
qed

lemma Join_dotted: "Join (v # ws) ''.'' = v @ concat (map ((#) (CHR ''.'')) ws)"
  by (induction ws arbitrary: v) auto

lemma hostname_lang:
  "s \<in> lang hostnameRegex \<longleftrightarrow> (\<forall>w\<in>List.set (Split s (CHR ''.'')). valid_label w)"
proof
  assume "s \<in> lang hostnameRegex"
  then obtain v t where s: "s = v @ t" and v: "valid_label v"
      and t: "t \<in> star (conc {''.''} {w. valid_label w})"
    by (auto simp: hostnameRegex_def conc_def label_lang)
  from t obtain ws where "\<forall>w\<in>List.set ws. valid_label w" "t = concat (map ((#) (CHR ''.'')) ws)"
    by (auto simp: star_dot_labels)
  with s v show "\<forall>w\<in>List.set (Split s (CHR ''.'')). valid_label w"
    by (simp add: Split_dotted)
next
  assume all: "\<forall>w\<in>List.set (Split s (CHR ''.'')). valid_label w"
  obtain v ws where sp: "Split s (CHR ''.'') = v # ws" by (cases "Split s (CHR ''.'')") auto
  then have "s = v @ concat (map ((#) (CHR ''.'')) ws)"
    using Join_Split [of s "CHR ''.''"] Join_dotted [of v ws] by simp
  moreover have "concat (map ((#) (CHR ''.'')) ws) \<in> star (conc {''.''} {w. valid_label w})"
    using all sp by (auto simp: star_dot_labels)
  ultimately show "s \<in> lang hostnameRegex"
    using all sp by (auto simp: hostnameRegex_def conc_def label_lang)
qed

section \<open>Lemmas on validation\<close>

lemma check_labels_None_iff:
  "check_labels ls = None \<longleftrightarrow> list_all (\<lambda>l. length l \<le> MaxLabelLength) ls"
  by (induction ls) auto

lemma ValidateHostname_None_iff:
  "ValidateHostname v = None \<longleftrightarrow>
     v \<noteq> '''' \<and> length v \<le> 253 \<and> list_all (\<lambda>l. length l \<le> 63) (Split v (CHR ''.'')) \<and>
     list_all valid_label (Split (ToLower v) (CHR ''.''))"
proof -
  have "ValidateHostname v = None \<longleftrightarrow>
      v \<noteq> '''' \<and> length v \<le> MaxHostnameLength \<and> check_labels (Split v (CHR ''.'')) = None \<and>
      MatchString hostnameRegex (ToLower v)"
    by (auto simp: ValidateHostname_def Let_def split: option.splits)
  then show ?thesis
    by (simp add: check_labels_None_iff MaxHostnameLength_def MaxLabelLength_def MatchString_lang
        hostname_lang list_all_iff)
qed

lemma vr_Valid_vr_check [simp]: "vr_Valid (vr_check e r) \<longleftrightarrow> vr_Valid r \<and> e = None"
  by (auto simp: vr_check_def vr_fail_def split: option.splits)

lemma vr_Valid_vr_fail [simp]: "\<not> vr_Valid (vr_fail m r)"
  by (simp add: vr_fail_def)

definition vr_consistent :: "ValidationResult \<Rightarrow> bool" where
  "vr_consistent r \<longleftrightarrow> (vr_Valid r \<longleftrightarrow> vr_Errors r = [])"

lemma vr_consistent_fail [simp]: "vr_consistent (vr_fail m r)"
  by (simp add: vr_consistent_def vr_fail_def)

lemma vr_consistent_check [simp]: "vr_consistent r \<Longrightarrow> vr_consistent (vr_check e r)"
  by (simp add: vr_check_def split: option.splits)

lemma ValidateRouteAnnotations_consistent: "vr_consistent (ValidateRouteAnnotations obj req)"
proof -
  have "vr_consistent \<lparr>vr_Valid = True, vr_Errors = [], vr_Warnings = []\<rparr>"
    by (simp add: vr_consistent_def)
  then show ?thesis
    by (simp add: ValidateRouteAnnotations_def Let_def)
qed

lemma ValidateOriginProtocol_None_iff:
  "ValidateOriginProtocol p = None \<longleftrightarrow> p = '''' \<or> ValidOriginProtocols (ToLower p)"
  by (simp add: ValidateOriginProtocol_def)

lemma ValidateTTL_None_iff:
  "ValidateTTL v = None \<longleftrightarrow> v = '''' \<or> (\<exists>n. Atoi v = Some n \<and> 1 \<le> n \<and> n \<le> 86400)"
  by (cases "Atoi v") (auto simp: ValidateTTL_def MinTTL_def MaxTTL_def)

lemma ValidateRouteAnnotations_Valid:
  "vr_Valid (ValidateRouteAnnotations obj req) =
     ((GetAnnotation obj AnnotationOriginProtocol = '''' \<or>
       ValidOriginProtocols (ToLower (GetAnnotation obj AnnotationOriginProtocol))) \<and>
      (GetAnnotation obj AnnotationTTL = '''' \<or>
       (\<exists>n. Atoi (GetAnnotation obj AnnotationTTL) = Some n \<and> 1 \<le> n \<and> n \<le> 86400)) \<and>
      (if GetAnnotation obj AnnotationHostname = '''' then \<not> req
       else ValidateHostname (GetAnnotation obj AnnotationHostname) = None))"
  by (simp add: ValidateRouteAnnotations_def Let_def ValidateOriginProtocol_None_iff
      ValidateTTL_None_iff)

section \<open>Properties\<close>

text \<open>The hostname regular expression, matched against a text, accepts exactly the names
  whose dot-separated labels are all non-empty, start and end with a lower-case letter or a
  digit, and consist of lower-case letters, digits and hyphens.\<close>

theorem hostnameRegex_labels:
  "MatchString hostnameRegex s = list_all valid_label (Split s (CHR ''.''))"
  by (simp add: MatchString_lang hostname_lang list_all_iff)

text \<open>C30: Validation accepts a hostname exactly when it has 1 to 253 bytes, every label has at
  most 63 bytes and the labels of its lower-case form obey the RFC 1123 rule.\<close>

theorem ValidateHostname_accepts_iff:
  "ValidateHostname v = None \<longleftrightarrow>
     v \<noteq> '''' \<and> length v \<le> 253 \<and> list_all (\<lambda>l. length l \<le> 63) (Split v (CHR ''.'')) \<and>
     list_all valid_label (Split (ToLower v) (CHR ''.''))"
  by (rule ValidateHostname_None_iff)

text \<open>The annotations of a route are valid exactly when the protocol (if set) is one of the
  four known ones up to case, the TTL (if set) is a decimal number from 1 to 86400, and the
  hostname is acceptable, or absent where it is not required; the result lists errors exactly
  when it is not valid.\<close>

theorem ValidateRouteAnnotations_spec:
  "vr_Valid (ValidateRouteAnnotations obj req) =
     ((GetAnnotation obj AnnotationOriginProtocol = '''' \<or>
       ValidOriginProtocols (ToLower (GetAnnotation obj AnnotationOriginProtocol))) \<and>
      (GetAnnotation obj AnnotationTTL = '''' \<or>
       (\<exists>n. Atoi (GetAnnotation obj AnnotationTTL) = Some n \<and> 1 \<le> n \<and> n \<le> 86400)) \<and>
      (if GetAnnotation obj AnnotationHostname = '''' then \<not> req
       else ValidateHostname (GetAnnotation obj AnnotationHostname) = None)) \<and>
   (vr_Valid (ValidateRouteAnnotations obj req) = (vr_Errors (ValidateRouteAnnotations obj req) = []))"
  using ValidateRouteAnnotations_consistent [of obj req]
  by (simp add: vr_consistent_def ValidateRouteAnnotations_Valid)

text \<open>A TTL annotation that holds the decimal form of an integer of the platform is read back
  as that integer; without the annotation, or with an unparsable one, a route has TTL 1.\<close>

theorem ParseDNSConfig_ttl_roundtrip:
  "(- (2 ^ 63) \<le> n \<and> n < 2 ^ 63 \<and> map_of obj AnnotationTTL = Some (int_str n) \<longrightarrow>
      dc_TTL (ParseDNSConfig obj) = n) \<and>
   (Atoi (GetAnnotation obj AnnotationTTL) = None \<longrightarrow> dc_TTL (ParseDNSConfig obj) = 1)"
proof -
  have "int_str n \<noteq> ''''" by (simp add: int_str_def)
  then show ?thesis
    by (auto simp: ParseDNSConfig_def GetAnnotationInt_def GetAnnotation_def Let_def Atoi_int_str)
qed

theorem ParseDNSConfig_ttl_roundtrip_witness:
  "map_of [(AnnotationTTL, int_str 300)] AnnotationTTL = Some (int_str 300) \<and>
   dc_TTL (ParseDNSConfig [(AnnotationTTL, int_str 300)]) = 300"
  using ParseDNSConfig_ttl_roundtrip [of 300 "[(AnnotationTTL, int_str 300)]"] by simp

text \<open>A hostname that contains the KELVIN SIGN (U+212A, three bytes outside ASCII) passes the
  validation, because the check is made on the lower-case form, in which it is the letter k.\<close>

theorem ValidateHostname_accepts_kelvin_sign:
  "ValidateHostname (map char_of [226::nat, 132, 170] @ ''.example'') = None"
  unfolding ValidateHostname_None_iff
  by (simp add: valid_label_def alnum_def lower_char_def)

end
