(* ===== verification/Predicates.thy ===== *)
theory Predicates
  imports Annotations Api_Types
begin

text \<open>
  The event filters of the watches: internal/controller/predicates.go. An event carries objects;
  the old and new object of an update may be nil. The combinators of controller-runtime
  (\<open>predicate.Funcs\<close>, \<open>predicate.Or\<close>, \<open>predicate.GenerationChangedPredicate\<close>) are the
  parameter \<open>PredicateLib\<close>, with their documented behaviour as the locale \<open>predicate_lib\<close>. A
  filter that dereferences a nil object panics.
\<close>

section \<open>Events and combinators\<close>

text \<open>An object behind the interface \<open>client.Object\<close>: a CloudflareTunnel, or one of any other
  kind.\<close>

datatype client_object = TunnelObject CloudflareTunnel | OtherObject ObjectMeta

fun obj_meta :: "client_object \<Rightarrow> ObjectMeta" where
  "obj_meta (TunnelObject t) = ct_Meta t"
| "obj_meta (OtherObject m) = m"

datatype event =
    CreateEvent client_object
  | UpdateEvent "client_object option" "client_object option"
  | DeleteEvent client_object
  | GenericEvent client_object

type_synonym predicate = "event \<Rightarrow> bool go_exn"

record Funcs =
  fn_CreateFunc :: "(client_object \<Rightarrow> bool go_exn) option"
  fn_UpdateFunc :: "(client_object option \<Rightarrow> client_object option \<Rightarrow> bool go_exn) option"
  fn_DeleteFunc :: "(client_object \<Rightarrow> bool go_exn) option"
  fn_GenericFunc :: "(client_object \<Rightarrow> bool go_exn) option"

definition no_Funcs :: Funcs where
  "no_Funcs = \<lparr>fn_CreateFunc = None, fn_UpdateFunc = None, fn_DeleteFunc = None, fn_GenericFunc = None\<rparr>"

record PredicateLib =
  pl_Funcs :: "Funcs \<Rightarrow> predicate"
  pl_Or :: "predicate list \<Rightarrow> predicate"
  pl_GenerationChanged :: predicate

text \<open>The documented behaviour: a function that is not set passes the event; a disjunction asks its
  members in order until one passes; \<open>GenerationChangedPredicate\<close> filters updates only, and
  rejects those without both objects.\<close>

fun run_funcs :: "Funcs \<Rightarrow> predicate" where
  "run_funcs f (CreateEvent x) = (case fn_CreateFunc f of None \<Rightarrow> Done True | Some g \<Rightarrow> g x)"
| "run_funcs f (UpdateEvent x y) = (case fn_UpdateFunc f of None \<Rightarrow> Done True | Some g \<Rightarrow> g x y)"
| "run_funcs f (DeleteEvent x) = (case fn_DeleteFunc f of None \<Rightarrow> Done True | Some g \<Rightarrow> g x)"
| "run_funcs f (GenericEvent x) = (case fn_GenericFunc f of None \<Rightarrow> Done True | Some g \<Rightarrow> g x)"

fun or_else :: "predicate list \<Rightarrow> predicate" where
  "or_else [] e = Done False"
| "or_else (p # ps) e = (case p e of Panic \<Rightarrow> Panic | Done b \<Rightarrow> if b then Done True else or_else ps e)"

fun generation_changed :: predicate where
  "generation_changed (UpdateEvent (Some x) (Some y)) =
     Done (om_Generation (obj_meta x) \<noteq> om_Generation (obj_meta y))"
| "generation_changed (UpdateEvent _ _) = Done False"
| "generation_changed _ = Done True"

locale predicate_lib =
  fixes lib :: PredicateLib
  assumes funcs: "pl_Funcs lib f e = run_funcs f e"
    and disj: "pl_Or lib ps e = or_else ps e"
    and gen: "pl_GenerationChanged lib e = generation_changed e"

definition std_predicates :: PredicateLib where
  "std_predicates =
     \<lparr>pl_Funcs = run_funcs, pl_Or = or_else, pl_GenerationChanged = generation_changed\<rparr>"

interpretation std_pred: predicate_lib std_predicates
  by unfold_locales (simp_all add: std_predicates_def)

section \<open>The filters\<close>

fun changed_in :: "strmap \<Rightarrow> strmap \<Rightarrow> bool" where
  "changed_in old [] = False"
| "changed_in old ((k, v) # rest) =
     (if HasPrefix k AnnotationPrefix \<and> (case map_of old k of None \<Rightarrow> True | Some oldV \<Rightarrow> oldV \<noteq> v)
      then True else changed_in old rest)"

fun removed_in :: "strmap \<Rightarrow> strmap \<Rightarrow> bool" where
  "removed_in new [] = False"
| "removed_in new ((k, v) # rest) =
     (if HasPrefix k AnnotationPrefix \<and> map_of new k = None then True else removed_in new rest)"

definition cfgateAnnotationsChanged :: "strmap \<Rightarrow> strmap \<Rightarrow> bool" where
  "cfgateAnnotationsChanged old new = (if changed_in old new then True else removed_in new old)"

definition CfgateAnnotationOrGenerationPredicate :: "PredicateLib \<Rightarrow> predicate" where
  "CfgateAnnotationOrGenerationPredicate lib =
     pl_Or lib [pl_GenerationChanged lib,
       pl_Funcs lib (no_Funcs\<lparr>fn_UpdateFunc := Some (\<lambda>old new.
         case (old, new) of
           (Some x, Some y) \<Rightarrow> Done (cfgateAnnotationsChanged (om_Annotations (obj_meta x))
                                      (om_Annotations (obj_meta y)))
         | _ \<Rightarrow> Panic)\<rparr>)]"

definition GenerationOrDeletionPredicate :: "PredicateLib \<Rightarrow> predicate" where
  "GenerationOrDeletionPredicate lib =
     pl_Or lib [pl_GenerationChanged lib,
       pl_Funcs lib (no_Funcs\<lparr>fn_UpdateFunc := Some (\<lambda>old new.
         case (old, new) of
           (Some x, Some y) \<Rightarrow>
             if om_DeletionTimestamp (obj_meta x) = None \<and> om_DeletionTimestamp (obj_meta y) \<noteq> None
             then Done True else Done False
         | _ \<Rightarrow> Done False)\<rparr>)]"

fun as_tunnel :: "client_object option \<Rightarrow> CloudflareTunnel option" where
  "as_tunnel (Some (TunnelObject t)) = Some t"
| "as_tunnel _ = None"

definition TunnelIDChangedPredicate :: "PredicateLib \<Rightarrow> predicate" where
  "TunnelIDChangedPredicate lib = pl_Funcs lib (no_Funcs
     \<lparr>fn_CreateFunc := Some (\<lambda>x. case as_tunnel (Some x) of
        None \<Rightarrow> Done False
      | Some tunnel \<Rightarrow> Done (tst_TunnelID (ct_Status tunnel) \<noteq> '''')),
      fn_UpdateFunc := Some (\<lambda>old new. case as_tunnel old of
        None \<Rightarrow> Done False
      | Some oldTunnel \<Rightarrow> (case as_tunnel new of
          None \<Rightarrow> Done False
        | Some newTunnel \<Rightarrow>
            Done (tst_TunnelID (ct_Status oldTunnel) \<noteq> tst_TunnelID (ct_Status newTunnel)))),
      fn_DeleteFunc := Some (\<lambda>x. Done False)\<rparr>)"

fun any_cfgate_key :: "strmap \<Rightarrow> bool" where
  "any_cfgate_key [] = False"
| "any_cfgate_key ((k, v) # rest) = (if HasPrefix k AnnotationPrefix then True else any_cfgate_key rest)"

definition GatewayCreateAnnotationFilter :: "PredicateLib \<Rightarrow> predicate" where
  "GatewayCreateAnnotationFilter lib = pl_Funcs lib
     \<lparr>fn_CreateFunc = Some (\<lambda>x. Done (any_cfgate_key (om_Annotations (obj_meta x)))),
      fn_UpdateFunc = Some (\<lambda>old new. Done True), fn_DeleteFunc = Some (\<lambda>x. Done True),
      fn_GenericFunc = Some (\<lambda>x. Done True)\<rparr>"

section \<open>Lemmas\<close>

definition cfgate_annotations :: "strmap \<Rightarrow> string \<rightharpoonup> string" where
  "cfgate_annotations m = map_of m |` {k. HasPrefix k AnnotationPrefix}"

lemma changed_in_iff:
  "changed_in old new \<longleftrightarrow> (\<exists>(k, v) \<in> List.set new. HasPrefix k AnnotationPrefix \<and> map_of old k \<noteq> Some v)"
  by (induction old new rule: changed_in.induct) (auto split: option.splits)

lemma removed_in_iff:
  "removed_in new old \<longleftrightarrow> (\<exists>(k, v) \<in> List.set old. HasPrefix k AnnotationPrefix \<and> map_of new k = None)"
  by (induction new old rule: removed_in.induct) auto

lemma cfgateAnnotationsChanged_iff:
  assumes "distinct (map fst new)"
  shows "cfgateAnnotationsChanged old new \<longleftrightarrow> cfgate_annotations old \<noteq> cfgate_annotations new"
proof
  assume "cfgateAnnotationsChanged old new"
  then consider k v where "(k, v) \<in> List.set new" "HasPrefix k AnnotationPrefix" "map_of old k \<noteq> Some v"
    | k v where "(k, v) \<in> List.set old" "HasPrefix k AnnotationPrefix" "map_of new k = None"
    unfolding cfgateAnnotationsChanged_def by (auto simp: changed_in_iff removed_in_iff split: if_splits)
  then have "\<exists>k. cfgate_annotations old k \<noteq> cfgate_annotations new k"
  proof cases
    case 1
    then have "map_of new k = Some v" using assms by simp
    with 1 have "cfgate_annotations old k \<noteq> cfgate_annotations new k"
      by (simp add: cfgate_annotations_def)
    then show ?thesis by blast
  next
    case 2
    then have "map_of old k \<noteq> None" by (metis map_of_eq_None_iff fst_conv image_eqI)
    with 2 have "cfgate_annotations old k \<noteq> cfgate_annotations new k"
      by (simp add: cfgate_annotations_def)
    then show ?thesis by blast
  qed
  then show "cfgate_annotations old \<noteq> cfgate_annotations new" by auto
next
  assume "cfgate_annotations old \<noteq> cfgate_annotations new"
  then obtain k where k: "HasPrefix k AnnotationPrefix" "map_of old k \<noteq> map_of new k"
    by (auto simp: cfgate_annotations_def restrict_map_def fun_eq_iff split: if_splits)
  show "cfgateAnnotationsChanged old new"
  proof (cases "map_of new k")
    case None
    with k have "removed_in new old" by (auto simp: removed_in_iff dest: map_of_SomeD)
    then show ?thesis by (simp add: cfgateAnnotationsChanged_def)
  next
    case (Some v)
    with k have "changed_in old new" by (auto simp: changed_in_iff dest: map_of_SomeD)
    then show ?thesis by (simp add: cfgateAnnotationsChanged_def)
  qed
qed

lemma any_cfgate_key_iff: "any_cfgate_key m \<longleftrightarrow> cfgate_annotations m \<noteq> Map.empty"
proof -
  have "any_cfgate_key m \<longleftrightarrow> (\<exists>k \<in> fst ` List.set m. HasPrefix k AnnotationPrefix)"
    by (induction m rule: any_cfgate_key.induct) auto
  also have "\<dots> \<longleftrightarrow> (\<exists>k. HasPrefix k AnnotationPrefix \<and> map_of m k \<noteq> None)"
    by (metis map_of_eq_None_iff)
  finally show ?thesis by (auto simp: cfgate_annotations_def restrict_map_def fun_eq_iff)
qed

context predicate_lib
begin

lemma annotation_filter:
  "CfgateAnnotationOrGenerationPredicate lib (UpdateEvent (Some x) (Some y)) =
     Done (om_Generation (obj_meta x) \<noteq> om_Generation (obj_meta y) \<or>
           cfgateAnnotationsChanged (om_Annotations (obj_meta x)) (om_Annotations (obj_meta y)))"
  by (simp add: CfgateAnnotationOrGenerationPredicate_def funcs disj gen no_Funcs_def)

lemma annotation_filter_other:
  "CfgateAnnotationOrGenerationPredicate lib (CreateEvent x) = Done True"
  "CfgateAnnotationOrGenerationPredicate lib (DeleteEvent x) = Done True"
  "CfgateAnnotationOrGenerationPredicate lib (GenericEvent x) = Done True"
  by (simp_all add: CfgateAnnotationOrGenerationPredicate_def funcs disj gen no_Funcs_def)

lemma deletion_filter:
  "GenerationOrDeletionPredicate lib (UpdateEvent (Some x) (Some y)) =
     Done (om_Generation (obj_meta x) \<noteq> om_Generation (obj_meta y) \<or>
           om_DeletionTimestamp (obj_meta x) = None \<and> om_DeletionTimestamp (obj_meta y) \<noteq> None)"
  by (simp add: GenerationOrDeletionPredicate_def funcs disj gen no_Funcs_def)

lemma create_filter:
  "GatewayCreateAnnotationFilter lib (CreateEvent x) =
     Done (any_cfgate_key (om_Annotations (obj_meta x)))"
  "GatewayCreateAnnotationFilter lib (UpdateEvent xo yo) = Done True"
  by (simp_all add: GatewayCreateAnnotationFilter_def funcs)

end

section \<open>Properties\<close>

text \<open>The annotation filter passes an update exactly when the generation changed or the cfgate.io
  annotations, read as a map, differ (an annotation added, removed or changed); it passes every
  create, delete and generic event. (Annotations are a Go map: their keys are distinct.)\<close>

theorem annotation_predicate_exact:
  assumes "predicate_lib lib" "distinct (map fst (om_Annotations (obj_meta y)))"
  shows "CfgateAnnotationOrGenerationPredicate lib (UpdateEvent (Some x) (Some y)) =
       Done (om_Generation (obj_meta x) \<noteq> om_Generation (obj_meta y) \<or>
             cfgate_annotations (om_Annotations (obj_meta x)) \<noteq>
             cfgate_annotations (om_Annotations (obj_meta y))) \<and>
     CfgateAnnotationOrGenerationPredicate lib (CreateEvent z) = Done True \<and>
     CfgateAnnotationOrGenerationPredicate lib (DeleteEvent z) = Done True \<and>
     CfgateAnnotationOrGenerationPredicate lib (GenericEvent z) = Done True"
  using predicate_lib.annotation_filter [OF assms(1)] predicate_lib.annotation_filter_other [OF assms(1)]
    cfgateAnnotationsChanged_iff [OF assms(2)]
  by simp

definition wit_meta :: "strmap \<Rightarrow> ObjectMeta" where
  "wit_meta ann = \<lparr>om_Namespace = ''infra'', om_Name = ''gw'', om_Generation = 1,
     om_DeletionTimestamp = None, om_Finalizers = [], om_Annotations = ann\<rparr>"

theorem annotation_predicate_exact_witness:
  "CfgateAnnotationOrGenerationPredicate std_predicates
     (UpdateEvent (Some (OtherObject (wit_meta [(''helm.sh/rev'', ''1'')])))
        (Some (OtherObject (wit_meta [(''helm.sh/rev'', ''2'')])))) = Done False"
  using annotation_predicate_exact [OF std_pred.predicate_lib_axioms,
      of "OtherObject (wit_meta [(''helm.sh/rev'', ''2'')])"
         "OtherObject (wit_meta [(''helm.sh/rev'', ''1'')])"]
  by (simp add: wit_meta_def cfgate_annotations_def HasPrefix_def AnnotationPrefix_def restrict_map_def
      fun_eq_iff)

text \<open>An update that marks an object for deletion always reaches the reconciler, although it
  does not change the generation, which the plain generation filter needs.\<close>

theorem deletion_mark_reconciled:
  assumes "predicate_lib lib" "om_DeletionTimestamp (obj_meta x) = None"
    and "om_DeletionTimestamp (obj_meta y) \<noteq> None" "om_Generation (obj_meta x) = om_Generation (obj_meta y)"
  shows "GenerationOrDeletionPredicate lib (UpdateEvent (Some x) (Some y)) = Done True \<and>
    pl_GenerationChanged lib (UpdateEvent (Some x) (Some y)) = Done False"
  using predicate_lib.deletion_filter [OF assms(1)] predicate_lib.gen [OF assms(1)] assms(2-4) by simp

theorem deletion_mark_reconciled_witness:
  "GenerationOrDeletionPredicate std_predicates (UpdateEvent (Some (OtherObject (wit_meta [])))
     (Some (OtherObject ((wit_meta [])\<lparr>om_DeletionTimestamp := Some 7\<rparr>)))) = Done True"
  using deletion_mark_reconciled [OF std_pred.predicate_lib_axioms, of "OtherObject (wit_meta [])"
      "OtherObject ((wit_meta [])\<lparr>om_DeletionTimestamp := Some 7\<rparr>)"]
  by (simp add: wit_meta_def)

text \<open>A Gateway that gets its tunnel reference after creation passes both filters of the DNS and
  HTTPRoute watches, but not the generation filter, which the watches of the tunnel controller
  use: there the change waits for the periodic sync.\<close>

theorem late_tunnel_ref_needs_annotation_filter:
  assumes "predicate_lib lib" "om_Generation m = om_Generation m'"
    and "map_of (om_Annotations m) AnnotationTunnelRef = None"
    and "om_Annotations m' = map_put AnnotationTunnelRef ref (om_Annotations m)"
    and "distinct (map fst (om_Annotations m))"
  shows "let e = UpdateEvent (Some (OtherObject m)) (Some (OtherObject m')) in
    CfgateAnnotationOrGenerationPredicate lib e = Done True \<and>
    GatewayCreateAnnotationFilter lib e = Done True \<and> pl_GenerationChanged lib e = Done False"
proof -
  have "cfgate_annotations (om_Annotations m) AnnotationTunnelRef \<noteq>
      cfgate_annotations (om_Annotations m') AnnotationTunnelRef"
    using assms(3,4) by (simp add: cfgate_annotations_def AnnotationTunnelRef_def)
  then have "cfgate_annotations (om_Annotations m) \<noteq> cfgate_annotations (om_Annotations m')" by auto
  moreover have "distinct (map fst (om_Annotations m'))" using assms(4,5) by simp
  ultimately have "cfgateAnnotationsChanged (om_Annotations m) (om_Annotations m')"
    by (simp add: cfgateAnnotationsChanged_iff)
  then show ?thesis
    using predicate_lib.annotation_filter [OF assms(1), of "OtherObject m" "OtherObject m'"]
      predicate_lib.create_filter [OF assms(1)] predicate_lib.gen [OF assms(1)] assms(2)
    by simp
qed

theorem late_tunnel_ref_needs_annotation_filter_witness:
  "pl_GenerationChanged std_predicates (UpdateEvent (Some (OtherObject (wit_meta [])))
     (Some (OtherObject (wit_meta [(AnnotationTunnelRef, ''infra/edge'')])))) = Done False"
  using late_tunnel_ref_needs_annotation_filter [OF std_pred.predicate_lib_axioms, of "wit_meta []"
      "wit_meta [(AnnotationTunnelRef, ''infra/edge'')]" "''infra/edge''"]
  by (simp add: wit_meta_def Let_def)

end
