(* ===== verification/Dns_Controller.thy ===== *)
theory Dns_Controller
  imports Controller_Base Predicates "HOL-Library.Multiset"
begin

text \<open>
  The CloudflareDNS controller: internal/controller/cloudflaredns_controller.go. A reconcile
  resolves the target, collects the hostnames of explicit configuration and of routes, resolves
  the zones, syncs one CNAME record (and an ownership TXT record) per hostname, removes records
  that are no longer wanted, verifies ownership and writes the status. Deletion cleans up and
  always releases the finalizer.

  The cluster, the clock, the SDK constructor, the public suffix list and the finalizer library
  are the parameter \<open>DnsEnv\<close>. A Go map is ranged over in an unspecified order, drawn anew by
  \<open>de_Range\<close> each time. The object under reconciliation is passed and returned; a patch returns
  the object as the server's answer leaves it. Log output is not modelled.
\<close>

section \<open>Environment\<close>

record HostnameConfig =
  hc_TTL :: int
  hc_Proxied :: "bool option"

type_synonym hostname_map = "(string \<times> HostnameConfig) list"

record 'w DnsEnv =
  de_Get :: "NamespacedName \<Rightarrow> ('w, CloudflareDNS res) io"
  de_GetTunnel :: "NamespacedName \<Rightarrow> ('w, CloudflareTunnel res) io"
  de_GetSecret :: "NamespacedName \<Rightarrow> ('w, Secret res) io"
  de_Patch :: "CloudflareDNS \<Rightarrow> CloudflareDNS \<Rightarrow> ('w, CloudflareDNS res) io"
  de_StatusUpdate :: "CloudflareDNS \<Rightarrow> ('w, unit res) io"
  de_ListByField :: "string \<Rightarrow> string \<Rightarrow> ('w, CloudflareDNS list res) io"
  de_ListGateways :: "('w, Gateway list res) io"
  de_ListRoutes :: "('w, HTTPRoute list res) io"
  de_Event :: "NamespacedName \<Rightarrow> string \<Rightarrow> string \<Rightarrow> string \<Rightarrow> string \<Rightarrow> ('w, unit) io"
  de_Now :: "('w, int) io"
  de_Range :: "hostname_map \<Rightarrow> ('w, hostname_map) io"
  de_CFClient :: "'w Client option"
  de_cfNewClient :: "string \<Rightarrow> 'w Sdk"
  de_Finalizers :: FinalizerLib
  de_etld1 :: "string \<Rightarrow> string res"

definition dnsFinalizer :: string where
  "dnsFinalizer = ''cfgate.io/dns-cleanup''"

definition dnsDefaultOwnershipPrefix :: string where
  "dnsDefaultOwnershipPrefix = ''_cfgate''"

definition dnsTunnelRefNameIndex :: string where
  "dnsTunnelRefNameIndex = ''spec.tunnelRef.name''"

definition dnsGatewayRoutesEnabledIndex :: string where
  "dnsGatewayRoutesEnabledIndex = ''spec.source.gatewayRoutes.enabled''"

abbreviation dns_ns :: "CloudflareDNS \<Rightarrow> string" where
  "dns_ns dns \<equiv> om_Namespace (cdns_Meta dns)"

abbreviation dns_name :: "CloudflareDNS \<Rightarrow> string" where
  "dns_name dns \<equiv> om_Name (cdns_Meta dns)"

abbreviation dns_key :: "CloudflareDNS \<Rightarrow> NamespacedName" where
  "dns_key dns \<equiv> \<lparr>nn_Namespace = dns_ns dns, nn_Name = dns_name dns\<rparr>"

section \<open>Field indexes and watch mappers\<close>

definition extractDNSTunnelRefName :: "CloudflareDNS \<Rightarrow> string list" where
  "extractDNSTunnelRefName dns =
     (case ds_TunnelRef (cdns_Spec dns) of
        None \<Rightarrow> []
      | Some ref \<Rightarrow>
          (let ns = (if dt_Namespace ref = '''' then dns_ns dns else dt_Namespace ref)
           in [ns @ ''/'' @ dt_Name ref]))"

definition extractDNSGatewayRoutesEnabled :: "CloudflareDNS \<Rightarrow> string list" where
  "extractDNSGatewayRoutesEnabled dns =
     (if gr_Enabled (hs_GatewayRoutes (ds_Source (cdns_Spec dns))) then [''true''] else [])"

definition findAffectedDNSByTunnel ::
  "'w DnsEnv \<Rightarrow> client_object \<Rightarrow> ('w, NamespacedName list) io" where
  "findAffectedDNSByTunnel env obj =
     (case as_tunnel (Some obj) of
        None \<Rightarrow> ret []
      | Some tunnel \<Rightarrow> do {
          r \<leftarrow> de_ListByField env dnsTunnelRefNameIndex
                 (om_Namespace (ct_Meta tunnel) @ ''/'' @ om_Name (ct_Meta tunnel));
          case r of Inl err \<Rightarrow> ret [] | Inr items \<Rightarrow> ret (map (\<lambda>dns. dns_key dns) items)
        })"

definition findAffectedDNSByRoute :: "'w DnsEnv \<Rightarrow> client_object \<Rightarrow> ('w, NamespacedName list) io" where
  "findAffectedDNSByRoute env obj = do {
     r \<leftarrow> de_ListByField env dnsGatewayRoutesEnabledIndex ''true'';
     case r of Inl err \<Rightarrow> ret [] | Inr items \<Rightarrow> ret (map (\<lambda>dns. dns_key dns) items)
   }"

definition findAffectedDNSByGateway :: "'w DnsEnv \<Rightarrow> client_object \<Rightarrow> ('w, NamespacedName list) io" where
  "findAffectedDNSByGateway env obj = do {
     r \<leftarrow> de_ListByField env dnsGatewayRoutesEnabledIndex ''true'';
     case r of Inl err \<Rightarrow> ret [] | Inr items \<Rightarrow> ret (map (\<lambda>dns. dns_key dns) items)
   }"

section \<open>Status\<close>

definition dns_setCondition ::
  "'w DnsEnv \<Rightarrow> CloudflareDNS \<Rightarrow> string \<Rightarrow> ConditionStatus \<Rightarrow> string \<Rightarrow> string \<Rightarrow>
     ('w ProcState, CloudflareDNS) io" where
  "dns_setCondition env dns conditionType condStatus reason message = do {
     t \<leftarrow> k8s (de_Now env);
     now \<leftarrow> k8s (de_Now env);
     let condition = \<lparr>c_Type = conditionType, c_Status = condStatus,
                      c_ObservedGeneration = om_Generation (cdns_Meta dns),
                      c_LastTransitionTime = t, c_Reason = reason, c_Message = message\<rparr>;
     ret (dns\<lparr>cdns_Status := (cdns_Status dns)
       \<lparr>dst_Conditions := MergeConditions now (dst_Conditions (cdns_Status dns)) [condition]\<rparr>\<rparr>)
   }"

fun conditions_equal :: "Condition list \<Rightarrow> Condition list \<Rightarrow> bool" where
  "conditions_equal [] [] = True"
| "conditions_equal (a # as) (b # bs) =
     (if c_Type a \<noteq> c_Type b \<or> c_Status a \<noteq> c_Status b \<or> c_Reason a \<noteq> c_Reason b \<or>
         c_Message a \<noteq> c_Message b
      then False else conditions_equal as bs)"
| "conditions_equal _ _ = False"

definition dnsStatusEqual :: "CloudflareDNSStatus \<Rightarrow> CloudflareDNSStatus \<Rightarrow> bool" where
  "dnsStatusEqual a b =
     (if dst_ObservedGeneration a \<noteq> dst_ObservedGeneration b then False
      else if dst_ResolvedTarget a \<noteq> dst_ResolvedTarget b then False
      else if dst_SyncedRecords a \<noteq> dst_SyncedRecords b \<or> dst_PendingRecords a \<noteq> dst_PendingRecords b \<or>
              dst_FailedRecords a \<noteq> dst_FailedRecords b then False
      else if length (dst_Conditions a) \<noteq> length (dst_Conditions b) then False
      else if \<not> conditions_equal (dst_Conditions a) (dst_Conditions b) then False
      else if dst_Records a \<noteq> dst_Records b then False
      else True)"

definition dns_updateStatus :: "'w DnsEnv \<Rightarrow> CloudflareDNS \<Rightarrow> ('w ProcState, unit res) io" where
  "dns_updateStatus env dns = do {
     r \<leftarrow> k8s (de_Get env (dns_key dns));
     case r of
       Inl err \<Rightarrow> ret (Inl (wrapf ''failed to re-fetch DNS'' err))
     | Inr current \<Rightarrow>
         if dnsStatusEqual (cdns_Status current) (cdns_Status dns) then ret (Inr ())
         else do {
           u \<leftarrow> k8s (de_StatusUpdate env (current\<lparr>cdns_Status := cdns_Status dns\<rparr>));
           case u of
             Inl err \<Rightarrow> ret (Inl (wrapf ''failed to update status'' err))
           | Inr _ \<Rightarrow> ret (Inr ())
         }
   }"

section \<open>Target and hostnames\<close>

definition resolveTunnel ::
  "'w DnsEnv \<Rightarrow> CloudflareDNS \<Rightarrow> DNSTunnelRef \<Rightarrow> ('w ProcState, CloudflareTunnel res) io" where
  "resolveTunnel env dns ref =
     (let namespace = (if dt_Namespace ref = '''' then dns_ns dns else dt_Namespace ref)
      in do {
        r \<leftarrow> k8s (de_GetTunnel env \<lparr>nn_Namespace = namespace, nn_Name = dt_Name ref\<rparr>);
        case r of
          Inl err \<Rightarrow> ret (Inl (wrapf (''failed to get tunnel '' @ namespace @ ''/'' @ dt_Name ref) err))
        | Inr tunnel \<Rightarrow> ret (Inr tunnel)
      })"

text \<open>The tunnel that \<open>resolveTarget\<close> returns beside an error is not used by its caller.\<close>

definition resolveTarget ::
  "'w DnsEnv \<Rightarrow> CloudflareDNS \<Rightarrow> ('w ProcState, (string \<times> CloudflareTunnel option) res) io" where
  "resolveTarget env dns =
     (case ds_TunnelRef (cdns_Spec dns) of
        Some ref \<Rightarrow> do {
          r \<leftarrow> resolveTunnel env dns ref;
          case r of
            Inl err \<Rightarrow> ret (Inl err)
          | Inr tunnel \<Rightarrow>
              if tst_TunnelDomain (ct_Status tunnel) = ''''
              then ret (Inl (errorf (''tunnel '' @ om_Name (ct_Meta tunnel) @ '' not ready (no tunnelDomain)'')))
              else ret (Inr (tst_TunnelDomain (ct_Status tunnel), Some tunnel))
        }
      | None \<Rightarrow>
          (case ds_ExternalTarget (cdns_Spec dns) of
             Some t \<Rightarrow> ret (Inr (et_Value t, None))
           | None \<Rightarrow> ret (Inl (errorf ''neither tunnelRef nor externalTarget specified''))))"

definition hostnameKeys :: "'w DnsEnv \<Rightarrow> hostname_map \<Rightarrow> ('w ProcState, string list) io" where
  "hostnameKeys env configs = do {
     m \<leftarrow> k8s (de_Range env configs);
     ret (map fst m)
   }"

text \<open>The annotation filter of a route: empty, key=value, or key.\<close>

definition route_filtered :: "string \<Rightarrow> HTTPRoute \<Rightarrow> bool" where
  "route_filtered flt route =
     (if flt \<noteq> '''' then
        (case SplitN2 flt (CHR ''='') of
           [k, v] \<Rightarrow> map_of (om_Annotations (hr_Meta route)) k \<noteq> Some v
         | _ \<Rightarrow> map_of (om_Annotations (hr_Meta route)) flt = None)
      else False)"

definition route_hostname_config :: "HTTPRoute \<Rightarrow> HostnameConfig" where
  "route_hostname_config route =
     (let ann = om_Annotations (hr_Meta route);
          dnsConfig = ParseDNSConfig ann
      in \<lparr>hc_TTL = to_int32 (dc_TTL dnsConfig),
          hc_Proxied = (if GetAnnotation ann AnnotationCloudflareProxied \<noteq> ''''
                        then Some (dc_Proxied dnsConfig) else None)\<rparr>)"

definition parent_is_gateway :: "HTTPRoute \<Rightarrow> Gateway \<Rightarrow> ParentReference \<Rightarrow> bool" where
  "parent_is_gateway route gw parentRef =
     (let parentNS = (case pr_Namespace parentRef of None \<Rightarrow> om_Namespace (hr_Meta route) | Some ns \<Rightarrow> ns)
      in pr_Name parentRef = om_Name (gw_Meta gw) \<and> parentNS = om_Namespace (gw_Meta gw))"

fun put_hostnames :: "HostnameConfig \<Rightarrow> string list \<Rightarrow> hostname_map \<Rightarrow> hostname_map" where
  "put_hostnames config [] m = m"
| "put_hostnames config (h # hs) m = put_hostnames config hs (map_put h config m)"

fun collect_parents :: "HTTPRoute \<Rightarrow> Gateway \<Rightarrow> ParentReference list \<Rightarrow> hostname_map \<Rightarrow> hostname_map" where
  "collect_parents route gw [] m = m"
| "collect_parents route gw (p # ps) m =
     collect_parents route gw ps
       (if parent_is_gateway route gw p
        then put_hostnames (route_hostname_config route) (hr_Hostnames route) m else m)"

fun collect_routes :: "string \<Rightarrow> Gateway \<Rightarrow> HTTPRoute list \<Rightarrow> hostname_map \<Rightarrow> hostname_map" where
  "collect_routes flt gw [] m = m"
| "collect_routes flt gw (route # routes) m =
     collect_routes flt gw routes
       (if route_filtered flt route then m
        else collect_parents route gw (hr_ParentRefs route) m)"

fun collect_gateways ::
  "'w DnsEnv \<Rightarrow> string \<Rightarrow> Gateway list \<Rightarrow> hostname_map \<Rightarrow> ('w ProcState, hostname_map res) io" where
  "collect_gateways env flt [] m = ret (Inr m)"
| "collect_gateways env flt (gw # gws) m = do {
     r \<leftarrow> k8s (de_ListRoutes env);
     case r of
       Inl err \<Rightarrow> ret (Inl (wrapf ''failed to list httproutes'' err))
     | Inr routes \<Rightarrow> collect_gateways env flt gws (collect_routes flt gw routes m)
   }"

definition tunnel_ref :: "CloudflareTunnel \<Rightarrow> string" where
  "tunnel_ref tunnel = om_Namespace (ct_Meta tunnel) @ ''/'' @ om_Name (ct_Meta tunnel)"

definition relevant_gateways :: "CloudflareTunnel \<Rightarrow> Gateway list \<Rightarrow> Gateway list" where
  "relevant_gateways tunnel gateways =
     filter (\<lambda>gw. map_of (om_Annotations (gw_Meta gw)) AnnotationTunnelRef = Some (tunnel_ref tunnel)) gateways"

definition collectHostnamesFromRoutes ::
  "'w DnsEnv \<Rightarrow> CloudflareDNS \<Rightarrow> CloudflareTunnel option \<Rightarrow> ('w ProcState, hostname_map res) io" where
  "collectHostnamesFromRoutes env dns tunnel =
     (case tunnel of
        None \<Rightarrow> ret (Inr [])
      | Some t \<Rightarrow> do {
          r \<leftarrow> k8s (de_ListGateways env);
          case r of
            Inl err \<Rightarrow> ret (Inl (wrapf ''failed to list gateways'' err))
          | Inr gateways \<Rightarrow>
              collect_gateways env (gr_AnnotationFilter (hs_GatewayRoutes (ds_Source (cdns_Spec dns))))
                (relevant_gateways t gateways) []
        })"

definition collectHostnames ::
  "'w DnsEnv \<Rightarrow> CloudflareDNS \<Rightarrow> CloudflareTunnel option \<Rightarrow> ('w ProcState, hostname_map res) io" where
  "collectHostnames env dns tunnel =
     (let source = ds_Source (cdns_Spec dns);
          hostnames = put_hostnames \<lparr>hc_TTL = 0, hc_Proxied = None\<rparr> (map eh_Hostname (hs_Explicit source)) []
      in if gr_Enabled (hs_GatewayRoutes source) then do {
           r \<leftarrow> collectHostnamesFromRoutes env dns tunnel;
           case r of
             Inl err \<Rightarrow> ret (Inl err)
           | Inr routeHostnames \<Rightarrow> ret (Inr (map_puts routeHostnames hostnames))
         }
         else ret (Inr hostnames))"

fun resolveZones_loop ::
  "'w Client \<Rightarrow> DNSZoneConfig list \<Rightarrow> strmap \<Rightarrow> ('w ProcState, strmap res) io" where
  "resolveZones_loop c [] zones = ret (Inr zones)"
| "resolveZones_loop c (z # zs) zones =
     (if zc_ID z \<noteq> '''' then resolveZones_loop c zs (map_put (zc_Name z) (zc_ID z) zones)
      else do {
        r \<leftarrow> svc (ResolveZone c (zc_Name z));
        case r of
          Inl err \<Rightarrow> ret (Inl (wrapf (''failed to resolve zone '' @ zc_Name z) err))
        | Inr None \<Rightarrow> ret (Inl (errorf (''zone '' @ zc_Name z @ '' not found'')))
        | Inr (Some zone) \<Rightarrow> resolveZones_loop c zs (map_put (zc_Name z) (zn_ID zone) zones)
      })"

definition resolveZones ::
  "'w Client \<Rightarrow> CloudflareDNS \<Rightarrow> ('w ProcState, strmap res) io" where
  "resolveZones c dns = resolveZones_loop c (ds_Zones (cdns_Spec dns)) []"

section \<open>Syncing records\<close>

definition shouldCreateTXTRecords :: "CloudflareDNS \<Rightarrow> bool" where
  "shouldCreateTXTRecords dns =
     (case to_Enabled (oc_TXTRecord (ds_Ownership (cdns_Spec dns))) of None \<Rightarrow> True | Some b \<Rightarrow> b)"

definition ownership_prefix :: "CloudflareDNS \<Rightarrow> string" where
  "ownership_prefix dns =
     (let p = to_Prefix (oc_TXTRecord (ds_Ownership (cdns_Spec dns)))
      in if p = '''' then dnsDefaultOwnershipPrefix else p)"

definition owner_id :: "CloudflareDNS \<Rightarrow> string" where
  "owner_id dns =
     (let o' = oc_OwnerID (ds_Ownership (cdns_Spec dns))
      in if o' = '''' then dns_ns dns @ ''/'' @ dns_name dns else o')"

definition sync_policy :: "CloudflareDNS \<Rightarrow> string" where
  "sync_policy dns = (if ds_Policy (cdns_Spec dns) = '''' then PolicySync else ds_Policy (cdns_Spec dns))"

text \<open>The record wanted for a hostname: the defaults of the resource, then the first explicit entry
  of the hostname, then the annotations of the route.\<close>

definition desired_record :: "CloudflareDNS \<Rightarrow> string \<Rightarrow> string \<Rightarrow> HostnameConfig \<Rightarrow> DNSRecord" where
  "desired_record dns target hostname cfg =
     (let defaults = ds_Defaults (cdns_Spec dns);
          ttl0 = (if rd_TTL defaults = 0 then 1 else rd_TTL defaults);
          proxied0 = rd_Proxied defaults;
          (ttl1, proxied1) =
            (case find (\<lambda>e. eh_Hostname e = hostname) (hs_Explicit (ds_Source (cdns_Spec dns))) of
               None \<Rightarrow> (ttl0, proxied0)
             | Some e \<Rightarrow> (if eh_TTL e \<noteq> 0 then eh_TTL e else ttl0,
                         case eh_Proxied e of None \<Rightarrow> proxied0 | Some b \<Rightarrow> b));
          ttl = (if hc_TTL cfg \<noteq> 0 then hc_TTL cfg else ttl1);
          proxied = (case hc_Proxied cfg of None \<Rightarrow> proxied1 | Some b \<Rightarrow> b);
          comment = ''managed by cfgate, dns='' @ dns_ns dns @ ''/'' @ dns_name dns
      in BuildCNAMERecord hostname target proxied ttl comment)"

definition failed_status :: "string \<Rightarrow> string \<Rightarrow> DNSRecordSyncStatus" where
  "failed_status hostname e =
     \<lparr>rs_Hostname = hostname, rs_Type = ''CNAME'', rs_Target = '''', rs_Proxied = False, rs_TTL = 0,
      rs_Status = ''Failed'', rs_RecordID = '''', rs_ZoneID = '''', rs_Error = e\<rparr>"

definition synced_status :: "string \<Rightarrow> string \<Rightarrow> DNSRecord \<Rightarrow> DNSRecordSyncStatus" where
  "synced_status hostname zoneID record =
     \<lparr>rs_Hostname = hostname, rs_Type = dr_Type record, rs_Target = dr_Content record,
      rs_Proxied = dr_Proxied record, rs_TTL = to_int32 (dr_TTL record), rs_Status = ''Synced'',
      rs_RecordID = dr_ID record, rs_ZoneID = zoneID, rs_Error = ''''\<rparr>"

text \<open>One iteration of the loop over the hostnames. The flag says whether the record counts as
  synced; reading a field of a nil record panics.\<close>

definition sync_hostname ::
  "'w DnsEnv \<Rightarrow> 'w Client \<Rightarrow> CloudflareDNS \<Rightarrow> string \<Rightarrow> strmap \<Rightarrow> string \<Rightarrow> HostnameConfig \<Rightarrow>
     ('w ProcState, (DNSRecordSyncStatus \<times> bool) go_exn) io" where
  "sync_hostname env c dns target zones hostname cfg =
     (let zoneName = ExtractZoneFromHostname (de_etld1 env) hostname
      in case map_of zones zoneName of
           None \<Rightarrow> ret (Done (failed_status hostname (''zone '' @ zoneName @ '' not configured''), False))
         | Some zoneID \<Rightarrow> do {
             r \<leftarrow> svc (SyncRecordWithPolicy c zoneID (desired_record dns target hostname cfg)
                        (owner_id dns) (sync_policy dns));
             case r of
               Inl err \<Rightarrow> ret (Done (failed_status hostname (err_msg err), False))
             | Inr (rcd, modified) \<Rightarrow> do {
                 _ \<leftarrow> (if shouldCreateTXTRecords dns
                      then svc (CreateOwnershipRecord c zoneID
                             \<lparr>op_Hostname = hostname, op_OwnerID = owner_id dns,
                              op_Resource = ''CloudflareDNS/'' @ dns_ns dns @ ''/'' @ dns_name dns,
                              op_Prefix = ownership_prefix dns\<rparr>)
                      else ret (Inr ()));
                 case rcd of
                   None \<Rightarrow> ret Panic
                 | Some record \<Rightarrow> do {
                     (if modified
                      then k8s (de_Event env (dns_key dns) ''Normal'' ''RecordSynced'' ''Sync''
                                  (''DNS record synced: '' @ hostname))
                      else ret ());
                     ret (Done (synced_status hostname zoneID record, True))
                   }
               }
           })"

fun sync_loop ::
  "'w DnsEnv \<Rightarrow> 'w Client \<Rightarrow> CloudflareDNS \<Rightarrow> string \<Rightarrow> strmap \<Rightarrow> hostname_map \<Rightarrow>
     DNSRecordSyncStatus list \<Rightarrow> int \<Rightarrow> int \<Rightarrow>
     ('w ProcState, (DNSRecordSyncStatus list \<times> int \<times> int) go_exn) io" where
  "sync_loop env c dns target zones [] statuses synced failed = ret (Done (statuses, synced, failed))"
| "sync_loop env c dns target zones ((hostname, cfg) # rest) statuses synced failed = do {
     x \<leftarrow> sync_hostname env c dns target zones hostname cfg;
     case x of
       Panic \<Rightarrow> ret Panic
     | Done (st, ok) \<Rightarrow>
         sync_loop env c dns target zones rest (statuses @ [st])
           (if ok then synced + 1 else synced) (if ok then failed else failed + 1)
   }"

definition delete_orphan ::
  "'w DnsEnv \<Rightarrow> 'w Client \<Rightarrow> CloudflareDNS \<Rightarrow> strmap \<Rightarrow> string \<Rightarrow> string \<Rightarrow> DNSRecordSyncStatus \<Rightarrow>
     ('w ProcState, unit) io" where
  "delete_orphan env c dns zones ownerID pre prev =
     (let zoneName = ExtractZoneFromHostname (de_etld1 env) (rs_Hostname prev)
      in case map_of zones zoneName of
           None \<Rightarrow> ret ()
         | Some zoneID \<Rightarrow> do {
             existing \<leftarrow> svc (FindRecordByName c zoneID (rs_Hostname prev) (rs_Type prev));
             case existing of
               Inl err \<Rightarrow> ret ()
             | Inr rcd \<Rightarrow>
                 if rcd \<noteq> None \<and> IsOwnedByCfgate rcd ownerID then do {
                   d \<leftarrow> svc (DeleteRecord c zoneID (rs_RecordID prev));
                   (case d of
                      Inl err \<Rightarrow> ret ()
                    | Inr u \<Rightarrow> k8s (de_Event env (dns_key dns) ''Normal'' ''RecordDeleted'' ''Delete''
                                      (''DNS record deleted: '' @ rs_Hostname prev)));
                   (if shouldCreateTXTRecords dns
                    then do {
                      _ \<leftarrow> svc (DeleteOwnershipRecord c zoneID (rs_Hostname prev) pre);
                      ret ()
                    }
                    else ret ())
                 }
                 else ret ()
           })"

fun deleteOrphaned_loop ::
  "'w DnsEnv \<Rightarrow> 'w Client \<Rightarrow> CloudflareDNS \<Rightarrow> string list \<Rightarrow> strmap \<Rightarrow> string \<Rightarrow> string \<Rightarrow>
     DNSRecordSyncStatus list \<Rightarrow> ('w ProcState, unit) io" where
  "deleteOrphaned_loop env c dns hostnames zones ownerID pre [] = ret ()"
| "deleteOrphaned_loop env c dns hostnames zones ownerID pre (prev # rest) = do {
     (if rs_Hostname prev \<notin> List.set hostnames \<and> rs_RecordID prev \<noteq> ''''
      then delete_orphan env c dns zones ownerID pre prev else ret ());
     deleteOrphaned_loop env c dns hostnames zones ownerID pre rest
   }"

definition deleteOrphanedRecords ::
  "'w DnsEnv \<Rightarrow> 'w Client \<Rightarrow> CloudflareDNS \<Rightarrow> string list \<Rightarrow> strmap \<Rightarrow> string \<Rightarrow> string \<Rightarrow>
     ('w ProcState, unit res) io" where
  "deleteOrphanedRecords env c dns hostnames zones ownerID pre = do {
     deleteOrphaned_loop env c dns hostnames zones ownerID pre (dst_Records (cdns_Status dns));
     ret (Inr ())
   }"

definition syncRecords ::
  "'w DnsEnv \<Rightarrow> 'w Client \<Rightarrow> CloudflareDNS \<Rightarrow> string \<Rightarrow> hostname_map \<Rightarrow> strmap \<Rightarrow>
     ('w ProcState, CloudflareDNS res go_exn) io" where
  "syncRecords env c dns target hostnameConfigs zones = do {
     order \<leftarrow> k8s (de_Range env hostnameConfigs);
     r \<leftarrow> sync_loop env c dns target zones order [] 0 0;
     case r of
       Panic \<Rightarrow> ret Panic
     | Done (statuses, synced, failed) \<Rightarrow> do {
         (if sync_policy dns = PolicySync then do {
            keys \<leftarrow> hostnameKeys env hostnameConfigs;
            _ \<leftarrow> deleteOrphanedRecords env c dns keys zones (owner_id dns) (ownership_prefix dns);
            ret ()
          }
          else ret ());
         ret (Done (Inr (dns\<lparr>cdns_Status := (cdns_Status dns)
           \<lparr>dst_Records := statuses, dst_SyncedRecords := synced, dst_PendingRecords := 0,
            dst_FailedRecords := failed\<rparr>\<rparr>)))
       }
   }"

fun verify_loop ::
  "'w DnsEnv \<Rightarrow> 'w Client \<Rightarrow> CloudflareDNS \<Rightarrow> strmap \<Rightarrow> string list \<Rightarrow> ('w ProcState, bool res) io" where
  "verify_loop env c dns zones [] = ret (Inr True)"
| "verify_loop env c dns zones (hostname # rest) =
     (case map_of zones (ExtractZoneFromHostname (de_etld1 env) hostname) of
        None \<Rightarrow> verify_loop env c dns zones rest
      | Some zoneID \<Rightarrow> do {
          r \<leftarrow> svc (FindRecordByName c zoneID (ownership_prefix dns @ ''.'' @ hostname) ''TXT'');
          case r of
            Inl err \<Rightarrow> ret (Inl (wrapf (''failed to verify ownership for '' @ hostname) err))
          | Inr None \<Rightarrow> ret (Inl (errorf (''ownership record missing for '' @ hostname)))
          | Inr (Some record) \<Rightarrow>
              if \<not> IsOwnedByCfgate (Some record) (owner_id dns)
              then ret (Inl (errorf (''ownership conflict for '' @ hostname @ '': owned by different controller'')))
              else verify_loop env c dns zones rest
        })"

definition verifyOwnership ::
  "'w DnsEnv \<Rightarrow> 'w Client \<Rightarrow> CloudflareDNS \<Rightarrow> strmap \<Rightarrow> string list \<Rightarrow> ('w ProcState, bool res) io" where
  "verifyOwnership env c dns zones hostnames =
     (if \<not> shouldCreateTXTRecords dns then ret (Inr False)
      else verify_loop env c dns zones hostnames)"

section \<open>Clients\<close>

definition getClientFromTunnel ::
  "'w DnsEnv \<Rightarrow> CloudflareTunnel \<Rightarrow> ('w ProcState, 'w Client res) io" where
  "getClientFromTunnel env tunnel =
     (let cf = ts_Cloudflare (ct_Spec tunnel);
          secretNamespace = (if sr_Namespace (cc_SecretRef cf) = '''' then om_Namespace (ct_Meta tunnel)
                             else sr_Namespace (cc_SecretRef cf))
      in do {
        r \<leftarrow> k8s (de_GetSecret env \<lparr>nn_Namespace = secretNamespace, nn_Name = sr_Name (cc_SecretRef cf)\<rparr>);
        case r of
          Inl err \<Rightarrow> ret (Inl (wrapf ''failed to get credentials secret'' err))
        | Inr secret \<Rightarrow>
            (let tokenKey = (if cc_APIToken cf = '''' then ''CLOUDFLARE_API_TOKEN'' else cc_APIToken cf)
             in cachedClient (de_Now env) secret
                  (createClientFromSecret (de_cfNewClient env) secret tokenKey))
      })"

definition dns_getCloudflareClient ::
  "'w DnsEnv \<Rightarrow> CloudflareDNS \<Rightarrow> CloudflareTunnel option \<Rightarrow> ('w ProcState, 'w Client res) io" where
  "dns_getCloudflareClient env dns tunnel =
     (case de_CFClient env of
        Some c \<Rightarrow> ret (Inr c)
      | None \<Rightarrow>
          (case tunnel of
             Some t \<Rightarrow> getClientFromTunnel env t
           | None \<Rightarrow>
               (case ds_Cloudflare (cdns_Spec dns) of
                  None \<Rightarrow> ret (Inl (errorf ''cloudflare credentials required for external target mode''))
                | Some cf \<Rightarrow>
                    if sr_Name (cc_SecretRef cf) = ''''
                    then ret (Inl (errorf ''cloudflare credentials required for external target mode''))
                    else
                      (let secretNamespace = (if sr_Namespace (cc_SecretRef cf) = '''' then dns_ns dns
                                              else sr_Namespace (cc_SecretRef cf))
                       in do {
                         r \<leftarrow> k8s (de_GetSecret env
                                \<lparr>nn_Namespace = secretNamespace, nn_Name = sr_Name (cc_SecretRef cf)\<rparr>);
                         case r of
                           Inl err \<Rightarrow> ret (Inl (wrapf ''failed to get credentials secret'' err))
                         | Inr secret \<Rightarrow>
                             (let tokenKey = (if cc_APIToken cf \<noteq> '''' then cc_APIToken cf
                                              else ''CLOUDFLARE_API_TOKEN'')
                              in cachedClient (de_Now env) secret
                                   (createClientFromSecret (de_cfNewClient env) secret tokenKey))
                       }))))"

definition fallbackClient ::
  "'w DnsEnv \<Rightarrow> CloudflareDNS \<Rightarrow> ('w ProcState, 'w Client res) io" where
  "fallbackClient env dns =
     (case ds_FallbackCredentialsRef (cdns_Spec dns) of
        None \<Rightarrow> ret (Inl (errorf ''credentials unavailable and no fallback configured''))
      | Some ref \<Rightarrow>
          (let fallbackNamespace = (if sref_Namespace ref = '''' then dns_ns dns else sref_Namespace ref)
           in do {
             r \<leftarrow> k8s (de_GetSecret env \<lparr>nn_Namespace = fallbackNamespace, nn_Name = sref_Name ref\<rparr>);
             case r of
               Inl err \<Rightarrow> ret (Inl (wrapf ''failed to get fallback credentials secret'' err))
             | Inr secret \<Rightarrow>
                 (case map_of (sec_Data secret) ''CLOUDFLARE_API_TOKEN'' of
                    None \<Rightarrow> ret (Inl (errorf ''CLOUDFLARE_API_TOKEN not found in fallback secret''))
                  | Some token \<Rightarrow> ret (NewClient (de_cfNewClient env) token))
           }))"

definition ownClient :: "'w DnsEnv \<Rightarrow> CloudflareDNS \<Rightarrow> ('w ProcState, 'w Client res) io" where
  "ownClient env dns =
     (case ds_Cloudflare (cdns_Spec dns) of
        None \<Rightarrow> fallbackClient env dns
      | Some cf \<Rightarrow>
          if sr_Name (cc_SecretRef cf) = '''' then fallbackClient env dns
          else do {
            r \<leftarrow> dns_getCloudflareClient env dns None;
            case r of Inr c \<Rightarrow> ret (Inr c) | Inl err \<Rightarrow> fallbackClient env dns
          })"

definition getCloudflareClientWithFallback ::
  "'w DnsEnv \<Rightarrow> CloudflareDNS \<Rightarrow> ('w ProcState, 'w Client res) io" where
  "getCloudflareClientWithFallback env dns =
     (case ds_TunnelRef (cdns_Spec dns) of
        None \<Rightarrow> ownClient env dns
      | Some ref \<Rightarrow> do {
          t \<leftarrow> resolveTunnel env dns ref;
          case t of
            Inl err \<Rightarrow> ownClient env dns
          | Inr tunnel \<Rightarrow> do {
              r \<leftarrow> getClientFromTunnel env tunnel;
              case r of Inr c \<Rightarrow> ret (Inr c) | Inl err \<Rightarrow> ownClient env dns
            }
        })"

section \<open>Deletion\<close>

fun cleanup_records ::
  "'w Client \<Rightarrow> CloudflareDNS \<Rightarrow> string \<Rightarrow> string \<Rightarrow> DNSRecord list \<Rightarrow> ('w ProcState, unit) io" where
  "cleanup_records c dns ownerID zoneID [] = ret ()"
| "cleanup_records c dns ownerID zoneID (record # rest) =
     (let onlyManaged = (case cp_OnlyManaged (ds_CleanupPolicy (cdns_Spec dns)) of
                           None \<Rightarrow> True | Some b \<Rightarrow> b)
      in do {
        (if IsOwnedByCfgate (Some record) ownerID \<or> \<not> onlyManaged
         then do {
           _ \<leftarrow> svc (DeleteRecord c zoneID (dr_ID record));
           ret ()
         }
         else ret ());
        cleanup_records c dns ownerID zoneID rest
      })"

definition cleanup_zone ::
  "'w Client \<Rightarrow> CloudflareDNS \<Rightarrow> string \<Rightarrow> string \<Rightarrow> ('w ProcState, unit) io" where
  "cleanup_zone c dns ownerID zoneID = do {
     r \<leftarrow> svc (ListManagedRecords c zoneID ownerID);
     case r of
       Inl err \<Rightarrow> ret ()
     | Inr records \<Rightarrow> cleanup_records c dns ownerID zoneID records
   }"

fun cleanup_zones ::
  "'w Client \<Rightarrow> CloudflareDNS \<Rightarrow> string \<Rightarrow> DNSZoneConfig list \<Rightarrow> ('w ProcState, unit) io" where
  "cleanup_zones c dns ownerID [] = ret ()"
| "cleanup_zones c dns ownerID (z # zs) = do {
     (if zc_ID z = ''''
      then do {
        r \<leftarrow> svc (ResolveZone c (zc_Name z));
        case r of
          Inl err \<Rightarrow> ret ()
        | Inr None \<Rightarrow> ret ()
        | Inr (Some zone) \<Rightarrow> cleanup_zone c dns ownerID (zn_ID zone)
      }
      else cleanup_zone c dns ownerID (zc_ID z));
     cleanup_zones c dns ownerID zs
   }"

definition cleanupRecordsWithFallback ::
  "'w DnsEnv \<Rightarrow> CloudflareDNS \<Rightarrow> ('w ProcState, unit res) io" where
  "cleanupRecordsWithFallback env dns = do {
     r \<leftarrow> getCloudflareClientWithFallback env dns;
     case r of
       Inl err \<Rightarrow> ret (Inl (wrapf ''failed to get Cloudflare client'' err))
     | Inr c \<Rightarrow> do {
         new_service None;
         cleanup_zones c dns (owner_id dns) (ds_Zones (cdns_Spec dns));
         ret (Inr ())
       }
   }"

definition dns_reconcileDelete ::
  "'w DnsEnv \<Rightarrow> CloudflareDNS \<Rightarrow> ('w ProcState, Result \<times> go_error option) io" where
  "dns_reconcileDelete env dns =
     (if \<not> fl_Contains (de_Finalizers env) (cdns_Meta dns) dnsFinalizer then ret (no_requeue, None)
      else
        (let shouldDelete = (case cp_DeleteOnResourceRemoval (ds_CleanupPolicy (cdns_Spec dns)) of
                               None \<Rightarrow> True | Some b \<Rightarrow> b)
         in do {
           (if ds_Policy (cdns_Spec dns) = DNSPolicySync \<and> shouldDelete then do {
              r \<leftarrow> cleanupRecordsWithFallback env dns;
              case r of
                Inl err \<Rightarrow> k8s (de_Event env (dns_key dns) ''Warning'' ''DNSCleanupFailed'' ''Cleanup''
                                  (''DNS cleanup failed, records may be orphaned: '' @ err_msg err))
              | Inr u \<Rightarrow> ret ()
            }
            else ret ());
           p \<leftarrow> k8s (de_Patch env dns
                  (dns\<lparr>cdns_Meta := fl_Remove (de_Finalizers env) (cdns_Meta dns) dnsFinalizer\<rparr>));
           case p of
             Inl err \<Rightarrow> ret (no_requeue, Some (wrapf ''failed to remove finalizer'' err))
           | Inr u \<Rightarrow> ret (no_requeue, None)
         }))"

section \<open>Reconcile\<close>

text \<open>Steps 7 to 9, from syncing the records to the final status.\<close>

definition reconcile_records ::
  "'w DnsEnv \<Rightarrow> 'w Client \<Rightarrow> CloudflareDNS \<Rightarrow> string \<Rightarrow> hostname_map \<Rightarrow> strmap \<Rightarrow>
     ('w ProcState, (Result \<times> go_error option) go_exn) io" where
  "reconcile_records env c dns target hostnames zones = do {
     sr \<leftarrow> syncRecords env c dns target hostnames zones;
     case sr of
       Panic \<Rightarrow> ret Panic
     | Done (Inl err) \<Rightarrow> do {
         dns \<leftarrow> dns_setCondition env dns ''RecordsSynced'' StFalse ''RecordSyncFailed'' (err_msg err);
         _ \<leftarrow> dns_updateStatus env dns;
         k8s (de_Event env (dns_key dns) ''Warning'' ''SyncFailed'' ''Sync'' (err_msg err));
         ret (Done (requeue_after (seconds 30), None))
       }
     | Done (Inr dns) \<Rightarrow> do {
         dns \<leftarrow> dns_setCondition env dns ''RecordsSynced'' StTrue ''RecordsSynced''
                  ''DNS records synced successfully'';
         keys \<leftarrow> hostnameKeys env hostnames;
         v \<leftarrow> verifyOwnership env c dns zones keys;
         dns \<leftarrow> (case v of
                   Inl err \<Rightarrow> dns_setCondition env dns ''OwnershipVerified'' StFalse ''OwnershipFailed''
                                (err_msg err)
                 | Inr True \<Rightarrow> dns_setCondition env dns ''OwnershipVerified'' StTrue ''OwnershipVerified''
                                ''Ownership records verified''
                 | Inr False \<Rightarrow> dns_setCondition env dns ''OwnershipVerified'' StFalse ''OwnershipFailed''
                                ''Ownership TXT records disabled'');
         dns \<leftarrow> dns_setCondition env dns ''Ready'' StTrue ''Ready'' ''DNS sync is operational'';
         now \<leftarrow> k8s (de_Now env);
         let dns = dns\<lparr>cdns_Status := (cdns_Status dns)
           \<lparr>dst_ObservedGeneration := om_Generation (cdns_Meta dns), dst_LastSyncTime := Some now\<rparr>\<rparr>;
         u \<leftarrow> dns_updateStatus env dns;
         case u of
           Inl err \<Rightarrow> ret (Done (requeue_after (seconds 30), None))
         | Inr _ \<Rightarrow> do {
             k8s (de_Event env (dns_key dns) ''Normal'' ''Reconciled'' ''Reconcile''
                    ''DNS sync completed successfully'');
             ret (Done (requeue_after (seconds 300), None))
           }
       }
   }"

text \<open>An early exit: set one condition False, write the status, retry in thirty seconds.\<close>

definition fail_with ::
  "'w DnsEnv \<Rightarrow> CloudflareDNS \<Rightarrow> string \<Rightarrow> string \<Rightarrow> go_error \<Rightarrow>
     ('w ProcState, (Result \<times> go_error option) go_exn) io" where
  "fail_with env dns conditionType reason err = do {
     dns \<leftarrow> dns_setCondition env dns conditionType StFalse reason (err_msg err);
     _ \<leftarrow> dns_updateStatus env dns;
     ret (Done (requeue_after (seconds 30), None))
   }"

text \<open>Steps 4 to 6, from the hostnames to the zones.\<close>

definition reconcile_active ::
  "'w DnsEnv \<Rightarrow> CloudflareDNS \<Rightarrow> string \<Rightarrow> CloudflareTunnel option \<Rightarrow>
     ('w ProcState, (Result \<times> go_error option) go_exn) io" where
  "reconcile_active env dns target tunnel = do {
     h \<leftarrow> collectHostnames env dns tunnel;
     case h of
       Inl err \<Rightarrow> ret (Done (requeue_after (seconds 30), None))
     | Inr hostnames \<Rightarrow>
         if gr_Enabled (hs_GatewayRoutes (ds_Source (cdns_Spec dns))) \<and> length hostnames = 0 \<and>
            length (hs_Explicit (ds_Source (cdns_Spec dns))) = 0
         then do {
           dns \<leftarrow> dns_setCondition env dns ''RecordsSynced'' StUnknown ''NoHostnamesDiscovered''
                    ''Gateway routes enabled but no hostnames found yet; retrying'';
           dns \<leftarrow> dns_setCondition env dns ''Ready'' StUnknown ''NoHostnamesDiscovered''
                    ''Waiting for hostname discovery from gateway routes'';
           _ \<leftarrow> dns_updateStatus env dns;
           ret (Done (requeue_after (seconds 10), None))
         }
         else do {
           cl \<leftarrow> dns_getCloudflareClient env dns tunnel;
           case cl of
             Inl err \<Rightarrow> fail_with env dns ''CredentialsValid'' ''CredentialsInvalid'' err
           | Inr c \<Rightarrow> do {
               dns \<leftarrow> dns_setCondition env dns ''CredentialsValid'' StTrue ''CredentialsValid''
                        ''Credentials are valid'';
               new_service (Some NewDNSRecordCache);
               z \<leftarrow> resolveZones c dns;
               case z of
                 Inl err \<Rightarrow> fail_with env dns ''ZonesResolved'' ''ZoneResolutionFailed'' err
               | Inr zones \<Rightarrow> do {
                   dns \<leftarrow> dns_setCondition env dns ''ZonesResolved'' StTrue ''ZonesResolved''
                            ''All zones resolved successfully'';
                   reconcile_records env c dns target hostnames zones
                 }
             }
         }
   }"

definition dns_Reconcile ::
  "'w DnsEnv \<Rightarrow> NamespacedName \<Rightarrow> ('w ProcState, (Result \<times> go_error option) go_exn) io" where
  "dns_Reconcile env req = do {
     g \<leftarrow> k8s (de_Get env req);
     case g of
       Inl err \<Rightarrow> if IsNotFound err then ret (Done (no_requeue, None))
                  else ret (Done (no_requeue, Some (wrapf ''failed to get CloudflareDNS'' err)))
     | Inr dns \<Rightarrow>
         if om_DeletionTimestamp (cdns_Meta dns) \<noteq> None then do {
           r \<leftarrow> dns_reconcileDelete env dns;
           ret (Done r)
         }
         else if \<not> fl_Contains (de_Finalizers env) (cdns_Meta dns) dnsFinalizer then do {
           p \<leftarrow> k8s (de_Patch env dns
                  (dns\<lparr>cdns_Meta := fl_Add (de_Finalizers env) (cdns_Meta dns) dnsFinalizer\<rparr>));
           case p of
             Inl err \<Rightarrow> ret (Done (no_requeue, Some (wrapf ''failed to add finalizer'' err)))
           | Inr u \<Rightarrow> ret (Done (\<lparr>res_Requeue = True, res_RequeueAfter = 0\<rparr>, None))
         }
         else do {
           t \<leftarrow> resolveTarget env dns;
           case t of
             Inl err \<Rightarrow> fail_with env dns ''Ready'' ''TargetResolutionFailed'' err
           | Inr (target, tunnel) \<Rightarrow>
               reconcile_active env
                 (dns\<lparr>cdns_Status := (cdns_Status dns)\<lparr>dst_ResolvedTarget := target\<rparr>\<rparr>) target tunnel
         }
   }"

section \<open>Lemmas: hostnames\<close>

lemma keys_put_hostnames [simp]:
  "fst ` List.set (put_hostnames cfg hs m) = List.set hs \<union> fst ` List.set m"
  by (induction cfg hs m rule: put_hostnames.induct) auto

lemma distinct_put_hostnames [simp]:
  "distinct (map fst m) \<Longrightarrow> distinct (map fst (put_hostnames cfg hs m))"
  by (induction cfg hs m rule: put_hostnames.induct) auto

definition attached :: "HTTPRoute \<Rightarrow> Gateway \<Rightarrow> bool" where
  "attached route gw \<longleftrightarrow> (\<exists>p \<in> List.set (hr_ParentRefs route). parent_is_gateway route gw p)"

lemma keys_collect_parents:
  "fst ` List.set (collect_parents route gw ps m) =
     (if \<exists>p \<in> List.set ps. parent_is_gateway route gw p then List.set (hr_Hostnames route) else {}) \<union>
     fst ` List.set m"
  by (induction route gw ps m rule: collect_parents.induct) auto

lemma distinct_collect_parents [simp]:
  "distinct (map fst m) \<Longrightarrow> distinct (map fst (collect_parents route gw ps m))"
  by (induction route gw ps m rule: collect_parents.induct) auto

lemma keys_collect_routes:
  "fst ` List.set (collect_routes flt gw routes m) =
     (\<Union>r \<in> {r \<in> List.set routes. \<not> route_filtered flt r \<and> attached r gw}. List.set (hr_Hostnames r)) \<union>
     fst ` List.set m"
  by (induction flt gw routes m rule: collect_routes.induct) (auto simp: keys_collect_parents attached_def)

lemma distinct_collect_routes [simp]:
  "distinct (map fst m) \<Longrightarrow> distinct (map fst (collect_routes flt gw routes m))"
  by (induction flt gw routes m rule: collect_routes.induct) auto

lemma collect_gateways_run:
  assumes "run_state (de_ListRoutes env) (ps_world s) = (Inr routes, ps_world s)"
    and "distinct (map fst m)"
  shows "\<exists>m'. run_state (collect_gateways env flt gws m) s = (Inr m', s) \<and> distinct (map fst m') \<and>
    fst ` List.set m' =
      (\<Union>r \<in> {r \<in> List.set routes. \<not> route_filtered flt r \<and> (\<exists>gw \<in> List.set gws. attached r gw)}.
         List.set (hr_Hostnames r)) \<union> fst ` List.set m"
  using assms(2)
proof (induction gws arbitrary: m)
  case Nil
  then show ?case by simp
next
  case (Cons gw gws)
  have "distinct (map fst (collect_routes flt gw routes m))" using Cons.prems by simp
  from Cons.IH [OF this] obtain m' where
    "run_state (collect_gateways env flt gws (collect_routes flt gw routes m)) s = (Inr m', s)"
    "distinct (map fst m')"
    "fst ` List.set m' =
      (\<Union>r \<in> {r \<in> List.set routes. \<not> route_filtered flt r \<and> (\<exists>gw \<in> List.set gws. attached r gw)}.
         List.set (hr_Hostnames r)) \<union> fst ` List.set (collect_routes flt gw routes m)" by auto
  then show ?case using assms(1) by (auto simp: keys_collect_routes)
qed

lemma collectHostnames_run:
  assumes "run_state (de_ListGateways env) (ps_world s) = (Inr gws, ps_world s)"
    and "run_state (de_ListRoutes env) (ps_world s) = (Inr routes, ps_world s)"
  shows "let src = ds_Source (cdns_Spec dns);
             found = {h. \<exists>r \<in> List.set routes. \<exists>gw \<in> List.set gws. h \<in> List.set (hr_Hostnames r) \<and>
               \<not> route_filtered (gr_AnnotationFilter (hs_GatewayRoutes src)) r \<and> attached r gw \<and>
               map_of (om_Annotations (gw_Meta gw)) AnnotationTunnelRef = map_option tunnel_ref tunnel}
         in \<exists>m. run_state (collectHostnames env dns tunnel) s = (Inr m, s) \<and> distinct (map fst m) \<and>
              fst ` List.set m = eh_Hostname ` List.set (hs_Explicit src) \<union>
                (if gr_Enabled (hs_GatewayRoutes src) \<and> tunnel \<noteq> None then found else {})"
proof (cases tunnel)
  case None
  then show ?thesis
    by (auto simp: collectHostnames_def collectHostnamesFromRoutes_def Let_def)
next
  case (Some t)
  let ?src = "ds_Source (cdns_Spec dns)"
  obtain m where m: "run_state (collect_gateways env (gr_AnnotationFilter (hs_GatewayRoutes ?src))
        (relevant_gateways t gws) []) s = (Inr m, s)" "distinct (map fst m)"
      "fst ` List.set m = (\<Union>r \<in> {r \<in> List.set routes.
          \<not> route_filtered (gr_AnnotationFilter (hs_GatewayRoutes ?src)) r \<and>
          (\<exists>gw \<in> List.set (relevant_gateways t gws). attached r gw)}. List.set (hr_Hostnames r))"
    using collect_gateways_run [OF assms(2), of "[]" "gr_AnnotationFilter (hs_GatewayRoutes ?src)"
        "relevant_gateways t gws"] by auto
  then have "fst ` List.set m = {h. \<exists>r \<in> List.set routes. \<exists>gw \<in> List.set gws. h \<in> List.set (hr_Hostnames r) \<and>
      \<not> route_filtered (gr_AnnotationFilter (hs_GatewayRoutes ?src)) r \<and> attached r gw \<and>
      map_of (om_Annotations (gw_Meta gw)) AnnotationTunnelRef = map_option tunnel_ref tunnel}"
    using Some by (auto simp: relevant_gateways_def)
  with m(1,2) Some assms(1) show ?thesis
    by (auto simp: collectHostnames_def collectHostnamesFromRoutes_def Let_def)
qed

section \<open>Lemmas: syncing\<close>

lemma sync_hostname_status:
  assumes "run_state (sync_hostname env c dns target zones h cfg) s = (Done (st, ok), s')"
  shows "rs_Hostname st = h \<and> rs_Status st = (if ok then ''Synced'' else ''Failed'')"
  using assms
  by (auto simp: sync_hostname_def Let_def failed_status_def synced_status_def
      split: option.splits sum.splits prod.splits if_splits)

abbreviation count_status :: "string \<Rightarrow> DNSRecordSyncStatus list \<Rightarrow> int" where
  "count_status st rs \<equiv> int (length (filter (\<lambda>r. rs_Status r = st) rs))"

lemma sync_loop_report:
  assumes "run_state (sync_loop env c dns target zones hs sts sy fl) s = (Done (sts', sy', fl'), s')"
  shows "\<exists>new. sts' = sts @ new \<and> map rs_Hostname new = map fst hs \<and>
    sy' = sy + count_status ''Synced'' new \<and> fl' = fl + count_status ''Failed'' new \<and>
    (sy' - sy) + (fl' - fl) = int (length hs)"
  using assms
proof (induction env c dns target zones hs sts sy fl arbitrary: s rule: sync_loop.induct)
  case (1 env c dns target zones statuses synced failed)
  then show ?case by auto
next
  case (2 env c dns target zones h cfg rest sts sy fl)
  obtain x s1 where x: "run_state (sync_hostname env c dns target zones h cfg) s = (x, s1)"
    by (cases "run_state (sync_hostname env c dns target zones h cfg) s")
  with 2(2) obtain st ok where d: "x = Done (st, ok)" by (cases x) auto
  have run: "run_state (sync_loop env c dns target zones rest (sts @ [st])
      (if ok then sy + 1 else sy) (if ok then fl else fl + 1)) s1 = (Done (sts', sy', fl'), s')"
    using 2(2) x d by simp
  from 2(1) [OF run] obtain new where n: "sts' = (sts @ [st]) @ new"
    "map rs_Hostname new = map fst rest"
    "sy' = (if ok then sy + 1 else sy) + count_status ''Synced'' new"
    "fl' = (if ok then fl else fl + 1) + count_status ''Failed'' new"
    "(sy' - (if ok then sy + 1 else sy)) + (fl' - (if ok then fl else fl + 1)) = int (length rest)"
    by blast
  from sync_hostname_status [OF x [unfolded d]] have "rs_Hostname st = h"
    "rs_Status st = (if ok then ''Synced'' else ''Failed'')" by auto
  with n show ?case by (intro exI [of _ "st # new"]) (auto split: if_splits)
qed

section \<open>Lemmas: conditions\<close>

lemma setCondition_run:
  assumes "run_state (dns_setCondition env dns t st r m) s = (dns', s')"
  shows "cdns_Meta dns' = cdns_Meta dns \<and> cdns_Spec dns' = cdns_Spec dns \<and>
    dst_FailedRecords (cdns_Status dns') = dst_FailedRecords (cdns_Status dns) \<and>
    ConditionTrue (dst_Conditions (cdns_Status dns')) t' =
      (if t' = t then st = StTrue else ConditionTrue (dst_Conditions (cdns_Status dns)) t')"
  using assms
  by (auto simp: dns_setCondition_def status_conds.ConditionTrue_set simp flip: SetCondition_def
      split: prod.splits)

text \<open>The second object differs from the first at most in one condition.\<close>

definition cond_true_same :: "CloudflareDNS \<Rightarrow> CloudflareDNS \<Rightarrow> string \<Rightarrow> bool" where
  "cond_true_same a b t \<longleftrightarrow> cdns_Meta b = cdns_Meta a \<and> cdns_Spec b = cdns_Spec a \<and>
     dst_FailedRecords (cdns_Status b) = dst_FailedRecords (cdns_Status a) \<and>
     (\<forall>t'. t' \<noteq> t \<longrightarrow> ConditionTrue (dst_Conditions (cdns_Status b)) t' =
        ConditionTrue (dst_Conditions (cdns_Status a)) t')"

lemma setCondition_other:
  "run_state (dns_setCondition env dns t st r m) s = (dns', s') \<Longrightarrow> cond_true_same dns dns' t"
  using setCondition_run by (fastforce simp: cond_true_same_def)

section \<open>Lemmas: deletion\<close>

lemma find_record_delete_upd [simp]:
  "FindRecordByName (c\<lparr>DeleteDNSRecord := del\<rparr>) = FindRecordByName c"
  by (simp add: FindRecordByName_def fun_eq_iff cong: option.case_cong)

lemma create_record_delete_upd [simp]: "createRecord (c\<lparr>DeleteDNSRecord := del\<rparr>) = createRecord c"
  by (simp add: createRecord_def fun_eq_iff cong: sum.case_cong if_cong)

lemma sync_delete_upd [simp]:
  "SyncRecordWithPolicy (c\<lparr>DeleteDNSRecord := del\<rparr>) = SyncRecordWithPolicy c"
  by (simp add: SyncRecordWithPolicy_def updateRecord_def fun_eq_iff
      cong: option.case_cong sum.case_cong if_cong)

lemma create_ownership_delete_upd [simp]:
  "CreateOwnershipRecord (c\<lparr>DeleteDNSRecord := del\<rparr>) = CreateOwnershipRecord c"
  by (simp add: CreateOwnershipRecord_def fun_eq_iff Let_def
      cong: option.case_cong sum.case_cong if_cong)

lemma sync_hostname_delete_upd [simp]:
  "sync_hostname env (c\<lparr>DeleteDNSRecord := del\<rparr>) = sync_hostname env c"
  by (simp add: sync_hostname_def fun_eq_iff Let_def cong: option.case_cong sum.case_cong if_cong)

lemma sync_loop_delete_upd [simp]:
  "sync_loop env (c\<lparr>DeleteDNSRecord := del\<rparr>) dns target zones hs sts sy fl =
   sync_loop env c dns target zones hs sts sy fl"
  by (induction env c dns target zones hs sts sy fl rule: sync_loop.induct)
     (simp_all cong: go_exn.case_cong)

text \<open>Only records that are no longer wanted and have an identifier are looked at.\<close>

definition orphaned :: "string list \<Rightarrow> DNSRecordSyncStatus \<Rightarrow> bool" where
  "orphaned hostnames prev \<longleftrightarrow> rs_Hostname prev \<notin> List.set hostnames \<and> rs_RecordID prev \<noteq> ''''"

lemma deleteOrphaned_loop_filter:
  "deleteOrphaned_loop env c dns hostnames zones ownerID pre recs =
   deleteOrphaned_loop env c dns hostnames zones ownerID pre (filter (orphaned hostnames) recs)"
  by (induction recs) (simp_all add: orphaned_def)

text \<open>When every listed record passes the ownership test, the setting OnlyManaged is irrelevant.\<close>

lemma cleanup_records_managed:
  assumes "\<forall>r \<in> List.set rs. IsOwnedByCfgate (Some r) ownerID"
  shows "cleanup_records c dns ownerID z rs = cleanup_records c dns' ownerID z rs"
  using assms by (induction rs) simp_all

lemma ListManagedRecords_owned:
  assumes "run_state (ListManagedRecords c z ownerID) t = (Inr rs, t')"
  shows "\<forall>r \<in> List.set rs. IsOwnedByCfgate (Some r) ownerID"
  using assms by (auto simp: ListManagedRecords_def split: sum.splits prod.splits)

lemma cleanup_zone_managed: "cleanup_zone c dns ownerID z = cleanup_zone c dns' ownerID z"
  unfolding cleanup_zone_def
proof (rule bind_cong_run [OF refl])
  fix r s s' assume "run_state (svc (ListManagedRecords c z ownerID)) s = (r, s')"
  then have "\<forall>rs. r = Inr rs \<longrightarrow> (\<forall>x \<in> List.set rs. IsOwnedByCfgate (Some x) ownerID)"
    by (auto split: prod.splits dest: ListManagedRecords_owned)
  then show "run_state (case r of Inl err \<Rightarrow> ret () | Inr records \<Rightarrow> cleanup_records c dns ownerID z records) s' =
    run_state (case r of Inl err \<Rightarrow> ret () | Inr records \<Rightarrow> cleanup_records c dns' ownerID z records) s'"
    using cleanup_records_managed [of _ ownerID c dns z dns'] by (auto split: sum.split)
qed

lemma cleanup_zones_managed: "cleanup_zones c dns ownerID zs = cleanup_zones c dns' ownerID zs"
  by (induction zs) (simp_all add: cleanup_zone_managed [of c dns ownerID _ dns'])

lemma conditions_equal_iff:
  "conditions_equal as bs \<longleftrightarrow>
     map (\<lambda>c. (c_Type c, c_Status c, c_Reason c, c_Message c)) as =
     map (\<lambda>c. (c_Type c, c_Status c, c_Reason c, c_Message c)) bs"
  by (induction as bs rule: conditions_equal.induct) auto

section \<open>An environment for the witnesses\<close>

text \<open>A cluster with one Gateway, one HTTPRoute and one CloudflareDNS, whose world is the list of
  status writes; the Cloudflare API refuses every call.\<close>

definition down :: go_error where
  "down = errorf ''service unavailable''"

definition down_sdk :: "'w Sdk" where
  "down_sdk =
     \<lparr>TunnelsGet = (\<lambda>t a. ret (Inl down)), TunnelsList = (\<lambda>a n. ret (Inl down)),
      TunnelsNew = (\<lambda>a n s c. ret (Inl down)), TunnelsDelete = (\<lambda>t a. ret (Inl down)),
      ConnectionsDelete = (\<lambda>t a. ret (Inl down)), TokenGet = (\<lambda>t a. ret (Inl down)),
      ConfigurationsUpdate = (\<lambda>t a c. ret (Inl down)), RecordsList = (\<lambda>z q. ret ([], Some down)),
      RecordsNew = (\<lambda>z b. ret (Inl down)), RecordsUpdate = (\<lambda>i z b. ret (Inl down)),
      RecordsDelete = (\<lambda>i z. ret (Inl down)), ZonesListAutoPaging = ret ([], Some down),
      ZonesList = (\<lambda>n. ret (Inl down)), AccountsList = ret (Inl down)\<rparr>"

definition wit_dns :: CloudflareDNS where
  "wit_dns =
     \<lparr>cdns_Meta = (wit_meta [])\<lparr>om_Finalizers := [dnsFinalizer]\<rparr>,
      cdns_Spec = \<lparr>ds_TunnelRef = None,
        ds_ExternalTarget = Some \<lparr>et_Type = ''CNAME'', et_Value = ''lb.example.net''\<rparr>,
        ds_Zones = [\<lparr>zc_Name = ''example.com'', zc_ID = ''z1'', zc_Proxied = None\<rparr>],
        ds_Policy = ''sync'',
        ds_Source = \<lparr>hs_GatewayRoutes = \<lparr>gr_Enabled = True, gr_AnnotationFilter = '''',
                       gr_NamespaceSelector = None\<rparr>,
                     hs_Explicit = [\<lparr>eh_Hostname = ''app.example.com'', eh_Target = '''',
                       eh_Proxied = None, eh_TTL = 0\<rparr>]\<rparr>,
        ds_Defaults = \<lparr>rd_Proxied = True, rd_TTL = 600\<rparr>,
        ds_Ownership = \<lparr>oc_OwnerID = '''', oc_TXTRecord = \<lparr>to_Enabled = None, to_Prefix = ''''\<rparr>,
                        oc_Comment = \<lparr>co_Enabled = False, co_Template = ''''\<rparr>\<rparr>,
        ds_CleanupPolicy = \<lparr>cp_DeleteOnRouteRemoval = None, cp_DeleteOnResourceRemoval = None,
                            cp_OnlyManaged = None\<rparr>,
        ds_Cloudflare = None, ds_FallbackCredentialsRef = None\<rparr>,
      cdns_Status = \<lparr>dst_SyncedRecords = 0, dst_PendingRecords = 0, dst_FailedRecords = 0,
        dst_Records = [], dst_ResolvedTarget = '''', dst_ObservedGeneration = 0,
        dst_LastSyncTime = None, dst_Conditions = []\<rparr>\<rparr>"

definition wit_gateway :: Gateway where
  "wit_gateway = \<lparr>gw_Meta = wit_meta [(AnnotationTunnelRef, ''infra/edge'')],
     gw_GatewayClassName = ''cfgate'', gw_Listeners = [\<lparr>li_Name = ''web'', li_Hostname = None, li_AllowedFrom = None\<rparr>],
     gw_Addresses = [], gw_Conditions = [], gw_ListenerStatus = []\<rparr>"

definition wit_route :: HTTPRoute where
  "wit_route = \<lparr>hr_Meta = wit_meta [],
     hr_ParentRefs = [\<lparr>pr_Group = None, pr_Kind = None, pr_Namespace = None, pr_Name = ''gw'',
                       pr_SectionName = None, pr_Port = None\<rparr>],
     hr_Hostnames = [''web.example.com''], hr_Rules = [], hr_Parents = []\<rparr>"

definition wit_env :: "(CloudflareDNS list) DnsEnv" where
  "wit_env =
     \<lparr>de_Get = (\<lambda>n. ret (Inr wit_dns)), de_GetTunnel = (\<lambda>n. ret (Inl down)),
      de_GetSecret = (\<lambda>n. ret (Inl down)), de_Patch = (\<lambda>old new. ret (Inr new)),
      de_StatusUpdate = (\<lambda>d. State (\<lambda>w. (Inr (), w @ [d]))),
      de_ListByField = (\<lambda>k v. ret (Inr [wit_dns])), de_ListGateways = ret (Inr [wit_gateway]),
      de_ListRoutes = ret (Inr [wit_route]), de_Event = (\<lambda>n t r a m. ret ()), de_Now = ret 5,
      de_Range = ret, de_CFClient = Some (clientImpl down_sdk), de_cfNewClient = (\<lambda>t. down_sdk),
      de_Finalizers = std_finalizers, de_etld1 = (\<lambda>h. Inr ''example.com'')\<rparr>"

definition wit_state :: "(CloudflareDNS list) ProcState" where
  "wit_state = \<lparr>ps_cred = None, ps_svc = Some NewDNSRecordCache, ps_world = []\<rparr>"

section \<open>Properties\<close>

text \<open>C11: The hostnames of a reconcile. When the listings of Gateways and routes succeed on an
  unchanging cluster, collecting succeeds without side effect, every hostname occurs once, and
  the hostnames are exactly the explicit ones together with, if route discovery is enabled and
  there is a tunnel, those of every HTTPRoute that passes the annotation filter and has a
  parent reference to a Gateway annotated with this tunnel.\<close>

theorem collectHostnames_exact:
  assumes "run_state (de_ListGateways env) (ps_world s) = (Inr gws, ps_world s)"
    and "run_state (de_ListRoutes env) (ps_world s) = (Inr routes, ps_world s)"
  shows "let src = ds_Source (cdns_Spec dns);
             found = {h. \<exists>r \<in> List.set routes. \<exists>gw \<in> List.set gws. h \<in> List.set (hr_Hostnames r) \<and>
               \<not> route_filtered (gr_AnnotationFilter (hs_GatewayRoutes src)) r \<and> attached r gw \<and>
               map_of (om_Annotations (gw_Meta gw)) AnnotationTunnelRef = map_option tunnel_ref tunnel}
         in \<exists>m. run_state (collectHostnames env dns tunnel) s = (Inr m, s) \<and> distinct (map fst m) \<and>
              fst ` List.set m = eh_Hostname ` List.set (hs_Explicit src) \<union>
                (if gr_Enabled (hs_GatewayRoutes src) \<and> tunnel \<noteq> None then found else {})"
  using assms by (rule collectHostnames_run)

theorem collectHostnames_exact_witness:
  "\<exists>m. run_state (collectHostnames wit_env wit_dns None) wit_state = (Inr m, wit_state) \<and>
     fst ` List.set m = {''app.example.com''}"
  using collectHostnames_exact [of wit_env wit_state "[wit_gateway]" "[wit_route]" wit_dns None]
  by (auto simp: wit_env_def Let_def wit_dns_def)

definition ranges_over_entries :: "'w DnsEnv \<Rightarrow> bool" where
  "ranges_over_entries env \<longleftrightarrow>
     (\<forall>m w m' w'. run_state (de_Range env m) w = (m', w') \<longrightarrow> mset m' = mset m)"

text \<open>What a sync reports. A sync that does not panic never reports an error; its status has
  exactly one entry for each hostname, the counts of synced and failed records are those of the
  entries and add up to the number of hostnames, and nothing is pending. (A Go map is ranged over
  in some order of its entries.)\<close>

theorem syncRecords_report:
  assumes "ranges_over_entries env"
    and "run_state (syncRecords env c dns target hs zones) s = (Done r, s')"
  shows "\<exists>dns'. r = Inr dns' \<and> cdns_Spec dns' = cdns_Spec dns \<and> cdns_Meta dns' = cdns_Meta dns \<and>
    (let st = cdns_Status dns' in
       mset (map rs_Hostname (dst_Records st)) = mset (map fst hs) \<and>
       dst_SyncedRecords st = count_status ''Synced'' (dst_Records st) \<and>
       dst_FailedRecords st = count_status ''Failed'' (dst_Records st) \<and>
       dst_SyncedRecords st + dst_FailedRecords st = int (length hs) \<and> dst_PendingRecords st = 0)"
proof -
  obtain order w1 where o: "run_state (de_Range env hs) (ps_world s) = (order, w1)"
    by (cases "run_state (de_Range env hs) (ps_world s)")
  let ?s1 = "s\<lparr>ps_world := w1\<rparr>"
  obtain x s2 where x: "run_state (sync_loop env c dns target zones order [] 0 0) ?s1 = (x, s2)"
    by (cases "run_state (sync_loop env c dns target zones order [] 0 0) ?s1")
  with o assms(2) obtain sts sy fl where d: "x = Done (sts, sy, fl)"
    by (cases x) (auto simp: syncRecords_def)
  with o x assms(2) have r: "r = Inr (dns\<lparr>cdns_Status := (cdns_Status dns)
      \<lparr>dst_Records := sts, dst_SyncedRecords := sy, dst_PendingRecords := 0, dst_FailedRecords := fl\<rparr>\<rparr>)"
    by (auto simp: syncRecords_def split: prod.splits if_splits)
  from sync_loop_report [OF x [unfolded d]] have names: "map rs_Hostname sts = map fst order"
    and counts: "sy = count_status ''Synced'' sts" "fl = count_status ''Failed'' sts"
      "sy + fl = int (length order)" by auto
  have perm: "mset order = mset hs" using assms(1) o by (auto simp: ranges_over_entries_def)
  then have "length order = length hs" by (metis size_mset)
  moreover have "mset (map rs_Hostname sts) = mset (map fst hs)" using perm names by (metis mset_map)
  ultimately show ?thesis using r counts by simp
qed

definition wit_hostnames :: hostname_map where
  "wit_hostnames = [(''app.example.com'', \<lparr>hc_TTL = 0, hc_Proxied = None\<rparr>)]"

definition wit_synced_dns :: CloudflareDNS where
  "wit_synced_dns = wit_dns\<lparr>cdns_Status := (cdns_Status wit_dns)
     \<lparr>dst_Records := [failed_status ''app.example.com'' ''zone example.com not configured''],
      dst_SyncedRecords := 0, dst_PendingRecords := 0, dst_FailedRecords := 1\<rparr>\<rparr>"

lemma wit_sync_run:
  "run_state (syncRecords wit_env (clientImpl down_sdk) wit_dns ''t'' wit_hostnames []) wit_state =
     (Done (Inr wit_synced_dns), wit_state)"
  by (simp add: syncRecords_def wit_env_def sync_hostname_def ExtractZoneFromHostname_def Let_def
      hostnameKeys_def deleteOrphanedRecords_def sync_policy_def wit_dns_def wit_state_def
      wit_hostnames_def wit_synced_dns_def)

theorem syncRecords_report_witness:
  "\<exists>dns'. Inr wit_synced_dns = Inr dns' \<and>
     dst_SyncedRecords (cdns_Status dns') + dst_FailedRecords (cdns_Status dns') =
       int (length wit_hostnames)"
proof -
  have "ranges_over_entries wit_env" by (simp add: ranges_over_entries_def wit_env_def)
  from syncRecords_report [OF this wit_sync_run] show ?thesis by (auto simp: Let_def)
qed



text \<open>The finalizer comes first: the reconcile of an object that is not being deleted and lacks
  the finalizer only patches the finalizer in and asks to be called again; no target, Secret,
  zone or record is read or written before.\<close>

theorem finalizer_before_effects:
  assumes "run_state (de_Get env req) (ps_world s) = (Inr dns, w1)"
    and "om_DeletionTimestamp (cdns_Meta dns) = None"
    and "\<not> fl_Contains (de_Finalizers env) (cdns_Meta dns) dnsFinalizer"
  shows "run_state (dns_Reconcile env req) s =
    (case run_state (de_Patch env dns
            (dns\<lparr>cdns_Meta := fl_Add (de_Finalizers env) (cdns_Meta dns) dnsFinalizer\<rparr>)) w1 of
       (Inl err, w2) \<Rightarrow> (Done (no_requeue, Some (wrapf ''failed to add finalizer'' err)), s\<lparr>ps_world := w2\<rparr>)
     | (Inr _, w2) \<Rightarrow> (Done (\<lparr>res_Requeue = True, res_RequeueAfter = 0\<rparr>, None), s\<lparr>ps_world := w2\<rparr>))"
  using assms by (auto simp: dns_Reconcile_def split: prod.split sum.split)

definition wit_fresh :: CloudflareDNS where
  "wit_fresh = wit_dns\<lparr>cdns_Meta := wit_meta []\<rparr>"

theorem finalizer_before_effects_witness:
  "run_state (dns_Reconcile (wit_env\<lparr>de_Get := \<lambda>n. ret (Inr wit_fresh)\<rparr>) (dns_key wit_fresh)) wit_state =
     (Done (\<lparr>res_Requeue = True, res_RequeueAfter = 0\<rparr>, None), wit_state)"
  using finalizer_before_effects [of "wit_env\<lparr>de_Get := \<lambda>n. ret (Inr wit_fresh)\<rparr>" "dns_key wit_fresh"
      wit_state wit_fresh "ps_world wit_state"]
  by (simp add: wit_env_def wit_fresh_def wit_meta_def std_finalizers_def)



text \<open>The status comparison that suppresses writes is equality of everything it reports, up to
  the times and generations of conditions and the time of the last sync.\<close>

theorem dnsStatusEqual_iff:
  "dnsStatusEqual a b \<longleftrightarrow>
     a\<lparr>dst_LastSyncTime := None, dst_Conditions := []\<rparr> = b\<lparr>dst_LastSyncTime := None, dst_Conditions := []\<rparr> \<and>
     map (\<lambda>c. (c_Type c, c_Status c, c_Reason c, c_Message c)) (dst_Conditions a) =
     map (\<lambda>c. (c_Type c, c_Status c, c_Reason c, c_Message c)) (dst_Conditions b)"
  by (cases a, cases b) (auto simp: dnsStatusEqual_def conditions_equal_iff dest: map_eq_imp_length_eq)

text \<open>The cleanup setting OnlyManaged has no effect: the cleanup of a deleted resource makes the
  same calls whatever its value, because only managed records are listed in the first place.\<close>

theorem OnlyManaged_has_no_effect:
  "cleanupRecordsWithFallback env
     (dns\<lparr>cdns_Spec := (cdns_Spec dns)\<lparr>ds_CleanupPolicy :=
        (ds_CleanupPolicy (cdns_Spec dns))\<lparr>cp_OnlyManaged := b\<rparr>\<rparr>\<rparr>) =
   cleanupRecordsWithFallback env dns"
proof -
  let ?dns = "dns\<lparr>cdns_Spec := (cdns_Spec dns)\<lparr>ds_CleanupPolicy :=
        (ds_CleanupPolicy (cdns_Spec dns))\<lparr>cp_OnlyManaged := b\<rparr>\<rparr>\<rparr>"
  have t: "resolveTunnel env ?dns = resolveTunnel env dns"
    by (simp add: resolveTunnel_def fun_eq_iff)
  have g: "dns_getCloudflareClient env ?dns = dns_getCloudflareClient env dns"
    by (simp add: dns_getCloudflareClient_def fun_eq_iff cong: option.case_cong if_cong sum.case_cong)
  have f: "fallbackClient env ?dns = fallbackClient env dns"
    by (simp add: fallbackClient_def cong: option.case_cong if_cong)
  have o: "ownClient env ?dns = ownClient env dns"
    by (simp add: ownClient_def g f cong: option.case_cong sum.case_cong if_cong)
  have "getCloudflareClientWithFallback env ?dns = getCloudflareClientWithFallback env dns"
    by (simp add: getCloudflareClientWithFallback_def t o cong: option.case_cong sum.case_cong)
  moreover have "owner_id ?dns = owner_id dns" by (simp add: owner_id_def Let_def)
  ultimately show ?thesis
    by (simp add: cleanupRecordsWithFallback_def cleanup_zones_managed [of _ ?dns _ _ dns]
        cong: sum.case_cong)
qed

text \<open>A route without a TTL annotation does not get the default TTL of the resource, nor that of
  an explicit entry for its hostname: the record is always created with TTL 1 (automatic).\<close>

theorem route_ttl_shadows_default:
  assumes "map_of (om_Annotations (hr_Meta route)) AnnotationTTL = None"
  shows "dr_TTL (desired_record dns target h (route_hostname_config route)) = 1"
proof -
  have "hc_TTL (route_hostname_config route) = 1"
    using assms by (simp add: route_hostname_config_def ParseDNSConfig_def GetAnnotationInt_def
        GetAnnotation_def Let_def to_int32_def)
  then show ?thesis by (simp add: desired_record_def BuildCNAMERecord_def Let_def split: prod.split)
qed

theorem route_ttl_shadows_default_witness:
  "rd_TTL (ds_Defaults (cdns_Spec wit_dns)) = 600 \<and>
   dr_TTL (desired_record wit_dns ''t'' ''web.example.com'' (route_hostname_config wit_route)) = 1"
  using route_ttl_shadows_default [of wit_route wit_dns "''t''" "''web.example.com''"]
  by (simp add: wit_route_def wit_dns_def wit_meta_def)

text \<open>A sync that reports no record (as after a refused duplicate) makes the reconcile panic:
  the controller reads the fields of the record without a check.\<close>

theorem missing_record_panics:
  assumes "map_of zones (ExtractZoneFromHostname (de_etld1 env) h) = Some z"
    and "run_state (svc (SyncRecordWithPolicy c z (desired_record dns target h cfg) (owner_id dns)
           (sync_policy dns))) s = (Inr (None, modified), s1)"
  shows "fst (run_state (sync_loop env c dns target zones ((h, cfg) # rest) sts sy fl) s) = Panic"
  using assms by (auto simp: sync_hostname_def Let_def split: prod.splits)

text \<open>For the witness: the zone holds an A record of the hostname, so the API refuses a CNAME.\<close>

definition wit_A_world :: "string \<Rightarrow> SdkRecord list" where
  "wit_A_world = (\<lambda>z. [])(''z1'' := [mem_record ''r'' (ARecordParam ''app.example.com'' ''192.0.2.1'' 1 False '''')])"

definition wit_mem_env :: "(string \<Rightarrow> SdkRecord list) DnsEnv" where
  "wit_mem_env =
     \<lparr>de_Get = (\<lambda>n. ret (Inr wit_dns)), de_GetTunnel = (\<lambda>n. ret (Inl down)),
      de_GetSecret = (\<lambda>n. ret (Inl down)), de_Patch = (\<lambda>old new. ret (Inr new)),
      de_StatusUpdate = (\<lambda>d. ret (Inr ())), de_ListByField = (\<lambda>k v. ret (Inr [])),
      de_ListGateways = ret (Inr []), de_ListRoutes = ret (Inr []),
      de_Event = (\<lambda>n t r a m. ret ()), de_Now = ret 5, de_Range = ret,
      de_CFClient = Some (clientImpl mem_sdk), de_cfNewClient = (\<lambda>t. mem_sdk),
      de_Finalizers = std_finalizers, de_etld1 = (\<lambda>h. Inr ''example.com'')\<rparr>"

theorem missing_record_panics_witness:
  "fst (run_state (sync_loop wit_mem_env (clientImpl mem_sdk) wit_dns ''t'' [(''example.com'', ''z1'')]
     [(''app.example.com'', \<lparr>hc_TTL = 0, hc_Proxied = None\<rparr>)] [] 0 0)
     \<lparr>ps_cred = None, ps_svc = Some NewDNSRecordCache, ps_world = wit_A_world\<rparr>) = Panic"
proof -
  let ?cfg = "\<lparr>hc_TTL = 0, hc_Proxied = None\<rparr>"
  let ?s = "\<lparr>ps_cred = None, ps_svc = Some NewDNSRecordCache, ps_world = wit_A_world\<rparr>"
  have z: "map_of [(''example.com'', ''z1'')]
      (ExtractZoneFromHostname (de_etld1 wit_mem_env) ''app.example.com'') = Some ''z1''"
    by (simp add: ExtractZoneFromHostname_def wit_mem_env_def)
  have d: "desired_record wit_dns ''t'' ''app.example.com'' ?cfg =
      BuildCNAMERecord ''app.example.com'' ''t'' True 600 ''managed by cfgate, dns=infra/gw''"
    by (simp add: desired_record_def wit_dns_def wit_meta_def Let_def)
  have "\<exists>s1. run_state (svc (SyncRecordWithPolicy (clientImpl mem_sdk) ''z1''
      (desired_record wit_dns ''t'' ''app.example.com'' ?cfg) (owner_id wit_dns) (sync_policy wit_dns))) ?s =
      (Inr (None, False), s1)"
    by (simp add: d BuildCNAMERecord_def SyncRecordWithPolicy_def FindRecordByName_def createRecord_def
        AllowsCreate_def ci_ListDNSRecordsByNameType_def mem_List_def Let_def ci_CreateDNSRecord_def
        record_body_def mem_New_def mem_fresh_def mem_conflict_def wit_A_world_def cache_lookup_def
        cache_store_def NewDNSRecordCache_def cache_Get_def cache_Set_def IsDuplicateRecordError_def
        errorf_def wrapf_def Contains_def HasPrefix_def)
  then obtain s1 where "run_state (svc (SyncRecordWithPolicy (clientImpl mem_sdk) ''z1''
      (desired_record wit_dns ''t'' ''app.example.com'' ?cfg) (owner_id wit_dns) (sync_policy wit_dns))) ?s =
      (Inr (None, False), s1)" by blast
  from missing_record_panics [OF z this] show ?thesis .
qed

text \<open>Ownership cannot be verified in the reconcile that creates the ownership record. When the
  lookup of the TXT record found nothing, the record cache keeps that answer through the creation
  of the record, and the verification that follows in the same reconcile reports it missing.\<close>

theorem ownership_unverified_after_create:
  fixes dns :: CloudflareDNS
  assumes "ps_svc s = Some cache" "cache_Get cache z (ownership_prefix dns @ ''.'' @ h) ''TXT'' = None"
    and "run_state (ListDNSRecordsByNameType c z (ownership_prefix dns @ ''.'' @ h) ''TXT'') (ps_world s) =
           (Inr [], w1)"
    and "run_state (svc (CreateOwnershipRecord c z \<lparr>op_Hostname = h, op_OwnerID = owner_id dns,
           op_Resource = res, op_Prefix = ownership_prefix dns\<rparr>)) s = (r, s')"
    and "map_of zones (ExtractZoneFromHostname (de_etld1 env) h) = Some z" "shouldCreateTXTRecords dns"
  shows "run_state (verifyOwnership env c dns zones (h # hs)) s' =
    (Inl (errorf (''ownership record missing for '' @ h)), s')"
proof -
  let ?n = "ownership_prefix dns @ ''.'' @ h"
  have "ps_svc s' = Some (cache_Set cache z ?n ''TXT'' None)"
    using assms(1-4)
    by (auto simp: CreateOwnershipRecord_def BuildOwnershipTXTRecord_def FindRecordByName_def
        cache_lookup_def cache_store_def Let_def split: prod.splits sum.splits if_splits)
  then have "cached \<lparr>svc_cache = ps_svc s', svc_world = ps_world s'\<rparr> z ?n ''TXT'' = Some None"
    by (simp add: cached_def)
  from FindRecordByName_hit [OF this]
  have "run_state (svc (FindRecordByName c z ?n ''TXT'')) s' = (Inr None, s')" by simp
  then show ?thesis using assms(5,6) by (simp add: verifyOwnership_def del: run_svc)
qed

theorem ownership_unverified_after_create_witness:
  "\<exists>r s'. run_state (svc (CreateOwnershipRecord (clientImpl mem_sdk) ''z1'' \<lparr>op_Hostname = ''app.example.com'',
       op_OwnerID = owner_id wit_dns, op_Resource = ''x'', op_Prefix = ownership_prefix wit_dns\<rparr>))
       \<lparr>ps_cred = None, ps_svc = Some NewDNSRecordCache, ps_world = (\<lambda>z. [])\<rparr> = (r, s') \<and>
     run_state (verifyOwnership wit_mem_env (clientImpl mem_sdk) wit_dns [(''example.com'', ''z1'')]
       [''app.example.com'']) s' = (Inl (errorf (''ownership record missing for app.example.com'')), s')"
proof -
  let ?s = "\<lparr>ps_cred = None, ps_svc = Some NewDNSRecordCache, ps_world = (\<lambda>z. [])\<rparr>"
  let ?op = "svc (CreateOwnershipRecord (clientImpl mem_sdk) ''z1'' \<lparr>op_Hostname = ''app.example.com'',
       op_OwnerID = owner_id wit_dns, op_Resource = ''x'', op_Prefix = ownership_prefix wit_dns\<rparr>)"
  obtain r s' where run: "run_state ?op ?s = (r, s')" by (cases "run_state ?op ?s")
  have "run_state (verifyOwnership wit_mem_env (clientImpl mem_sdk) wit_dns [(''example.com'', ''z1'')]
       [''app.example.com'']) s' =
     (Inl (errorf (''ownership record missing for '' @ ''app.example.com'')), s')"
  proof (rule ownership_unverified_after_create [OF _ _ _ run])
    show "cache_Get NewDNSRecordCache ''z1'' (ownership_prefix wit_dns @ ''.'' @ ''app.example.com'') ''TXT'' = None"
      by (simp add: cache_Get_def NewDNSRecordCache_def)
    show "run_state (ListDNSRecordsByNameType (clientImpl mem_sdk) ''z1''
        (ownership_prefix wit_dns @ ''.'' @ ''app.example.com'') ''TXT'') (ps_world ?s) = (Inr [], \<lambda>z. [])"
      by (simp add: ci_ListDNSRecordsByNameType_def mem_List_def)
  qed (simp_all add: ExtractZoneFromHostname_def wit_mem_env_def shouldCreateTXTRecords_def wit_dns_def)
  with run show ?thesis by auto
qed

definition write_and_finish ::
  "'w DnsEnv \<Rightarrow> CloudflareDNS \<Rightarrow> ('w ProcState, (Result \<times> go_error option) go_exn) io" where
  "write_and_finish env d = do {
     u \<leftarrow> dns_updateStatus env d;
     case u of
       Inl err \<Rightarrow> ret (Done (requeue_after (seconds 30), None))
     | Inr _ \<Rightarrow> do {
         k8s (de_Event env (dns_key d) ''Normal'' ''Reconciled'' ''Reconcile''
                ''DNS sync completed successfully'');
         ret (Done (requeue_after (seconds 300), None))
       }
   }"

text \<open>Failed records do not make a resource unready. Whenever the sync of the records returns,
  however many records failed, the reconcile goes on to write a status whose conditions
  RecordsSynced and Ready are True with that number of failed records, and asks for the next
  sync in five minutes (or in thirty seconds if the write fails).\<close>

theorem ready_despite_failed_records:
  assumes "run_state (syncRecords env c dns target hs zones) s = (Done (Inr dns1), s1)"
  shows "\<exists>d s2. run_state (reconcile_records env c dns target hs zones) s =
      run_state (write_and_finish env d) s2 \<and>
    dst_FailedRecords (cdns_Status d) = dst_FailedRecords (cdns_Status dns1) \<and>
    ConditionTrue (dst_Conditions (cdns_Status d)) ''RecordsSynced'' \<and>
    ConditionTrue (dst_Conditions (cdns_Status d)) ''Ready''"
proof -
  let ?set = "dns_setCondition env"
  obtain dns2 s2 where 2: "run_state (?set dns1 ''RecordsSynced'' StTrue ''RecordsSynced''
      ''DNS records synced successfully'') s1 = (dns2, s2)" by (rule prod.exhaust)
  obtain keys s3 where 3: "run_state (hostnameKeys env hs) s2 = (keys, s3)" by (rule prod.exhaust)
  obtain v s4 where 4: "run_state (verifyOwnership env c dns2 zones keys) s3 = (v, s4)"
    by (rule prod.exhaust)
  let ?own = "case v of
      Inl err \<Rightarrow> ?set dns2 ''OwnershipVerified'' StFalse ''OwnershipFailed'' (err_msg err)
    | Inr True \<Rightarrow> ?set dns2 ''OwnershipVerified'' StTrue ''OwnershipVerified'' ''Ownership records verified''
    | Inr False \<Rightarrow> ?set dns2 ''OwnershipVerified'' StFalse ''OwnershipFailed'' ''Ownership TXT records disabled''"
  obtain dns5 s5 where 5: "run_state ?own s4 = (dns5, s5)" by (rule prod.exhaust)
  obtain dns6 s6 where 6: "run_state (?set dns5 ''Ready'' StTrue ''Ready'' ''DNS sync is operational'') s5 =
      (dns6, s6)" by (rule prod.exhaust)
  obtain now s7 where 7: "run_state (k8s (de_Now env)) s6 = (now, s7)" by (rule prod.exhaust)
  let ?d = "dns6\<lparr>cdns_Status := (cdns_Status dns6)
      \<lparr>dst_ObservedGeneration := om_Generation (cdns_Meta dns6), dst_LastSyncTime := Some now\<rparr>\<rparr>"
  have run: "run_state (reconcile_records env c dns target hs zones) s =
      run_state (write_and_finish env ?d) s7"
    using assms 2 3 4 5 6 7 by (simp add: reconcile_records_def write_and_finish_def Let_def
        del: run_k8s cong: sum.case_cong)
  have own: "cond_true_same dns2 dns5 ''OwnershipVerified''"
    using 5 by (cases v) (auto split: bool.splits intro: setCondition_other)
  show ?thesis
    using run setCondition_run [OF 2] own setCondition_run [OF 6]
    by (intro exI [of _ ?d] exI [of _ s7]) (auto simp: cond_true_same_def)
qed

theorem ready_despite_failed_records_witness:
  "\<exists>d s2. run_state (reconcile_records wit_env (clientImpl down_sdk) wit_dns ''t''
      wit_hostnames []) wit_state = run_state (write_and_finish wit_env d) s2 \<and> dst_FailedRecords (cdns_Status d) = 1 \<and>
    ConditionTrue (dst_Conditions (cdns_Status d)) ''Ready''"
  using ready_despite_failed_records [OF wit_sync_run] by (auto simp: wit_synced_dns_def)

end
