(* ===== verification/Ingress_Rules.thy ===== *)
theory Ingress_Rules
  imports Cf_Types
begin

text \<open>
  Ingress rule lists. Two packages have a rule type and rely on the same convention: rules are
  tried in order, a rule without hostname and path matches every request, and the last rule has
  to be such a catch-all. The locale \<open>rule_list\<close> is the interface of a rule type (the two
  fields a request is matched on, and the constructor of a catch-all rule); the lemmas say how
  the edits that both packages make act on routing.
\<close>

definition catch_all :: "('r \<Rightarrow> string) \<Rightarrow> ('r \<Rightarrow> string) \<Rightarrow> 'r \<Rightarrow> bool" where
  "catch_all host path r \<longleftrightarrow> host r = '''' \<and> path r = ''''"

definition ends_in_catch_all :: "('r \<Rightarrow> string) \<Rightarrow> ('r \<Rightarrow> string) \<Rightarrow> 'r list \<Rightarrow> bool" where
  "ends_in_catch_all host path rs \<longleftrightarrow> rs \<noteq> [] \<and> catch_all host path (last rs)"

text \<open>
  The rule that serves a request: the first that matches. How a hostname pattern and a path
  expression match a request is up to cloudflared; \<open>m\<close> stands for it.
\<close>

definition route_request :: "('r \<Rightarrow> string) \<Rightarrow> ('r \<Rightarrow> string) \<Rightarrow> (string \<Rightarrow> string \<Rightarrow> 'q \<Rightarrow> bool) \<Rightarrow> 'r list \<Rightarrow> 'q \<Rightarrow>
  'r option" where
  "route_request host path m rs q =
     find (\<lambda>r. catch_all host path r \<or> m (host r) (path r) q) rs"

text \<open>Appending a catch-all unless the last rule is one; the edits of both packages.\<close>

definition close_rules :: "('r \<Rightarrow> string) \<Rightarrow> ('r \<Rightarrow> string) \<Rightarrow> 'r \<Rightarrow> 'r list \<Rightarrow> 'r list" where
  "close_rules host path c rs = (if ends_in_catch_all host path rs then rs else rs @ [c])"

lemma find_append: "find P (xs @ ys) = (case find P xs of None \<Rightarrow> find P ys | Some x \<Rightarrow> Some x)"
  by (induction xs) auto

lemma find_SomeD: "find P xs = Some x \<Longrightarrow> P x \<and> x \<in> List.set xs"
  by (induction xs) (auto split: if_splits)

locale rule_list =
  fixes host path :: "'r \<Rightarrow> string"
    and default_rule :: "string \<Rightarrow> 'r"
  assumes default_catch_all: "catch_all host path (default_rule s)"
begin

lemma route_total:
  assumes "ends_in_catch_all host path rs"
  shows "\<exists>r. route_request host path m rs q = Some r"
proof -
  have "last rs \<in> List.set rs" "catch_all host path (last rs)"
    using assms by (auto simp: ends_in_catch_all_def)
  then have "find (\<lambda>r. catch_all host path r \<or> m (host r) (path r) q) rs \<noteq> None"
    by (auto simp: find_None_iff)
  then show ?thesis by (simp add: route_request_def)
qed

lemma close_rules_ends: "ends_in_catch_all host path (close_rules host path (default_rule s) rs)"
  by (simp add: close_rules_def ends_in_catch_all_def default_catch_all)

lemma close_rules_idem:
  "close_rules host path (default_rule s') (close_rules host path (default_rule s) rs) =
     close_rules host path (default_rule s) rs"
  using close_rules_ends by (simp add: close_rules_def [of _ _ "default_rule s'"])

lemma route_close_rules:
  "route_request host path m (close_rules host path (default_rule s) rs) q =
     (case route_request host path m rs q of None \<Rightarrow> Some (default_rule s) | Some r \<Rightarrow> Some r)"
proof (cases "ends_in_catch_all host path rs")
  case True
  then show ?thesis using route_total [OF True, of m q] by (auto simp: close_rules_def)
next
  case False
  then show ?thesis
    by (auto simp: close_rules_def route_request_def find_append default_catch_all split: option.split)
qed

text \<open>Rules added one after the other in front of the catch-all are tried in that order.\<close>

lemma route_insert:
  assumes "catch_all host path c"
  shows "route_request host path m (rs @ [r, c]) q =
    (case route_request host path m rs q of Some x \<Rightarrow> Some x
     | None \<Rightarrow> if catch_all host path r \<or> m (host r) (path r) q then Some r else Some c)"
  using assms by (auto simp: route_request_def find_append split: option.split)

end

end
