(* ===== verification/Tunnel_Service.thy ===== *)
theory Tunnel_Service
  imports Ingress_Rules Client_Impl
begin

text \<open>
  The tunnel service: internal/cloudflare/tunnel.go. Creation or adoption of a tunnel by name,
  its token, its configuration (always closed by a catch-all rule), deletion and health. The
  service has no state of its own besides the client.
\<close>

section \<open>Operations\<close>

definition ensureCatchAllRule :: "TunnelConfiguration \<Rightarrow> TunnelConfiguration" where
  "ensureCatchAllRule config =
     (let ing = tc_Ingress config;
          fallback = \<lparr>ir_Hostname = '''', ir_Path = '''', ir_Service = ''http_status:404'',
                      ir_OriginRequest = None\<rparr>
      in if length ing = 0 then config\<lparr>tc_Ingress := ing @ [fallback]\<rparr>
         else let lastRule = ing ! (length ing - 1)
              in if ir_Hostname lastRule = '''' \<and> ir_Path lastRule = '''' then config
                 else config\<lparr>tc_Ingress := ing @ [fallback]\<rparr>)"

definition BuildConfiguration :: "IngressRule list \<Rightarrow> OriginRequestConfig option \<Rightarrow> TunnelConfiguration" where
  "BuildConfiguration rules defaults =
     ensureCatchAllRule \<lparr>tc_Ingress = rules, tc_OriginRequest = defaults, tc_WarpRouting = None\<rparr>"

definition TunnelDomain :: "string \<Rightarrow> string" where
  "TunnelDomain tunnelID = tunnelID @ ''.cfargotunnel.com''"

definition EnsureTunnel :: "'w Client \<Rightarrow> string \<Rightarrow> string \<Rightarrow> ('w, (Tunnel \<times> bool) res) io" where
  "EnsureTunnel client accountID name = do {
     existing \<leftarrow> GetTunnelByName client accountID name;
     case existing of
       Inl err \<Rightarrow> ret (Inl (wrapf ''failed to check for existing tunnel'' err))
     | Inr (Some t) \<Rightarrow> ret (Inr (t, False))
     | Inr None \<Rightarrow> do {
         r \<leftarrow> CreateTunnel client accountID \<lparr>tp_Name = name, tp_ConfigSrc = ''cloudflare''\<rparr>;
         case r of
           Inl err \<Rightarrow> ret (Inl (wrapf ''failed to create tunnel'' err))
         | Inr tunnel \<Rightarrow> ret (Inr (tunnel, True))
       }
   }"

definition GetToken :: "'w Client \<Rightarrow> string \<Rightarrow> string \<Rightarrow> ('w, string res) io" where
  "GetToken client accountID tunnelID = do {
     r \<leftarrow> GetTunnelToken client accountID tunnelID;
     case r of
       Inl err \<Rightarrow> ret (Inl (wrapf ''failed to get tunnel token'' err))
     | Inr token \<Rightarrow> ret (Inr token)
   }"

definition UpdateConfiguration ::
  "'w Client \<Rightarrow> string \<Rightarrow> string \<Rightarrow> TunnelConfiguration \<Rightarrow> ('w, unit res) io" where
  "UpdateConfiguration client accountID tunnelID config = do {
     r \<leftarrow> UpdateTunnelConfiguration client accountID tunnelID (ensureCatchAllRule config);
     case r of
       Inl err \<Rightarrow> ret (Inl (wrapf ''failed to update tunnel configuration'' err))
     | Inr u \<Rightarrow> ret (Inr ())
   }"

definition ts_Delete :: "'w Client \<Rightarrow> string \<Rightarrow> string \<Rightarrow> ('w, unit res) io" where
  "ts_Delete client accountID tunnelID = do {
     _ \<leftarrow> DeleteTunnelConnections client accountID tunnelID;
     r \<leftarrow> DeleteTunnel client accountID tunnelID;
     case r of
       Inl err \<Rightarrow> ret (Inl (wrapf ''failed to delete tunnel'' err))
     | Inr u \<Rightarrow> ret (Inr ())
   }"

definition IsHealthy :: "'w Client \<Rightarrow> string \<Rightarrow> string \<Rightarrow> ('w, bool res) io" where
  "IsHealthy client accountID tunnelID = do {
     r \<leftarrow> GetTunnel client accountID tunnelID;
     case r of
       Inl err \<Rightarrow> ret (Inl (wrapf ''failed to get tunnel'' err))
     | Inr None \<Rightarrow> ret (Inr False)
     | Inr (Some tunnel) \<Rightarrow> ret (Inr (tn_Status tunnel = ''healthy'' \<or> tn_Status tunnel = ''active''))
   }"

section \<open>Lemmas\<close>

definition cf_default_rule :: "string \<Rightarrow> IngressRule" where
  "cf_default_rule s = \<lparr>ir_Hostname = '''', ir_Path = '''', ir_Service = s, ir_OriginRequest = None\<rparr>"

abbreviation cf_route :: "(string \<Rightarrow> string \<Rightarrow> 'q \<Rightarrow> bool) \<Rightarrow> IngressRule list \<Rightarrow> 'q \<Rightarrow> IngressRule option" where
  "cf_route \<equiv> route_request ir_Hostname ir_Path"

interpretation cf_rules: rule_list ir_Hostname ir_Path cf_default_rule
  by unfold_locales (simp add: catch_all_def cf_default_rule_def)

lemma ensureCatchAllRule_eq:
  "ensureCatchAllRule config = config\<lparr>tc_Ingress :=
     close_rules ir_Hostname ir_Path (cf_default_rule ''http_status:404'') (tc_Ingress config)\<rparr>"
  by (cases "tc_Ingress config = []")
     (auto simp: ensureCatchAllRule_def close_rules_def ends_in_catch_all_def catch_all_def
       cf_default_rule_def Let_def last_conv_nth)

text \<open>What the service relies on in a client for tunnels, with the identifiers and names of the
  live tunnels of an account, \<open>tunnels w a\<close>, as the abstract state: a lookup by name returns
  the first of that name and changes nothing; a successful create adds one with the name.\<close>

definition tunnel_key :: "Tunnel \<Rightarrow> string \<times> string" where
  "tunnel_key t = (tn_ID t, tn_Name t)"

abbreviation named :: "string \<Rightarrow> (string \<times> string) list \<Rightarrow> (string \<times> string) option" where
  "named n ts \<equiv> find (\<lambda>x. snd x = n) ts"

locale tunnel_api =
  fixes c :: "'w Client"
    and tunnels :: "'w \<Rightarrow> string \<Rightarrow> (string \<times> string) list"
  assumes by_name: "run_state (GetTunnelByName c a n) w = (rg, w') \<Longrightarrow>
      tunnels w' = tunnels w \<and> (\<forall>t. rg = Inr t \<longrightarrow> map_option tunnel_key t = named n (tunnels w a))"
    and create: "run_state (CreateTunnel c a p) w = (rc, w') \<Longrightarrow>
      (case rc of Inl e \<Rightarrow> tunnels w' = tunnels w
       | Inr t \<Rightarrow> tn_Name t = tp_Name p \<and>
           tunnels w' = (tunnels w)(a := tunnels w a @ [tunnel_key t]))"
begin

lemma EnsureTunnel_effect:
  assumes "run_state (EnsureTunnel c a n) w = (r, w')"
  shows "case r of Inl e \<Rightarrow> tunnels w' = tunnels w
    | Inr (t, created) \<Rightarrow> named n (tunnels w' a) = Some (tunnel_key t) \<and>
        created = (named n (tunnels w a) = None) \<and>
        tunnels w' = (if created then (tunnels w)(a := tunnels w a @ [tunnel_key t]) else tunnels w)"
proof -
  obtain g w1 where g: "run_state (GetTunnelByName c a n) w = (g, w1)"
    by (cases "run_state (GetTunnelByName c a n) w")
  note bn = by_name [OF g]
  let ?p = "\<lparr>tp_Name = n, tp_ConfigSrc = ''cloudflare''\<rparr>"
  obtain q w2 where q: "run_state (CreateTunnel c a ?p) w1 = (q, w2)"
    by (cases "run_state (CreateTunnel c a ?p) w1")
  note cr = create [OF q]
  consider e where "g = Inl e" | x where "g = Inr (Some x)" | "g = Inr None"
    by (metis option.exhaust sum.exhaust)
  then show ?thesis
  proof cases
    case 1
    with assms g bn show ?thesis by (auto simp: EnsureTunnel_def)
  next
    case 2
    then have "named n (tunnels w a) = Some (tunnel_key x)" "tunnels w1 = tunnels w" using bn by auto
    with 2 assms g show ?thesis by (auto simp: EnsureTunnel_def)
  next
    case 3
    then have none: "named n (tunnels w a) = None" "tunnels w1 = tunnels w" using bn by auto
    show ?thesis
    proof (cases q)
      case (Inl e)
      with 3 none cr assms g q show ?thesis by (auto simp: EnsureTunnel_def)
    next
      case (Inr t)
      then have "tunnels w2 = (tunnels w)(a := tunnels w a @ [tunnel_key t])" "snd (tunnel_key t) = n"
        using cr none by (simp_all add: tunnel_key_def)
      moreover have "r = Inr (t, True)" "w' = w2"
        using 3 Inr assms g q by (auto simp: EnsureTunnel_def)
      ultimately show ?thesis using none(1) by (simp add: find_append)
    qed
  qed
qed

text \<open>A second call adopts what the first one created or adopted.\<close>

lemma EnsureTunnel_again:
  assumes "run_state (EnsureTunnel c a n) w = (Inr (t, created), w1)"
    and "run_state (EnsureTunnel c a n) w1 = (r, w2)"
  shows "tunnels w2 = tunnels w1 \<and>
    (\<forall>t' created'. r = Inr (t', created') \<longrightarrow> tunnel_key t' = tunnel_key t \<and> \<not> created')"
proof -
  have f: "named n (tunnels w1 a) = Some (tunnel_key t)"
    using EnsureTunnel_effect [OF assms(1)] unfolding sum.case prod.case by (rule conjunct1)
  show ?thesis
  proof (cases r)
    case (Inl e)
    with EnsureTunnel_effect [OF assms(2)] show ?thesis by simp
  next
    case (Inr p)
    obtain t' c' where p: "p = (t', c')" by (cases p)
    note e = EnsureTunnel_effect [OF assms(2), unfolded Inr p sum.case prod.case]
    have "\<not> c'" using e f by simp
    moreover from this have "tunnels w2 = tunnels w1" using e by presburger
    moreover from this have "tunnel_key t' = tunnel_key t"
      using e [THEN conjunct1] f by simp
    ultimately show ?thesis using Inr p by simp
  qed
qed

end

section \<open>The client provides the tunnel interface\<close>

text \<open>The SDK's tunnel listing with a name filter returns the tunnels of that name, deleted ones
  included; a successful create adds a live tunnel with the name.\<close>

locale sdk_tunnels =
  fixes sdk :: "'w Sdk"
    and tstore :: "'w \<Rightarrow> string \<Rightarrow> SdkTunnel list"
  assumes sdk_by_name: "run_state (TunnelsList sdk a (Some n)) w = (rg, w') \<Longrightarrow>
      tstore w' = tstore w \<and> (\<forall>ts. rg = Inr ts \<longrightarrow> ts = filter (\<lambda>t. st_Name t = n) (tstore w a))"
    and sdk_create: "run_state (TunnelsNew sdk a n secret src) w = (rc, w') \<Longrightarrow>
      (case rc of Inl e \<Rightarrow> tstore w' = tstore w
       | Inr t \<Rightarrow> st_Name t = n \<and> st_Status t \<noteq> ''deleted'' \<and>
           tstore w' = (tstore w)(a := tstore w a @ [t]))"

definition live_tunnels :: "('w \<Rightarrow> string \<Rightarrow> SdkTunnel list) \<Rightarrow> 'w \<Rightarrow> string \<Rightarrow> (string \<times> string) list" where
  "live_tunnels tstore w a =
     map (\<lambda>t. (st_ID t, st_Name t)) (filter (\<lambda>t. st_Status t \<noteq> ''deleted'') (tstore w a))"

lemma named_live:
  "named n (map (\<lambda>t. (st_ID t, st_Name t)) (filter (\<lambda>t. st_Status t \<noteq> ''deleted'') ts)) =
   map_option (\<lambda>t. (st_ID t, st_Name t))
     (find (\<lambda>t. st_Name t = n \<and> st_Status t \<noteq> ''deleted'') (filter (\<lambda>t. st_Name t = n) ts))"
  by (induction ts) auto

context sdk_tunnels
begin

lemma ci_by_name:
  assumes "run_state (ci_GetTunnelByName sdk a n) w = (r, w')"
  shows "live_tunnels tstore w' = live_tunnels tstore w \<and>
    (\<forall>t. r = Inr t \<longrightarrow> map_option tunnel_key t = named n (live_tunnels tstore w a))"
proof -
  obtain g w1 where g: "run_state (TunnelsList sdk a (Some n)) w = (g, w1)"
    by (cases "run_state (TunnelsList sdk a (Some n)) w")
  from sdk_by_name [OF g] have st: "live_tunnels tstore w1 = live_tunnels tstore w"
    by (simp add: live_tunnels_def fun_eq_iff)
  show ?thesis
  proof (cases g)
    case (Inl e)
    with st g assms show ?thesis by (auto simp: ci_GetTunnelByName_def)
  next
    case (Inr ts)
    have "ts = filter (\<lambda>t. st_Name t = n) (tstore w a)" using sdk_by_name [OF g] Inr by simp
    with st g assms Inr show ?thesis
      by (auto simp: ci_GetTunnelByName_def live_tunnels_def named_live tunnel_key_def
          split: option.split)
  qed
qed

lemma ci_create_tunnel:
  assumes "run_state (ci_CreateTunnel sdk a p) w = (r, w')"
  shows "case r of Inl e \<Rightarrow> live_tunnels tstore w' = live_tunnels tstore w
    | Inr t \<Rightarrow> tn_Name t = tp_Name p \<and>
        live_tunnels tstore w' = (live_tunnels tstore w)(a := live_tunnels tstore w a @ [tunnel_key t])"
proof -
  let ?src = "if tp_ConfigSrc p = ''local'' then ConfigSrcLocal else ConfigSrcCloudflare"
  obtain g w1 where g: "run_state (TunnelsNew sdk a (tp_Name p) generateTunnelSecret ?src) w = (g, w1)"
    by (cases "run_state (TunnelsNew sdk a (tp_Name p) generateTunnelSecret ?src) w")
  from sdk_create [OF g] g assms show ?thesis
    by (cases g) (auto simp: ci_CreateTunnel_def Let_def live_tunnels_def fun_eq_iff tunnelFields_def
        tunnel_key_def)
qed

end

sublocale sdk_tunnels \<subseteq> timpl: tunnel_api "clientImpl sdk" "live_tunnels tstore"
  using ci_by_name ci_create_tunnel by unfold_locales (simp_all add: clientImpl_def)

context sdk_tunnels
begin

lemmas tunnel_client_provides = timpl.tunnel_api_axioms

end

text \<open>A server of tunnels in memory.\<close>

definition mem_TunnelsNew :: "string \<Rightarrow> string \<Rightarrow> string \<Rightarrow> ConfigSrc \<Rightarrow>
  (string \<Rightarrow> SdkTunnel list, SdkTunnel res) io" where
  "mem_TunnelsNew a n secret src = State (\<lambda>w.
     let t = \<lparr>st_ID = ''t'' @ concat (map st_ID (w a)), st_Name = n, st_Status = ''inactive'',
              st_AccountTag = a, st_CreatedAt = ''''\<rparr>
     in (Inr t, w(a := w a @ [t])))"

definition mem_TunnelsList :: "string \<Rightarrow> string option \<Rightarrow>
  (string \<Rightarrow> SdkTunnel list, SdkTunnel list res) io" where
  "mem_TunnelsList a n = State (\<lambda>w.
     (Inr (case n of None \<Rightarrow> w a | Some x \<Rightarrow> filter (\<lambda>t. st_Name t = x) (w a)), w))"

definition mem_tunnel_sdk :: "(string \<Rightarrow> SdkTunnel list) Sdk" where
  "mem_tunnel_sdk =
     \<lparr>TunnelsGet = (\<lambda>t a. State (\<lambda>w. (Inr (find (\<lambda>x. st_ID x = t) (w a)), w))),
      TunnelsList = mem_TunnelsList, TunnelsNew = mem_TunnelsNew,
      TunnelsDelete = (\<lambda>t a. State (\<lambda>w. (Inr (), w(a := filter (\<lambda>x. st_ID x \<noteq> t) (w a))))),
      ConnectionsDelete = (\<lambda>t a. ret (Inr ())),
      TokenGet = (\<lambda>t a. ret (Inr (Some ''token''))),
      ConfigurationsUpdate = (\<lambda>t a c. ret (Inr ())),
      RecordsList = (\<lambda>z q. ret ([], None)),
      RecordsNew = (\<lambda>z b. ret (Inl (errorf ''records are not served''))),
      RecordsUpdate = (\<lambda>i z b. ret (Inl (errorf ''records are not served''))),
      RecordsDelete = (\<lambda>i z. ret (Inl (errorf ''404''))), ZonesListAutoPaging = ret ([], None),
      ZonesList = (\<lambda>n. ret (Inr [])), AccountsList = ret (Inr [])\<rparr>"

interpretation mem_tunnels: sdk_tunnels mem_tunnel_sdk "\<lambda>w. w"
  by unfold_locales
     (auto simp: mem_tunnel_sdk_def mem_TunnelsList_def mem_TunnelsNew_def Let_def)

section \<open>Properties\<close>

text \<open>The configuration that is pushed always ends in a catch-all rule, so every request is
  routed; requests that the given rules route are routed as before, all others are answered with
  status 404; a configuration that is already closed is not changed, and nothing but the rule
  list is.\<close>

theorem configuration_closed:
  "ends_in_catch_all ir_Hostname ir_Path (tc_Ingress (ensureCatchAllRule config)) \<and>
   cf_route m (tc_Ingress (ensureCatchAllRule config)) q =
     (case cf_route m (tc_Ingress config) q of
        None \<Rightarrow> Some (cf_default_rule ''http_status:404'') | Some r \<Rightarrow> Some r) \<and>
   ensureCatchAllRule (ensureCatchAllRule config) = ensureCatchAllRule config \<and>
   tc_OriginRequest (ensureCatchAllRule config) = tc_OriginRequest config \<and>
   tc_WarpRouting (ensureCatchAllRule config) = tc_WarpRouting config"
  by (simp add: ensureCatchAllRule_eq cf_rules.close_rules_ends cf_rules.route_close_rules
      cf_rules.close_rules_idem)

text \<open>Ensuring a tunnel is idempotent. Against an API that keeps its promises, after
  \<open>EnsureTunnel\<close> has returned a tunnel, a further call for the same account and name creates
  nothing, changes nothing and returns (unless the API fails) the same tunnel as adopted.\<close>

theorem EnsureTunnel_idempotent:
  assumes "sdk_tunnels sdk tstore"
    and "run_state (EnsureTunnel (clientImpl sdk) a n) w = (Inr (t, created), w1)"
    and "run_state (EnsureTunnel (clientImpl sdk) a n) w1 = (r, w2)"
  shows "live_tunnels tstore w2 = live_tunnels tstore w1 \<and>
    (\<forall>t' created'. r = Inr (t', created') \<longrightarrow>
       tn_ID t' = tn_ID t \<and> tn_Name t' = tn_Name t \<and> \<not> created')"
proof -
  note e = tunnel_api.EnsureTunnel_again
    [OF sdk_tunnels.tunnel_client_provides [OF assms(1)] assms(2,3)]
  have key: "tunnel_key x = tunnel_key y \<Longrightarrow> tn_ID x = tn_ID y \<and> tn_Name x = tn_Name y" for x y
    by (simp add: tunnel_key_def)
  from e show ?thesis by (blast dest: key)
qed

theorem EnsureTunnel_idempotent_witness:
  "\<exists>w1 t w2 t'. run_state (EnsureTunnel (clientImpl mem_tunnel_sdk) ''acc'' ''edge'') (\<lambda>a. []) =
      (Inr (t, True), w1) \<and>
    run_state (EnsureTunnel (clientImpl mem_tunnel_sdk) ''acc'' ''edge'') w1 = (Inr (t', False), w2) \<and>
    tn_ID t' = tn_ID t \<and> live_tunnels (\<lambda>w. w) w2 = live_tunnels (\<lambda>w. w) w1"
proof -
  let ?run = "\<lambda>w. run_state (EnsureTunnel (clientImpl mem_tunnel_sdk) ''acc'' ''edge'') w"
  let ?t = "\<lparr>st_ID = ''t'', st_Name = ''edge'', st_Status = ''inactive'', st_AccountTag = ''acc'',
              st_CreatedAt = ''''\<rparr>"
  let ?w1 = "(\<lambda>a. [])(''acc'' := [?t])"
  have 1: "?run (\<lambda>a. []) = (Inr (tunnelFields ?t, True), ?w1)"
    by (simp add: EnsureTunnel_def clientImpl_def ci_GetTunnelByName_def ci_CreateTunnel_def
        mem_tunnel_sdk_def mem_TunnelsList_def mem_TunnelsNew_def Let_def)
  obtain t' w2 where 2: "?run ?w1 = (Inr (t', False), w2)"
    by (simp add: EnsureTunnel_def clientImpl_def ci_GetTunnelByName_def ci_CreateTunnel_def
        mem_tunnel_sdk_def mem_TunnelsList_def mem_TunnelsNew_def Let_def)
  note e = EnsureTunnel_idempotent [OF mem_tunnels.sdk_tunnels_axioms 1 2]
  have 3: "tn_ID t' = tn_ID (tunnelFields ?t)"
    using e [THEN conjunct2, rule_format, OF refl] by (rule conjunct1)
  have 4: "live_tunnels (\<lambda>w. w) w2 = live_tunnels (\<lambda>w. w) ?w1" using e by (rule conjunct1)
  show ?thesis by (intro exI conjI) (rule 1, rule 2, rule 3, rule 4)
qed

text \<open>Deleting a tunnel always attempts both the connections and the tunnel, in that order, and
  reports exactly the outcome of deleting the tunnel: a failure to delete the connections is
  never the reason to fail.\<close>

theorem tunnel_delete_outcome:
  "run_state (ts_Delete c a i) w =
     (let (_, w1) = run_state (DeleteTunnelConnections c a i) w;
          (r, w2) = run_state (DeleteTunnel c a i) w1
      in (map_sum (wrapf ''failed to delete tunnel'') id r, w2))"
  by (auto simp: ts_Delete_def Let_def split: prod.split sum.split)

end
