(* ===== verification/Cloudflared.thy ===== *)
theory Cloudflared
  imports Ingress_Rules Api_Types
begin

text \<open>
  The resources of the cloudflared connector: internal/cloudflared/configmap.go and
  deployment.go. The configuration file with its rule list, the Deployment, the token Secret and
  the ConfigMap. Types of the Kubernetes API are records of the fields the builder sets; resource
  quantities are kept in their written form; serialisation to YAML is a parameter.
\<close>

section \<open>The configuration file\<close>

record CdOriginRequestConfig =
  co_ConnectTimeout :: string
  co_TLSTimeout :: string
  co_TCPKeepAlive :: string
  co_NoHappyEyeballs :: bool
  co_KeepAliveConnections :: int
  co_KeepAliveTimeout :: string
  co_HTTPHostHeader :: string
  co_OriginServerName :: string
  co_CAPool :: string
  co_NoTLSVerify :: bool
  co_DisableChunkedEncoding :: bool
  co_BastionMode :: bool
  co_ProxyAddress :: string
  co_ProxyPort :: int
  co_ProxyType :: string
  co_HTTP2Origin :: bool

definition zero_CdOriginRequestConfig :: CdOriginRequestConfig where
  "zero_CdOriginRequestConfig =
     \<lparr>co_ConnectTimeout = '''', co_TLSTimeout = '''', co_TCPKeepAlive = '''',
      co_NoHappyEyeballs = False, co_KeepAliveConnections = 0, co_KeepAliveTimeout = '''',
      co_HTTPHostHeader = '''', co_OriginServerName = '''', co_CAPool = '''',
      co_NoTLSVerify = False, co_DisableChunkedEncoding = False, co_BastionMode = False,
      co_ProxyAddress = '''', co_ProxyPort = 0, co_ProxyType = '''', co_HTTP2Origin = False\<rparr>"

record CdIngressRule =
  ci_Hostname :: string
  ci_Path :: string
  ci_Service :: string
  ci_OriginRequest :: "CdOriginRequestConfig option"

record CdWarpRoutingConfig =
  cw_Enabled :: bool

record CdTunnelConfig =
  cf_TunnelID :: string
  cf_CredentialsFile :: string
  cf_Ingress :: "CdIngressRule list"
  cf_OriginRequest :: "CdOriginRequestConfig option"
  cf_WarpRouting :: "CdWarpRoutingConfig option"
  cf_Protocol :: string
  cf_LogLevel :: string
  cf_NoAutoUpdate :: bool
  cf_Metrics :: string

definition DefaultMetricsPort :: int where
  "DefaultMetricsPort = 2000"

definition getMetricsPort :: "CloudflareTunnel \<Rightarrow> int" where
  "getMetricsPort tunnel =
     (let port = mc_Port (cd_Metrics (ts_Cloudflared (ct_Spec tunnel)))
      in if port > 0 then port else DefaultMetricsPort)"

definition explicit_protocol :: "CloudflareTunnel \<Rightarrow> bool" where
  "explicit_protocol tunnel =
     (let p = cd_Protocol (ts_Cloudflared (ct_Spec tunnel)) in p \<noteq> '''' \<and> p \<noteq> ''auto'')"

definition cd_rule :: "string \<Rightarrow> CdIngressRule" where
  "cd_rule service =
     \<lparr>ci_Hostname = '''', ci_Path = '''', ci_Service = service, ci_OriginRequest = None\<rparr>"

definition NewTunnelConfig :: "CloudflareTunnel \<Rightarrow> string \<Rightarrow> CdTunnelConfig" where
  "NewTunnelConfig tunnel tunnelID =
     (let od = ts_OriginDefaults (ct_Spec tunnel);
          fallback = (if ts_FallbackTarget (ct_Spec tunnel) = '''' then ''http_status:404''
                      else ts_FallbackTarget (ct_Spec tunnel))
      in \<lparr>cf_TunnelID = tunnelID, cf_CredentialsFile = '''',
          cf_Ingress = [] @ [cd_rule fallback],
          cf_OriginRequest =
            (if od_ConnectTimeout od \<noteq> '''' \<or> od_NoTLSVerify od \<or> od_HTTP2Origin od
             then Some (zero_CdOriginRequestConfig
               \<lparr>co_ConnectTimeout := od_ConnectTimeout od, co_NoTLSVerify := od_NoTLSVerify od,
                co_HTTP2Origin := od_HTTP2Origin od\<rparr>)
             else None),
          cf_WarpRouting = None,
          cf_Protocol = (if explicit_protocol tunnel
                         then cd_Protocol (ts_Cloudflared (ct_Spec tunnel)) else ''''),
          cf_LogLevel = '''', cf_NoAutoUpdate = True,
          cf_Metrics = ''0.0.0.0:'' @ int_str (getMetricsPort tunnel)\<rparr>)"

definition AddRule :: "CdTunnelConfig \<Rightarrow> CdIngressRule \<Rightarrow> CdTunnelConfig" where
  "AddRule c rule =
     (let ing = cf_Ingress c
      in if length ing = 0 then c\<lparr>cf_Ingress := ing @ [rule]\<rparr>
         else let lastIdx = length ing - 1; catchAll = ing ! lastIdx
              in if ci_Hostname catchAll = '''' \<and> ci_Path catchAll = ''''
                 then c\<lparr>cf_Ingress := take lastIdx ing @ [rule, catchAll]\<rparr>
                 else c\<lparr>cf_Ingress := ing @ [rule]\<rparr>)"

definition SetCatchAll :: "CdTunnelConfig \<Rightarrow> string \<Rightarrow> CdTunnelConfig" where
  "SetCatchAll c service =
     (let ing = cf_Ingress c;
          kept = (if length ing > 0 \<and> ci_Hostname (ing ! (length ing - 1)) = '''' \<and>
                     ci_Path (ing ! (length ing - 1)) = ''''
                  then take (length ing - 1) ing else ing)
      in c\<lparr>cf_Ingress := kept @ [cd_rule service]\<rparr>)"

fun validate_rules :: "nat \<Rightarrow> CdIngressRule list \<Rightarrow> go_error option" where
  "validate_rules i [] = None"
| "validate_rules i (rule # rules) =
     (if ci_Service rule = ''''
      then Some (errorf (''ingress rule '' @ nat_str i @ '': service is required''))
      else validate_rules (i + 1) rules)"

definition cd_Validate :: "CdTunnelConfig \<Rightarrow> go_error option" where
  "cd_Validate c =
     (let ing = cf_Ingress c
      in if cf_TunnelID c = '''' then Some (errorf ''tunnel ID is required'')
         else if length ing = 0 then Some (errorf ''at least one ingress rule is required'')
         else let lastRule = ing ! (length ing - 1)
              in if ci_Hostname lastRule \<noteq> '''' \<or> ci_Path lastRule \<noteq> ''''
                 then Some (errorf ''last ingress rule must be a catch-all (no hostname or path)'')
                 else validate_rules 0 ing)"

text \<open>A nil map of annotations reads like an empty one; \<open>override\<close> is
  \<open>if v, ok := m[key]; ok\<close> with the assignment \<open>f\<close>.\<close>

fun override :: "('v \<Rightarrow> 'c \<Rightarrow> 'c) \<Rightarrow> 'v option \<Rightarrow> 'c \<Rightarrow> 'c" where
  "override f None c = c"
| "override f (Some v) c = f v c"

definition BuildOriginConfig :: "OriginDefaults option \<Rightarrow> strmap \<Rightarrow> CdOriginRequestConfig option" where
  "BuildOriginConfig defaults annotations =
     (let c0 = zero_CdOriginRequestConfig;
          c1 = override (\<lambda>d c. c\<lparr>co_ConnectTimeout := od_ConnectTimeout d,
                 co_NoTLSVerify := od_NoTLSVerify d, co_HTTP2Origin := od_HTTP2Origin d\<rparr>) defaults c0;
          ann = map_of annotations;
          c2 = override (\<lambda>v c. c\<lparr>co_ConnectTimeout := v\<rparr>) (ann ''cfgate.io/origin-connect-timeout'') c1;
          c3 = (if ann ''cfgate.io/origin-ssl-verify'' = Some ''false''
                then c2\<lparr>co_NoTLSVerify := True\<rparr> else c2);
          c4 = override (\<lambda>v c. c\<lparr>co_HTTPHostHeader := v\<rparr>) (ann ''cfgate.io/origin-http-host-header'') c3;
          c5 = override (\<lambda>v c. c\<lparr>co_OriginServerName := v\<rparr>) (ann ''cfgate.io/origin-server-name'') c4;
          c6 = override (\<lambda>v c. c\<lparr>co_CAPool := v\<rparr>) (ann ''cfgate.io/origin-ca-pool'') c5;
          c7 = (if ann ''cfgate.io/origin-http2'' = Some ''true''
                then c6\<lparr>co_HTTP2Origin := True\<rparr> else c6)
      in if co_ConnectTimeout c7 = '''' \<and> \<not> co_NoTLSVerify c7 \<and> co_HTTPHostHeader c7 = '''' \<and>
            co_OriginServerName c7 = '''' \<and> co_CAPool c7 = '''' \<and> \<not> co_HTTP2Origin c7
         then None else Some c7)"

section \<open>Kubernetes objects\<close>

record EnvVar =
  ev_Name :: string
  ev_SecretName :: string
  ev_SecretKey :: string

record ContainerPort =
  cpo_Name :: string
  cpo_ContainerPort :: int
  cpo_Protocol :: string

record Probe =
  pb_Path :: string
  pb_Port :: int
  pb_InitialDelaySeconds :: int
  pb_PeriodSeconds :: int
  pb_TimeoutSeconds :: int
  pb_FailureThreshold :: int

record Container =
  cn_Name :: string
  cn_Image :: string
  cn_ImagePullPolicy :: string
  cn_Args :: "string list"
  cn_Env :: "EnvVar list"
  cn_Ports :: "ContainerPort list"
  cn_Resources :: ResourceRequirements
  cn_LivenessProbe :: "Probe option"
  cn_ReadinessProbe :: "Probe option"

record DeploymentSpec =
  dsp_Replicas :: int
  dsp_Selector :: strmap
  dsp_PodLabels :: strmap
  dsp_PodAnnotations :: strmap
  dsp_Containers :: "Container list"
  dsp_NodeSelector :: strmap
  dsp_Tolerations :: "Toleration list"

record Deployment =
  dep_Name :: string
  dep_Namespace :: string
  dep_Labels :: strmap
  dep_Owner :: "string option"
  dep_Spec :: DeploymentSpec
  dep_Replicas :: int
  dep_ReadyReplicas :: int

record ConfigMap =
  cm_Name :: string
  cm_Namespace :: string
  cm_Labels :: strmap
  cm_Data :: strmap

section \<open>The builder\<close>

definition DefaultImage :: string where
  "DefaultImage = ''cloudflare/cloudflared:latest''"

definition TokenEnvVar :: string where
  "TokenEnvVar = ''TUNNEL_TOKEN''"

definition TokenSecretKey :: string where
  "TokenSecretKey = ''token''"

definition DeploymentName :: "string \<Rightarrow> string" where
  "DeploymentName tunnelName = tunnelName @ ''-cloudflared''"

definition ConfigMapName :: "string \<Rightarrow> string" where
  "ConfigMapName tunnelName = tunnelName @ ''-cloudflared-config''"

definition TokenSecretName :: "string \<Rightarrow> string" where
  "TokenSecretName tunnelName = tunnelName @ ''-tunnel-token''"

definition Labels :: "string \<Rightarrow> strmap" where
  "Labels tunnelName =
     [(''app.kubernetes.io/name'', ''cloudflared''), (''app.kubernetes.io/instance'', tunnelName),
      (''app.kubernetes.io/component'', ''tunnel''), (''app.kubernetes.io/managed-by'', ''cfgate'')]"

definition Selector :: "string \<Rightarrow> strmap" where
  "Selector tunnelName =
     [(''app.kubernetes.io/name'', ''cloudflared''), (''app.kubernetes.io/instance'', tunnelName)]"

definition buildArgs :: "CloudflareTunnel \<Rightarrow> string list" where
  "buildArgs tunnel =
     [''tunnel'', ''--no-autoupdate''] @
     [''--metrics'', ''0.0.0.0:'' @ int_str (getMetricsPort tunnel)] @
     (if explicit_protocol tunnel
      then [''--protocol'', cd_Protocol (ts_Cloudflared (ct_Spec tunnel))] else []) @
     cd_ExtraArgs (ts_Cloudflared (ct_Spec tunnel)) @
     [''run'', ''--token'', ''$('' @ TokenEnvVar @ '')'']"

definition buildProbes :: "int \<Rightarrow> Probe \<times> Probe" where
  "buildProbes metricsPort =
     (\<lparr>pb_Path = ''/ready'', pb_Port = metricsPort, pb_InitialDelaySeconds = 10,
       pb_PeriodSeconds = 10, pb_TimeoutSeconds = 5, pb_FailureThreshold = 3\<rparr>,
      \<lparr>pb_Path = ''/ready'', pb_Port = metricsPort, pb_InitialDelaySeconds = 5,
       pb_PeriodSeconds = 5, pb_TimeoutSeconds = 5, pb_FailureThreshold = 3\<rparr>)"

definition buildContainer :: "CloudflareTunnel \<Rightarrow> string \<Rightarrow> Container" where
  "buildContainer tunnel tokenSecretName =
     (let cfg = ts_Cloudflared (ct_Spec tunnel);
          image = (if cd_Image cfg = '''' then DefaultImage else cd_Image cfg);
          pullPolicy = (if cd_ImagePullPolicy cfg = '''' then ''IfNotPresent''
                        else cd_ImagePullPolicy cfg)
      in \<lparr>cn_Name = ''cloudflared'', cn_Image = image, cn_ImagePullPolicy = pullPolicy,
          cn_Args = buildArgs tunnel,
          cn_Env = [\<lparr>ev_Name = TokenEnvVar, ev_SecretName = tokenSecretName,
                     ev_SecretKey = TokenSecretKey\<rparr>],
          cn_Ports = [\<lparr>cpo_Name = ''metrics'', cpo_ContainerPort = getMetricsPort tunnel,
                       cpo_Protocol = ''TCP''\<rparr>],
          cn_Resources =
            (if rq_Limits (cd_Resources cfg) \<noteq> None \<or> rq_Requests (cd_Resources cfg) \<noteq> None
             then cd_Resources cfg
             else \<lparr>rq_Limits = Some [(''cpu'', ''500m''), (''memory'', ''256Mi'')],
                   rq_Requests = Some [(''cpu'', ''100m''), (''memory'', ''128Mi'')]\<rparr>),
          cn_LivenessProbe = None, cn_ReadinessProbe = None\<rparr>)"

definition BuildDeployment :: "CloudflareTunnel \<Rightarrow> string \<Rightarrow> Deployment" where
  "BuildDeployment tunnel token =
     (let name = om_Name (ct_Meta tunnel);
          cfg = ts_Cloudflared (ct_Spec tunnel);
          labels = Labels name;
          replicas = (if cd_Replicas cfg = 0 then 2 else cd_Replicas cfg);
          (liveness, readiness) = buildProbes (getMetricsPort tunnel);
          container = (buildContainer tunnel (TokenSecretName name))
            \<lparr>cn_LivenessProbe := Some liveness, cn_ReadinessProbe := Some readiness\<rparr>
      in \<lparr>dep_Name = DeploymentName name, dep_Namespace = om_Namespace (ct_Meta tunnel),
          dep_Labels = labels, dep_Owner = None,
          dep_Spec = \<lparr>dsp_Replicas = replicas, dsp_Selector = Selector name,
                      dsp_PodLabels = labels, dsp_PodAnnotations = map_puts (cd_PodAnnotations cfg) [],
                      dsp_Containers = [container],
                      dsp_NodeSelector = (if length (cd_NodeSelector cfg) > 0
                                          then cd_NodeSelector cfg else []),
                      dsp_Tolerations = (if length (cd_Tolerations cfg) > 0
                                         then cd_Tolerations cfg else [])\<rparr>,
          dep_Replicas = 0, dep_ReadyReplicas = 0\<rparr>)"

text \<open>The YAML library is the parameter \<open>yaml_Marshal\<close> and \<open>yaml_Unmarshal\<close>. \<open>BuildConfigMap\<close> drops the
  error of the serialiser, as in the code.\<close>

definition Marshal :: "(CdTunnelConfig \<Rightarrow> string res) \<Rightarrow> CdTunnelConfig \<Rightarrow> string res" where
  "Marshal yaml_Marshal config = yaml_Marshal config"

definition ParseConfig :: "(string \<Rightarrow> CdTunnelConfig res) \<Rightarrow> string \<Rightarrow> CdTunnelConfig res" where
  "ParseConfig yaml_Unmarshal data =
     (case yaml_Unmarshal data of
        Inl err \<Rightarrow> Inl (wrapf ''failed to parse config'' err)
      | Inr config \<Rightarrow> Inr config)"

definition BuildConfigMap ::
  "(CdTunnelConfig \<Rightarrow> string res) \<Rightarrow> CloudflareTunnel \<Rightarrow> CdTunnelConfig \<Rightarrow> ConfigMap" where
  "BuildConfigMap yaml_Marshal tunnel config =
     (let configData = (case Marshal yaml_Marshal config of Inl e \<Rightarrow> '''' | Inr d \<Rightarrow> d)
      in \<lparr>cm_Name = ConfigMapName (om_Name (ct_Meta tunnel)),
          cm_Namespace = om_Namespace (ct_Meta tunnel),
          cm_Labels = Labels (om_Name (ct_Meta tunnel)),
          cm_Data = [(''config.yaml'', configData)]\<rparr>)"

definition BuildTokenSecret :: "CloudflareTunnel \<Rightarrow> string \<Rightarrow> Secret" where
  "BuildTokenSecret tunnel token = zero_Secret
     \<lparr>sec_Name := TokenSecretName (om_Name (ct_Meta tunnel)),
      sec_Namespace := om_Namespace (ct_Meta tunnel),
      sec_Labels := Labels (om_Name (ct_Meta tunnel)), sec_Type := ''Opaque'',
      sec_StringData := [(TokenSecretKey, token)]\<rparr>"

text \<open>The interface \<open>Builder\<close> (the operations the controller calls) and its default
  implementation.\<close>

record Builder =
  bl_BuildDeployment :: "CloudflareTunnel \<Rightarrow> string \<Rightarrow> Deployment"
  bl_BuildTokenSecret :: "CloudflareTunnel \<Rightarrow> string \<Rightarrow> Secret"

definition NewBuilder :: Builder where
  "NewBuilder = \<lparr>bl_BuildDeployment = BuildDeployment, bl_BuildTokenSecret = BuildTokenSecret\<rparr>"

section \<open>Lemmas\<close>

interpretation cd_rules: rule_list ci_Hostname ci_Path cd_rule
  by unfold_locales (simp add: catch_all_def cd_rule_def)

lemma override_field:
  "(\<And>v c. g (f v c) = g c) \<Longrightarrow> g (override f x c) = g c"
  by (cases x) simp_all

lemmas override_origin [simp] =
  override_field [of co_NoTLSVerify "\<lambda>v c. c\<lparr>co_ConnectTimeout := v\<rparr>"]
  override_field [of co_NoTLSVerify "\<lambda>v c. c\<lparr>co_HTTPHostHeader := v\<rparr>"]
  override_field [of co_NoTLSVerify "\<lambda>v c. c\<lparr>co_OriginServerName := v\<rparr>"]
  override_field [of co_NoTLSVerify "\<lambda>v c. c\<lparr>co_CAPool := v\<rparr>"]
  override_field [of co_HTTP2Origin "\<lambda>v c. c\<lparr>co_ConnectTimeout := v\<rparr>"]
  override_field [of co_HTTP2Origin "\<lambda>v c. c\<lparr>co_HTTPHostHeader := v\<rparr>"]
  override_field [of co_HTTP2Origin "\<lambda>v c. c\<lparr>co_OriginServerName := v\<rparr>"]
  override_field [of co_HTTP2Origin "\<lambda>v c. c\<lparr>co_CAPool := v\<rparr>"]

abbreviation cd_closed :: "CdTunnelConfig \<Rightarrow> bool" where
  "cd_closed c \<equiv> ends_in_catch_all ci_Hostname ci_Path (cf_Ingress c)"

lemma AddRule_closed:
  assumes "cf_Ingress c = rs @ [d]" "catch_all ci_Hostname ci_Path d"
  shows "AddRule c rule = c\<lparr>cf_Ingress := (rs @ [rule]) @ [d]\<rparr>"
  using assms by (simp add: AddRule_def catch_all_def Let_def)

lemma AddRules_closed:
  assumes "cf_Ingress c = rs @ [d]" "catch_all ci_Hostname ci_Path d"
  shows "fold (\<lambda>r c. AddRule c r) rules c = c\<lparr>cf_Ingress := (rs @ rules) @ [d]\<rparr>"
  using assms(1)
proof (induction rules arbitrary: c rs)
  case Nil
  then show ?case by simp
next
  case (Cons r rules)
  have "fold (\<lambda>r c. AddRule c r) rules (AddRule c r) =
      (AddRule c r)\<lparr>cf_Ingress := ((rs @ [r]) @ rules) @ [d]\<rparr>"
    using Cons.prems by (intro Cons.IH) (simp add: AddRule_closed [OF _ assms(2)])
  then show ?case by (simp add: AddRule_closed [OF Cons.prems assms(2)])
qed

lemma validate_rules_None: "validate_rules i rs = None \<longleftrightarrow> (\<forall>r \<in> List.set rs. ci_Service r \<noteq> '''')"
  by (induction i rs rule: validate_rules.induct) auto

lemma cd_Validate_None:
  "cd_Validate c = None \<longleftrightarrow>
     cf_TunnelID c \<noteq> '''' \<and> cd_closed c \<and> (\<forall>r \<in> List.set (cf_Ingress c). ci_Service r \<noteq> '''')"
  by (auto simp: cd_Validate_def Let_def ends_in_catch_all_def catch_all_def last_conv_nth
      validate_rules_None)

lemma SetCatchAll_ingress:
  "cf_Ingress (SetCatchAll c s) =
     (if cd_closed c then butlast (cf_Ingress c) else cf_Ingress c) @ [cd_rule s]"
  by (cases "cf_Ingress c = []")
     (auto simp: SetCatchAll_def Let_def ends_in_catch_all_def catch_all_def last_conv_nth
       butlast_conv_take)

section \<open>Properties\<close>

definition fallback_rule :: "CloudflareTunnel \<Rightarrow> CdIngressRule" where
  "fallback_rule tunnel = cd_rule (if ts_FallbackTarget (ct_Spec tunnel) = '''' then ''http_status:404''
                                   else ts_FallbackTarget (ct_Spec tunnel))"

definition config_with_rules :: "CloudflareTunnel \<Rightarrow> string \<Rightarrow> CdIngressRule list \<Rightarrow> CdTunnelConfig" where
  "config_with_rules tunnel tid rules = fold (\<lambda>r c. AddRule c r) rules (NewTunnelConfig tunnel tid)"

text \<open>A configuration made by \<open>NewTunnelConfig\<close> and extended with any number of rules is
  accepted by \<open>Validate\<close> exactly when the tunnel ID is given and every added rule names a
  service; its rules are the added ones in the order they were added, followed by the fallback,
  so a request goes to the first added rule that matches it and otherwise to the fallback.\<close>

theorem tunnel_config_rules:
  "cf_Ingress (config_with_rules tunnel tid rules) = rules @ [fallback_rule tunnel] \<and>
   (cd_Validate (config_with_rules tunnel tid rules) = None \<longleftrightarrow>
      tid \<noteq> '''' \<and> list_all (\<lambda>r. ci_Service r \<noteq> '''') rules) \<and>
   route_request ci_Hostname ci_Path m (cf_Ingress (config_with_rules tunnel tid rules)) q =
     (case route_request ci_Hostname ci_Path m rules q of
        None \<Rightarrow> Some (fallback_rule tunnel) | Some r \<Rightarrow> Some r)"
proof -
  have d: "catch_all ci_Hostname ci_Path (fallback_rule tunnel)"
    by (simp add: fallback_rule_def cd_rules.default_catch_all)
  have n: "cf_Ingress (NewTunnelConfig tunnel tid) = [] @ [fallback_rule tunnel]"
      "cf_TunnelID (NewTunnelConfig tunnel tid) = tid"
    by (simp_all add: NewTunnelConfig_def Let_def fallback_rule_def)
  have "config_with_rules tunnel tid rules = (NewTunnelConfig tunnel tid)
      \<lparr>cf_Ingress := rules @ [fallback_rule tunnel]\<rparr>"
    unfolding config_with_rules_def using AddRules_closed [OF n(1) d, of rules] by simp
  moreover have "ci_Service (fallback_rule tunnel) \<noteq> ''''"
    by (simp add: cd_rule_def fallback_rule_def)
  ultimately show ?thesis using n d
    by (simp add: cd_Validate_None ends_in_catch_all_def list_all_iff route_request_def find_append split: option.split)
qed

text \<open>Setting the catch-all replaces the previous one: afterwards the configuration is closed
  by a rule with the given service, the other rules are kept, and setting it again leaves no
  trace of the first.\<close>

theorem SetCatchAll_replaces:
  "cd_closed (SetCatchAll c s) \<and> last (cf_Ingress (SetCatchAll c s)) = cd_rule s \<and>
   butlast (cf_Ingress (SetCatchAll c s)) =
     (if cd_closed c then butlast (cf_Ingress c) else cf_Ingress c) \<and>
   SetCatchAll (SetCatchAll c s) s' = SetCatchAll c s'"
proof -
  have cl: "cd_closed (SetCatchAll c s)"
    by (simp add: SetCatchAll_ingress ends_in_catch_all_def cd_rules.default_catch_all)
  have upd: "SetCatchAll d t = d\<lparr>cf_Ingress := cf_Ingress (SetCatchAll d t)\<rparr>" for d t
    by (simp add: SetCatchAll_def Let_def)
  have ing: "cf_Ingress (SetCatchAll (SetCatchAll c s) s') = cf_Ingress (SetCatchAll c s')"
    using cl by (simp add: SetCatchAll_ingress [of "SetCatchAll c s"])
      (simp add: SetCatchAll_ingress)
  have "SetCatchAll (SetCatchAll c s) s' = (SetCatchAll c s)\<lparr>cf_Ingress := cf_Ingress (SetCatchAll c s')\<rparr>"
    using upd [of "SetCatchAll c s" s'] unfolding ing .
  also have "\<dots> = c\<lparr>cf_Ingress := cf_Ingress (SetCatchAll c s')\<rparr>"
    by (simp add: SetCatchAll_def [of c s] Let_def)
  also have "\<dots> = SetCatchAll c s'" by (rule upd [symmetric])
  finally have "SetCatchAll (SetCatchAll c s) s' = SetCatchAll c s'" .
  with cl show ?thesis by (simp add: SetCatchAll_ingress)
qed

text \<open>The Deployment finds its pods and its token: the selector is contained in the pod labels
  and tells tunnels apart, the token variable refers to the Secret and key that
  \<open>BuildTokenSecret\<close> writes in the same namespace, and the metrics port of the arguments, the
  container port and both probes agree.\<close>

theorem deployment_consistent:
  "let d = BuildDeployment tunnel token; s = BuildTokenSecret tunnel token in
    map_of (dsp_Selector (dep_Spec d)) \<subseteq>\<^sub>m map_of (dsp_PodLabels (dep_Spec d)) \<and>
    (map_of (Selector a) = map_of (Selector b) \<longleftrightarrow> a = b) \<and>
    dep_Namespace d = sec_Namespace s \<and>
    (\<exists>c e p. dsp_Containers (dep_Spec d) = [c] \<and> cn_Env c = [e] \<and> ev_SecretName e = sec_Name s \<and>
       map_of (sec_StringData s) (ev_SecretKey e) = Some token \<and>
       map cpo_ContainerPort (cn_Ports c) = [p] \<and> p > 0 \<and>
       map_option pb_Port (cn_LivenessProbe c) = Some p \<and>
       map_option pb_Port (cn_ReadinessProbe c) = Some p \<and>
       (\<exists>pre post. cn_Args c = pre @ [''--metrics'', ''0.0.0.0:'' @ int_str p] @ post))"
proof -
  have le: "map_of (Selector n) \<subseteq>\<^sub>m map_of (Labels n)" for n
    by (simp add: map_le_def Selector_def Labels_def)
  have inj: "map_of (Selector a) = map_of (Selector b) \<longleftrightarrow> a = b"
  proof
    assume "map_of (Selector a) = map_of (Selector b)"
    from fun_cong [OF this, of "''app.kubernetes.io/instance''"] show "a = b"
      by (simp add: Selector_def)
  qed simp
  let ?c = "hd (dsp_Containers (dep_Spec (BuildDeployment tunnel token)))"
  have "cn_Args ?c = [''tunnel'', ''--no-autoupdate''] @
      [''--metrics'', ''0.0.0.0:'' @ int_str (getMetricsPort tunnel)] @ drop 4 (cn_Args ?c)"
    by (simp add: BuildDeployment_def buildContainer_def buildArgs_def buildProbes_def Let_def)
  then have args: "\<exists>pre post. cn_Args ?c =
      pre @ [''--metrics'', ''0.0.0.0:'' @ int_str (getMetricsPort tunnel)] @ post" by blast
  have "getMetricsPort tunnel > 0"
    by (simp add: getMetricsPort_def DefaultMetricsPort_def Let_def)
  with le inj args show ?thesis
    by (simp add: BuildDeployment_def BuildTokenSecret_def buildContainer_def
        buildProbes_def Let_def)
qed

text \<open>Route annotations can only relax TLS verification and only enable HTTP/2: whatever the
  annotations say, a default that disables verification or enables HTTP/2 stays in force.\<close>

theorem origin_defaults_not_revocable:
  assumes "od_NoTLSVerify d \<or> od_HTTP2Origin d"
  shows "\<exists>c. BuildOriginConfig (Some d) ann = Some c \<and>
    (od_NoTLSVerify d \<longrightarrow> co_NoTLSVerify c) \<and> (od_HTTP2Origin d \<longrightarrow> co_HTTP2Origin c)"
  using assms by (simp add: BuildOriginConfig_def Let_def)

theorem origin_defaults_not_revocable_witness:
  "\<exists>c. BuildOriginConfig
       (Some \<lparr>od_ConnectTimeout = '''', od_NoTLSVerify = True, od_HTTP2Origin = False,
              od_CAPoolSecretRef = None\<rparr>)
       [(''cfgate.io/origin-ssl-verify'', ''true'')] = Some c \<and> co_NoTLSVerify c"
  using origin_defaults_not_revocable
    [of "\<lparr>od_ConnectTimeout = '''', od_NoTLSVerify = True, od_HTTP2Origin = False,
          od_CAPoolSecretRef = None\<rparr>" "[(''cfgate.io/origin-ssl-verify'', ''true'')]"]
  by auto

text \<open>What the ConfigMap holds is the configuration it was built from: when the library reads back what it
  writes, parsing the file of the ConfigMap gives the configuration.\<close>

theorem configmap_holds_config:
  assumes "\<forall>d. yaml_Marshal config = Inr d \<longrightarrow> yaml_Unmarshal d = Inr config" "yaml_Marshal config = Inr data"
  shows "map_of (cm_Data (BuildConfigMap yaml_Marshal tunnel config)) ''config.yaml'' = Some data \<and>
    ParseConfig yaml_Unmarshal data = Inr config"
  using assms by (simp add: BuildConfigMap_def Marshal_def ParseConfig_def)

end
