(* ===== verification/Tunnel_Controller.thy ===== *)
theory Tunnel_Controller
  imports Dns_Controller Tunnel_Service Cloudflared
begin

text \<open>
  The CloudflareTunnel controller: internal/controller/cloudflaretunnel_controller.go. A reconcile
  validates the credentials, creates or adopts the tunnel, deploys cloudflared, pushes the ingress
  configuration collected from Gateways and HTTPRoutes, and writes the status; a short path is
  taken when the tunnel is healthy and recently synced. Deletion removes the tunnel within a retry
  budget and then releases the finalizer.

  The cluster, the clock, the SDK constructor, the condition helpers of apimachinery, the
  finalizer and owner reference helpers of controller-runtime, the sorting routine and the digest
  (JSON and SHA-256) are the parameter \<open>TunnelEnv\<close>. A patch or status update returns the
  object as the server's answer leaves it.
\<close>

section \<open>Environment\<close>

record 'w TunnelEnv =
  te_Get :: "NamespacedName \<Rightarrow> ('w, CloudflareTunnel res) io"
  te_APIGet :: "NamespacedName \<Rightarrow> ('w, CloudflareTunnel res) io"
  te_Patch :: "CloudflareTunnel \<Rightarrow> CloudflareTunnel \<Rightarrow> ('w, CloudflareTunnel res) io"
  te_StatusUpdate :: "CloudflareTunnel \<Rightarrow> ('w, CloudflareTunnel res) io"
  te_GetSecret :: "NamespacedName \<Rightarrow> ('w, Secret res) io"
  te_CreateSecret :: "Secret \<Rightarrow> ('w, unit res) io"
  te_UpdateSecret :: "Secret \<Rightarrow> ('w, unit res) io"
  te_GetDeployment :: "NamespacedName \<Rightarrow> ('w, Deployment res) io"
  te_CreateDeployment :: "Deployment \<Rightarrow> ('w, unit res) io"
  te_UpdateDeployment :: "Deployment \<Rightarrow> ('w, unit res) io"
  te_GetGateway :: "NamespacedName \<Rightarrow> ('w, Gateway res) io"
  te_ListGateways :: "('w, Gateway list res) io"
  te_ListRoutes :: "('w, HTTPRoute list res) io"
  te_Event :: "NamespacedName \<Rightarrow> string \<Rightarrow> string \<Rightarrow> string \<Rightarrow> string \<Rightarrow> ('w, unit) io"
  te_Now :: "('w, int) io"
  te_CFClient :: "'w Client option"
  te_cfNewClient :: "string \<Rightarrow> 'w Sdk"
  te_Builder :: "Builder option"
  te_Finalizers :: FinalizerLib
  te_SetOwnerSecret :: "CloudflareTunnel \<Rightarrow> Secret \<Rightarrow> Secret res"
  te_SetOwnerDeployment :: "CloudflareTunnel \<Rightarrow> Deployment \<Rightarrow> Deployment res"
  te_SetStatusCondition :: "Condition list \<Rightarrow> Condition \<Rightarrow> Condition list"
  te_IsStatusConditionTrue :: "Condition list \<Rightarrow> string \<Rightarrow> bool"
  te_SortSlice :: "(IngressRule \<Rightarrow> IngressRule \<Rightarrow> bool) \<Rightarrow> IngressRule list \<Rightarrow> IngressRule list"
  te_Digest :: "TunnelConfiguration \<Rightarrow> string"

definition tunnelFinalizer :: string where
  "tunnelFinalizer = ''cfgate.io/tunnel-cleanup''"

definition requeueAfterError :: int where
  "requeueAfterError = seconds 30"

definition requeueAfterSuccess :: int where
  "requeueAfterSuccess = seconds 300"

definition deletionRetryBudget :: int where
  "deletionRetryBudget = seconds 120"

definition configHashAnnotation :: string where
  "configHashAnnotation = ''cfgate.io/config-hash''"

abbreviation tunnel_key_of :: "CloudflareTunnel \<Rightarrow> NamespacedName" where
  "tunnel_key_of t \<equiv> \<lparr>nn_Namespace = om_Namespace (ct_Meta t), nn_Name = om_Name (ct_Meta t)\<rparr>"

section \<open>Watch mappers\<close>

definition requests_of_ref :: "string option \<Rightarrow> NamespacedName list" where
  "requests_of_ref ref =
     (case ref of
        None \<Rightarrow> []
      | Some tunnelRef \<Rightarrow>
          (case Split tunnelRef (CHR ''/'') of
             [ns, n] \<Rightarrow> [\<lparr>nn_Namespace = ns, nn_Name = n\<rparr>]
           | _ \<Rightarrow> []))"

definition findTunnelsForGateway :: "Gateway option \<Rightarrow> NamespacedName list" where
  "findTunnelsForGateway obj =
     (case obj of
        None \<Rightarrow> []
      | Some gw \<Rightarrow> requests_of_ref (map_of (om_Annotations (gw_Meta gw)) ''cfgate.io/tunnel-ref''))"

fun tunnels_of_parents ::
  "'w TunnelEnv \<Rightarrow> HTTPRoute \<Rightarrow> ParentReference list \<Rightarrow> ('w, NamespacedName list) io" where
  "tunnels_of_parents env route [] = ret []"
| "tunnels_of_parents env route (p # ps) =
     (let gwNamespace = (case pr_Namespace p of None \<Rightarrow> om_Namespace (hr_Meta route) | Some ns \<Rightarrow> ns)
      in do {
        r \<leftarrow> te_GetGateway env \<lparr>nn_Namespace = gwNamespace, nn_Name = pr_Name p\<rparr>;
        rest \<leftarrow> tunnels_of_parents env route ps;
        case r of
          Inl err \<Rightarrow> ret rest
        | Inr gw \<Rightarrow>
            ret (requests_of_ref (map_of (om_Annotations (gw_Meta gw)) ''cfgate.io/tunnel-ref'') @ rest)
      })"

definition findTunnelsForHTTPRoute ::
  "'w TunnelEnv \<Rightarrow> HTTPRoute option \<Rightarrow> ('w, NamespacedName list) io" where
  "findTunnelsForHTTPRoute env obj =
     (case obj of None \<Rightarrow> ret [] | Some route \<Rightarrow> tunnels_of_parents env route (hr_ParentRefs route))"

section \<open>Status\<close>

definition tunnel_setCondition ::
  "'w TunnelEnv \<Rightarrow> CloudflareTunnel \<Rightarrow> string \<Rightarrow> ConditionStatus \<Rightarrow> string \<Rightarrow> string \<Rightarrow>
     ('w ProcState, CloudflareTunnel) io" where
  "tunnel_setCondition env tunnel conditionType status reason message = do {
     now \<leftarrow> k8s (te_Now env);
     let condition = \<lparr>c_Type = conditionType, c_Status = status,
                      c_ObservedGeneration = om_Generation (ct_Meta tunnel),
                      c_LastTransitionTime = now, c_Reason = reason, c_Message = message\<rparr>;
     ret (tunnel\<lparr>ct_Status := (ct_Status tunnel)
       \<lparr>tst_Conditions := te_SetStatusCondition env (tst_Conditions (ct_Status tunnel)) condition\<rparr>\<rparr>)
   }"

definition tunnelStatusEqual :: "CloudflareTunnelStatus \<Rightarrow> CloudflareTunnelStatus \<Rightarrow> bool" where
  "tunnelStatusEqual a b =
     (if tst_ObservedGeneration a \<noteq> tst_ObservedGeneration b then False
      else if tst_TunnelID a \<noteq> tst_TunnelID b \<or> tst_TunnelName a \<noteq> tst_TunnelName b \<or>
              tst_TunnelDomain a \<noteq> tst_TunnelDomain b \<or> tst_AccountID a \<noteq> tst_AccountID b then False
      else if tst_Replicas a \<noteq> tst_Replicas b \<or> tst_ReadyReplicas a \<noteq> tst_ReadyReplicas b \<or>
              tst_ConnectedRouteCount a \<noteq> tst_ConnectedRouteCount b then False
      else if length (tst_Conditions a) \<noteq> length (tst_Conditions b) then False
      else conditions_equal (tst_Conditions a) (tst_Conditions b))"

definition tunnel_updateStatus :: "'w TunnelEnv \<Rightarrow> CloudflareTunnel \<Rightarrow> ('w ProcState, unit res) io" where
  "tunnel_updateStatus env tunnel = do {
     r \<leftarrow> k8s (te_APIGet env (tunnel_key_of tunnel));
     case r of
       Inl err \<Rightarrow> ret (Inl (wrapf ''failed to re-fetch tunnel'' err))
     | Inr current \<Rightarrow>
         if tunnelStatusEqual (ct_Status current) (ct_Status tunnel) then ret (Inr ())
         else do {
           u \<leftarrow> k8s (te_StatusUpdate env (current\<lparr>ct_Status := ct_Status tunnel\<rparr>));
           case u of
             Inl err \<Rightarrow> ret (Inl (wrapf ''failed to update status'' err))
           | Inr _ \<Rightarrow> ret (Inr ())
         }
   }"

definition isTunnelHealthy :: "'w TunnelEnv \<Rightarrow> CloudflareTunnel \<Rightarrow> bool" where
  "isTunnelHealthy env tunnel =
     (if tst_TunnelID (ct_Status tunnel) = '''' then False
      else te_IsStatusConditionTrue env (tst_Conditions (ct_Status tunnel)) ''Ready'')"

section \<open>Clients and accounts\<close>

definition tunnel_getCloudflareClient ::
  "'w TunnelEnv \<Rightarrow> CloudflareTunnel \<Rightarrow> ('w ProcState, 'w Client res) io" where
  "tunnel_getCloudflareClient env tunnel =
     (case te_CFClient env of
        Some c \<Rightarrow> ret (Inr c)
      | None \<Rightarrow>
          (let cf = ts_Cloudflare (ct_Spec tunnel);
               secretNamespace = (if sr_Namespace (cc_SecretRef cf) = '''' then om_Namespace (ct_Meta tunnel)
                                  else sr_Namespace (cc_SecretRef cf))
           in do {
             r \<leftarrow> k8s (te_GetSecret env \<lparr>nn_Namespace = secretNamespace, nn_Name = sr_Name (cc_SecretRef cf)\<rparr>);
             case r of
               Inl err \<Rightarrow> ret (Inl (wrapf ''failed to get credentials secret'' err))
             | Inr secret \<Rightarrow>
                 cachedClient (te_Now env) secret
                   (createClientFromSecret (te_cfNewClient env) secret (cc_APIToken cf))
           }))"

definition getCloudflareClientForDeletion ::
  "'w TunnelEnv \<Rightarrow> CloudflareTunnel \<Rightarrow> ('w ProcState, 'w Client res) io" where
  "getCloudflareClientForDeletion env tunnel = do {
     r \<leftarrow> tunnel_getCloudflareClient env tunnel;
     case r of
       Inr c \<Rightarrow> ret (Inr c)
     | Inl err \<Rightarrow>
         (case ts_FallbackCredentialsRef (ct_Spec tunnel) of
            None \<Rightarrow> ret (Inl (wrapf ''primary credentials unavailable and no fallback configured'' err))
          | Some ref \<Rightarrow>
              (let fallbackNamespace = (if sref_Namespace ref = '''' then om_Namespace (ct_Meta tunnel)
                                        else sref_Namespace ref)
               in do {
                 f \<leftarrow> k8s (te_GetSecret env \<lparr>nn_Namespace = fallbackNamespace, nn_Name = sref_Name ref\<rparr>);
                 case f of
                   Inl err \<Rightarrow> ret (Inl (wrapf ''failed to get fallback credentials secret'' err))
                 | Inr secret \<Rightarrow>
                     (let key = cc_APIToken (ts_Cloudflare (ct_Spec tunnel));
                          tokenKey = (if key = '''' then ''CLOUDFLARE_API_TOKEN'' else key)
                      in case map_of (sec_Data secret) tokenKey of
                           None \<Rightarrow> ret (Inl (errorf (''API token key '' @ quote tokenKey @
                                     '' not found in fallback secret'')))
                         | Some token \<Rightarrow> ret (NewClient (te_cfNewClient env) token))
               }))
   }"

definition resolveAccountID ::
  "'w Client \<Rightarrow> CloudflareTunnel \<Rightarrow> ('w ProcState, string res) io" where
  "resolveAccountID c tunnel =
     (let cf = ts_Cloudflare (ct_Spec tunnel)
      in if cc_AccountID cf \<noteq> '''' then ret (Inr (cc_AccountID cf))
         else if tst_AccountID (ct_Status tunnel) \<noteq> '''' then ret (Inr (tst_AccountID (ct_Status tunnel)))
         else if cc_AccountName cf \<noteq> '''' then do {
           r \<leftarrow> k8s (GetAccountByName c (cc_AccountName cf));
           case r of
             Inl err \<Rightarrow> ret (Inl (wrapf (''failed to resolve account name '' @ quote (cc_AccountName cf)) err))
           | Inr None \<Rightarrow> ret (Inl (errorf (''account '' @ quote (cc_AccountName cf) @ '' not found'')))
           | Inr (Some account) \<Rightarrow> ret (Inr (acc_ID account))
         }
         else ret (Inl (errorf ''neither accountId nor accountName specified'')))"

definition validateCredentials ::
  "'w TunnelEnv \<Rightarrow> CloudflareTunnel \<Rightarrow> ('w ProcState, unit res) io" where
  "validateCredentials env tunnel = do {
     r \<leftarrow> tunnel_getCloudflareClient env tunnel;
     case r of
       Inl err \<Rightarrow> ret (Inl (wrapf ''failed to create Cloudflare client'' err))
     | Inr c \<Rightarrow> do {
         a \<leftarrow> resolveAccountID c tunnel;
         case a of
           Inl err \<Rightarrow> ret (Inl (wrapf ''failed to resolve account'' err))
         | Inr accountID \<Rightarrow> do {
             v \<leftarrow> k8s (ValidateToken c accountID);
             case v of
               Inl err \<Rightarrow> ret (Inl (wrapf ''token validation failed'' err))
             | Inr _ \<Rightarrow> ret (Inr ())
           }
       }
   }"

definition ensureTunnel ::
  "'w TunnelEnv \<Rightarrow> CloudflareTunnel \<Rightarrow> ('w ProcState, CloudflareTunnel res) io" where
  "ensureTunnel env tunnel = do {
     r \<leftarrow> tunnel_getCloudflareClient env tunnel;
     case r of
       Inl err \<Rightarrow> ret (Inl (wrapf ''failed to create Cloudflare client'' err))
     | Inr c \<Rightarrow> do {
         a \<leftarrow> resolveAccountID c tunnel;
         case a of
           Inl err \<Rightarrow> ret (Inl (wrapf ''failed to resolve account'' err))
         | Inr accountID \<Rightarrow> do {
             e \<leftarrow> k8s (EnsureTunnel c accountID (ts_TunnelName (ct_Spec tunnel)));
             case e of
               Inl err \<Rightarrow> ret (Inl (wrapf ''failed to ensure tunnel'' err))
             | Inr (cfTunnel, created) \<Rightarrow>
                 (let tunnel = tunnel\<lparr>ct_Status := (ct_Status tunnel)
                        \<lparr>tst_TunnelID := tn_ID cfTunnel, tst_TunnelName := tn_Name cfTunnel,
                         tst_TunnelDomain := TunnelDomain (tn_ID cfTunnel), tst_AccountID := accountID\<rparr>\<rparr>
                  in do {
                    (if created
                     then k8s (te_Event env (tunnel_key_of tunnel) ''Normal'' ''TunnelCreated'' ''Create''
                                 (''Created tunnel '' @ tn_Name cfTunnel @ '' (ID: '' @ tn_ID cfTunnel @ '')''))
                     else k8s (te_Event env (tunnel_key_of tunnel) ''Normal'' ''TunnelAdopted'' ''Adopt''
                                 (''Adopted existing tunnel '' @ tn_Name cfTunnel @ '' (ID: '' @
                                  tn_ID cfTunnel @ '')'')));
                    ret (Inr tunnel)
                  })
           }
       }
   }"

section \<open>Deployment of cloudflared\<close>

text \<open>Create the object when it is absent (someone else creating it meanwhile is fine), update it
  when it is there.\<close>

definition applySecret :: "'w TunnelEnv \<Rightarrow> Secret \<Rightarrow> ('w ProcState, unit res) io" where
  "applySecret env secret = do {
     r \<leftarrow> k8s (te_GetSecret env \<lparr>nn_Namespace = sec_Namespace secret, nn_Name = sec_Name secret\<rparr>);
     case r of
       Inl err \<Rightarrow>
         if IsNotFound err then do {
           cr \<leftarrow> k8s (te_CreateSecret env secret);
           case cr of
             Inl err \<Rightarrow> if \<not> IsAlreadyExists err then ret (Inl (wrapf ''failed to create token secret'' err))
                        else ret (Inr ())
           | Inr _ \<Rightarrow> ret (Inr ())
         }
         else ret (Inl (wrapf ''failed to get token secret'' err))
     | Inr existing \<Rightarrow> do {
         u \<leftarrow> k8s (te_UpdateSecret env
                (existing\<lparr>sec_Data := sec_Data secret, sec_StringData := sec_StringData secret\<rparr>));
         case u of
           Inl err \<Rightarrow> ret (Inl (wrapf ''failed to update token secret'' err))
         | Inr _ \<Rightarrow> ret (Inr ())
       }
   }"

definition applyDeployment ::
  "'w TunnelEnv \<Rightarrow> CloudflareTunnel \<Rightarrow> Deployment \<Rightarrow> ('w ProcState, unit res) io" where
  "applyDeployment env tunnel deployment = do {
     r \<leftarrow> k8s (te_GetDeployment env
            \<lparr>nn_Namespace = dep_Namespace deployment, nn_Name = dep_Name deployment\<rparr>);
     case r of
       Inl err \<Rightarrow>
         if IsNotFound err then do {
           cr \<leftarrow> k8s (te_CreateDeployment env deployment);
           case cr of
             Inl err \<Rightarrow> if \<not> IsAlreadyExists err then ret (Inl (wrapf ''failed to create deployment'' err))
                        else ret (Inr ())
           | Inr _ \<Rightarrow> do {
               k8s (te_Event env (tunnel_key_of tunnel) ''Normal'' ''DeploymentCreated'' ''Create''
                      (''Created cloudflared deployment '' @ dep_Name deployment));
               ret (Inr ())
             }
         }
         else ret (Inl (wrapf ''failed to get deployment'' err))
     | Inr existing \<Rightarrow> do {
         u \<leftarrow> k8s (te_UpdateDeployment env (existing\<lparr>dep_Spec := dep_Spec deployment\<rparr>));
         case u of
           Inl err \<Rightarrow> ret (Inl (wrapf ''failed to update deployment'' err))
         | Inr _ \<Rightarrow> ret (Inr ())
       }
   }"

text \<open>From the token on: the Secret, the Deployment, and the replica counts read back.\<close>

definition deployWithToken ::
  "'w TunnelEnv \<Rightarrow> CloudflareTunnel \<Rightarrow> string \<Rightarrow> ('w ProcState, CloudflareTunnel res) io" where
  "deployWithToken env tunnel token =
     (let builder = (case te_Builder env of None \<Rightarrow> NewBuilder | Some b \<Rightarrow> b)
      in case te_SetOwnerSecret env tunnel (bl_BuildTokenSecret builder tunnel token) of
           Inl err \<Rightarrow> ret (Inl (wrapf ''failed to set secret owner reference'' err))
         | Inr secret \<Rightarrow> do {
             sr \<leftarrow> applySecret env secret;
             case sr of
               Inl err \<Rightarrow> ret (Inl err)
             | Inr _ \<Rightarrow>
                 (case te_SetOwnerDeployment env tunnel (bl_BuildDeployment builder tunnel token) of
                    Inl err \<Rightarrow> ret (Inl (wrapf ''failed to set deployment owner reference'' err))
                  | Inr deployment \<Rightarrow> do {
                      dr \<leftarrow> applyDeployment env tunnel deployment;
                      case dr of
                        Inl err \<Rightarrow> ret (Inl err)
                      | Inr _ \<Rightarrow> do {
                          g \<leftarrow> k8s (te_GetDeployment env
                                 \<lparr>nn_Namespace = dep_Namespace deployment, nn_Name = dep_Name deployment\<rparr>);
                          case g of
                            Inl err \<Rightarrow> ret (Inr tunnel)
                          | Inr d \<Rightarrow> ret (Inr (tunnel\<lparr>ct_Status := (ct_Status tunnel)
                              \<lparr>tst_Replicas := dep_Replicas d, tst_ReadyReplicas := dep_ReadyReplicas d\<rparr>\<rparr>))
                        }
                    })
           })"

definition deployCloudflared ::
  "'w TunnelEnv \<Rightarrow> CloudflareTunnel \<Rightarrow> ('w ProcState, CloudflareTunnel res) io" where
  "deployCloudflared env tunnel =
     (if tst_TunnelID (ct_Status tunnel) = '''' then ret (Inl (errorf ''tunnel ID not set in status''))
      else do {
        r \<leftarrow> tunnel_getCloudflareClient env tunnel;
        case r of
          Inl err \<Rightarrow> ret (Inl (wrapf ''failed to create Cloudflare client'' err))
        | Inr c \<Rightarrow> do {
            a \<leftarrow> resolveAccountID c tunnel;
            case a of
              Inl err \<Rightarrow> ret (Inl (wrapf ''failed to resolve account'' err))
            | Inr accountID \<Rightarrow> do {
                t \<leftarrow> k8s (GetToken c accountID (tst_TunnelID (ct_Status tunnel)));
                case t of
                  Inl err \<Rightarrow> ret (Inl (wrapf ''failed to get tunnel token'' err))
                | Inr token \<Rightarrow> deployWithToken env tunnel token
              }
          }
      })"

section \<open>The ingress configuration\<close>

text \<open>The rule of one hostname and one HTTPRoute rule: the first match and the first backend.\<close>

definition ingress_of_rule :: "HTTPRoute \<Rightarrow> string \<Rightarrow> HTTPRouteRule \<Rightarrow> IngressRule list" where
  "ingress_of_rule rt hostname rule =
     (let path = (case rr_Matches rule of
                    [] \<Rightarrow> ''''
                  | m # _ \<Rightarrow> (case rm_Path m of None \<Rightarrow> ''''
                              | Some p \<Rightarrow> (case pm_Value p of None \<Rightarrow> '''' | Some v \<Rightarrow> v)))
      in case rr_BackendRefs rule of
           [] \<Rightarrow> []
         | backend # _ \<Rightarrow>
             (let servicePort = (case br_Port backend of None \<Rightarrow> 80 | Some p \<Rightarrow> to_int32 p);
                  service = ''http://'' @ br_Name backend @ ''.'' @ om_Namespace (hr_Meta rt) @
                            ''.svc.cluster.local:'' @ int_str servicePort
              in [\<lparr>ir_Hostname = hostname, ir_Path = path, ir_Service = service,
                   ir_OriginRequest =
                     (case BuildOriginConfig None (om_Annotations (hr_Meta rt)) of
                        None \<Rightarrow> None
                      | Some oc \<Rightarrow> Some (zero_OriginRequestConfig
                          \<lparr>or_ConnectTimeout := co_ConnectTimeout oc, or_NoTLSVerify := co_NoTLSVerify oc,
                           or_HTTP2Origin := co_HTTP2Origin oc, or_HTTPHostHeader := co_HTTPHostHeader oc\<rparr>))\<rparr>]))"

definition buildRulesFromHTTPRoute :: "HTTPRoute \<Rightarrow> IngressRule list" where
  "buildRulesFromHTTPRoute rt =
     concat (map (\<lambda>hostname. concat (map (ingress_of_rule rt hostname) (hr_Rules rt))) (hr_Hostnames rt))"

fun rules_of_parents ::
  "HTTPRoute \<Rightarrow> Gateway \<Rightarrow> ParentReference list \<Rightarrow> IngressRule list \<times> int \<Rightarrow> IngressRule list \<times> int" where
  "rules_of_parents rt gw [] acc = acc"
| "rules_of_parents rt gw (p # ps) (rules, n) =
     rules_of_parents rt gw ps
       (if parent_is_gateway rt gw p then (rules @ buildRulesFromHTTPRoute rt, n + 1)
        else (rules, n))"

fun rules_of_routes ::
  "Gateway \<Rightarrow> HTTPRoute list \<Rightarrow> IngressRule list \<times> int \<Rightarrow> IngressRule list \<times> int" where
  "rules_of_routes gw [] acc = acc"
| "rules_of_routes gw (rt # rts) acc = rules_of_routes gw rts (rules_of_parents rt gw (hr_ParentRefs rt) acc)"

fun rules_of_gateways ::
  "'w TunnelEnv \<Rightarrow> Gateway list \<Rightarrow> IngressRule list \<times> int \<Rightarrow> ('w ProcState, (IngressRule list \<times> int) res) io" where
  "rules_of_gateways env [] acc = ret (Inr acc)"
| "rules_of_gateways env (gw # gws) acc = do {
     r \<leftarrow> k8s (te_ListRoutes env);
     case r of
       Inl err \<Rightarrow> ret (Inl (wrapf ''failed to list httproutes'' err))
     | Inr routes \<Rightarrow> rules_of_gateways env gws (rules_of_routes gw routes acc)
   }"

definition collectIngressRules ::
  "'w TunnelEnv \<Rightarrow> CloudflareTunnel \<Rightarrow> ('w ProcState, (IngressRule list \<times> int) res) io" where
  "collectIngressRules env tunnel = do {
     r \<leftarrow> k8s (te_ListGateways env);
     case r of
       Inl err \<Rightarrow> ret (Inl (wrapf ''failed to list gateways'' err))
     | Inr gateways \<Rightarrow> rules_of_gateways env (relevant_gateways tunnel gateways) ([], 0)
   }"

text \<open>Go's order on strings: bytewise.\<close>

fun str_less :: "string \<Rightarrow> string \<Rightarrow> bool" where
  "str_less [] [] = False"
| "str_less [] (d # ds) = True"
| "str_less (c # cs) [] = False"
| "str_less (c # cs) (d # ds) =
     (if c = d then str_less cs ds else (of_char c :: nat) < of_char d)"

definition rule_less :: "IngressRule \<Rightarrow> IngressRule \<Rightarrow> bool" where
  "rule_less a b =
     (if ir_Hostname a \<noteq> ir_Hostname b then str_less (ir_Hostname a) (ir_Hostname b)
      else str_less (ir_Service a) (ir_Service b))"

definition tunnelConfigHash :: "'w TunnelEnv \<Rightarrow> TunnelConfiguration \<Rightarrow> string" where
  "tunnelConfigHash env config =
     (let canonical = te_SortSlice env rule_less (tc_Ingress config)
      in te_Digest env \<lparr>tc_Ingress = canonical, tc_OriginRequest = tc_OriginRequest config,
                       tc_WarpRouting = tc_WarpRouting config\<rparr>)"

text \<open>The configuration that is wanted: the rules closed by a catch-all, whose service is the
  fallback target.\<close>

definition origin_defaults :: "CloudflareTunnel \<Rightarrow> OriginRequestConfig option" where
  "origin_defaults tunnel =
     (let od = ts_OriginDefaults (ct_Spec tunnel)
      in if od_ConnectTimeout od \<noteq> '''' \<or> od_NoTLSVerify od \<or> od_HTTP2Origin od
         then Some (zero_OriginRequestConfig
           \<lparr>or_ConnectTimeout := od_ConnectTimeout od, or_NoTLSVerify := od_NoTLSVerify od,
            or_HTTP2Origin := od_HTTP2Origin od\<rparr>)
         else None)"

definition desired_config :: "CloudflareTunnel \<Rightarrow> IngressRule list \<Rightarrow> TunnelConfiguration" where
  "desired_config tunnel rules =
     (let config = BuildConfiguration rules (origin_defaults tunnel);
          ing = tc_Ingress config
      in if length ing > 0 then
           (let lastIdx = length ing - 1
            in if ir_Hostname (ing ! lastIdx) = '''' \<and> ir_Path (ing ! lastIdx) = '''' then
                 (let fallback = (if ts_FallbackTarget (ct_Spec tunnel) = '''' then ''http_status:404''
                                  else ts_FallbackTarget (ct_Spec tunnel))
                  in config\<lparr>tc_Ingress := ing[lastIdx := (ing ! lastIdx)\<lparr>ir_Service := fallback\<rparr>]\<rparr>)
               else config)
         else config)"

text \<open>The push proper; the flag of the result is the error that is returned, the object is the one
  in memory afterwards.\<close>

definition pushConfiguration ::
  "'w TunnelEnv \<Rightarrow> 'w Client \<Rightarrow> string \<Rightarrow> CloudflareTunnel \<Rightarrow> TunnelConfiguration \<Rightarrow> int \<Rightarrow>
     ('w ProcState, go_error option \<times> CloudflareTunnel) io" where
  "pushConfiguration env c accountID tunnel config routeCount =
     (let desiredHash = tunnelConfigHash env config;
          currentHash = (case map_of (om_Annotations (ct_Meta tunnel)) configHashAnnotation of
                           None \<Rightarrow> '''' | Some h \<Rightarrow> h);
          counted = (\<lambda>t. t\<lparr>ct_Status := (ct_Status t)\<lparr>tst_ConnectedRouteCount := to_int32 routeCount\<rparr>\<rparr>)
      in if desiredHash = currentHash then ret (None, counted tunnel)
         else do {
           u \<leftarrow> k8s (UpdateConfiguration c accountID (tst_TunnelID (ct_Status tunnel)) config);
           case u of
             Inl err \<Rightarrow> do {
               tunnel \<leftarrow>
                 (if Contains (err_msg err) ''404'' \<or> Contains (err_msg err) ''not found'' \<or>
                     Contains (err_msg err) ''Tunnel not found''
                  then (let t = tunnel\<lparr>ct_Status := (ct_Status tunnel)
                              \<lparr>tst_TunnelID := '''', tst_TunnelName := '''', tst_TunnelDomain := ''''\<rparr>\<rparr>
                        in do {
                          su \<leftarrow> k8s (te_StatusUpdate env t);
                          ret (case su of Inl statusErr \<Rightarrow> t | Inr t' \<Rightarrow> t')
                        })
                  else ret tunnel);
               ret (Some (wrapf ''failed to update tunnel configuration'' err), tunnel)
             }
           | Inr _ \<Rightarrow>
               (let annotated = tunnel\<lparr>ct_Meta := (ct_Meta tunnel)\<lparr>om_Annotations :=
                      map_put configHashAnnotation desiredHash (om_Annotations (ct_Meta tunnel))\<rparr>\<rparr>
                in do {
                  p \<leftarrow> k8s (te_Patch env tunnel annotated);
                  ret (None, counted (case p of Inl err \<Rightarrow> annotated | Inr t \<Rightarrow> t))
                })
         })"

definition syncConfiguration ::
  "'w TunnelEnv \<Rightarrow> CloudflareTunnel \<Rightarrow> ('w ProcState, go_error option \<times> CloudflareTunnel) io" where
  "syncConfiguration env tunnel =
     (if tst_TunnelID (ct_Status tunnel) = '''' then ret (Some (errorf ''tunnel ID not set in status''), tunnel)
      else do {
        r \<leftarrow> collectIngressRules env tunnel;
        case r of
          Inl err \<Rightarrow> ret (Some (wrapf ''failed to collect ingress rules'' err), tunnel)
        | Inr (rules, routeCount) \<Rightarrow>
            (let config = desired_config tunnel rules
             in do {
               cl \<leftarrow> tunnel_getCloudflareClient env tunnel;
               case cl of
                 Inl err \<Rightarrow> ret (Some (wrapf ''failed to create Cloudflare client'' err), tunnel)
               | Inr c \<Rightarrow> do {
                   a \<leftarrow> resolveAccountID c tunnel;
                   case a of
                     Inl err \<Rightarrow> ret (Some (wrapf ''failed to resolve account'' err), tunnel)
                   | Inr accountID \<Rightarrow> pushConfiguration env c accountID tunnel config routeCount
                 }
             })
      })"

section \<open>Deletion\<close>

text \<open>\<open>Duration.Round(time.Second)\<close> and its printed form, for whole seconds.\<close>

definition round_seconds :: "int \<Rightarrow> int" where
  "round_seconds d = (if d < 0 then - ((- d + 500000000) div 1000000000) else (d + 500000000) div 1000000000)"

definition duration_str :: "int \<Rightarrow> string" where
  "duration_str secs =
     (let a = \<bar>secs\<bar>; body =
        (if a < 60 then int_str a @ ''s''
         else if a < 3600 then int_str (a div 60) @ ''m'' @ int_str (a mod 60) @ ''s''
         else int_str (a div 3600) @ ''h'' @ int_str (a div 60 mod 60) @ ''m'' @ int_str (a mod 60) @ ''s'')
      in if secs < 0 then ''-'' @ body else body)"

text \<open>The attempt to delete the tunnel from Cloudflare. None lets the deletion go on; a result ends
  the reconcile.\<close>

definition deleteFromCloudflare ::
  "'w TunnelEnv \<Rightarrow> CloudflareTunnel \<Rightarrow> int \<Rightarrow> ('w ProcState, Result option) io" where
  "deleteFromCloudflare env tunnel deletedAt =
     (let tid = tst_TunnelID (ct_Status tunnel);
          event = (\<lambda>ty reason note. k8s (te_Event env (tunnel_key_of tunnel) ty reason ''Delete'' note))
      in do {
        cl \<leftarrow> getCloudflareClientForDeletion env tunnel;
        case cl of
          Inl err \<Rightarrow> do {
            event ''Warning'' ''TunnelOrphanedNoCredentials''
              (''Tunnel '' @ tid @ '' may be orphaned on Cloudflare: '' @ err_msg err);
            ret None
          }
        | Inr c \<Rightarrow> do {
            a \<leftarrow> resolveAccountID c tunnel;
            let accountID = (case a of Inl err \<Rightarrow> tst_AccountID (ct_Status tunnel) | Inr i \<Rightarrow> i);
            if accountID = '''' then do {
              event ''Warning'' ''TunnelOrphanedNoAccountID''
                (''Tunnel '' @ tid @ '' may be orphaned on Cloudflare: no account ID'');
              ret None
            }
            else do {
              d \<leftarrow> k8s (ts_Delete c accountID tid);
              case d of
                Inl err \<Rightarrow> do {
                  now \<leftarrow> k8s (te_Now env);
                  let retryElapsed = now - deletedAt;
                  if retryElapsed < deletionRetryBudget then do {
                    event ''Warning'' ''TunnelDeleteError'' (err_msg err);
                    ret (Some (requeue_after (seconds 10)))
                  }
                  else do {
                    event ''Warning'' ''TunnelOrphanedDeleteFailed''
                      (''Tunnel '' @ tid @ '' may be orphaned on Cloudflare after '' @
                       duration_str (round_seconds retryElapsed) @ '' of retries: '' @ err_msg err);
                    ret None
                  }
                }
              | Inr _ \<Rightarrow> do {
                  event ''Normal'' ''TunnelDeleted'' (''Deleted tunnel '' @ tid @ '' from Cloudflare'');
                  ret None
                }
            }
          }
      })"

definition tunnel_reconcileDelete ::
  "'w TunnelEnv \<Rightarrow> CloudflareTunnel \<Rightarrow> int \<Rightarrow> ('w ProcState, Result \<times> go_error option) io" where
  "tunnel_reconcileDelete env tunnel deletedAt =
     (if \<not> fl_Contains (te_Finalizers env) (ct_Meta tunnel) tunnelFinalizer then ret (no_requeue, None)
      else do {
        r \<leftarrow> (if map_of (om_Annotations (ct_Meta tunnel)) ''cfgate.io/deletion-policy'' = Some ''orphan''
             then do {
               k8s (te_Event env (tunnel_key_of tunnel) ''Normal'' ''TunnelOrphaned'' ''Delete''
                      (''Tunnel '' @ tst_TunnelID (ct_Status tunnel) @ '' orphaned due to deletion policy''));
               ret None
             }
             else if tst_TunnelID (ct_Status tunnel) \<noteq> ''''
             then deleteFromCloudflare env tunnel deletedAt
             else ret None);
        case r of
          Some result \<Rightarrow> ret (result, None)
        | None \<Rightarrow> do {
            p \<leftarrow> k8s (te_Patch env tunnel
                   (tunnel\<lparr>ct_Meta := fl_Remove (te_Finalizers env) (ct_Meta tunnel) tunnelFinalizer\<rparr>));
            case p of
              Inl err \<Rightarrow> ret (no_requeue, Some (wrapf ''failed to remove finalizer'' err))
            | Inr _ \<Rightarrow> ret (no_requeue, None)
          }
      })"

section \<open>Reconcile\<close>

definition synced_message :: "CloudflareTunnel \<Rightarrow> string" where
  "synced_message tunnel = ''Configuration synced with '' @
     int_str (tst_ConnectedRouteCount (ct_Status tunnel)) @ '' ingress rules''"

text \<open>The path of a healthy, recently synced tunnel: replica counts and configuration only.\<close>

definition reconcile_unchanged ::
  "'w TunnelEnv \<Rightarrow> CloudflareTunnel \<Rightarrow> ('w ProcState, Result \<times> go_error option) io" where
  "reconcile_unchanged env tunnel = do {
     g \<leftarrow> k8s (te_GetDeployment env \<lparr>nn_Namespace = om_Namespace (ct_Meta tunnel),
                  nn_Name = DeploymentName (om_Name (ct_Meta tunnel))\<rparr>);
     let tunnel = (case g of
           Inl err \<Rightarrow> tunnel
         | Inr d \<Rightarrow>
             if dep_ReadyReplicas d \<noteq> tst_ReadyReplicas (ct_Status tunnel) \<or>
                dep_Replicas d \<noteq> tst_Replicas (ct_Status tunnel)
             then tunnel\<lparr>ct_Status := (ct_Status tunnel)
                    \<lparr>tst_ReadyReplicas := dep_ReadyReplicas d, tst_Replicas := dep_Replicas d\<rparr>\<rparr>
             else tunnel);
     (syncErr, tunnel) \<leftarrow> syncConfiguration env tunnel;
     tunnel \<leftarrow> (case syncErr of
        Some err \<Rightarrow> tunnel_setCondition env tunnel ''ConfigurationSynced'' StFalse ''ConfigSyncError'' (err_msg err)
      | None \<Rightarrow> tunnel_setCondition env tunnel ''ConfigurationSynced'' StTrue ''ConfigurationSynced''
                  (synced_message tunnel));
     now \<leftarrow> k8s (te_Now env);
     let tunnel = tunnel\<lparr>ct_Status := (ct_Status tunnel)\<lparr>tst_LastSyncTime := Some now\<rparr>\<rparr>;
     u \<leftarrow> tunnel_updateStatus env tunnel;
     case u of
       Inl err \<Rightarrow> ret (requeue_after requeueAfterError, None)
     | Inr _ \<Rightarrow>
         if syncErr \<noteq> None then ret (requeue_after requeueAfterError, None)
         else ret (requeue_after requeueAfterSuccess, None)
   }"

text \<open>A step that failed: its condition and Ready are set False, the status is written, an event is
  recorded and the reconcile is retried in thirty seconds. The event reports the error of the
  step: the code's inner variable of the same name is local to its if statement.\<close>

definition step_failed ::
  "'w TunnelEnv \<Rightarrow> CloudflareTunnel \<Rightarrow> string \<Rightarrow> string \<Rightarrow> string \<Rightarrow> string \<Rightarrow> go_error \<Rightarrow>
     ('w ProcState, Result \<times> go_error option) io" where
  "step_failed env tunnel conditionType reason readyMessage action err = do {
     tunnel \<leftarrow> tunnel_setCondition env tunnel conditionType StFalse reason (err_msg err);
     tunnel \<leftarrow> tunnel_setCondition env tunnel ''Ready'' StFalse reason readyMessage;
     _ \<leftarrow> tunnel_updateStatus env tunnel;
     k8s (te_Event env (tunnel_key_of tunnel) ''Warning'' reason action (err_msg err));
     ret (requeue_after requeueAfterError, None)
   }"

text \<open>Steps 6 and 7: configuration and final status.\<close>

definition reconcile_configuration ::
  "'w TunnelEnv \<Rightarrow> CloudflareTunnel \<Rightarrow> ('w ProcState, Result \<times> go_error option) io" where
  "reconcile_configuration env tunnel = do {
     (syncErr, tunnel) \<leftarrow> syncConfiguration env tunnel;
     case syncErr of
       Some err \<Rightarrow> step_failed env tunnel ''ConfigurationSynced'' ''ConfigSyncError''
                     ''Failed to sync configuration'' ''Sync'' err
     | None \<Rightarrow> do {
         tunnel \<leftarrow> tunnel_setCondition env tunnel ''ConfigurationSynced'' StTrue ''ConfigurationSynced''
                     (synced_message tunnel);
         tunnel \<leftarrow> tunnel_setCondition env tunnel ''Ready'' StTrue ''TunnelOperational''
                     ''Tunnel is fully operational'';
         now \<leftarrow> k8s (te_Now env);
         let tunnel = tunnel\<lparr>ct_Status := (ct_Status tunnel)
           \<lparr>tst_ObservedGeneration := om_Generation (ct_Meta tunnel), tst_LastSyncTime := Some now\<rparr>\<rparr>;
         u \<leftarrow> tunnel_updateStatus env tunnel;
         case u of
           Inl err \<Rightarrow> ret (requeue_after requeueAfterError, None)
         | Inr _ \<Rightarrow> do {
             k8s (te_Event env (tunnel_key_of tunnel) ''Normal'' ''Reconciled'' ''Reconcile''
                    ''Tunnel reconciled successfully'');
             ret (requeue_after requeueAfterSuccess, None)
           }
       }
   }"

text \<open>Steps 3 to 5: credentials, tunnel, deployment.\<close>

definition reconcile_full ::
  "'w TunnelEnv \<Rightarrow> CloudflareTunnel \<Rightarrow> ('w ProcState, Result \<times> go_error option) io" where
  "reconcile_full env tunnel = do {
     v \<leftarrow> validateCredentials env tunnel;
     case v of
       Inl err \<Rightarrow> step_failed env tunnel ''CredentialsValid'' ''CredentialsInvalid''
                    ''API credentials are invalid'' ''Validate'' err
     | Inr _ \<Rightarrow> do {
         tunnel \<leftarrow> tunnel_setCondition env tunnel ''CredentialsValid'' StTrue ''CredentialsValid''
                     ''API token validated successfully'';
         e \<leftarrow> ensureTunnel env tunnel;
         case e of
           Inl err \<Rightarrow> step_failed env tunnel ''TunnelReady'' ''TunnelError'' ''Failed to ensure tunnel''
                        ''Reconcile'' err
         | Inr tunnel \<Rightarrow> do {
             tunnel \<leftarrow> tunnel_setCondition env tunnel ''TunnelReady'' StTrue ''TunnelReady''
                         (''Tunnel '' @ tst_TunnelID (ct_Status tunnel) @ '' ready'');
             d \<leftarrow> deployCloudflared env tunnel;
             case d of
               Inl err \<Rightarrow> step_failed env tunnel ''CloudflaredDeployed'' ''DeploymentError''
                            ''Failed to deploy cloudflared'' ''Deploy'' err
             | Inr tunnel \<Rightarrow> do {
                 tunnel \<leftarrow> tunnel_setCondition env tunnel ''CloudflaredDeployed'' StTrue ''DeploymentReady''
                             ''cloudflared deployment ready'';
                 reconcile_configuration env tunnel
               }
           }
       }
   }"

definition lifecycle_unchanged :: "'w TunnelEnv \<Rightarrow> CloudflareTunnel \<Rightarrow> int \<Rightarrow> bool" where
  "lifecycle_unchanged env tunnel now \<longleftrightarrow>
     om_Generation (ct_Meta tunnel) = tst_ObservedGeneration (ct_Status tunnel) \<and>
     isTunnelHealthy env tunnel \<and>
     (case tst_LastSyncTime (ct_Status tunnel) of None \<Rightarrow> False | Some t \<Rightarrow> now - t < seconds 1800)"

definition tunnel_Reconcile ::
  "'w TunnelEnv \<Rightarrow> NamespacedName \<Rightarrow> ('w ProcState, Result \<times> go_error option) io" where
  "tunnel_Reconcile env req = do {
     g \<leftarrow> k8s (te_Get env req);
     case g of
       Inl err \<Rightarrow> if IsNotFound err then ret (no_requeue, None)
                  else ret (no_requeue, Some (wrapf ''failed to get CloudflareTunnel'' err))
     | Inr tunnel \<Rightarrow>
         (case om_DeletionTimestamp (ct_Meta tunnel) of
            Some deletedAt \<Rightarrow> tunnel_reconcileDelete env tunnel deletedAt
          | None \<Rightarrow>
              if \<not> fl_Contains (te_Finalizers env) (ct_Meta tunnel) tunnelFinalizer then do {
                p \<leftarrow> k8s (te_Patch env tunnel
                       (tunnel\<lparr>ct_Meta := fl_Add (te_Finalizers env) (ct_Meta tunnel) tunnelFinalizer\<rparr>));
                case p of
                  Inl err \<Rightarrow> ret (no_requeue, Some (wrapf ''failed to add finalizer'' err))
                | Inr _ \<Rightarrow> ret (\<lparr>res_Requeue = True, res_RequeueAfter = 0\<rparr>, None)
              }
              else do {
                now \<leftarrow> k8s (te_Now env);
                if lifecycle_unchanged env tunnel now then reconcile_unchanged env tunnel
                else reconcile_full env tunnel
              })
   }"

section \<open>Lemmas: sorting\<close>

text \<open>What \<open>sort.Slice\<close> promises for a strict order on keys: a permutation without descents. It
  does not promise stability.\<close>

locale sort_lib =
  fixes sort_slice :: "('a \<Rightarrow> 'a \<Rightarrow> bool) \<Rightarrow> 'a list \<Rightarrow> 'a list"
  assumes sort_perm: "mset (sort_slice lt xs) = mset xs"
    and sort_sorted: "(\<And>a b. lt a b \<Longrightarrow> \<not> lt b a) \<Longrightarrow>
      (\<And>a b c. \<not> lt b a \<Longrightarrow> \<not> lt c b \<Longrightarrow> \<not> lt c a) \<Longrightarrow>
      sorted_wrt (\<lambda>a b. \<not> lt b a) (sort_slice lt xs)"

lemma sorted_wrt_unique:
  assumes "sorted_wrt R xs" "sorted_wrt R ys" "mset xs = mset ys"
    and anti: "\<And>a b. a \<in> List.set xs \<Longrightarrow> b \<in> List.set xs \<Longrightarrow> R a b \<Longrightarrow> R b a \<Longrightarrow> a = b"
  shows "xs = ys"
  using assms
proof (induction xs arbitrary: ys)
  case Nil
  then show ?case by simp
next
  case (Cons x xs)
  from Cons.prems(3) obtain y ys' where ys: "ys = y # ys'" by (cases ys) auto
  have "x = y"
  proof (rule ccontr)
    assume ne: "x \<noteq> y"
    have "List.set (x # xs) = List.set (y # ys')" using Cons.prems(3) ys by (metis set_mset_mset)
    then have "y \<in> List.set xs" "x \<in> List.set ys'" using ne by auto
    then have "R x y" "R y x" using Cons.prems(1,2) ys by auto
    with Cons.prems(4) \<open>y \<in> List.set xs\<close> ne show False by auto
  qed
  moreover have "xs = ys'"
    using Cons.prems ys \<open>x = y\<close> by (intro Cons.IH) auto
  ultimately show ?case using ys by simp
qed

context sort_lib
begin

text \<open>Sorting by a key is a canonical form when the key is injective on the elements.\<close>

lemma sort_canonical:
  assumes "\<And>a b. lt a b \<Longrightarrow> \<not> lt b a"
    and "\<And>a b c. \<not> lt b a \<Longrightarrow> \<not> lt c b \<Longrightarrow> \<not> lt c a"
    and "\<And>a b. a \<in> List.set xs \<Longrightarrow> b \<in> List.set xs \<Longrightarrow> \<not> lt a b \<Longrightarrow> \<not> lt b a \<Longrightarrow> a = b"
    and "mset xs = mset ys"
  shows "sort_slice lt xs = sort_slice lt ys"
proof (rule sorted_wrt_unique [where R = "\<lambda>a b. \<not> lt b a"])
  show "sorted_wrt (\<lambda>a b. \<not> lt b a) (sort_slice lt xs)" "sorted_wrt (\<lambda>a b. \<not> lt b a) (sort_slice lt ys)"
    using sort_sorted assms(1,2) by blast+
  show "mset (sort_slice lt xs) = mset (sort_slice lt ys)" using sort_perm assms(4) by metis
  have "List.set (sort_slice lt xs) = List.set xs" using sort_perm by (metis set_mset_mset)
  then show "a = b" if "a \<in> List.set (sort_slice lt xs)" "b \<in> List.set (sort_slice lt xs)"
      "\<not> lt b a" "\<not> lt a b" for a b
    using assms(3) that by blast
qed

end

text \<open>Insertion sort keeps the promise.\<close>

fun insert_slice :: "('a \<Rightarrow> 'a \<Rightarrow> bool) \<Rightarrow> 'a \<Rightarrow> 'a list \<Rightarrow> 'a list" where
  "insert_slice lt x [] = [x]"
| "insert_slice lt x (y # ys) = (if lt y x then y # insert_slice lt x ys else x # y # ys)"

definition insertion_sort :: "('a \<Rightarrow> 'a \<Rightarrow> bool) \<Rightarrow> 'a list \<Rightarrow> 'a list" where
  "insertion_sort lt xs = foldr (insert_slice lt) xs []"

lemma mset_insert_slice [simp]: "mset (insert_slice lt x ys) = add_mset x (mset ys)"
  by (induction lt x ys rule: insert_slice.induct) auto

lemma set_insert_slice [simp]: "List.set (insert_slice lt x ys) = insert x (List.set ys)"
  by (induction lt x ys rule: insert_slice.induct) auto

lemma sorted_insert_slice:
  assumes asym: "\<And>a b. lt a b \<Longrightarrow> \<not> lt b a"
    and neg: "\<And>a b c. \<not> lt b a \<Longrightarrow> \<not> lt c b \<Longrightarrow> \<not> lt c a"
    and "sorted_wrt (\<lambda>a b. \<not> lt b a) ys"
  shows "sorted_wrt (\<lambda>a b. \<not> lt b a) (insert_slice lt x ys)"
  using assms(3)
proof (induction ys)
  case Nil
  then show ?case by simp
next
  case (Cons y ys)
  show ?case
  proof (cases "lt y x")
    case True
    then have "\<not> lt x y" using asym by blast
    with True Cons show ?thesis by auto
  next
    case False
    with Cons neg show ?thesis by auto
  qed
qed

interpretation ins_sort: sort_lib insertion_sort
proof
  show "mset (insertion_sort lt xs) = mset xs" for lt and xs :: "'a list"
    by (induction xs) (simp_all add: insertion_sort_def)
  show "sorted_wrt (\<lambda>a b. \<not> lt b a) (insertion_sort lt xs)"
    if "\<And>a b. lt a b \<Longrightarrow> \<not> lt b a" "\<And>a b c. \<not> lt b a \<Longrightarrow> \<not> lt c b \<Longrightarrow> \<not> lt c a"
    for lt and xs :: "'a list"
    using sorted_insert_slice [of lt, OF that] by (induction xs) (simp_all add: insertion_sort_def)
qed

lemma str_less_irrefl: "\<not> str_less a a"
  by (induction a) auto

lemma str_less_trans: "str_less a b \<Longrightarrow> str_less b c \<Longrightarrow> str_less a c"
proof (induction a b arbitrary: c rule: str_less.induct)
  case (4 x xs y ys)
  then obtain z zs where "c = z # zs" by (cases c) auto
  with 4 show ?case by (auto split: if_splits)
next
  case (2 d ds)
  then show ?case by (cases c) auto
qed auto

lemma str_less_total: "\<not> str_less a b \<Longrightarrow> \<not> str_less b a \<Longrightarrow> a = b"
  by (induction a b rule: str_less.induct) (auto split: if_splits)

lemma str_less_asym: "str_less a b \<Longrightarrow> \<not> str_less b a"
  using str_less_trans str_less_irrefl by blast

lemma rule_less_asym: "rule_less a b \<Longrightarrow> \<not> rule_less b a"
  using str_less_asym by (auto simp: rule_less_def split: if_splits)

lemma rule_less_trans: "rule_less a b \<Longrightarrow> rule_less b c \<Longrightarrow> rule_less a c"
  using str_less_trans str_less_irrefl by (fastforce simp: rule_less_def split: if_splits)

lemma rule_less_neg:
  assumes "\<not> rule_less b a" "\<not> rule_less c b"
  shows "\<not> rule_less c a"
proof
  assume ca: "rule_less c a"
  consider "rule_less a b" | "ir_Hostname a = ir_Hostname b \<and> ir_Service a = ir_Service b"
    using assms(1) str_less_total by (fastforce simp: rule_less_def split: if_splits)
  then show False
  proof cases
    case 1
    from rule_less_trans [OF ca 1] assms(2) show False by simp
  next
    case 2
    with ca assms(2) show False by (simp add: rule_less_def split: if_splits)
  qed
qed

lemma rule_less_key:
  "\<not> rule_less a b \<Longrightarrow> \<not> rule_less b a \<Longrightarrow> ir_Hostname a = ir_Hostname b \<and> ir_Service a = ir_Service b"
  using str_less_total by (fastforce simp: rule_less_def split: if_splits)

section \<open>Lemmas: configuration\<close>

definition rule_key :: "IngressRule \<Rightarrow> string \<times> string" where
  "rule_key r = (ir_Hostname r, ir_Service r)"

lemma tunnelConfigHash_perm:
  assumes "sort_lib (te_SortSlice env)" "mset rs = mset rs'" "inj_on rule_key (List.set rs)"
  shows "tunnelConfigHash env (cfg\<lparr>tc_Ingress := rs\<rparr>) = tunnelConfigHash env (cfg\<lparr>tc_Ingress := rs'\<rparr>)"
proof -
  have "te_SortSlice env rule_less rs = te_SortSlice env rule_less rs'"
  proof (rule sort_lib.sort_canonical [OF assms(1)])
    show "a = b" if "a \<in> List.set rs" "b \<in> List.set rs" "\<not> rule_less a b" "\<not> rule_less b a" for a b
      using rule_less_key [OF that(3,4)] assms(3) that(1,2) by (simp add: inj_on_def rule_key_def)
  qed (use rule_less_asym rule_less_neg assms(2) in blast)+
  then show ?thesis by (simp add: tunnelConfigHash_def)
qed

definition fallback_service :: "CloudflareTunnel \<Rightarrow> string" where
  "fallback_service tunnel =
     (if ts_FallbackTarget (ct_Spec tunnel) = '''' then ''http_status:404''
      else ts_FallbackTarget (ct_Spec tunnel))"

lemma desired_config_ingress:
  assumes "\<forall>r \<in> List.set rules. ir_Hostname r \<noteq> ''''"
  shows "tc_Ingress (desired_config tunnel rules) = rules @ [cf_default_rule (fallback_service tunnel)]"
proof -
  have "\<not> ends_in_catch_all ir_Hostname ir_Path rules"
    using assms by (auto simp: ends_in_catch_all_def catch_all_def)
  then have "tc_Ingress (BuildConfiguration rules d) = rules @ [cf_default_rule ''http_status:404'']" for d
    by (simp add: BuildConfiguration_def ensureCatchAllRule_eq close_rules_def)
  then show ?thesis
    by (simp add: desired_config_def Let_def cf_default_rule_def fallback_service_def)
qed

lemma ingress_of_rule_hostname: "r \<in> List.set (ingress_of_rule rt h rule) \<Longrightarrow> ir_Hostname r = h"
  by (auto simp: ingress_of_rule_def Let_def split: list.splits)

lemma buildRules_hostname: "r \<in> List.set (buildRulesFromHTTPRoute rt) \<Longrightarrow> ir_Hostname r \<in> List.set (hr_Hostnames rt)"
  by (auto simp: buildRulesFromHTTPRoute_def dest: ingress_of_rule_hostname)

text \<open>The rules of a list of parents, routes and Gateways, written as list comprehensions.\<close>

definition matching_parents :: "Gateway \<Rightarrow> HTTPRoute \<Rightarrow> ParentReference list" where
  "matching_parents gw rt = filter (parent_is_gateway rt gw) (hr_ParentRefs rt)"

definition gateway_rules :: "HTTPRoute list \<Rightarrow> Gateway \<Rightarrow> IngressRule list" where
  "gateway_rules routes gw =
     concat (map (\<lambda>rt. concat (map (\<lambda>p. buildRulesFromHTTPRoute rt) (matching_parents gw rt))) routes)"

definition gateway_count :: "HTTPRoute list \<Rightarrow> Gateway \<Rightarrow> int" where
  "gateway_count routes gw = (\<Sum>rt\<leftarrow>routes. int (length (matching_parents gw rt)))"

lemma rules_of_parents_eq:
  "rules_of_parents rt gw ps (rules, n) =
     (rules @ concat (map (\<lambda>p. buildRulesFromHTTPRoute rt) (filter (parent_is_gateway rt gw) ps)),
      n + int (length (filter (parent_is_gateway rt gw) ps)))"
  by (induction ps arbitrary: rules n) auto

lemma rules_of_routes_eq:
  "rules_of_routes gw rts (rules, n) = (rules @ gateway_rules rts gw, n + gateway_count rts gw)"
proof (induction rts arbitrary: rules n)
  case (Cons rt rts)
  then show ?case
    by (simp add: rules_of_parents_eq matching_parents_def gateway_rules_def gateway_count_def)
qed (simp add: gateway_rules_def gateway_count_def)

lemma rules_of_gateways_run:
  assumes "run_state (te_ListRoutes env) (ps_world s) = (Inr routes, ps_world s)"
  shows "run_state (rules_of_gateways env gws (rules, n)) s =
    (Inr (rules @ concat (map (gateway_rules routes) gws), n + (\<Sum>gw\<leftarrow>gws. gateway_count routes gw)), s)"
  using assms by (induction gws arbitrary: rules n) (simp_all add: rules_of_routes_eq)

text \<open>A failed deletion is retried only while the clock, read right after the failed call and right
  before the event that reports it, is within the budget.\<close>

definition retry_allowed :: "'w TunnelEnv \<Rightarrow> CloudflareTunnel \<Rightarrow> int \<Rightarrow> 'w \<Rightarrow> bool" where
  "retry_allowed env tunnel deletedAt w' \<longleftrightarrow>
     (\<exists>w now w1 msg. run_state (te_Now env) w = (now, w1) \<and> now < deletedAt + deletionRetryBudget \<and>
        w' = snd (run_state (te_Event env (tunnel_key_of tunnel) ''Warning'' ''TunnelDeleteError''
                    ''Delete'' msg) w1))"

lemma retry_allowedI:
  "run_state (te_Now env) w = (now, w1) \<Longrightarrow> now - deletedAt < deletionRetryBudget \<Longrightarrow>
   run_state (te_Event env (tunnel_key_of tunnel) ''Warning'' ''TunnelDeleteError'' ''Delete'' msg) w1 = (u, w') \<Longrightarrow>
   retry_allowed env tunnel deletedAt w'"
  unfolding retry_allowed_def by (rule exI [of _ w], rule exI [of _ now], rule exI [of _ w1], rule exI [of _ msg]) simp

lemma deleteFromCloudflare_result:
  assumes "run_state (deleteFromCloudflare env tunnel t0) s = (r, s')"
  shows "r = None \<or> r = Some (requeue_after (seconds 10)) \<and> retry_allowed env tunnel t0 (ps_world s')"
proof -
  obtain cl s1 where cl: "run_state (getCloudflareClientForDeletion env tunnel) s = (cl, s1)"
    by (rule prod.exhaust)
  show ?thesis
  proof (cases cl)
    case (Inl err)
    with cl assms show ?thesis by (auto simp: deleteFromCloudflare_def Let_def split: prod.splits)
  next
    case (Inr c)
    obtain a s2 where a: "run_state (resolveAccountID c tunnel) s1 = (a, s2)" by (rule prod.exhaust)
    let ?acc = "case a of Inl err \<Rightarrow> tst_AccountID (ct_Status tunnel) | Inr i \<Rightarrow> i"
    obtain d w3 where d: "run_state (ts_Delete c ?acc (tst_TunnelID (ct_Status tunnel))) (ps_world s2) = (d, w3)"
      by (rule prod.exhaust)
    obtain now w4 where now: "run_state (te_Now env) w3 = (now, w4)" by (rule prod.exhaust)
    from cl a d now Inr assms show ?thesis
      by (auto simp: deleteFromCloudflare_def Let_def split: prod.splits sum.splits if_splits
          intro: retry_allowedI [OF now])
  qed
qed

lemma getCloudflareClientForDeletion_patch:
  "getCloudflareClientForDeletion (env\<lparr>te_Patch := p\<rparr>) tunnel = getCloudflareClientForDeletion env tunnel"
  by (simp add: getCloudflareClientForDeletion_def tunnel_getCloudflareClient_def
      cong del: option.case_cong_weak sum.case_cong_weak let_weak_cong)

lemma deleteFromCloudflare_patch:
  "deleteFromCloudflare (env\<lparr>te_Patch := p\<rparr>) tunnel t0 = deleteFromCloudflare env tunnel t0"
  by (simp add: deleteFromCloudflare_def getCloudflareClientForDeletion_patch
      cong del: option.case_cong_weak sum.case_cong_weak if_weak_cong)

section \<open>An environment for the witnesses\<close>

definition wit_tunnel :: CloudflareTunnel where
  "wit_tunnel =
     \<lparr>ct_Meta = (wit_meta [])\<lparr>om_Name := ''edge'', om_Finalizers := [tunnelFinalizer]\<rparr>,
      ct_Spec = \<lparr>ts_TunnelName = ''edge'',
        ts_Cloudflare = \<lparr>cc_AccountID = ''acc'', cc_AccountName = '''',
          cc_SecretRef = \<lparr>sr_Name = ''token'', sr_Namespace = ''''\<rparr>, cc_APIToken = ''''\<rparr>,
        ts_Cloudflared = \<lparr>cd_Replicas = 2, cd_Image = '''', cd_ImagePullPolicy = '''', cd_Protocol = '''',
          cd_Resources = \<lparr>rq_Limits = None, rq_Requests = None\<rparr>, cd_NodeSelector = [],
          cd_Tolerations = [], cd_PodAnnotations = [], cd_ExtraArgs = [],
          cd_Metrics = \<lparr>mc_Enabled = True, mc_Port = 0\<rparr>\<rparr>,
        ts_OriginDefaults = \<lparr>od_ConnectTimeout = '''', od_NoTLSVerify = False, od_HTTP2Origin = False,
          od_CAPoolSecretRef = None\<rparr>,
        ts_FallbackTarget = '''', ts_FallbackCredentialsRef = None\<rparr>,
      ct_Status = \<lparr>tst_TunnelID = ''t1'', tst_TunnelName = ''edge'',
        tst_TunnelDomain = ''t1.cfargotunnel.com'', tst_AccountID = ''acc'', tst_Replicas = 0,
        tst_ReadyReplicas = 0, tst_ObservedGeneration = 1, tst_LastSyncTime = None,
        tst_ConnectedRouteCount = 0, tst_Conditions = []\<rparr>\<rparr>"

text \<open>The world is the clock; the Cloudflare API is down.\<close>

definition wit_tenv :: "int TunnelEnv" where
  "wit_tenv =
     \<lparr>te_Get = (\<lambda>n. ret (Inr wit_tunnel)), te_APIGet = (\<lambda>n. ret (Inr wit_tunnel)),
      te_Patch = (\<lambda>old new. ret (Inr new)), te_StatusUpdate = (\<lambda>t. ret (Inr t)),
      te_GetSecret = (\<lambda>n. ret (Inl down)), te_CreateSecret = (\<lambda>x. ret (Inr ())),
      te_UpdateSecret = (\<lambda>x. ret (Inr ())), te_GetDeployment = (\<lambda>n. ret (Inl down)),
      te_CreateDeployment = (\<lambda>d. ret (Inr ())), te_UpdateDeployment = (\<lambda>d. ret (Inr ())),
      te_GetGateway = (\<lambda>n. ret (Inr wit_gateway)), te_ListGateways = ret (Inr [wit_gateway]),
      te_ListRoutes = ret (Inr [wit_route]), te_Event = (\<lambda>n t r a m. ret ()),
      te_Now = State (\<lambda>w. (w, w)), te_CFClient = Some (clientImpl down_sdk),
      te_cfNewClient = (\<lambda>t. down_sdk), te_Builder = None, te_Finalizers = std_finalizers,
      te_SetOwnerSecret = (\<lambda>t x. Inr (x\<lparr>sec_Owner := Some (om_Name (ct_Meta t))\<rparr>)),
      te_SetOwnerDeployment = (\<lambda>t d. Inr (d\<lparr>dep_Owner := Some (om_Name (ct_Meta t))\<rparr>)),
      te_SetStatusCondition = (\<lambda>cs c. SetCondition (c_LastTransitionTime c) cs c),
      te_IsStatusConditionTrue = ConditionTrue, te_SortSlice = insertion_sort,
      te_Digest = (\<lambda>cfg. concat (map ir_Service (tc_Ingress cfg)))\<rparr>"

definition wit_tstate :: "int ProcState" where
  "wit_tstate = \<lparr>ps_cred = None, ps_svc = None, ps_world = 0\<rparr>"

section \<open>Properties\<close>

definition release_tunnel :: "'w TunnelEnv \<Rightarrow> CloudflareTunnel \<Rightarrow> ('w ProcState, Result \<times> go_error option) io" where
  "release_tunnel env tunnel = do {
     p \<leftarrow> k8s (te_Patch env tunnel
            (tunnel\<lparr>ct_Meta := fl_Remove (te_Finalizers env) (ct_Meta tunnel) tunnelFinalizer\<rparr>));
     ret (no_requeue, case p of Inl err \<Rightarrow> Some (wrapf ''failed to remove finalizer'' err) | Inr _ \<Rightarrow> None)
   }"

definition before_release :: "'w TunnelEnv \<Rightarrow> CloudflareTunnel \<Rightarrow> int \<Rightarrow> ('w ProcState, Result option) io" where
  "before_release env tunnel deletedAt =
     (if map_of (om_Annotations (ct_Meta tunnel)) ''cfgate.io/deletion-policy'' = Some ''orphan''
      then do {
        k8s (te_Event env (tunnel_key_of tunnel) ''Normal'' ''TunnelOrphaned'' ''Delete''
               (''Tunnel '' @ tst_TunnelID (ct_Status tunnel) @ '' orphaned due to deletion policy''));
        ret None
      }
      else if tst_TunnelID (ct_Status tunnel) \<noteq> '''' then deleteFromCloudflare env tunnel deletedAt
      else ret None)"

lemma tunnel_reconcileDelete_run:
  assumes "fl_Contains (te_Finalizers env) (ct_Meta tunnel) tunnelFinalizer"
    and "run_state (before_release env tunnel deletedAt) s = (r, s1)"
  shows "run_state (tunnel_reconcileDelete (env\<lparr>te_Patch := p\<rparr>) tunnel deletedAt) s =
    (case r of Some result \<Rightarrow> ((result, None), s1)
     | None \<Rightarrow> run_state (release_tunnel (env\<lparr>te_Patch := p\<rparr>) tunnel) s1)"
proof -
  have "tunnel_reconcileDelete (env\<lparr>te_Patch := p\<rparr>) tunnel deletedAt = do {
      r \<leftarrow> before_release env tunnel deletedAt;
      case r of Some result \<Rightarrow> ret (result, None) | None \<Rightarrow> release_tunnel' }"
    if "release_tunnel' = do {
      p \<leftarrow> k8s (p tunnel (tunnel\<lparr>ct_Meta := fl_Remove (te_Finalizers env) (ct_Meta tunnel) tunnelFinalizer\<rparr>));
      case p of Inl err \<Rightarrow> ret (no_requeue, Some (wrapf ''failed to remove finalizer'' err))
      | Inr _ \<Rightarrow> ret (no_requeue, None) }" for release_tunnel'
    unfolding tunnel_reconcileDelete_def before_release_def that
    by (simp add: assms(1) deleteFromCloudflare_patch del: run_k8s)
  from this [OF refl] assms(2) show ?thesis
    by (cases r) (simp_all add: release_tunnel_def split: prod.split sum.split)
qed

text \<open>C14: Deletion of a tunnel is bounded. With the finalizer present, a deletion either asks to be
  retried in ten seconds, without a patch of the object, and then the clock it read after the
  failed call was within the retry budget of two minutes from the deletion mark; or its last
  action is the patch that removes the finalizer, whose outcome is the outcome of the reconcile.
  So a deletion that is past the budget releases the object, whatever the Cloudflare API does.\<close>

theorem tunnel_deletion_bounded:
  assumes "fl_Contains (te_Finalizers env) (ct_Meta tunnel) tunnelFinalizer"
  shows "(\<exists>s1. retry_allowed env tunnel deletedAt (ps_world s1) \<and>
        (\<forall>p. run_state (tunnel_reconcileDelete (env\<lparr>te_Patch := p\<rparr>) tunnel deletedAt) s =
               ((requeue_after (seconds 10), None), s1))) \<or>
    (\<exists>s1. run_state (tunnel_reconcileDelete env tunnel deletedAt) s = run_state (release_tunnel env tunnel) s1)"
proof -
  obtain r s1 where pre: "run_state (before_release env tunnel deletedAt) s = (r, s1)" by (rule prod.exhaust)
  then have "r = None \<or> r = Some (requeue_after (seconds 10)) \<and> retry_allowed env tunnel deletedAt (ps_world s1)"
    by (auto simp: before_release_def split: if_splits prod.splits dest: deleteFromCloudflare_result)
  then show ?thesis
    using tunnel_reconcileDelete_run [OF assms pre] tunnel_reconcileDelete_run [OF assms pre, of "te_Patch env"]
    by auto
qed

theorem tunnel_deletion_bounded_witness:
  "(\<exists>s1. retry_allowed wit_tenv wit_tunnel 0 (ps_world s1) \<and>
        (\<forall>p. run_state (tunnel_reconcileDelete (wit_tenv\<lparr>te_Patch := p\<rparr>) wit_tunnel 0) wit_tstate =
               ((requeue_after (seconds 10), None), s1))) \<or>
    (\<exists>s1. run_state (tunnel_reconcileDelete wit_tenv wit_tunnel 0) wit_tstate =
       run_state (release_tunnel wit_tenv wit_tunnel) s1)"
  by (rule tunnel_deletion_bounded) (simp add: wit_tenv_def wit_tunnel_def std_finalizers_def)

text \<open>A tunnel that was created but whose identifier never reached the stored status is not deleted: without
  an identifier the deletion only releases the finalizer, whatever Cloudflare holds, and tells no one.\<close>

theorem unrecorded_tunnel_kept:
  assumes "tst_TunnelID (ct_Status tunnel) = ''''" "fl_Contains (te_Finalizers env) (ct_Meta tunnel) tunnelFinalizer"
    and "map_of (om_Annotations (ct_Meta tunnel)) ''cfgate.io/deletion-policy'' \<noteq> Some ''orphan''"
  shows "run_state (tunnel_reconcileDelete env tunnel deletedAt) s = run_state (release_tunnel env tunnel) s"
  using assms by (simp add: tunnel_reconcileDelete_def release_tunnel_def split: prod.split sum.split)

text \<open>C10: The configuration a tunnel gets. For rules with hostnames (as every rule collected from a
  route with non-empty hostnames has) the pushed rule list is the collected one followed by the
  fallback, is pushed unchanged by the service, and routes every request: to the first collected
  rule that matches, otherwise to the fallback target (status 404 by default).\<close>

theorem pushed_configuration_routes:
  assumes "\<forall>r \<in> List.set rules. ir_Hostname r \<noteq> ''''"
  shows "let cfg = desired_config tunnel rules; fallback = cf_default_rule (fallback_service tunnel) in
    tc_Ingress cfg = rules @ [fallback] \<and> ensureCatchAllRule cfg = cfg \<and>
    cf_route m (tc_Ingress cfg) q =
      (case cf_route m rules q of None \<Rightarrow> Some fallback | Some r \<Rightarrow> Some r)"
  using desired_config_ingress [OF assms]
  by (simp add: Let_def ensureCatchAllRule_eq close_rules_def ends_in_catch_all_def
      cf_rules.default_catch_all route_request_def find_append split: option.split)

theorem pushed_configuration_routes_witness:
  "tc_Ingress (desired_config wit_tunnel [wit_rule]) = [wit_rule, cf_default_rule ''http_status:404'']"
proof -
  have f: "fallback_service wit_tunnel = ''http_status:404''"
    by (simp add: fallback_service_def wit_tunnel_def)
  have "\<forall>r \<in> List.set [wit_rule]. ir_Hostname r \<noteq> ''''" by (simp add: wit_rule_def)
  from pushed_configuration_routes [OF this, of wit_tunnel "\<lambda>h p q. True" "()"] f show ?thesis
    by (simp add: Let_def)
qed

text \<open>C12: The rules of a tunnel. On an unchanging cluster the collected rules are, for every Gateway
  annotated with the tunnel, every route and every parent reference of the route to that Gateway,
  the rules of the route, in this order; the route count is the number of such references (so a
  route attached twice to a Gateway contributes twice).\<close>

theorem collectIngressRules_exact:
  assumes "run_state (te_ListGateways env) (ps_world s) = (Inr gws, ps_world s)"
    and "run_state (te_ListRoutes env) (ps_world s) = (Inr routes, ps_world s)"
  shows "run_state (collectIngressRules env tunnel) s =
    (Inr (concat (map (gateway_rules routes) (relevant_gateways tunnel gws)),
          \<Sum>gw\<leftarrow>relevant_gateways tunnel gws. \<Sum>rt\<leftarrow>routes. int (length (matching_parents gw rt))), s)"
  using assms(1) rules_of_gateways_run [OF assms(2), of "relevant_gateways tunnel gws" "[]" 0]
  by (simp add: collectIngressRules_def gateway_count_def)

theorem collectIngressRules_exact_witness:
  "run_state (collectIngressRules wit_tenv wit_tunnel) wit_tstate = (Inr ([], 1), wit_tstate)"
  using collectIngressRules_exact [of wit_tenv wit_tstate "[wit_gateway]" "[wit_route]" wit_tunnel]
  by (simp add: wit_tenv_def relevant_gateways_def wit_gateway_def wit_tunnel_def tunnel_ref_def
      wit_meta_def gateway_rules_def matching_parents_def wit_route_def parent_is_gateway_def
      buildRulesFromHTTPRoute_def)

text \<open>A change of rule order is not pushed. The hash that gates the push ignores the order of the
  rules: when the stored hash is that of a configuration, no permutation of its rules (with
  distinct hostname and service) leads to an API call, although the order of rules decides
  which of them serves a request.\<close>

theorem reordered_rules_not_pushed:
  assumes "sort_lib (te_SortSlice env)" "mset rs = mset rs'" "inj_on rule_key (List.set rs)"
    and "map_of (om_Annotations (ct_Meta tunnel)) configHashAnnotation =
           Some (tunnelConfigHash env (cfg\<lparr>tc_Ingress := rs\<rparr>))"
  shows "run_state (pushConfiguration env c accountID tunnel (cfg\<lparr>tc_Ingress := rs'\<rparr>) n) s =
    ((None, tunnel\<lparr>ct_Status := (ct_Status tunnel)\<lparr>tst_ConnectedRouteCount := to_int32 n\<rparr>\<rparr>), s)"
  using tunnelConfigHash_perm [OF assms(1-3), of cfg] assms(4) by (simp add: pushConfiguration_def)

text \<open>For the witness: a specific path and the whole host, in both orders.\<close>

definition wit_api :: IngressRule where
  "wit_api = \<lparr>ir_Hostname = ''app'', ir_Path = ''/api'', ir_Service = ''http://api'', ir_OriginRequest = None\<rparr>"

definition wit_web :: IngressRule where
  "wit_web = \<lparr>ir_Hostname = ''app'', ir_Path = ''/'', ir_Service = ''http://web'', ir_OriginRequest = None\<rparr>"

definition wit_cfg :: "IngressRule list \<Rightarrow> TunnelConfiguration" where
  "wit_cfg rs = \<lparr>tc_Ingress = rs, tc_OriginRequest = None, tc_WarpRouting = None\<rparr>"

definition wit_hashed :: CloudflareTunnel where
  "wit_hashed = wit_tunnel\<lparr>ct_Meta := (ct_Meta wit_tunnel)\<lparr>om_Annotations :=
     [(configHashAnnotation, tunnelConfigHash wit_tenv (wit_cfg [wit_web, wit_api]))]\<rparr>\<rparr>"

theorem reordered_rules_not_pushed_witness:
  "fst (run_state (pushConfiguration wit_tenv (clientImpl down_sdk) ''acc'' wit_hashed
       (wit_cfg [wit_api, wit_web]) 1) wit_tstate) =
     (None, wit_hashed\<lparr>ct_Status := (ct_Status wit_hashed)\<lparr>tst_ConnectedRouteCount := to_int32 1\<rparr>\<rparr>) \<and>
   cf_route (\<lambda>h p q. prefix p q) [wit_web, wit_api] ''/api/x'' = Some wit_web \<and>
   cf_route (\<lambda>h p q. prefix p q) [wit_api, wit_web] ''/api/x'' = Some wit_api"
proof -
  have upd: "wit_cfg rs = (wit_cfg [])\<lparr>tc_Ingress := rs\<rparr>" for rs by (simp add: wit_cfg_def)
  have "sort_lib (te_SortSlice wit_tenv)" by (simp add: wit_tenv_def ins_sort.sort_lib_axioms)
  moreover have "inj_on rule_key (List.set [wit_web, wit_api])"
    by (simp add: rule_key_def wit_web_def wit_api_def)
  moreover have "map_of (om_Annotations (ct_Meta wit_hashed)) configHashAnnotation =
      Some (tunnelConfigHash wit_tenv ((wit_cfg [])\<lparr>tc_Ingress := [wit_web, wit_api]\<rparr>))"
    by (simp add: wit_hashed_def flip: upd)
  moreover have "mset [wit_web, wit_api] = mset [wit_api, wit_web]" by simp
  ultimately have "run_state (pushConfiguration wit_tenv (clientImpl down_sdk) ''acc'' wit_hashed
       ((wit_cfg [])\<lparr>tc_Ingress := [wit_api, wit_web]\<rparr>) 1) wit_tstate =
     ((None, wit_hashed\<lparr>ct_Status := (ct_Status wit_hashed)\<lparr>tst_ConnectedRouteCount := to_int32 1\<rparr>\<rparr>), wit_tstate)"
    by (intro reordered_rules_not_pushed)
  then show ?thesis
    by (simp add: route_request_def catch_all_def wit_web_def wit_api_def flip: upd)
qed

text \<open>The Gateway watch covers the tunnels: whenever a Gateway contributes rules to a tunnel (it is
  annotated with the tunnel's namespace and name), an event on that Gateway enqueues exactly
  that tunnel, and conversely. (Object names and namespaces contain no slash.)\<close>

theorem gateway_watch_complete:
  assumes "CHR ''/'' \<notin> List.set (om_Namespace (ct_Meta tunnel))" "CHR ''/'' \<notin> List.set (om_Name (ct_Meta tunnel))"
  shows "relevant_gateways tunnel [gw] = [gw] \<longleftrightarrow> findTunnelsForGateway (Some gw) = [tunnel_key_of tunnel]"
proof -
  let ?ann = "map_of (om_Annotations (gw_Meta gw)) AnnotationTunnelRef"
  have ref: "AnnotationTunnelRef = ''cfgate.io/tunnel-ref''"
    by (simp add: AnnotationTunnelRef_def AnnotationPrefix_def)
  have "Split (tunnel_ref tunnel) (CHR ''/'') = [om_Namespace (ct_Meta tunnel), om_Name (ct_Meta tunnel)]"
    using assms by (simp add: tunnel_ref_def Split_append_sep Split_no_sep)
  then have fwd: "requests_of_ref (Some (tunnel_ref tunnel)) = [tunnel_key_of tunnel]"
    by (simp add: requests_of_ref_def)
  have bwd: "x = tunnel_ref tunnel" if "requests_of_ref (Some x) = [tunnel_key_of tunnel]" for x
  proof -
    have "Split x (CHR ''/'') = [om_Namespace (ct_Meta tunnel), om_Name (ct_Meta tunnel)]"
      using that by (auto simp: requests_of_ref_def split: list.splits)
    from arg_cong [OF this, of "\<lambda>ws. Join ws ''/''"] show ?thesis
      by (simp add: Join_Split tunnel_ref_def)
  qed
  show ?thesis
  proof (cases ?ann)
    case None
    then show ?thesis
      by (simp add: relevant_gateways_def findTunnelsForGateway_def requests_of_ref_def flip: ref)
  next
    case (Some x)
    have "requests_of_ref (Some x) = [tunnel_key_of tunnel] \<longleftrightarrow> x = tunnel_ref tunnel"
      using fwd bwd by blast
    with Some show ?thesis
      by (simp add: relevant_gateways_def findTunnelsForGateway_def flip: ref)
  qed
qed

theorem gateway_watch_complete_witness:
  "findTunnelsForGateway (Some wit_gateway) = [tunnel_key_of wit_tunnel]"
  using gateway_watch_complete [of wit_tunnel wit_gateway]
  by (simp add: wit_tunnel_def wit_gateway_def wit_meta_def relevant_gateways_def tunnel_ref_def)

text \<open>A pushed configuration is not pushed again. After a push whose patch stored the hash, a
  further sync of the same configuration makes no call and leaves the state as it is.\<close>

theorem push_idempotent:
  assumes "run_state (pushConfiguration env c accountID tunnel cfg n) s = ((None, t1), s1)"
    and "tunnelConfigHash env cfg \<noteq> ''''"
    and "\<And>old new w r w'. run_state (te_Patch env old new) w = (Inr r, w') \<Longrightarrow>
           om_Annotations (ct_Meta r) = om_Annotations (ct_Meta new)"
  shows "run_state (pushConfiguration env c accountID t1 cfg n) s1 = ((None, t1), s1)"
proof -
  let ?h = "tunnelConfigHash env cfg"
  let ?ann = "map_of (om_Annotations (ct_Meta tunnel)) configHashAnnotation"
  let ?new = "tunnel\<lparr>ct_Meta := (ct_Meta tunnel)\<lparr>om_Annotations :=
      map_put configHashAnnotation ?h (om_Annotations (ct_Meta tunnel))\<rparr>\<rparr>"
  have "\<exists>t. map_of (om_Annotations (ct_Meta t)) configHashAnnotation = Some ?h \<and>
      t1 = t\<lparr>ct_Status := (ct_Status t)\<lparr>tst_ConnectedRouteCount := to_int32 n\<rparr>\<rparr>"
  proof (cases "?ann = Some ?h")
    case True
    with assms(1) show ?thesis by (auto simp: pushConfiguration_def)
  next
    case False
    then have ne: "?h \<noteq> (case ?ann of None \<Rightarrow> '''' | Some h \<Rightarrow> h)" using assms(2) by (cases ?ann) auto
    obtain u w1 where u: "run_state (UpdateConfiguration c accountID (tst_TunnelID (ct_Status tunnel)) cfg)
        (ps_world s) = (u, w1)" by (rule prod.exhaust)
    obtain p w2 where p: "run_state (te_Patch env tunnel ?new) w1 = (p, w2)" by (rule prod.exhaust)
    have "\<not> isl u" using assms(1) ne u
      by (cases u) (auto simp: pushConfiguration_def Let_def split: prod.splits)
    with assms(1) ne u p have "t1 = (case p of Inl err \<Rightarrow> ?new | Inr t \<Rightarrow> t)\<lparr>ct_Status :=
        (ct_Status (case p of Inl err \<Rightarrow> ?new | Inr t \<Rightarrow> t))\<lparr>tst_ConnectedRouteCount := to_int32 n\<rparr>\<rparr>"
      by (cases u) (auto simp: pushConfiguration_def Let_def)
    moreover have "map_of (om_Annotations (ct_Meta (case p of Inl err \<Rightarrow> ?new | Inr t \<Rightarrow> t)))
        configHashAnnotation = Some ?h"
      using p assms(3) [of tunnel ?new w1 _ w2] by (cases p) simp_all
    ultimately show ?thesis by blast
  qed
  then show ?thesis by (auto simp: pushConfiguration_def)
qed

definition wit_ok_client :: "int Client" where
  "wit_ok_client = (clientImpl down_sdk)\<lparr>UpdateTunnelConfiguration := \<lambda>a t c. ret (Inr ())\<rparr>"

theorem push_idempotent_witness:
  "\<exists>t1 s1. run_state (pushConfiguration wit_tenv wit_ok_client ''acc'' wit_tunnel (wit_cfg [wit_web]) 1)
      wit_tstate = ((None, t1), s1) \<and>
    run_state (pushConfiguration wit_tenv wit_ok_client ''acc'' t1 (wit_cfg [wit_web]) 1) s1 = ((None, t1), s1)"
proof -
  have h: "tunnelConfigHash wit_tenv (wit_cfg [wit_web]) = ''http://web''"
    by (simp add: tunnelConfigHash_def wit_tenv_def wit_cfg_def wit_web_def insertion_sort_def)
  have env: "te_Patch wit_tenv = (\<lambda>old new. ret (Inr new))"
      "UpdateTunnelConfiguration wit_ok_client = (\<lambda>a t c. ret (Inr ()))"
      "om_Annotations (ct_Meta wit_tunnel) = []"
    by (simp_all add: wit_tenv_def wit_ok_client_def wit_tunnel_def wit_meta_def)
  have "\<exists>t1 s1. run_state (pushConfiguration wit_tenv wit_ok_client ''acc'' wit_tunnel (wit_cfg [wit_web]) 1)
      wit_tstate = ((None, t1), s1)"
    by (simp add: pushConfiguration_def h env UpdateConfiguration_def Let_def)
  then obtain t1 s1 where run: "run_state (pushConfiguration wit_tenv wit_ok_client ''acc'' wit_tunnel
      (wit_cfg [wit_web]) 1) wit_tstate = ((None, t1), s1)" by blast
  have "run_state (pushConfiguration wit_tenv wit_ok_client ''acc'' t1 (wit_cfg [wit_web]) 1) s1 = ((None, t1), s1)"
    by (rule push_idempotent [OF run]) (simp add: h, simp add: wit_tenv_def)
  with run show ?thesis by blast
qed

text \<open>The time of the last sync is not kept up to date: when nothing else of the status changed,
  the status is not written, so the stored time stays and the short path, which needs a sync
  within the last thirty minutes, is no longer taken after that.\<close>

theorem last_sync_time_not_written:
  assumes "run_state (te_APIGet env (tunnel_key_of tunnel)) (ps_world s) = (Inr current, w)"
    and "ct_Status tunnel = (ct_Status current)\<lparr>tst_LastSyncTime := t\<rparr>"
  shows "run_state (tunnel_updateStatus env tunnel) s = (Inr (), s\<lparr>ps_world := w\<rparr>)"
proof -
  have "tunnelStatusEqual (ct_Status current) (ct_Status tunnel)"
    using assms(2) by (simp add: tunnelStatusEqual_def conditions_equal_iff)
  with assms(1) show ?thesis by (simp add: tunnel_updateStatus_def)
qed

theorem last_sync_time_not_written_witness:
  "run_state (tunnel_updateStatus wit_tenv
     (wit_tunnel\<lparr>ct_Status := (ct_Status wit_tunnel)\<lparr>tst_LastSyncTime := Some 99\<rparr>\<rparr>)) wit_tstate =
     (Inr (), wit_tstate)"
  using last_sync_time_not_written
    [of wit_tenv "wit_tunnel\<lparr>ct_Status := (ct_Status wit_tunnel)\<lparr>tst_LastSyncTime := Some 99\<rparr>\<rparr>"
        wit_tstate wit_tunnel "ps_world wit_tstate" "Some 99"]
  by (simp add: wit_tenv_def)

end
