(* ===== verification/Gateway_Controller.thy ===== *)
theory Gateway_Controller
  imports Tunnel_Controller
begin

text \<open>
  The Gateway and GatewayClass reconcilers: internal/controller/gateway_controller.go. The
  Kubernetes client, event recorder and clock, and apimachinery's condition helpers, are the
  parameter \<open>GwEnv\<close>. The zero time is 0.
\<close>

section \<open>Environment\<close>

record 'w GwEnv =
  ge_Get :: "NamespacedName \<Rightarrow> ('w, Gateway res) io"
  ge_GetClass :: "NamespacedName \<Rightarrow> ('w, GatewayClass res) io"
  ge_GetTunnel :: "NamespacedName \<Rightarrow> ('w, CloudflareTunnel res) io"
  ge_ListRoutes :: "('w, HTTPRoute list res) io"
  ge_ListGateways :: "('w, Gateway list res) io"
  ge_StatusUpdate :: "Gateway \<Rightarrow> ('w, unit res) io"
  ge_ClassStatusUpdate :: "GatewayClass \<Rightarrow> ('w, unit res) io"
  ge_Event :: "NamespacedName \<Rightarrow> string \<Rightarrow> string \<Rightarrow> string \<Rightarrow> string \<Rightarrow> ('w, unit) io"
  ge_Now :: "('w, int) io"
  ge_FindStatusCondition :: "Condition list \<Rightarrow> string \<Rightarrow> Condition option"
  ge_SetStatusCondition :: "Condition list \<Rightarrow> Condition \<Rightarrow> ('w, Condition list) io"

definition GatewayControllerName :: string where
  "GatewayControllerName = ''cfgate.io/cloudflare-tunnel-controller''"

abbreviation gw_key :: "Gateway \<Rightarrow> NamespacedName" where
  "gw_key gw \<equiv> \<lparr>nn_Namespace = om_Namespace (gw_Meta gw), nn_Name = om_Name (gw_Meta gw)\<rparr>"

section \<open>Operations\<close>

text \<open>The name of a cluster-scoped object has no namespace.\<close>

definition isOurGatewayClass :: "'w GwEnv \<Rightarrow> Gateway \<Rightarrow> ('w, bool res) io" where
  "isOurGatewayClass env gateway = do {
     r \<leftarrow> ge_GetClass env \<lparr>nn_Namespace = '''', nn_Name = gw_GatewayClassName gateway\<rparr>;
     case r of
       Inl err \<Rightarrow> if IsNotFound err then ret (Inr False)
                  else ret (Inl (wrapf ''failed to get GatewayClass'' err))
     | Inr gc \<Rightarrow> ret (Inr (gc_ControllerName gc = GatewayControllerName))
   }"

definition fetch_tunnel :: "'w GwEnv \<Rightarrow> string \<Rightarrow> string \<Rightarrow> ('w, CloudflareTunnel res) io" where
  "fetch_tunnel env namespace name = do {
     r \<leftarrow> ge_GetTunnel env \<lparr>nn_Namespace = namespace, nn_Name = name\<rparr>;
     case r of
       Inl err \<Rightarrow> if IsNotFound err
                  then ret (Inl (errorf (''tunnel '' @ namespace @ ''/'' @ name @ '' not found'')))
                  else ret (Inl (wrapf ''failed to get tunnel'' err))
     | Inr tunnel \<Rightarrow> ret (Inr tunnel)
   }"

definition resolveTunnelRef :: "'w GwEnv \<Rightarrow> Gateway \<Rightarrow> ('w, CloudflareTunnel res) io" where
  "resolveTunnelRef env gateway =
     (let tunnelRef = GetAnnotation (om_Annotations (gw_Meta gateway)) AnnotationTunnelRef
      in if tunnelRef = '''' then ret (Inl (errorf (''missing '' @ AnnotationTunnelRef @ '' annotation'')))
         else case Split tunnelRef (CHR ''/'') of
           [namespace, name] \<Rightarrow> fetch_tunnel env namespace name
         | _ \<Rightarrow> ret (Inl (errorf (''invalid tunnel reference format: expected 'namespace/name', got '' @
                              quote tunnelRef))))"

text \<open>The first condition of the type is overwritten, or the condition is appended.\<close>

fun replace_condition :: "Condition \<Rightarrow> Condition list \<Rightarrow> Condition list" where
  "replace_condition condition [] = [condition]"
| "replace_condition condition (c # cs) =
     (if c_Type c = c_Type condition then condition # cs else c # replace_condition condition cs)"

definition setGatewayCondition ::
  "'w GwEnv \<Rightarrow> Gateway \<Rightarrow> string \<Rightarrow> ConditionStatus \<Rightarrow> string \<Rightarrow> string \<Rightarrow> ('w, Gateway) io" where
  "setGatewayCondition env gateway conditionType condStatus reason message = do {
     now \<leftarrow> ge_Now env;
     let condition = \<lparr>c_Type = conditionType, c_Status = condStatus,
                      c_ObservedGeneration = om_Generation (gw_Meta gateway),
                      c_LastTransitionTime = now, c_Reason = reason, c_Message = message\<rparr>;
     ret (gateway\<lparr>gw_Conditions := replace_condition condition (gw_Conditions gateway)\<rparr>)
   }"

text \<open>The count is an int32.\<close>

fun count_parents :: "Gateway \<Rightarrow> Listener \<Rightarrow> HTTPRoute \<Rightarrow> ParentReference list \<Rightarrow> int \<Rightarrow> int" where
  "count_parents gw listener route [] n = n"
| "count_parents gw listener route (p # ps) n =
     count_parents gw listener route ps
       (if parent_is_gateway route gw p then
          (case pr_SectionName p of
             Some s \<Rightarrow> if s \<noteq> li_Name listener then n else to_int32 (n + 1)
           | None \<Rightarrow> to_int32 (n + 1))
        else n)"

fun count_routes :: "Gateway \<Rightarrow> Listener \<Rightarrow> HTTPRoute list \<Rightarrow> int \<Rightarrow> int" where
  "count_routes gw listener [] n = n"
| "count_routes gw listener (route # routes) n =
     count_routes gw listener routes (count_parents gw listener route (hr_ParentRefs route) n)"

definition countAttachedRoutes :: "'w GwEnv \<Rightarrow> Gateway \<Rightarrow> Listener \<Rightarrow> ('w, int) io" where
  "countAttachedRoutes env gateway listener = do {
     r \<leftarrow> ge_ListRoutes env;
     case r of Inl err \<Rightarrow> ret 0 | Inr routes \<Rightarrow> ret (count_routes gateway listener routes 0)
   }"

definition listener_status :: "'w GwEnv \<Rightarrow> Gateway \<Rightarrow> Listener \<Rightarrow> ('w, ListenerStatus) io" where
  "listener_status env gateway listener = do {
     attachedRoutes \<leftarrow> countAttachedRoutes env gateway listener;
     t1 \<leftarrow> ge_Now env;
     t2 \<leftarrow> ge_Now env;
     ret \<lparr>ls_Name = li_Name listener, ls_AttachedRoutes = attachedRoutes,
          ls_SupportedKinds = [(Some ''gateway.networking.k8s.io'', ''HTTPRoute'')],
          ls_Conditions =
            [\<lparr>c_Type = ''Accepted'', c_Status = StTrue, c_ObservedGeneration = 0, c_LastTransitionTime = t1,
              c_Reason = ''Accepted'', c_Message = ''Listener accepted''\<rparr>,
             \<lparr>c_Type = ''Programmed'', c_Status = StTrue, c_ObservedGeneration = 0, c_LastTransitionTime = t2,
              c_Reason = ''Programmed'', c_Message = ''Listener programmed''\<rparr>]\<rparr>
   }"

fun listener_statuses :: "'w GwEnv \<Rightarrow> Gateway \<Rightarrow> Listener list \<Rightarrow> ('w, ListenerStatus list) io" where
  "listener_statuses env gateway [] = ret []"
| "listener_statuses env gateway (l # ls) = do {
     st \<leftarrow> listener_status env gateway l;
     sts \<leftarrow> listener_statuses env gateway ls;
     ret (st # sts)
   }"

definition updateGatewayStatus :: "'w GwEnv \<Rightarrow> Gateway \<Rightarrow> CloudflareTunnel \<Rightarrow> ('w, unit res) io" where
  "updateGatewayStatus env gateway tunnel = do {
     let gateway = (if tst_TunnelDomain (ct_Status tunnel) \<noteq> ''''
                    then gateway\<lparr>gw_Addresses := [(Some ''Hostname'', tst_TunnelDomain (ct_Status tunnel))]\<rparr>
                    else gateway);
     gateway \<leftarrow> (if tst_TunnelID (ct_Status tunnel) \<noteq> '''' then do {
         g \<leftarrow> setGatewayCondition env gateway ''Accepted'' StTrue ''TunnelReady'' ''Gateway is bound to tunnel'';
         setGatewayCondition env g ''Programmed'' StTrue ''Programmed'' ''Gateway configuration applied''
       }
       else do {
         g \<leftarrow> setGatewayCondition env gateway ''Accepted'' StTrue ''TunnelPending''
                ''Waiting for tunnel to be ready'';
         setGatewayCondition env g ''Programmed'' StFalse ''TunnelNotReady'' ''Tunnel is not ready''
       });
     sts \<leftarrow> listener_statuses env gateway (gw_Listeners gateway);
     ge_StatusUpdate env (gateway\<lparr>gw_ListenerStatus := sts\<rparr>)
   }"

text \<open>A Gateway that is not accepted: the condition is written and the reconcile is retried in
  thirty seconds; a failed write is logged only.\<close>

definition reject_gateway :: "'w GwEnv \<Rightarrow> Gateway \<Rightarrow> string \<Rightarrow> string \<Rightarrow> ('w, unit) io" where
  "reject_gateway env gateway reason message = do {
     g \<leftarrow> setGatewayCondition env gateway ''Accepted'' StFalse reason message;
     _ \<leftarrow> ge_StatusUpdate env g;
     ret ()
   }"

definition gateway_Reconcile ::
  "'w GwEnv \<Rightarrow> NamespacedName \<Rightarrow> ('w, Result \<times> go_error option) io" where
  "gateway_Reconcile env req = do {
     g \<leftarrow> ge_Get env req;
     case g of
       Inl err \<Rightarrow> if IsNotFound err then ret (no_requeue, None)
                  else ret (no_requeue, Some (wrapf ''failed to get Gateway'' err))
     | Inr gateway \<Rightarrow> do {
         ours \<leftarrow> isOurGatewayClass env gateway;
         case ours of
           Inl err \<Rightarrow> ret (no_requeue, Some (wrapf ''failed to check GatewayClass'' err))
         | Inr isOurs \<Rightarrow>
             if \<not> isOurs then ret (no_requeue, None)
             else if GetAnnotation (om_Annotations (gw_Meta gateway)) AnnotationTunnelRef = '''' then do {
               reject_gateway env gateway ''MissingTunnelRef'' ''cfgate.io/tunnel-ref annotation is required'';
               ret (requeue_after (seconds 30), None)
             }
             else do {
               t \<leftarrow> resolveTunnelRef env gateway;
               case t of
                 Inl err \<Rightarrow> do {
                   reject_gateway env gateway ''TunnelNotFound'' (err_msg err);
                   ge_Event env (gw_key gateway) ''Warning'' ''TunnelNotFound'' ''Validate'' (err_msg err);
                   ret (requeue_after (seconds 30), None)
                 }
               | Inr tunnel \<Rightarrow> do {
                   u \<leftarrow> updateGatewayStatus env gateway tunnel;
                   case u of
                     Inl err \<Rightarrow> ret (requeue_after (seconds 30), None)
                   | Inr _ \<Rightarrow> do {
                       ge_Event env (gw_key gateway) ''Normal'' ''Reconciled'' ''Reconcile''
                         ''Gateway reconciled successfully'';
                       ret (requeue_after (seconds 300), None)
                     }
                 }
             }
       }
   }"

text \<open>The watch of CloudflareTunnels; None is an object of another type. The lookup in the
  annotations of a Gateway without the annotation yields the empty string.\<close>

definition findGatewaysForTunnel ::
  "'w GwEnv \<Rightarrow> CloudflareTunnel option \<Rightarrow> ('w, NamespacedName list) io" where
  "findGatewaysForTunnel env obj =
     (case obj of
        None \<Rightarrow> ret []
      | Some tunnel \<Rightarrow> do {
          r \<leftarrow> ge_ListGateways env;
          case r of
            Inl err \<Rightarrow> ret []
          | Inr gateways \<Rightarrow>
              ret (map gw_key (filter (\<lambda>gw.
                (case map_of (om_Annotations (gw_Meta gw)) AnnotationTunnelRef of None \<Rightarrow> '''' | Some v \<Rightarrow> v)
                  = tunnel_ref tunnel) gateways))
        })"

definition gatewayclass_Reconcile ::
  "'w GwEnv \<Rightarrow> NamespacedName \<Rightarrow> ('w, Result \<times> go_error option) io" where
  "gatewayclass_Reconcile env req = do {
     g \<leftarrow> ge_GetClass env req;
     case g of
       Inl err \<Rightarrow> if IsNotFound err then ret (no_requeue, None)
                  else ret (no_requeue, Some (wrapf ''failed to get GatewayClass'' err))
     | Inr gc \<Rightarrow>
         if gc_ControllerName gc \<noteq> GatewayControllerName then ret (no_requeue, None)
         else if (case ge_FindStatusCondition env (gc_Conditions gc) ''Accepted'' of
                    None \<Rightarrow> False
                  | Some c \<Rightarrow> c_Status c = StTrue \<and> c_Reason c = ''Accepted'' \<and>
                              c_ObservedGeneration c = om_Generation (gc_Meta gc))
         then ret (requeue_after (seconds 300), None)
         else do {
           cs \<leftarrow> ge_SetStatusCondition env (gc_Conditions gc)
                   \<lparr>c_Type = ''Accepted'', c_Status = StTrue, c_ObservedGeneration = om_Generation (gc_Meta gc),
                    c_LastTransitionTime = 0, c_Reason = ''Accepted'',
                    c_Message = ''cfgate accepts this GatewayClass''\<rparr>;
           u \<leftarrow> ge_ClassStatusUpdate env (gc\<lparr>gc_Conditions := cs\<rparr>);
           case u of
             Inl err \<Rightarrow> ret (no_requeue, Some (wrapf ''failed to update GatewayClass status'' err))
           | Inr _ \<Rightarrow> ret (requeue_after (seconds 300), None)
         }
   }"

section \<open>Lemmas\<close>

lemma FindCondition_replace:
  "FindCondition (replace_condition c cs) t = (if t = c_Type c then Some c else FindCondition cs t)"
  by (induction cs) auto

lemma types_replace:
  "c_Type ` List.set (replace_condition c cs) = insert (c_Type c) (c_Type ` List.set cs)"
  by (induction cs) auto

lemma distinct_replace:
  "distinct (map c_Type cs) \<Longrightarrow> distinct (map c_Type (replace_condition c cs))"
proof (induction cs)
  case (Cons d ds)
  have "c_Type d \<notin> c_Type ` List.set (replace_condition c ds)"
    if "c_Type d \<noteq> c_Type c" using Cons.prems that unfolding types_replace by auto
  with Cons show ?case by (auto simp: image_iff)
qed simp

interpretation gateway_conds: condition_list "\<lambda>now cs c. replace_condition c cs"
  by unfold_locales (auto simp: FindCondition_replace cond_types_distinct_def distinct_replace)

lemma setGatewayCondition_cases:
  obtains c w' where "run_state (setGatewayCondition env gw t st reason msg) w =
     (gw\<lparr>gw_Conditions := replace_condition c (gw_Conditions gw)\<rparr>, w')" "c_Type c = t" "c_Status c = st"
  by (cases "run_state (ge_Now env) w") (simp add: setGatewayCondition_def)

lemma listener_statuses_run:
  "\<exists>sts w'. run_state (listener_statuses env gw ls) w = (sts, w') \<and> map ls_Name sts = map li_Name ls \<and>
     list_all (\<lambda>st. ConditionTrue (ls_Conditions st) ''Accepted'' \<and>
                    ConditionTrue (ls_Conditions st) ''Programmed'') sts"
proof (induction ls arbitrary: w)
  case (Cons l ls)
  obtain st w1 where st: "run_state (listener_status env gw l) w = (st, w1)" by (rule prod.exhaust)
  then have "ls_Name st = li_Name l \<and> ConditionTrue (ls_Conditions st) ''Accepted'' \<and>
      ConditionTrue (ls_Conditions st) ''Programmed''"
    by (auto simp: listener_status_def ConditionTrue_def split: prod.splits)
  with st Cons [of w1] show ?case by auto
qed simp

lemma to_int32_to_int32_plus: "to_int32 (to_int32 m + n) = to_int32 (m + n)"
proof -
  have "((m + 2 ^ 31) mod 2 ^ 32 - 2 ^ 31 + n + 2 ^ 31) mod 2 ^ 32 =
      ((m + 2 ^ 31) mod 2 ^ 32 + n) mod (2 ^ 32 :: int)" by simp
  also have "\<dots> = (m + 2 ^ 31 + n) mod 2 ^ 32" by (rule mod_add_left_eq)
  finally show ?thesis by (simp add: to_int32_def algebra_simps)
qed

text \<open>The references of routes to a listener: those to its Gateway with no section name or with the
  listener's.\<close>

definition section_matches :: "Listener \<Rightarrow> ParentReference \<Rightarrow> bool" where
  "section_matches l p \<longleftrightarrow> pr_SectionName p = None \<or> pr_SectionName p = Some (li_Name l)"

definition attached_refs :: "Gateway \<Rightarrow> Listener \<Rightarrow> HTTPRoute list \<Rightarrow> ParentReference list" where
  "attached_refs gw l routes =
     concat (map (\<lambda>r. filter (\<lambda>p. parent_is_gateway r gw p \<and> section_matches l p) (hr_ParentRefs r)) routes)"

lemma count_parents_eq:
  "count_parents gw l r ps (to_int32 n) =
     to_int32 (n + int (length (filter (\<lambda>p. parent_is_gateway r gw p \<and> section_matches l p) ps)))"
proof (induction ps arbitrary: n)
  case (Cons p ps)
  have "(case pr_SectionName p of Some s \<Rightarrow> if s \<noteq> li_Name l then to_int32 n else to_int32 (to_int32 n + 1)
      | None \<Rightarrow> to_int32 (to_int32 n + 1)) = (if section_matches l p then to_int32 (n + 1) else to_int32 n)"
    by (auto simp: section_matches_def to_int32_to_int32_plus split: option.split)
  with Cons show ?case by (simp add: algebra_simps)
qed simp

lemma count_routes_eq:
  "count_routes gw l routes (to_int32 n) = to_int32 (n + int (length (attached_refs gw l routes)))"
  by (induction routes arbitrary: n) (simp_all add: attached_refs_def count_parents_eq algebra_simps)

text \<open>The tunnel a Gateway refers to, if its annotation is well formed.\<close>

definition referenced_tunnel :: "Gateway \<Rightarrow> NamespacedName option" where
  "referenced_tunnel gw =
     (case map_of (om_Annotations (gw_Meta gw)) AnnotationTunnelRef of
        None \<Rightarrow> None
      | Some ref \<Rightarrow> (case Split ref (CHR ''/'') of
          [ns, n] \<Rightarrow> Some \<lparr>nn_Namespace = ns, nn_Name = n\<rparr> | _ \<Rightarrow> None))"

lemma Split_pair_iff:
  assumes "CHR ''/'' \<notin> List.set ns" "CHR ''/'' \<notin> List.set n"
  shows "Split ref (CHR ''/'') = [ns, n] \<longleftrightarrow> ref = ns @ ''/'' @ n"
  using Join_Split [of ref "CHR ''/''"] Split_append_sep [OF assms(1), of n] Split_no_sep [OF assms(2)]
  by auto

section \<open>apimachinery's condition helpers\<close>

locale status_condition_lib =
  fixes find :: "Condition list \<Rightarrow> string \<Rightarrow> Condition option"
    and setc :: "Condition list \<Rightarrow> Condition \<Rightarrow> ('w, Condition list) io"
  assumes find_setc: "run_state (setc cs c) w = (cs', w') \<Longrightarrow>
    \<exists>d. find cs' (c_Type c) = Some d \<and> c_Status d = c_Status c \<and> c_Reason d = c_Reason c \<and>
        c_Message d = c_Message c \<and> c_ObservedGeneration d = c_ObservedGeneration c"

text \<open>The documented behaviour of \<open>meta.SetStatusCondition\<close>, over a world that is the clock: the
  first condition of the type gets the new values, and a new transition time only if its status
  changes; a condition of a new type is appended.\<close>

fun std_SetStatusCondition :: "int \<Rightarrow> Condition list \<Rightarrow> Condition \<Rightarrow> Condition list" where
  "std_SetStatusCondition now [] c =
     [c\<lparr>c_LastTransitionTime := if c_LastTransitionTime c = 0 then now else c_LastTransitionTime c\<rparr>]"
| "std_SetStatusCondition now (d # ds) c =
     (if c_Type d = c_Type c
      then c\<lparr>c_LastTransitionTime := if c_Status d = c_Status c then c_LastTransitionTime d
                                     else if c_LastTransitionTime c = 0 then now
                                     else c_LastTransitionTime c\<rparr> # ds
      else d # std_SetStatusCondition now ds c)"

interpretation std_meta: status_condition_lib FindCondition
  "\<lambda>cs c. State (\<lambda>now. (std_SetStatusCondition now cs c, now))"
proof
  fix cs c and w :: int and cs' w'
  assume "run_state (State (\<lambda>now. (std_SetStatusCondition now cs c, now))) w = (cs', w')"
  then have "cs' = std_SetStatusCondition w cs c" by auto
  moreover have "\<exists>d. FindCondition (std_SetStatusCondition w cs c) (c_Type c) = Some d \<and>
      c_Status d = c_Status c \<and> c_Reason d = c_Reason c \<and> c_Message d = c_Message c \<and>
      c_ObservedGeneration d = c_ObservedGeneration c"
    by (induction cs) auto
  ultimately show "\<exists>d. FindCondition cs' (c_Type c) = Some d \<and> c_Status d = c_Status c \<and>
      c_Reason d = c_Reason c \<and> c_Message d = c_Message c \<and> c_ObservedGeneration d = c_ObservedGeneration c"
    by simp
qed

section \<open>An environment for the witnesses\<close>

definition wit_class :: GatewayClass where
  "wit_class = \<lparr>gc_Meta = (wit_meta [])\<lparr>om_Name := ''cfgate'', om_Namespace := '''', om_Generation := 3\<rparr>,
     gc_ControllerName = GatewayControllerName, gc_Conditions = []\<rparr>"

text \<open>The world is the clock.\<close>

definition wit_gwenv :: "int GwEnv" where
  "wit_gwenv =
     \<lparr>ge_Get = (\<lambda>n. ret (Inr wit_gateway)), ge_GetClass = (\<lambda>n. ret (Inr wit_class)),
      ge_GetTunnel = (\<lambda>n. ret (Inl down)), ge_ListRoutes = ret (Inr [wit_route, wit_route]),
      ge_ListGateways = ret (Inr [wit_gateway]), ge_StatusUpdate = (\<lambda>g. ret (Inr ())),
      ge_ClassStatusUpdate = (\<lambda>g. ret (Inr ())), ge_Event = (\<lambda>n t r a m. ret ()),
      ge_Now = State (\<lambda>w. (w, w)), ge_FindStatusCondition = FindCondition,
      ge_SetStatusCondition = (\<lambda>cs c. State (\<lambda>now. (std_SetStatusCondition now cs c, now)))\<rparr>"

section \<open>Properties\<close>

text \<open>C21: The status of a Gateway reflects its tunnel. Whatever the API answers, the update ends in
  writing a Gateway that is accepted, is programmed exactly when the tunnel has an identifier, has
  the tunnel's domain as its address once there is one, and has one accepted and programmed status
  for each of its listeners, in order; name, class and listeners are those of the Gateway.\<close>

theorem gateway_status_reflects_tunnel:
  "\<exists>g w'. run_state (updateGatewayStatus env gw tunnel) w = run_state (ge_StatusUpdate env g) w' \<and>
     gw_Meta g = gw_Meta gw \<and> gw_GatewayClassName g = gw_GatewayClassName gw \<and>
     gw_Listeners g = gw_Listeners gw \<and> ConditionTrue (gw_Conditions g) ''Accepted'' \<and>
     ConditionTrue (gw_Conditions g) ''Programmed'' = (tst_TunnelID (ct_Status tunnel) \<noteq> '''') \<and>
     gw_Addresses g = (if tst_TunnelDomain (ct_Status tunnel) = '''' then gw_Addresses gw
                       else [(Some ''Hostname'', tst_TunnelDomain (ct_Status tunnel))]) \<and>
     map ls_Name (gw_ListenerStatus g) = map li_Name (gw_Listeners gw) \<and>
     list_all (\<lambda>st. ConditionTrue (ls_Conditions st) ''Accepted'' \<and>
                    ConditionTrue (ls_Conditions st) ''Programmed'') (gw_ListenerStatus g)"
proof -
  define g0 where "g0 = (if tst_TunnelDomain (ct_Status tunnel) \<noteq> ''''
    then gw\<lparr>gw_Addresses := [(Some ''Hostname'', tst_TunnelDomain (ct_Status tunnel))]\<rparr> else gw)"
  let ?id = "tst_TunnelID (ct_Status tunnel) \<noteq> ''''"
  obtain c1 w1 where 1: "run_state (setGatewayCondition env g0 ''Accepted'' StTrue
        (if ?id then ''TunnelReady'' else ''TunnelPending'')
        (if ?id then ''Gateway is bound to tunnel'' else ''Waiting for tunnel to be ready'')) w =
      (g0\<lparr>gw_Conditions := replace_condition c1 (gw_Conditions g0)\<rparr>, w1)"
    and c1: "c_Type c1 = ''Accepted''" "c_Status c1 = StTrue"
    by (rule setGatewayCondition_cases)
  define g1 where "g1 = g0\<lparr>gw_Conditions := replace_condition c1 (gw_Conditions g0)\<rparr>"
  obtain c2 w2 where 2: "run_state (setGatewayCondition env g1 ''Programmed'' (if ?id then StTrue else StFalse)
        (if ?id then ''Programmed'' else ''TunnelNotReady'')
        (if ?id then ''Gateway configuration applied'' else ''Tunnel is not ready'')) w1 =
      (g1\<lparr>gw_Conditions := replace_condition c2 (gw_Conditions g1)\<rparr>, w2)"
    and c2: "c_Type c2 = ''Programmed''" "c_Status c2 = (if ?id then StTrue else StFalse)"
    by (rule setGatewayCondition_cases)
  define g2 where "g2 = g1\<lparr>gw_Conditions := replace_condition c2 (gw_Conditions g1)\<rparr>"
  obtain sts w3 where 3: "run_state (listener_statuses env g2 (gw_Listeners g2)) w2 = (sts, w3)"
    and sts: "map ls_Name sts = map li_Name (gw_Listeners g2)"
      "list_all (\<lambda>st. ConditionTrue (ls_Conditions st) ''Accepted'' \<and>
                      ConditionTrue (ls_Conditions st) ''Programmed'') sts"
    using listener_statuses_run [of env g2 "gw_Listeners g2" w2] by blast
  have "run_state (updateGatewayStatus env gw tunnel) w =
      run_state (ge_StatusUpdate env (g2\<lparr>gw_ListenerStatus := sts\<rparr>)) w3"
    using 1 2 3 unfolding updateGatewayStatus_def Let_def g0_def [symmetric] g1_def [symmetric]
    by (cases ?id) (simp_all add: g2_def)
  moreover have "ConditionTrue (gw_Conditions g2) ''Accepted''"
    "ConditionTrue (gw_Conditions g2) ''Programmed'' = ?id"
    using c1 c2 by (simp_all add: g1_def g2_def gateway_conds.ConditionTrue_set)
  ultimately show ?thesis using sts
    by (intro exI [of _ "g2\<lparr>gw_ListenerStatus := sts\<rparr>"] exI [of _ w3]) (simp add: g0_def g1_def g2_def)
qed



text \<open>A GatewayClass is accepted once. The reconcile of a class of ours either finds it accepted
  at its generation and writes nothing, or ends in writing it, and a later reconcile that reads
  what was written writes nothing.\<close>

theorem gatewayclass_accepted_once:
  assumes "status_condition_lib (ge_FindStatusCondition env) (ge_SetStatusCondition env)"
    and "run_state (ge_GetClass env req) w = (Inr gc, w1)" "gc_ControllerName gc = GatewayControllerName"
  shows "run_state (gatewayclass_Reconcile env req) w = ((requeue_after (seconds 300), None), w1) \<or>
    (\<exists>gc' w2. gc_Meta gc' = gc_Meta gc \<and> gc_ControllerName gc' = gc_ControllerName gc \<and>
       run_state (gatewayclass_Reconcile env req) w =
         (case run_state (ge_ClassStatusUpdate env gc') w2 of
            (Inl err, w3) \<Rightarrow> ((no_requeue, Some (wrapf ''failed to update GatewayClass status'' err)), w3)
          | (Inr _, w3) \<Rightarrow> ((requeue_after (seconds 300), None), w3)) \<and>
       (\<forall>v v'. run_state (ge_GetClass env req) v = (Inr gc', v') \<longrightarrow>
          run_state (gatewayclass_Reconcile env req) v = ((requeue_after (seconds 300), None), v')))"
proof -
  let ?c = "\<lparr>c_Type = ''Accepted'', c_Status = StTrue, c_ObservedGeneration = om_Generation (gc_Meta gc),
    c_LastTransitionTime = 0, c_Reason = ''Accepted'', c_Message = ''cfgate accepts this GatewayClass''\<rparr>"
  obtain cs w2 where cs: "run_state (ge_SetStatusCondition env (gc_Conditions gc) ?c) w1 = (cs, w2)"
    by (rule prod.exhaust)
  then obtain d where d: "ge_FindStatusCondition env cs ''Accepted'' = Some d" "c_Status d = StTrue"
      "c_Reason d = ''Accepted''" "c_ObservedGeneration d = om_Generation (gc_Meta gc)"
    using status_condition_lib.find_setc [OF assms(1) cs] by auto
  have again: "run_state (gatewayclass_Reconcile env req) v = ((requeue_after (seconds 300), None), v')"
    if "run_state (ge_GetClass env req) v = (Inr (gc\<lparr>gc_Conditions := cs\<rparr>), v')" for v v'
    using that d assms(3) by (simp add: gatewayclass_Reconcile_def)
  show ?thesis
  proof (cases "case ge_FindStatusCondition env (gc_Conditions gc) ''Accepted'' of None \<Rightarrow> False
      | Some c \<Rightarrow> c_Status c = StTrue \<and> c_Reason c = ''Accepted'' \<and>
                  c_ObservedGeneration c = om_Generation (gc_Meta gc)")
    case True
    with assms(2,3) show ?thesis by (simp add: gatewayclass_Reconcile_def)
  next
    case False
    with assms(2,3) cs have "run_state (gatewayclass_Reconcile env req) w =
         (case run_state (ge_ClassStatusUpdate env (gc\<lparr>gc_Conditions := cs\<rparr>)) w2 of
            (Inl err, w3) \<Rightarrow> ((no_requeue, Some (wrapf ''failed to update GatewayClass status'' err)), w3)
          | (Inr _, w3) \<Rightarrow> ((requeue_after (seconds 300), None), w3))"
      by (simp add: gatewayclass_Reconcile_def split: prod.split sum.split)
    with again show ?thesis by (intro disjI2 exI [of _ "gc\<lparr>gc_Conditions := cs\<rparr>"] exI [of _ w2]) simp
  qed
qed

theorem gatewayclass_accepted_once_witness:
  "gc_ControllerName wit_class = GatewayControllerName \<and>
   fst (run_state (gatewayclass_Reconcile wit_gwenv \<lparr>nn_Namespace = '''', nn_Name = ''cfgate''\<rparr>) 5) =
     (requeue_after (seconds 300), None)"
proof -
  have "status_condition_lib (ge_FindStatusCondition wit_gwenv) (ge_SetStatusCondition wit_gwenv)"
    using std_meta.status_condition_lib_axioms by (simp add: wit_gwenv_def)
  from gatewayclass_accepted_once [OF this, of "\<lparr>nn_Namespace = '''', nn_Name = ''cfgate''\<rparr>" 5 wit_class 5]
  show ?thesis by (auto simp: wit_gwenv_def wit_class_def)
qed

text \<open>The tunnel watch of the Gateway controller matches its lookup. A Gateway whose annotation
  is not of the form namespace/name is answered with an error without a call; one that names a
  tunnel leads to a lookup of that tunnel; and an event on a tunnel enqueues exactly the Gateways
  that name it. (Object names and namespaces contain no slash.)\<close>

theorem gateway_tunnel_watch:
  assumes "CHR ''/'' \<notin> List.set (om_Namespace (ct_Meta tunnel))" "CHR ''/'' \<notin> List.set (om_Name (ct_Meta tunnel))"
    and "run_state (ge_ListGateways env) w = (Inr gws, w')"
  shows "(case referenced_tunnel gw of
      None \<Rightarrow> \<exists>err. resolveTunnelRef env gw = ret (Inl err)
    | Some k \<Rightarrow> resolveTunnelRef env gw = fetch_tunnel env (nn_Namespace k) (nn_Name k)) \<and>
    run_state (findGatewaysForTunnel env (Some tunnel)) w =
      (map gw_key (filter (\<lambda>gw. referenced_tunnel gw =
         Some \<lparr>nn_Namespace = om_Namespace (ct_Meta tunnel), nn_Name = om_Name (ct_Meta tunnel)\<rparr>) gws), w')"
proof
  show "case referenced_tunnel gw of
      None \<Rightarrow> \<exists>err. resolveTunnelRef env gw = ret (Inl err)
    | Some k \<Rightarrow> resolveTunnelRef env gw = fetch_tunnel env (nn_Namespace k) (nn_Name k)"
    by (auto simp: referenced_tunnel_def resolveTunnelRef_def GetAnnotation_def Let_def
        split: option.split list.split)
  have "(case map_of (om_Annotations (gw_Meta g)) AnnotationTunnelRef of None \<Rightarrow> '''' | Some v \<Rightarrow> v) = tunnel_ref tunnel
      \<longleftrightarrow> referenced_tunnel g =
        Some \<lparr>nn_Namespace = om_Namespace (ct_Meta tunnel), nn_Name = om_Name (ct_Meta tunnel)\<rparr>" for g
  proof (cases "map_of (om_Annotations (gw_Meta g)) AnnotationTunnelRef")
    case (Some ref)
    have "referenced_tunnel g = Some \<lparr>nn_Namespace = om_Namespace (ct_Meta tunnel), nn_Name = om_Name (ct_Meta tunnel)\<rparr>
        \<longleftrightarrow> Split ref (CHR ''/'') = [om_Namespace (ct_Meta tunnel), om_Name (ct_Meta tunnel)]"
      using Some by (auto simp: referenced_tunnel_def split: list.splits)
    with Some show ?thesis
      unfolding Split_pair_iff [OF assms(1,2)] by (simp add: tunnel_ref_def)
  qed (simp add: referenced_tunnel_def tunnel_ref_def)
  then show "run_state (findGatewaysForTunnel env (Some tunnel)) w =
      (map gw_key (filter (\<lambda>gw. referenced_tunnel gw =
         Some \<lparr>nn_Namespace = om_Namespace (ct_Meta tunnel), nn_Name = om_Name (ct_Meta tunnel)\<rparr>) gws), w')"
    using assms(3) by (simp add: findGatewaysForTunnel_def)
qed

theorem gateway_tunnel_watch_witness:
  "run_state (findGatewaysForTunnel wit_gwenv (Some wit_tunnel)) 5 =
     ([\<lparr>nn_Namespace = ''infra'', nn_Name = ''gw''\<rparr>], 5)"
  using gateway_tunnel_watch [of wit_tunnel wit_gwenv 5 "[wit_gateway]" 5 wit_gateway]
  by (simp add: wit_tunnel_def wit_meta_def wit_gwenv_def wit_gateway_def referenced_tunnel_def)

end
