(* ===== verification/Access_Types.thy ===== *)
theory Access_Types
  imports Api_Types
begin

text \<open>
  The data of Cloudflare Access: the domain types and the Access part of the client interface
  (internal/cloudflare/access.go, client.go) and the custom resource CloudflareAccessPolicy
  (api/v1alpha1/cloudflareaccesspolicy_types.go). A slice that \<open>reflect.DeepEqual\<close> compares is an
  option of a list, because that comparison tells a nil slice (None) from an empty one (a map likewise); other
  slices are lists. Times are integers, the zero time is 0.
\<close>

section \<open>access.go: applications\<close>

record CORSHeadersParam =
  ch_AllowAllHeaders :: bool
  ch_AllowAllMethods :: bool
  ch_AllowAllOrigins :: bool
  ch_AllowCredentials :: bool
  ch_AllowedHeaders :: "string list option"
  ch_AllowedMethods :: "string list option"
  ch_AllowedOrigins :: "string list option"
  ch_MaxAge :: int

record AccessApplication =
  aa_ID :: string
  aa_AUD :: string
  aa_Name :: string
  aa_Domain :: string
  aa_Type :: string
  aa_SessionDuration :: string
  aa_AllowedIdps :: "string list"
  aa_AutoRedirectToIdentity :: bool
  aa_EnableBindingCookie :: bool
  aa_HttpOnlyCookieAttribute :: bool
  aa_SameSiteCookieAttribute :: string
  aa_SkipInterstitial :: bool
  aa_LogoURL :: string
  aa_AppLauncherVisible :: bool
  aa_CustomDenyMessage :: string
  aa_CustomDenyURL :: string
  aa_CustomNonIdentityDenyURL :: string
  aa_CORSHeaders :: "CORSHeadersParam option"
  aa_OptionsPreflightBypass :: bool
  aa_PathCookieAttribute :: bool
  aa_ServiceAuth401Redirect :: bool
  aa_ReadServiceTokensFromHeader :: string
  aa_CreatedAt :: int
  aa_UpdatedAt :: int

record CreateApplicationParams =
  cap_Name :: string
  cap_Domain :: string
  cap_Type :: string
  cap_SessionDuration :: string
  cap_AllowedIdps :: "string list"
  cap_AutoRedirectToIdentity :: bool
  cap_EnableBindingCookie :: bool
  cap_HttpOnlyCookieAttribute :: "bool option"
  cap_SameSiteCookieAttribute :: string
  cap_SkipInterstitial :: bool
  cap_LogoURL :: string
  cap_AppLauncherVisible :: bool
  cap_CustomDenyMessage :: string
  cap_CustomDenyURL :: string
  cap_CORSHeaders :: "CORSHeadersParam option"
  cap_OptionsPreflightBypass :: bool
  cap_PathCookieAttribute :: bool
  cap_ServiceAuth401Redirect :: bool
  cap_CustomNonIdentityDenyURL :: string
  cap_ReadServiceTokensFromHeader :: string

record UpdateApplicationParams =
  uap_Name :: string
  uap_Domain :: string
  uap_SessionDuration :: string
  uap_AllowedIdps :: "string list"
  uap_AutoRedirectToIdentity :: bool
  uap_EnableBindingCookie :: bool
  uap_HttpOnlyCookieAttribute :: "bool option"
  uap_SameSiteCookieAttribute :: string
  uap_SkipInterstitial :: bool
  uap_LogoURL :: string
  uap_AppLauncherVisible :: bool
  uap_CustomDenyMessage :: string
  uap_CustomDenyURL :: string
  uap_CORSHeaders :: "CORSHeadersParam option"
  uap_OptionsPreflightBypass :: bool
  uap_PathCookieAttribute :: bool
  uap_ServiceAuth401Redirect :: bool
  uap_CustomNonIdentityDenyURL :: string
  uap_ReadServiceTokensFromHeader :: string

section \<open>access.go: policies and rules\<close>

record OIDCClaimParam =
  oi_IdentityProviderID :: string
  oi_ClaimName :: string
  oi_ClaimValue :: string

record GSuiteGroupParam =
  gs_IdentityProviderID :: string
  gs_Email :: string

record ApprovalGroupParam =
  ag_EmailAddresses :: "string list option"
  ag_EmailListUUID :: string
  ag_ApprovalsNeeded :: int

text \<open>\<open>AccessRuleParam\<close>: one pointer per kind of rule.\<close>

record AccessRuleParam =
  ar_IPRange :: "string option"
  ar_IPListID :: "string option"
  ar_Country :: "string option"
  ar_Everyone :: "bool option"
  ar_ServiceTokenID :: "string option"
  ar_AnyValidServiceToken :: "bool option"
  ar_Email :: "string option"
  ar_EmailListID :: "string option"
  ar_EmailDomain :: "string option"
  ar_OIDCClaim :: "OIDCClaimParam option"
  ar_GSuiteGroup :: "GSuiteGroupParam option"
  ar_Certificate :: "bool option"
  ar_CommonName :: "string option"
  ar_GroupID :: "string option"

definition zero_AccessRuleParam :: AccessRuleParam where
  "zero_AccessRuleParam = \<lparr>ar_IPRange = None, ar_IPListID = None, ar_Country = None, ar_Everyone = None,
     ar_ServiceTokenID = None, ar_AnyValidServiceToken = None, ar_Email = None, ar_EmailListID = None,
     ar_EmailDomain = None, ar_OIDCClaim = None, ar_GSuiteGroup = None, ar_Certificate = None,
     ar_CommonName = None, ar_GroupID = None\<rparr>"

record AccessPolicy =
  ap_ID :: string
  ap_Name :: string
  ap_Decision :: string
  ap_Precedence :: int
  ap_Include :: "AccessRuleParam list option"
  ap_Exclude :: "AccessRuleParam list option"
  ap_Require :: "AccessRuleParam list option"
  ap_SessionDuration :: string
  ap_PurposeJustificationRequired :: bool
  ap_PurposeJustificationPrompt :: string
  ap_ApprovalRequired :: bool
  ap_ApprovalGroups :: "ApprovalGroupParam list option"
  ap_CreatedAt :: int
  ap_UpdatedAt :: int

text \<open>\<open>CreatePolicyParams\<close>; \<open>UpdatePolicyParams\<close> has the same fields, and the code converts the
  one into the other.\<close>

record CreatePolicyParams =
  cpp_Name :: string
  cpp_Decision :: string
  cpp_Precedence :: int
  cpp_Include :: "AccessRuleParam list option"
  cpp_Exclude :: "AccessRuleParam list option"
  cpp_Require :: "AccessRuleParam list option"
  cpp_SessionDuration :: string
  cpp_PurposeJustificationRequired :: bool
  cpp_PurposeJustificationPrompt :: string
  cpp_ApprovalRequired :: bool
  cpp_ApprovalGroups :: "ApprovalGroupParam list option"

type_synonym UpdatePolicyParams = CreatePolicyParams

record AccessGroup =
  agr_ID :: string
  agr_Name :: string
  agr_Include :: "AccessRuleParam list"
  agr_Exclude :: "AccessRuleParam list"
  agr_Require :: "AccessRuleParam list"
  agr_CreatedAt :: int
  agr_UpdatedAt :: int

record CreateGroupParams =
  cg_Name :: string
  cg_Include :: "AccessRuleParam list"
  cg_Exclude :: "AccessRuleParam list"
  cg_Require :: "AccessRuleParam list"

type_synonym UpdateGroupParams = CreateGroupParams

section \<open>access.go: service tokens and certificates\<close>

record ServiceToken =
  st_TokenID :: string
  st_TokenName :: string
  st_ClientID :: string
  st_Duration :: string
  st_ExpiresAt :: int

record ServiceTokenWithSecret =
  sts_Token :: ServiceToken
  sts_ClientSecret :: string

record CreateServiceTokenParams =
  cst_Name :: string
  cst_Duration :: string

type_synonym UpdateServiceTokenParams = CreateServiceTokenParams

record MTLSCertificate =
  mc_ID :: string
  mc_Name :: string
  mc_Fingerprint :: string
  mc_AssociatedHostnames :: "string list"
  mc_ExpiresOn :: int

record CreateCertificateParams =
  ccp_Name :: string
  ccp_Certificate :: string
  ccp_AssociatedHostnames :: "string list"

record UpdateCertificateParams =
  ucp_Name :: string
  ucp_AssociatedHostnames :: "string list"

record CertificateSettings =
  cs_Hostname :: string
  cs_ChinaNetwork :: bool
  cs_ClientCertificateForwarding :: bool

type_synonym CertificateSettingsParam = CertificateSettings

section \<open>client.go: the Access part of the interface\<close>

record 'w AccessClient =
  CreateAccessApplication :: "string \<Rightarrow> CreateApplicationParams \<Rightarrow> ('w, AccessApplication res) io"
  GetAccessApplication :: "string \<Rightarrow> string \<Rightarrow> ('w, AccessApplication option res) io"
  UpdateAccessApplication :: "string \<Rightarrow> string \<Rightarrow> UpdateApplicationParams \<Rightarrow> ('w, AccessApplication res) io"
  DeleteAccessApplication :: "string \<Rightarrow> string \<Rightarrow> ('w, unit res) io"
  ListAccessApplications :: "string \<Rightarrow> ('w, AccessApplication list res) io"
  GetAccessApplicationByName :: "string \<Rightarrow> string \<Rightarrow> ('w, AccessApplication option res) io"
  CreateAccessPolicy :: "string \<Rightarrow> string \<Rightarrow> CreatePolicyParams \<Rightarrow> ('w, AccessPolicy res) io"
  GetAccessPolicy :: "string \<Rightarrow> string \<Rightarrow> string \<Rightarrow> ('w, AccessPolicy option res) io"
  UpdateAccessPolicy :: "string \<Rightarrow> string \<Rightarrow> string \<Rightarrow> UpdatePolicyParams \<Rightarrow> ('w, AccessPolicy res) io"
  DeleteAccessPolicy :: "string \<Rightarrow> string \<Rightarrow> string \<Rightarrow> ('w, unit res) io"
  ListAccessPolicies :: "string \<Rightarrow> string \<Rightarrow> ('w, AccessPolicy list res) io"
  CreateAccessGroup :: "string \<Rightarrow> CreateGroupParams \<Rightarrow> ('w, AccessGroup res) io"
  GetAccessGroup :: "string \<Rightarrow> string \<Rightarrow> ('w, AccessGroup option res) io"
  UpdateAccessGroup :: "string \<Rightarrow> string \<Rightarrow> UpdateGroupParams \<Rightarrow> ('w, AccessGroup res) io"
  DeleteAccessGroup :: "string \<Rightarrow> string \<Rightarrow> ('w, unit res) io"
  ListAccessGroups :: "string \<Rightarrow> ('w, AccessGroup list res) io"
  GetAccessGroupByName :: "string \<Rightarrow> string \<Rightarrow> ('w, AccessGroup option res) io"
  CreateServiceToken :: "string \<Rightarrow> CreateServiceTokenParams \<Rightarrow> ('w, ServiceTokenWithSecret res) io"
  GetServiceToken :: "string \<Rightarrow> string \<Rightarrow> ('w, ServiceToken option res) io"
  UpdateServiceToken :: "string \<Rightarrow> string \<Rightarrow> UpdateServiceTokenParams \<Rightarrow> ('w, ServiceToken res) io"
  DeleteServiceToken :: "string \<Rightarrow> string \<Rightarrow> ('w, unit res) io"
  ListServiceTokens :: "string \<Rightarrow> ('w, ServiceToken list res) io"
  RotateServiceToken :: "string \<Rightarrow> string \<Rightarrow> ('w, ServiceTokenWithSecret res) io"
  RefreshServiceToken :: "string \<Rightarrow> string \<Rightarrow> ('w, ServiceToken res) io"
  CreateMTLSCertificate :: "string \<Rightarrow> CreateCertificateParams \<Rightarrow> ('w, MTLSCertificate res) io"
  GetMTLSCertificate :: "string \<Rightarrow> string \<Rightarrow> ('w, MTLSCertificate option res) io"
  UpdateMTLSCertificate :: "string \<Rightarrow> string \<Rightarrow> UpdateCertificateParams \<Rightarrow> ('w, MTLSCertificate res) io"
  DeleteMTLSCertificate :: "string \<Rightarrow> string \<Rightarrow> ('w, unit res) io"
  ListMTLSCertificates :: "string \<Rightarrow> ('w, MTLSCertificate list res) io"
  GetMTLSCertificateSettings :: "string \<Rightarrow> ('w, CertificateSettings list res) io"
  UpdateMTLSCertificateSettings ::
    "string \<Rightarrow> CertificateSettingsParam list \<Rightarrow> ('w, CertificateSettings list res) io"

section \<open>cloudflareaccesspolicy_types.go\<close>

record PolicyTargetReference =
  pt_Group :: string
  pt_Kind :: string
  pt_Name :: string
  pt_Namespace :: "string option"
  pt_SectionName :: "string option"

record CloudflareSecretRef =
  csr_Name :: string
  csr_Namespace :: "string option"
  csr_AccountID :: string
  csr_AccountName :: string

record CORSHeaders =
  co_AllowAllHeaders :: bool
  co_AllowAllMethods :: bool
  co_AllowAllOrigins :: bool
  co_AllowCredentials :: bool
  co_AllowedHeaders :: "string list option"
  co_AllowedMethods :: "string list option"
  co_AllowedOrigins :: "string list option"
  co_MaxAge :: "int option"

record CrdAccessApplication =
  app_Name :: string
  app_Domain :: string
  app_Path :: string
  app_SessionDuration :: string
  app_Type :: string
  app_LogoURL :: string
  app_SkipInterstitial :: bool
  app_EnableBindingCookie :: bool
  app_HttpOnlyCookieAttribute :: bool
  app_SameSiteCookieAttribute :: string
  app_CustomDenyMessage :: string
  app_CustomDenyURL :: string
  app_AllowedIdps :: "string list"
  app_AutoRedirectToIdentity :: bool
  app_AppLauncherVisible :: "bool option"
  app_CORSHeaders :: "CORSHeaders option"
  app_OptionsPreflightBypass :: bool
  app_PathCookieAttribute :: bool
  app_ServiceAuth401Redirect :: bool
  app_CustomNonIdentityDenyURL :: string
  app_ReadServiceTokensFromHeader :: string

definition zero_CrdAccessApplication :: CrdAccessApplication where
  "zero_CrdAccessApplication = \<lparr>app_Name = [], app_Domain = [], app_Path = [], app_SessionDuration = [],
     app_Type = [], app_LogoURL = [], app_SkipInterstitial = False, app_EnableBindingCookie = False,
     app_HttpOnlyCookieAttribute = False, app_SameSiteCookieAttribute = [], app_CustomDenyMessage = [],
     app_CustomDenyURL = [], app_AllowedIdps = [], app_AutoRedirectToIdentity = False,
     app_AppLauncherVisible = None, app_CORSHeaders = None, app_OptionsPreflightBypass = False,
     app_PathCookieAttribute = False, app_ServiceAuth401Redirect = False,
     app_CustomNonIdentityDenyURL = [], app_ReadServiceTokensFromHeader = []\<rparr>"

record AccessIPRule = ipr_Ranges :: "string list"

record AccessIPListRule =
  ipl_ID :: string
  ipl_Name :: string

record AccessCountryRule = cr_Codes :: "string list"

record AccessServiceTokenRule = str_TokenID :: string

record AccessEmailRule = er_Addresses :: "string list"

record AccessEmailListRule =
  el_ID :: string
  el_Name :: string

record AccessEmailDomainRule = ed_Domain :: string

record AccessOIDCClaimRule =
  oc_IdentityProviderID :: string
  oc_ClaimName :: string
  oc_ClaimValue :: string

record AccessGSuiteGroupRule =
  gg_IdentityProviderID :: string
  gg_Email :: string

record AccessRule =
  rl_IP :: "AccessIPRule option"
  rl_IPList :: "AccessIPListRule option"
  rl_Country :: "AccessCountryRule option"
  rl_Everyone :: "bool option"
  rl_ServiceToken :: "AccessServiceTokenRule option"
  rl_AnyValidServiceToken :: "bool option"
  rl_Email :: "AccessEmailRule option"
  rl_EmailList :: "AccessEmailListRule option"
  rl_EmailDomain :: "AccessEmailDomainRule option"
  rl_OIDCClaim :: "AccessOIDCClaimRule option"
  rl_GSuiteGroup :: "AccessGSuiteGroupRule option"

record ApprovalGroup =
  gr_Emails :: "string list option"
  gr_EmailDomain :: string
  gr_ApprovalsNeeded :: int

record AccessPolicyRule =
  apr_Name :: string
  apr_Decision :: string
  apr_Precedence :: "int option"
  apr_Include :: "AccessRule list"
  apr_Exclude :: "AccessRule list"
  apr_Require :: "AccessRule list"
  apr_SessionDuration :: string
  apr_PurposeJustificationRequired :: bool
  apr_PurposeJustificationPrompt :: string
  apr_ApprovalRequired :: bool
  apr_ApprovalGroups :: "ApprovalGroup list"

record AccessGroupRef =
  agf_Name :: string
  agf_CloudflareID :: string

record ServiceTokenConfig =
  stc_Name :: string
  stc_Duration :: string
  stc_SecretRef :: string

record CASecretRef =
  ca_Name :: string
  ca_Key :: string

record MTLSConfig =
  mt_Enabled :: bool
  mt_RootCASecretRef :: "CASecretRef option"
  mt_AssociatedHostnames :: "string list"
  mt_RuleName :: string

record CloudflareAccessPolicySpec =
  as_TargetRef :: "PolicyTargetReference option"
  as_TargetRefs :: "PolicyTargetReference list"
  as_CloudflareRef :: "CloudflareSecretRef option"
  as_Application :: CrdAccessApplication
  as_Policies :: "AccessPolicyRule list"
  as_GroupRefs :: "AccessGroupRef list"
  as_ServiceTokens :: "ServiceTokenConfig list"
  as_MTLS :: "MTLSConfig option"

record CrdPolicyAncestorStatus =
  pas_AncestorRef :: PolicyTargetReference
  pas_ControllerName :: string
  pas_Conditions :: "Condition list"

record CloudflareAccessPolicyStatus =
  ast_ApplicationID :: string
  ast_ApplicationAUD :: string
  ast_AttachedTargets :: int
  ast_ServiceTokenIDs :: "strmap option"
  ast_MTLSRuleID :: string
  ast_ObservedGeneration :: int
  ast_Conditions :: "Condition list"
  ast_Ancestors :: "CrdPolicyAncestorStatus list"

record CloudflareAccessPolicy =
  acp_Meta :: ObjectMeta
  acp_Spec :: CloudflareAccessPolicySpec
  acp_Status :: CloudflareAccessPolicyStatus

end
