(* ===== verification/Httproute_Controller.thy ===== *)
theory Httproute_Controller
  imports Gateway_Controller Access_Types
begin

text \<open>
  The HTTPRoute reconciler: internal/controller/httproute_controller.go. The Kubernetes client, the
  event recorder and the clock are the parameter \<open>RouteEnv\<close>. An event is recorded with a format
  and its arguments, which the recorder renders.
\<close>

section \<open>Environment\<close>

record 'w RouteEnv =
  he_Get :: "NamespacedName \<Rightarrow> ('w, HTTPRoute res) io"
  he_GetGateway :: "NamespacedName \<Rightarrow> ('w, Gateway res) io"
  he_GetClass :: "NamespacedName \<Rightarrow> ('w, GatewayClass res) io"
  he_GetService :: "NamespacedName \<Rightarrow> ('w, unit res) io"
  he_GetPolicy :: "NamespacedName \<Rightarrow> ('w, CloudflareAccessPolicy res) io"
  he_ListRoutes :: "('w, HTTPRoute list res) io"
  he_StatusUpdate :: "HTTPRoute \<Rightarrow> ('w, unit res) io"
  he_Eventf :: "NamespacedName \<Rightarrow> string \<Rightarrow> string \<Rightarrow> string \<Rightarrow> string \<Rightarrow> string list \<Rightarrow> ('w, unit) io"
  he_Now :: "('w, int) io"

abbreviation route_key :: "HTTPRoute \<Rightarrow> NamespacedName" where
  "route_key r \<equiv> \<lparr>nn_Namespace = om_Namespace (hr_Meta r), nn_Name = om_Name (hr_Meta r)\<rparr>"

text \<open>\<open>status.NewCondition\<close> at the current time, for the generation of the route.\<close>

definition route_condition ::
  "'w RouteEnv \<Rightarrow> HTTPRoute \<Rightarrow> string \<Rightarrow> ConditionStatus \<Rightarrow> string \<Rightarrow> string \<Rightarrow> ('w, Condition) io" where
  "route_condition env route t st reason message = do {
     now \<leftarrow> he_Now env;
     ret (NewCondition now t st reason message (om_Generation (hr_Meta route)))
   }"

section \<open>References\<close>

definition parsePolicyRef :: "string \<Rightarrow> string \<Rightarrow> string \<times> string" where
  "parsePolicyRef ref defaultNS =
     (case Split ref (CHR ''/'') of [a, b] \<Rightarrow> (a, b) | _ \<Rightarrow> (defaultNS, ref))"

definition parent_namespace :: "HTTPRoute \<Rightarrow> ParentReference \<Rightarrow> string" where
  "parent_namespace route ref =
     (case pr_Namespace ref of None \<Rightarrow> om_Namespace (hr_Meta route) | Some ns \<Rightarrow> ns)"

definition is_service_backend :: "HTTPBackendRef \<Rightarrow> bool" where
  "is_service_backend b \<longleftrightarrow> (case br_Kind b of None \<Rightarrow> True | Some k \<Rightarrow> k = ''Service'')"

definition backend_namespace :: "HTTPRoute \<Rightarrow> HTTPBackendRef \<Rightarrow> string" where
  "backend_namespace route b =
     (case br_Namespace b of None \<Rightarrow> om_Namespace (hr_Meta route) | Some ns \<Rightarrow> ns)"

section \<open>Watches\<close>

text \<open>A route is enqueued once for a Gateway, however many of its references match.\<close>

definition findRoutesForGateway :: "'w RouteEnv \<Rightarrow> Gateway \<Rightarrow> ('w, NamespacedName list) io" where
  "findRoutesForGateway env gateway = do {
     r \<leftarrow> he_ListRoutes env;
     case r of
       Inl err \<Rightarrow> ret []
     | Inr routes \<Rightarrow>
         ret (map route_key (filter (\<lambda>route. list_ex (parent_is_gateway route gateway) (hr_ParentRefs route)) routes))
   }"

text \<open>The break leaves the loop over the backends of one rule: a route is enqueued once for each
  of its rules with a matching backend.\<close>

definition findRoutesForService :: "'w RouteEnv \<Rightarrow> NamespacedName \<Rightarrow> ('w, NamespacedName list) io" where
  "findRoutesForService env service = do {
     r \<leftarrow> he_ListRoutes env;
     case r of
       Inl err \<Rightarrow> ret []
     | Inr routes \<Rightarrow>
         ret (concat (map (\<lambda>route. concat (map (\<lambda>rule.
           if list_ex (\<lambda>b. is_service_backend b \<and> br_Name b = nn_Name service \<and>
                backend_namespace route b = nn_Namespace service) (rr_BackendRefs rule)
           then [route_key route] else []) (hr_Rules route))) routes))
   }"

definition findRoutesForAccessPolicy ::
  "'w RouteEnv \<Rightarrow> CloudflareAccessPolicy \<Rightarrow> ('w, NamespacedName list) io" where
  "findRoutesForAccessPolicy env policy = do {
     r \<leftarrow> he_ListRoutes env;
     case r of
       Inl err \<Rightarrow> ret []
     | Inr routes \<Rightarrow>
         ret (map route_key (filter (\<lambda>route.
           let policyRef = GetAnnotation (om_Annotations (hr_Meta route)) AnnotationAccessPolicy
           in policyRef \<noteq> '''' \<and>
              (case parsePolicyRef policyRef (om_Namespace (hr_Meta route)) of (policyNS, policyName) \<Rightarrow>
                 policyName = om_Name (acp_Meta policy) \<and> policyNS = om_Namespace (acp_Meta policy))) routes))
   }"

section \<open>Validation of a parent\<close>

definition isCfgateParentRef :: "'w RouteEnv \<Rightarrow> HTTPRoute \<Rightarrow> ParentReference \<Rightarrow> ('w, bool res) io" where
  "isCfgateParentRef env route ref = do {
     g \<leftarrow> he_GetGateway env \<lparr>nn_Namespace = parent_namespace route ref, nn_Name = pr_Name ref\<rparr>;
     case g of
       Inl err \<Rightarrow> if IsNotFound err then ret (Inr False)
                  else ret (Inl (wrapf (''failed to get Gateway '' @ parent_namespace route ref @ ''/'' @
                                        pr_Name ref) err))
     | Inr gateway \<Rightarrow> do {
         c \<leftarrow> he_GetClass env \<lparr>nn_Namespace = '''', nn_Name = gw_GatewayClassName gateway\<rparr>;
         case c of
           Inl err \<Rightarrow> if IsNotFound err then ret (Inr False)
                      else ret (Inl (wrapf (''failed to get GatewayClass '' @ gw_GatewayClassName gateway) err))
         | Inr gc \<Rightarrow> ret (Inr (gc_ControllerName gc = GatewayControllerName))
       }
   }"

definition parent_status :: "HTTPRoute \<Rightarrow> ParentReference \<Rightarrow> Condition \<Rightarrow> RouteParentStatus" where
  "parent_status route ref condition =
     \<lparr>rps_ParentRef = \<lparr>pr_Group = pr_Group ref, pr_Kind = pr_Kind ref,
        pr_Namespace = Some (parent_namespace route ref), pr_Name = pr_Name ref,
        pr_SectionName = pr_SectionName ref, pr_Port = None\<rparr>,
      rps_ControllerName = GatewayControllerName, rps_Conditions = [condition]\<rparr>"

definition reject_parent ::
  "'w RouteEnv \<Rightarrow> HTTPRoute \<Rightarrow> ParentReference \<Rightarrow> string \<Rightarrow> string \<Rightarrow> ('w, RouteParentStatus) io" where
  "reject_parent env route ref reason message = do {
     c \<leftarrow> route_condition env route ''Accepted'' StFalse reason message;
     ret (parent_status route ref c)
   }"

definition validateParentRef ::
  "'w RouteEnv \<Rightarrow> HTTPRoute \<Rightarrow> ParentReference \<Rightarrow> ('w, RouteParentStatus) io" where
  "validateParentRef env route ref = do {
     accepted \<leftarrow> route_condition env route ''Accepted'' StTrue ''Accepted'' ''Route accepted by Gateway'';
     g \<leftarrow> he_GetGateway env \<lparr>nn_Namespace = parent_namespace route ref, nn_Name = pr_Name ref\<rparr>;
     case g of
       Inl err \<Rightarrow>
         if IsNotFound err
         then reject_parent env route ref ''NoMatchingParent''
                (''Gateway '' @ parent_namespace route ref @ ''/'' @ pr_Name ref @ '' not found'')
         else ret (parent_status route ref accepted)
     | Inr gateway \<Rightarrow> do {
         c \<leftarrow> he_GetClass env \<lparr>nn_Namespace = '''', nn_Name = gw_GatewayClassName gateway\<rparr>;
         case c of
           Inl err \<Rightarrow> reject_parent env route ref ''NoMatchingParent''
                        (''GatewayClass '' @ gw_GatewayClassName gateway @ '' not found'')
         | Inr gc \<Rightarrow>
             if gc_ControllerName gc \<noteq> GatewayControllerName
             then reject_parent env route ref ''NoMatchingParent'' ''Gateway is not managed by cfgate''
             else if GetAnnotation (om_Annotations (gw_Meta gateway)) AnnotationTunnelRef = ''''
             then reject_parent env route ref ''NoTunnelRef'' ''Gateway has no tunnel reference annotation''
             else (case pr_SectionName ref of
                     None \<Rightarrow> ret (parent_status route ref accepted)
                   | Some s \<Rightarrow>
                       (case find (\<lambda>l. li_Name l = s) (gw_Listeners gateway) of
                          None \<Rightarrow> reject_parent env route ref ''NoMatchingListenerHostname''
                                    (''Listener '' @ s @ '' not found'')
                        | Some l \<Rightarrow>
                            if li_AllowedFrom l = Some ''Same'' \<and>
                               om_Namespace (hr_Meta route) \<noteq> om_Namespace (gw_Meta gateway)
                            then reject_parent env route ref ''NotAllowedByListeners''
                                   ''Route namespace not allowed by listener''
                            else ret (parent_status route ref accepted)))
       }
   }"

text \<open>The parents that are ours, in the order of the references.\<close>

fun own_parents :: "'w RouteEnv \<Rightarrow> HTTPRoute \<Rightarrow> ParentReference list \<Rightarrow> ('w, RouteParentStatus list) io" where
  "own_parents env route [] = ret []"
| "own_parents env route (ref # refs) = do {
     r \<leftarrow> isCfgateParentRef env route ref;
     if r = Inr True then do {
       st \<leftarrow> validateParentRef env route ref;
       sts \<leftarrow> own_parents env route refs;
       ret (st # sts)
     }
     else own_parents env route refs
   }"

section \<open>Backends and access policies\<close>

fun resolve_backends :: "'w RouteEnv \<Rightarrow> HTTPRoute \<Rightarrow> HTTPBackendRef list \<Rightarrow> ('w, Condition) io" where
  "resolve_backends env route [] =
     route_condition env route ''ResolvedRefs'' StTrue ''ResolvedRefs'' ''All backend references resolved''"
| "resolve_backends env route (b # bs) =
     (if \<not> is_service_backend b then resolve_backends env route bs
      else do {
        r \<leftarrow> he_GetService env \<lparr>nn_Namespace = backend_namespace route b, nn_Name = br_Name b\<rparr>;
        case r of
          Inl err \<Rightarrow>
            if IsNotFound err
            then route_condition env route ''ResolvedRefs'' StFalse ''BackendNotFound''
                   (''Service '' @ backend_namespace route b @ ''/'' @ br_Name b @ '' not found'')
            else route_condition env route ''ResolvedRefs'' StFalse ''BackendNotFound''
                   (''Failed to get Service '' @ backend_namespace route b @ ''/'' @ br_Name b @ '': '' @ err_msg err)
        | Inr _ \<Rightarrow> resolve_backends env route bs
      })"

text \<open>The two nested loops visit the backends of the rules in this order.\<close>

definition resolveBackends :: "'w RouteEnv \<Rightarrow> HTTPRoute \<Rightarrow> ('w, Condition) io" where
  "resolveBackends env route = resolve_backends env route (concat (map rr_BackendRefs (hr_Rules route)))"

definition resolveAccessPolicy :: "'w RouteEnv \<Rightarrow> HTTPRoute \<Rightarrow> ('w, Condition option) io" where
  "resolveAccessPolicy env route =
     (let policyRef = GetAnnotation (om_Annotations (hr_Meta route)) AnnotationAccessPolicy
      in if policyRef = '''' then ret None
         else (case parsePolicyRef policyRef (om_Namespace (hr_Meta route)) of (policyNS, policyName) \<Rightarrow> do {
           r \<leftarrow> he_GetPolicy env \<lparr>nn_Namespace = policyNS, nn_Name = policyName\<rparr>;
           case r of
             Inl err \<Rightarrow>
               if IsNotFound err then do {
                 he_Eventf env (route_key route) ''Warning'' ''AccessPolicyNotFound'' ''Resolve''
                   ''Referenced CloudflareAccessPolicy %q not found'' [policyRef];
                 c \<leftarrow> route_condition env route ''AccessPolicyResolved'' StFalse ''AccessPolicyNotFound''
                        (''CloudflareAccessPolicy '' @ policyNS @ ''/'' @ policyName @ '' not found'');
                 ret (Some c)
               }
               else do {
                 c \<leftarrow> route_condition env route ''AccessPolicyResolved'' StFalse ''AccessPolicyError''
                        (''Failed to resolve CloudflareAccessPolicy: '' @ err_msg err);
                 ret (Some c)
               }
           | Inr policy \<Rightarrow> do {
               he_Eventf env (route_key route) ''Normal'' ''AccessPolicyResolved'' ''Resolve''
                 ''Attached to CloudflareAccessPolicy %q'' [policyRef];
               c \<leftarrow> route_condition env route ''AccessPolicyResolved'' StTrue ''Resolved''
                      (''Resolved CloudflareAccessPolicy '' @ policyNS @ ''/'' @ policyName);
               ret (Some c)
             }
         }))"

section \<open>Reconcile\<close>

text \<open>The messages of the validation are passed as the format of the event.\<close>

fun record_messages :: "'w RouteEnv \<Rightarrow> HTTPRoute \<Rightarrow> string \<Rightarrow> string list \<Rightarrow> ('w, unit) io" where
  "record_messages env route reason [] = ret ()"
| "record_messages env route reason (m # ms) = do {
     he_Eventf env (route_key route) ''Warning'' reason ''Validate'' m [];
     record_messages env route reason ms
   }"

fun merge_parents ::
  "'w RouteEnv \<Rightarrow> Condition list \<Rightarrow> RouteParentStatus list \<Rightarrow> ('w, RouteParentStatus list) io" where
  "merge_parents env conditions [] = ret []"
| "merge_parents env conditions (p # ps) = do {
     now \<leftarrow> he_Now env;
     rest \<leftarrow> merge_parents env conditions ps;
     ret (p\<lparr>rps_Conditions := MergeConditions now (rps_Conditions p) conditions\<rparr> # rest)
   }"

text \<open>The write of the status and the end of the reconcile.\<close>

definition finish_route :: "'w RouteEnv \<Rightarrow> HTTPRoute \<Rightarrow> ('w, Result \<times> go_error option) io" where
  "finish_route env route = do {
     u \<leftarrow> he_StatusUpdate env route;
     case u of
       Inl err \<Rightarrow> ret (requeue_after (seconds 30), None)
     | Inr _ \<Rightarrow> do {
         he_Eventf env (route_key route) ''Normal'' ''Reconciled'' ''Reconcile''
           ''HTTPRoute reconciled successfully'' [];
         ret (requeue_after (seconds 300), None)
       }
   }"

definition httproute_Reconcile ::
  "'w RouteEnv \<Rightarrow> NamespacedName \<Rightarrow> ('w, Result \<times> go_error option) io" where
  "httproute_Reconcile env req = do {
     g \<leftarrow> he_Get env req;
     case g of
       Inl err \<Rightarrow> if IsNotFound err then ret (no_requeue, None)
                  else ret (no_requeue, Some (wrapf ''failed to get HTTPRoute'' err))
     | Inr route \<Rightarrow> do {
         let v = ValidateRouteAnnotations (om_Annotations (hr_Meta route)) False;
         record_messages env route ''DeprecatedAnnotation'' (vr_Warnings v);
         record_messages env route ''InvalidAnnotation'' (vr_Errors v);
         let preserved = filter (\<lambda>p. rps_ControllerName p \<noteq> GatewayControllerName) (hr_Parents route);
         own \<leftarrow> own_parents env route (hr_ParentRefs route);
         resolvedRefs \<leftarrow> resolveBackends env route;
         accessPolicy \<leftarrow> resolveAccessPolicy env route;
         own \<leftarrow> merge_parents env
                  ([resolvedRefs] @ (case accessPolicy of None \<Rightarrow> [] | Some c \<Rightarrow> [c])) own;
         finish_route env (route\<lparr>hr_Parents := preserved @ own\<rparr>)
       }
   }"

section \<open>Lemmas\<close>

lemma run_route_condition:
  "run_state (route_condition env route t st reason msg) w =
     (case run_state (he_Now env) w of (now, w') \<Rightarrow>
        (NewCondition now t st reason msg (om_Generation (hr_Meta route)), w'))"
  by (simp add: route_condition_def split: prod.split)

lemma NewCondition_fields [simp]:
  "c_Type (NewCondition now t st reason msg g) = t" "c_Status (NewCondition now t st reason msg g) = st"
  by (simp_all add: NewCondition_def)

lemma route_condition_type:
  "run_state (route_condition env route t st reason msg) w = (c, w') \<Longrightarrow> c_Type c = t \<and> c_Status c = st"
  by (auto simp: run_route_condition split: prod.splits)

text \<open>A validated parent belongs to this controller and has the one condition Accepted.\<close>

definition own_status :: "RouteParentStatus \<Rightarrow> bool" where
  "own_status p \<longleftrightarrow> rps_ControllerName p = GatewayControllerName \<and> map c_Type (rps_Conditions p) = [''Accepted'']"

lemma own_status_parent_status [simp]: "own_status (parent_status route ref c) \<longleftrightarrow> c_Type c = ''Accepted''"
  by (simp add: own_status_def parent_status_def)

lemma reject_parent_own:
  "run_state (reject_parent env route ref reason msg) w = (p, w') \<Longrightarrow> own_status p"
  by (auto simp: reject_parent_def run_route_condition split: prod.splits)

lemma validateParentRef_own:
  "run_state (validateParentRef env route ref) w = (p, w') \<Longrightarrow> own_status p"
  by (auto simp: validateParentRef_def run_route_condition split: prod.splits sum.splits if_splits option.splits
      dest: reject_parent_own)

lemma own_parents_own:
  "run_state (own_parents env route refs) w = (ps, w') \<Longrightarrow> list_all own_status ps \<and> length ps \<le> length refs"
proof (induction refs arbitrary: w ps w')
  case (Cons ref refs)
  obtain r w1 where r: "run_state (isCfgateParentRef env route ref) w = (r, w1)" by (rule prod.exhaust)
  show ?case
  proof (cases "r = Inr True")
    case True
    obtain p w2 where p: "run_state (validateParentRef env route ref) w1 = (p, w2)" by (rule prod.exhaust)
    obtain qs w3 where q: "run_state (own_parents env route refs) w2 = (qs, w3)" by (rule prod.exhaust)
    from True r p q Cons.prems have "ps = p # qs" by simp
    with Cons.IH [OF q] validateParentRef_own [OF p] show ?thesis by simp
  next
    case False
    with r Cons.prems have "run_state (own_parents env route refs) w1 = (ps, w')" by simp
    from Cons.IH [OF this] show ?thesis by simp
  qed
qed simp

text \<open>The status of a parent as it is written: the conditions Accepted and ResolvedRefs, and
  AccessPolicyResolved exactly when the route has the annotation.\<close>

definition reported :: "bool \<Rightarrow> RouteParentStatus \<Rightarrow> bool" where
  "reported policy p \<longleftrightarrow> rps_ControllerName p = GatewayControllerName \<and>
     c_Type ` List.set (rps_Conditions p) =
       {''Accepted'', ''ResolvedRefs''} \<union> (if policy then {''AccessPolicyResolved''} else {})"

lemma merge_parents_reported:
  assumes "run_state (merge_parents env cs ps) w = (qs, w')" "list_all own_status ps" "cs \<noteq> []"
    and "c_Type ` List.set cs = {''ResolvedRefs''} \<union> (if policy then {''AccessPolicyResolved''} else {})"
  shows "list_all (reported policy) qs \<and> map rps_ParentRef qs = map rps_ParentRef ps"
  using assms(1,2)
proof (induction ps arbitrary: w qs)
  case (Cons p ps)
  obtain now w1 where now: "run_state (he_Now env) w = (now, w1)" by (rule prod.exhaust)
  obtain rs w2 where rs: "run_state (merge_parents env cs ps) w1 = (rs, w2)" by (rule prod.exhaust)
  let ?q = "p\<lparr>rps_Conditions := MergeConditions now (rps_Conditions p) cs\<rparr>"
  have qs: "qs = ?q # rs" "w2 = w'" using Cons.prems(1) now rs by auto
  have "c_Type ` List.set (MergeConditions now (rps_Conditions p) cs) =
      c_Type ` List.set cs \<union> c_Type ` List.set (rps_Conditions p)"
    using arg_cong [where f = List.set, OF c_Types_MergeConditions [of now "rps_Conditions p" cs]]
    by auto
  moreover have "c_Type ` List.set (rps_Conditions p) = {''Accepted''}"
  proof -
    have "map c_Type (rps_Conditions p) = [''Accepted'']"
      using Cons.prems(2) by (simp add: own_status_def)
    then show ?thesis using arg_cong [where f = List.set] by fastforce
  qed
  ultimately have "reported policy ?q"
    using Cons.prems(2) assms(4) by (auto simp: reported_def own_status_def)
  with Cons.IH [of w1 rs] rs qs Cons.prems(2) show ?case by simp
qed simp

lemma resolve_backends_type:
  "run_state (resolve_backends env route bs) w = (c, w') \<Longrightarrow> c_Type c = ''ResolvedRefs''"
  by (induction bs arbitrary: w)
    (auto simp: run_route_condition split: prod.splits sum.splits if_splits)

lemma resolveAccessPolicy_type:
  assumes "run_state (resolveAccessPolicy env route) w = (c, w')"
  shows "(case c of None \<Rightarrow> GetAnnotation (om_Annotations (hr_Meta route)) AnnotationAccessPolicy = ''''
    | Some d \<Rightarrow> GetAnnotation (om_Annotations (hr_Meta route)) AnnotationAccessPolicy \<noteq> '''' \<and>
                c_Type d = ''AccessPolicyResolved'')"
  using assms
  by (auto simp: resolveAccessPolicy_def Let_def run_route_condition
      split: prod.splits sum.splits if_splits option.split)

lemma resolve_backends_status:
  assumes "\<And>k v. fst (run_state (he_GetService env k) v) = answer k"
  shows "c_Status (fst (run_state (resolve_backends env route bs) w)) = StTrue \<longleftrightarrow>
    list_all (\<lambda>b. is_service_backend b \<longrightarrow>
      (\<exists>u. answer \<lparr>nn_Namespace = backend_namespace route b, nn_Name = br_Name b\<rparr> = Inr u)) bs"
proof (induction bs arbitrary: w)
  case (Cons b bs)
  obtain r w1 where r: "run_state (he_GetService env
      \<lparr>nn_Namespace = backend_namespace route b, nn_Name = br_Name b\<rparr>) w = (r, w1)"
    by (rule prod.exhaust)
  then have "answer \<lparr>nn_Namespace = backend_namespace route b, nn_Name = br_Name b\<rparr> = r"
    using assms [of "\<lparr>nn_Namespace = backend_namespace route b, nn_Name = br_Name b\<rparr>" w] by simp
  with r Cons show ?case
    by (cases r) (auto simp: run_route_condition split: prod.split)
qed (simp add: run_route_condition split: prod.split)

lemma parsePolicyRef_forms:
  assumes "CHR ''/'' \<notin> List.set ns" "CHR ''/'' \<notin> List.set n"
  shows "parsePolicyRef (ns @ ''/'' @ n) d = (ns, n)" "parsePolicyRef n d = (d, n)"
  using Split_append_sep [OF assms(1), of n] Split_no_sep [OF assms(2)]
  by (simp_all add: parsePolicyRef_def)

text \<open>A reference is either a name or a namespace and a name with one slash between them.\<close>

lemma parsePolicyRef_cases:
  "parsePolicyRef ref d = (ns, n) \<Longrightarrow>
     ns = d \<and> n = ref \<or>
     ref = ns @ ''/'' @ n \<and> CHR ''/'' \<notin> List.set ns \<and> CHR ''/'' \<notin> List.set n"
  using Join_Split [of ref "CHR ''/''"] Split_parts_no_sep [of _ ref "CHR ''/''"]
  by (auto simp: parsePolicyRef_def split: list.splits)

text \<open>What the cluster says of a reference when it answers the same throughout the reconcile: whether
  its Gateway is of our class, and whether that Gateway takes the route.\<close>

definition ref_key :: "HTTPRoute \<Rightarrow> ParentReference \<Rightarrow> NamespacedName" where
  "ref_key route ref = \<lparr>nn_Namespace = parent_namespace route ref, nn_Name = pr_Name ref\<rparr>"

definition our_parent ::
  "(NamespacedName \<Rightarrow> Gateway res) \<Rightarrow> (NamespacedName \<Rightarrow> GatewayClass res) \<Rightarrow> HTTPRoute \<Rightarrow> ParentReference \<Rightarrow> bool" where
  "our_parent gws classes route ref \<longleftrightarrow>
     (case gws (ref_key route ref) of Inl _ \<Rightarrow> False
      | Inr gw \<Rightarrow> (case classes \<lparr>nn_Namespace = '''', nn_Name = gw_GatewayClassName gw\<rparr> of Inl _ \<Rightarrow> False
                  | Inr gc \<Rightarrow> gc_ControllerName gc = GatewayControllerName))"

definition listener_takes :: "HTTPRoute \<Rightarrow> Gateway \<Rightarrow> string option \<Rightarrow> bool" where
  "listener_takes route gw section \<longleftrightarrow>
     (case section of None \<Rightarrow> True
      | Some s \<Rightarrow> (case find (\<lambda>l. li_Name l = s) (gw_Listeners gw) of None \<Rightarrow> False
                  | Some l \<Rightarrow> li_AllowedFrom l = Some ''Same'' \<longrightarrow>
                               om_Namespace (hr_Meta route) = om_Namespace (gw_Meta gw)))"

definition parent_takes :: "(NamespacedName \<Rightarrow> Gateway res) \<Rightarrow> HTTPRoute \<Rightarrow> ParentReference \<Rightarrow> bool" where
  "parent_takes gws route ref \<longleftrightarrow>
     (case gws (ref_key route ref) of Inl _ \<Rightarrow> False
      | Inr gw \<Rightarrow> GetAnnotation (om_Annotations (gw_Meta gw)) AnnotationTunnelRef \<noteq> '''' \<and>
                  listener_takes route gw (pr_SectionName ref))"

definition status_ref :: "HTTPRoute \<Rightarrow> ParentReference \<Rightarrow> ParentReference" where
  "status_ref route ref = ref\<lparr>pr_Namespace := Some (parent_namespace route ref), pr_Port := None\<rparr>"

lemma parent_status_ref [simp]: "rps_ParentRef (parent_status route ref c) = status_ref route ref"
  by (simp add: parent_status_def status_ref_def)

lemma parent_status_conditions [simp]: "rps_Conditions (parent_status route ref c) = [c]"
  by (simp add: parent_status_def)

lemma reject_parent_status:
  "run_state (reject_parent env route ref reason msg) w = (p, w') \<Longrightarrow>
     rps_ParentRef p = status_ref route ref \<and> map c_Status (rps_Conditions p) = [StFalse]"
  by (auto simp: reject_parent_def run_route_condition split: prod.splits)

lemma isCfgateParentRef_answer:
  assumes "\<And>k v. fst (run_state (he_GetGateway env k) v) = gws k"
    and "\<And>k v. fst (run_state (he_GetClass env k) v) = classes k"
  shows "fst (run_state (isCfgateParentRef env route ref) w) = Inr True \<longleftrightarrow> our_parent gws classes route ref"
proof -
  obtain g w1 where g: "run_state (he_GetGateway env (ref_key route ref)) w = (g, w1)" by (rule prod.exhaust)
  with assms(1) have g': "gws (ref_key route ref) = g" by (metis fst_conv)
  show ?thesis
  proof (cases g)
    case (Inr gw)
    obtain c w2 where "run_state (he_GetClass env \<lparr>nn_Namespace = '''', nn_Name = gw_GatewayClassName gw\<rparr>) w1 = (c, w2)"
      by (rule prod.exhaust)
    moreover from this assms(2) have "classes \<lparr>nn_Namespace = '''', nn_Name = gw_GatewayClassName gw\<rparr> = c"
      by (metis fst_conv)
    ultimately show ?thesis using g g' Inr
      by (cases c) (simp_all add: isCfgateParentRef_def our_parent_def ref_key_def)
  qed (use g g' in \<open>simp add: isCfgateParentRef_def our_parent_def ref_key_def\<close>)
qed

lemma validateParentRef_answer:
  assumes "\<And>k v. fst (run_state (he_GetGateway env k) v) = gws k"
    and "\<And>k v. fst (run_state (he_GetClass env k) v) = classes k"
    and "our_parent gws classes route ref"
    and p: "run_state (validateParentRef env route ref) w = (p, w')"
  shows "rps_ParentRef p = status_ref route ref \<and>
    map c_Status (rps_Conditions p) = [if parent_takes gws route ref then StTrue else StFalse]"
proof -
  obtain gw gc where gw: "gws (ref_key route ref) = Inr gw"
    and gc: "classes \<lparr>nn_Namespace = '''', nn_Name = gw_GatewayClassName gw\<rparr> = Inr gc"
    and ours: "gc_ControllerName gc = GatewayControllerName"
    using assms(3) by (auto simp: our_parent_def split: sum.splits)
  obtain now w1 where now: "run_state (he_Now env) w = (now, w1)" by (rule prod.exhaust)
  obtain w2 where w2: "run_state (he_GetGateway env (ref_key route ref)) w1 = (Inr gw, w2)"
    using assms(1) [of "ref_key route ref" w1] gw by (metis prod.collapse)
  obtain w3 where w3: "run_state (he_GetClass env \<lparr>nn_Namespace = '''', nn_Name = gw_GatewayClassName gw\<rparr>) w2 = (Inr gc, w3)"
    using assms(2) [of "\<lparr>nn_Namespace = '''', nn_Name = gw_GatewayClassName gw\<rparr>" w2] gc by (metis prod.collapse)
  show ?thesis using p now w2 w3 ours gw
    by (auto simp: validateParentRef_def run_route_condition ref_key_def parent_takes_def listener_takes_def
        split: if_splits option.splits dest: reject_parent_status)
qed

lemma own_parents_answer:
  assumes "\<And>k v. fst (run_state (he_GetGateway env k) v) = gws k"
    and "\<And>k v. fst (run_state (he_GetClass env k) v) = classes k"
  shows "map (\<lambda>p. (rps_ParentRef p, map c_Status (rps_Conditions p))) (fst (run_state (own_parents env route refs) w)) =
    map (\<lambda>ref. (status_ref route ref, [if parent_takes gws route ref then StTrue else StFalse]))
      (filter (our_parent gws classes route) refs)"
proof (induction refs arbitrary: w)
  case (Cons ref refs)
  obtain r w1 where r: "run_state (isCfgateParentRef env route ref) w = (r, w1)" by (rule prod.exhaust)
  then have ours: "r = Inr True \<longleftrightarrow> our_parent gws classes route ref"
    using isCfgateParentRef_answer [OF assms, of route ref w] by simp
  obtain p w2 where p: "run_state (validateParentRef env route ref) w1 = (p, w2)" by (rule prod.exhaust)
  show ?case using r ours Cons.IH [of w1] Cons.IH [of w2] p validateParentRef_answer [OF assms _ p]
    by (auto split: prod.split)
qed simp

lemma merge_parents_conditions:
  assumes "run_state (merge_parents env cs ps) w = (qs, w')"
    and "map c_Type cs = ''ResolvedRefs'' # us" "''ResolvedRefs'' \<notin> List.set us" "''Accepted'' \<notin> List.set us"
    and "distinct us"
  shows "map (\<lambda>p. (rps_ParentRef p, ConditionTrue (rps_Conditions p) ''Accepted'',
             ConditionTrue (rps_Conditions p) ''ResolvedRefs'')) qs =
         map (\<lambda>p. (rps_ParentRef p, ConditionTrue (rps_Conditions p) ''Accepted'', c_Status (hd cs) = StTrue)) ps"
  using assms(1)
proof (induction ps arbitrary: w qs)
  case (Cons p ps)
  obtain now w1 where now: "run_state (he_Now env) w = (now, w1)" by (rule prod.exhaust)
  obtain rs w2 where rs: "run_state (merge_parents env cs ps) w1 = (rs, w2)" by (rule prod.exhaust)
  have qs: "qs = p\<lparr>rps_Conditions := MergeConditions now (rps_Conditions p) cs\<rparr> # rs" "w2 = w'"
    using Cons.prems(1) now rs by auto
  obtain c cs' where cs: "cs = c # cs'" "c_Type c = ''ResolvedRefs''" "map c_Type cs' = us"
    using assms(2) by (cases cs) auto
  have "''Accepted'' \<notin> c_Type ` List.set cs"
    using arg_cong [where f = List.set, OF cs(3)] cs(1,2) assms(4) by auto
  then have a: "ConditionTrue (MergeConditions now (rps_Conditions p) cs) ''Accepted'' =
      ConditionTrue (rps_Conditions p) ''Accepted''"
    by (simp add: ConditionTrue_def MergeConditions_find_other)
  have "distinct (map c_Type cs)" using assms(2,3,5) by simp
  from MergeConditions_find_same [OF this, of c now "rps_Conditions p"] cs
  have r: "ConditionTrue (MergeConditions now (rps_Conditions p) cs) ''ResolvedRefs'' \<longleftrightarrow> c_Status c = StTrue"
    by (simp add: ConditionTrue_def)
  show ?case using Cons.IH [of w1 rs] rs qs a r cs(1) by simp
qed simp

text \<open>The reconcile of a route that was read: some events, and then the write of its status.\<close>

lemma httproute_Reconcile_run:
  assumes "run_state (he_Get env req) w = (Inr route, w1)"
  obtains v own u c u1 ap u2 own' v' where
    "run_state (own_parents env route (hr_ParentRefs route)) v = (own, u)"
    "run_state (resolveBackends env route) u = (c, u1)"
    "run_state (resolveAccessPolicy env route) u1 = (ap, u2)"
    "run_state (merge_parents env ([c] @ (case ap of None \<Rightarrow> [] | Some c \<Rightarrow> [c])) own) u2 = (own', v')"
    "run_state (httproute_Reconcile env req) w =
      run_state (finish_route env (route\<lparr>hr_Parents :=
        filter (\<lambda>p. rps_ControllerName p \<noteq> GatewayControllerName) (hr_Parents route) @ own'\<rparr>)) v'"
proof -
  let ?val = "ValidateRouteAnnotations (om_Annotations (hr_Meta route)) False"
  obtain x v0 where v0: "run_state (record_messages env route ''DeprecatedAnnotation'' (vr_Warnings ?val)) w1 = (x, v0)"
    by (rule prod.exhaust)
  obtain y v where v: "run_state (record_messages env route ''InvalidAnnotation'' (vr_Errors ?val)) v0 = (y, v)"
    by (rule prod.exhaust)
  obtain own u where own: "run_state (own_parents env route (hr_ParentRefs route)) v = (own, u)" by (rule prod.exhaust)
  obtain c u1 where c: "run_state (resolveBackends env route) u = (c, u1)" by (rule prod.exhaust)
  obtain ap u2 where ap: "run_state (resolveAccessPolicy env route) u1 = (ap, u2)" by (rule prod.exhaust)
  obtain own' v' where m: "run_state (merge_parents env ([c] @ (case ap of None \<Rightarrow> [] | Some c \<Rightarrow> [c])) own) u2 = (own', v')"
    by (rule prod.exhaust)
  show thesis
    by (rule that [OF own c ap m]) (use assms v0 v own c ap m in \<open>simp add: httproute_Reconcile_def Let_def\<close>)
qed

section \<open>Properties\<close>

definition wit_section_route :: HTTPRoute where
  "wit_section_route = wit_route\<lparr>
     hr_Meta := (wit_meta [(AnnotationAccessPolicy, ''infra/staff'')])\<lparr>om_Namespace := ''apps''\<rparr>,
     hr_ParentRefs := [\<lparr>pr_Group = None, pr_Kind = None, pr_Namespace = Some ''infra'', pr_Name = ''gw'',
                        pr_SectionName = Some ''web'', pr_Port = None\<rparr>],
     hr_Rules := [\<lparr>rr_Matches = [],
       rr_BackendRefs = [\<lparr>br_Kind = None, br_Namespace = None, br_Name = ''app'', br_Port = Some 80\<rparr>]\<rparr>],
     hr_Parents := [\<lparr>rps_ParentRef = \<lparr>pr_Group = None, pr_Kind = None, pr_Namespace = None, pr_Name = ''mesh'',
                        pr_SectionName = None, pr_Port = None\<rparr>,
                     rps_ControllerName = ''istio.io/gateway-controller'', rps_Conditions = []\<rparr>]\<rparr>"

definition wit_same_gateway :: Gateway where
  "wit_same_gateway = wit_gateway\<lparr>gw_Listeners := [\<lparr>li_Name = ''web'', li_Hostname = None,
     li_AllowedFrom = Some ''Same''\<rparr>]\<rparr>"

definition wit_renv :: "HTTPRoute list RouteEnv" where
  "wit_renv =
     \<lparr>he_Get = (\<lambda>n. ret (Inr wit_section_route)), he_GetGateway = (\<lambda>n. ret (Inr wit_same_gateway)),
      he_GetClass = (\<lambda>n. ret (Inr wit_class)), he_GetService = (\<lambda>n. ret (Inr ())),
      he_GetPolicy = (\<lambda>n. ret (Inl down)), he_ListRoutes = ret (Inr [wit_section_route]),
      he_StatusUpdate = (\<lambda>r. State (\<lambda>w. (Inr (), w @ [r]))), he_Eventf = (\<lambda>n t r a f xs. ret ()),
      he_Now = ret 5\<rparr>"

text \<open>C20: The status of a route leaves other controllers alone. Whatever the API answers, the
  reconcile of a route that was read ends in one write of the route whose parents are the entries
  of other controllers, unchanged and in their order, followed by entries of this controller, at
  most one for each parent reference, each with the conditions Accepted and ResolvedRefs, and with
  AccessPolicyResolved exactly when the route names an access policy.\<close>

theorem route_status_preserves_foreign:
  assumes "run_state (he_Get env req) w = (Inr route, w1)"
  shows "\<exists>own v. run_state (httproute_Reconcile env req) w =
      run_state (finish_route env (route\<lparr>hr_Parents :=
        filter (\<lambda>p. rps_ControllerName p \<noteq> GatewayControllerName) (hr_Parents route) @ own\<rparr>)) v \<and>
    list_all (reported (GetAnnotation (om_Annotations (hr_Meta route)) AnnotationAccessPolicy \<noteq> '''')) own \<and>
    length own \<le> length (hr_ParentRefs route)"
proof -
  from assms obtain v own u c u1 ap u2 own' v' where
    own: "run_state (own_parents env route (hr_ParentRefs route)) v = (own, u)"
    and c: "run_state (resolveBackends env route) u = (c, u1)"
    and ap: "run_state (resolveAccessPolicy env route) u1 = (ap, u2)"
    and m: "run_state (merge_parents env ([c] @ (case ap of None \<Rightarrow> [] | Some c \<Rightarrow> [c])) own) u2 = (own', v')"
    and run: "run_state (httproute_Reconcile env req) w =
      run_state (finish_route env (route\<lparr>hr_Parents :=
        filter (\<lambda>p. rps_ControllerName p \<noteq> GatewayControllerName) (hr_Parents route) @ own'\<rparr>)) v'"
    by (rule httproute_Reconcile_run)
  let ?policy = "GetAnnotation (om_Annotations (hr_Meta route)) AnnotationAccessPolicy \<noteq> ''''"
  have "c_Type ` List.set ([c] @ (case ap of None \<Rightarrow> [] | Some c \<Rightarrow> [c])) =
      {''ResolvedRefs''} \<union> (if ?policy then {''AccessPolicyResolved''} else {})"
    using resolve_backends_type [OF c [unfolded resolveBackends_def]] resolveAccessPolicy_type [OF ap]
    by (auto split: option.splits)
  then have "list_all (reported ?policy) own' \<and> map rps_ParentRef own' = map rps_ParentRef own"
    using merge_parents_reported [OF m, of ?policy] own_parents_own [OF own] by simp
  moreover from this have "length own' = length own" by (metis length_map)
  ultimately show ?thesis using run own_parents_own [OF own] by auto
qed

theorem route_status_preserves_foreign_witness:
  "\<exists>own v. run_state (httproute_Reconcile wit_renv (route_key wit_section_route)) [] =
      run_state (finish_route wit_renv (wit_section_route\<lparr>hr_Parents := hr_Parents wit_section_route @ own\<rparr>)) v \<and>
    list_all (reported True) own \<and> length own \<le> 1"
  using route_status_preserves_foreign [of wit_renv "route_key wit_section_route" "[]" wit_section_route "[]"]
  by (simp add: wit_renv_def wit_section_route_def wit_meta_def GatewayControllerName_def GetAnnotation_def)

text \<open>C19: A route is accepted exactly by the Gateways that take it. On a cluster that answers the same
  throughout, the reconcile writes one entry for each parent reference whose Gateway is of our
  class, in the order of the references; its condition Accepted is true exactly when the Gateway
  has a tunnel reference and the named listener, if any, exists and admits the namespace of the
  route; its condition ResolvedRefs is true exactly when every Service the route refers to exists.\<close>

theorem route_accepted_iff:
  assumes "run_state (he_Get env req) w = (Inr route, w1)"
    and "\<And>k v. fst (run_state (he_GetGateway env k) v) = gws k"
    and "\<And>k v. fst (run_state (he_GetClass env k) v) = classes k"
    and "\<And>k v. fst (run_state (he_GetService env k) v) = services k"
  shows "\<exists>own v. run_state (httproute_Reconcile env req) w =
      run_state (finish_route env (route\<lparr>hr_Parents :=
        filter (\<lambda>p. rps_ControllerName p \<noteq> GatewayControllerName) (hr_Parents route) @ own\<rparr>)) v \<and>
    map (\<lambda>p. (rps_ParentRef p, ConditionTrue (rps_Conditions p) ''Accepted'',
              ConditionTrue (rps_Conditions p) ''ResolvedRefs'')) own =
    map (\<lambda>ref. (status_ref route ref, parent_takes gws route ref,
        list_all (\<lambda>b. is_service_backend b \<longrightarrow>
          (\<exists>u. services \<lparr>nn_Namespace = backend_namespace route b, nn_Name = br_Name b\<rparr> = Inr u))
          (concat (map rr_BackendRefs (hr_Rules route)))))
      (filter (our_parent gws classes route) (hr_ParentRefs route))"
proof -
  from assms(1) obtain v own u c u1 ap u2 own' v' where
    own: "run_state (own_parents env route (hr_ParentRefs route)) v = (own, u)"
    and c: "run_state (resolve_backends env route (concat (map rr_BackendRefs (hr_Rules route)))) u = (c, u1)"
    and ap: "run_state (resolveAccessPolicy env route) u1 = (ap, u2)"
    and m: "run_state (merge_parents env ([c] @ (case ap of None \<Rightarrow> [] | Some c \<Rightarrow> [c])) own) u2 = (own', v')"
    and run: "run_state (httproute_Reconcile env req) w =
      run_state (finish_route env (route\<lparr>hr_Parents :=
        filter (\<lambda>p. rps_ControllerName p \<noteq> GatewayControllerName) (hr_Parents route) @ own'\<rparr>)) v'"
    by (rule httproute_Reconcile_run) (auto simp: resolveBackends_def)
  have types: "map c_Type ([c] @ (case ap of None \<Rightarrow> [] | Some c \<Rightarrow> [c])) =
      ''ResolvedRefs'' # (if ap = None then [] else [''AccessPolicyResolved''])"
    using resolve_backends_type [OF c] resolveAccessPolicy_type [OF ap] by (auto split: option.splits)
  let ?resolved = "list_all (\<lambda>b. is_service_backend b \<longrightarrow>
      (\<exists>u. services \<lparr>nn_Namespace = backend_namespace route b, nn_Name = br_Name b\<rparr> = Inr u))
      (concat (map rr_BackendRefs (hr_Rules route)))"
  have resolved: "c_Status c = StTrue \<longleftrightarrow> ?resolved"
    using resolve_backends_status [OF assms(4), of route "concat (map rr_BackendRefs (hr_Rules route))" u] c by simp
  have accepted: "list_all (\<lambda>p. ConditionTrue (rps_Conditions p) ''Accepted'' \<longleftrightarrow>
      map c_Status (rps_Conditions p) = [StTrue]) own"
    using own_parents_own [OF own]
    by (auto simp: list_all_iff own_status_def ConditionTrue_def)
  have "map (\<lambda>p. (rps_ParentRef p, ConditionTrue (rps_Conditions p) ''Accepted'',
              ConditionTrue (rps_Conditions p) ''ResolvedRefs'')) own' =
      map (\<lambda>p. (rps_ParentRef p, map c_Status (rps_Conditions p) = [StTrue], ?resolved)) own"
    using merge_parents_conditions [OF m types] resolved accepted by (simp add: list_all_iff)
  also have "\<dots> = map (\<lambda>(r, s). (r, s = [StTrue], ?resolved))
      (map (\<lambda>p. (rps_ParentRef p, map c_Status (rps_Conditions p))) own)" by simp
  also have "\<dots> = map (\<lambda>ref. (status_ref route ref, parent_takes gws route ref, ?resolved))
      (filter (our_parent gws classes route) (hr_ParentRefs route))"
    using own_parents_answer [OF assms(2,3), of route "hr_ParentRefs route" v] own by simp
  finally show ?thesis using run by blast
qed

theorem route_accepted_iff_witness:
  "\<exists>own v. run_state (httproute_Reconcile wit_renv (route_key wit_section_route)) [] =
      run_state (finish_route wit_renv (wit_section_route\<lparr>hr_Parents := hr_Parents wit_section_route @ own\<rparr>)) v \<and>
    map (\<lambda>p. (ConditionTrue (rps_Conditions p) ''Accepted'', ConditionTrue (rps_Conditions p) ''ResolvedRefs'')) own =
      [(False, True)]"
proof -
  let ?m = "map (\<lambda>(r :: ParentReference, b :: bool, c :: bool). (b, c))"
  have "run_state (he_Get wit_renv (route_key wit_section_route)) [] = (Inr wit_section_route, [])"
    by (simp add: wit_renv_def)
  from route_accepted_iff [OF this, of "\<lambda>k. Inr wit_same_gateway" "\<lambda>k. Inr wit_class" "\<lambda>k. Inr ()"]
  obtain own v where run: "run_state (httproute_Reconcile wit_renv (route_key wit_section_route)) [] =
      run_state (finish_route wit_renv (wit_section_route\<lparr>hr_Parents :=
        filter (\<lambda>p. rps_ControllerName p \<noteq> GatewayControllerName) (hr_Parents wit_section_route) @ own\<rparr>)) v"
    and own: "?m (map (\<lambda>p. (rps_ParentRef p, ConditionTrue (rps_Conditions p) ''Accepted'',
              ConditionTrue (rps_Conditions p) ''ResolvedRefs'')) own) = [(False, True)]"
    by (auto simp: wit_renv_def wit_section_route_def wit_same_gateway_def wit_class_def our_parent_def
        parent_takes_def listener_takes_def wit_gateway_def wit_meta_def)
  moreover have "filter (\<lambda>p. rps_ControllerName p \<noteq> GatewayControllerName) (hr_Parents wit_section_route) =
      hr_Parents wit_section_route"
    by (simp add: wit_section_route_def GatewayControllerName_def)
  ultimately show ?thesis by (auto simp: comp_def)
qed

text \<open>The watch on access policies finds exactly the routes that refer to the policy: those in the
  policy's namespace whose annotation is its name, and those anywhere whose annotation is its
  namespace and name (Kubernetes names are not empty and contain no slash).\<close>

theorem access_policy_watch:
  assumes "run_state (he_ListRoutes env) w = (Inr routes, w')"
    and "om_Name (acp_Meta policy) \<noteq> ''''" "CHR ''/'' \<notin> List.set (om_Name (acp_Meta policy))"
    and "CHR ''/'' \<notin> List.set (om_Namespace (acp_Meta policy))"
  shows "run_state (findRoutesForAccessPolicy env policy) w =
    (map route_key (filter (\<lambda>route.
       (let ref = GetAnnotation (om_Annotations (hr_Meta route)) AnnotationAccessPolicy in
        ref = om_Namespace (acp_Meta policy) @ ''/'' @ om_Name (acp_Meta policy) \<or>
        ref = om_Name (acp_Meta policy) \<and> om_Namespace (hr_Meta route) = om_Namespace (acp_Meta policy))) routes), w')"
proof -
  have "(ref \<noteq> '''' \<and> parsePolicyRef ref d = (om_Namespace (acp_Meta policy), om_Name (acp_Meta policy))) \<longleftrightarrow>
      ref = om_Namespace (acp_Meta policy) @ ''/'' @ om_Name (acp_Meta policy) \<or>
      ref = om_Name (acp_Meta policy) \<and> d = om_Namespace (acp_Meta policy)" for ref d
    using parsePolicyRef_cases [of ref d] parsePolicyRef_forms [OF assms(4,3), of d] assms(2) by auto
  moreover have "(case parsePolicyRef ref d of (policyNS, policyName) \<Rightarrow>
        policyName = n \<and> policyNS = ns) \<longleftrightarrow> parsePolicyRef ref d = (ns, n)" for ref d n ns
    by (auto split: prod.split)
  ultimately show ?thesis using assms(1) by (simp add: findRoutesForAccessPolicy_def Let_def)
qed

definition wit_policy :: CloudflareAccessPolicy where
  "wit_policy = \<lparr>acp_Meta = (wit_meta [])\<lparr>om_Name := ''staff''\<rparr>,
     acp_Spec = \<lparr>as_TargetRef = None, as_TargetRefs = [], as_CloudflareRef = None,
       as_Application = zero_CrdAccessApplication, as_Policies = [], as_GroupRefs = [],
       as_ServiceTokens = [], as_MTLS = None\<rparr>,
     acp_Status = \<lparr>ast_ApplicationID = [], ast_ApplicationAUD = [], ast_AttachedTargets = 0,
       ast_ServiceTokenIDs = None, ast_MTLSRuleID = [], ast_ObservedGeneration = 0,
       ast_Conditions = [], ast_Ancestors = []\<rparr>\<rparr>"

theorem access_policy_watch_witness:
  "run_state (findRoutesForAccessPolicy wit_renv wit_policy) [] =
     ([\<lparr>nn_Namespace = ''apps'', nn_Name = ''gw''\<rparr>], [])"
  using access_policy_watch [of wit_renv "[]" "[wit_section_route]" "[]" wit_policy]
  by (simp add: wit_renv_def wit_policy_def wit_section_route_def wit_meta_def GetAnnotation_def Let_def)

end
