(* ===== verification/Context_Wrappers.thy ===== *)
theory Context_Wrappers
  imports Httproute_Controller "HOL-Library.List_Lexorder" "HOL-Library.Char_ord"
begin

text \<open>
  The wrappers of internal/controller/context/wrappers.go around tunnels, DNS resources and access
  policies: resolution of policy targets with ReferenceGrants, extraction of hostnames, and the
  defaults of a DNS resource. The Kubernetes client is the parameter \<open>K8sReader\<close>. Strings are
  sorted by \<open>sort.Strings\<close>, in the order of their bytes.
\<close>

section \<open>Objects and reads\<close>

record GRPCRoute =
  grpc_Meta :: ObjectMeta
  grpc_Hostnames :: "string list"

record ReferenceGrantFrom =
  rgf_Group :: string
  rgf_Kind :: string
  rgf_Namespace :: string

record ReferenceGrantTo =
  rgt_Group :: string
  rgt_Kind :: string
  rgt_Name :: "string option"

record ReferenceGrant =
  rg_Namespace :: string
  rg_From :: "ReferenceGrantFrom list"
  rg_To :: "ReferenceGrantTo list"

record 'w K8sReader =
  kr_GetGateway :: "NamespacedName \<Rightarrow> ('w, Gateway res) io"
  kr_GetHTTPRoute :: "NamespacedName \<Rightarrow> ('w, HTTPRoute res) io"
  kr_GetGRPCRoute :: "NamespacedName \<Rightarrow> ('w, GRPCRoute res) io"
  kr_GetTCPRoute :: "NamespacedName \<Rightarrow> ('w, unit res) io"
  kr_GetUDPRoute :: "NamespacedName \<Rightarrow> ('w, unit res) io"
  kr_ListGrants :: "string \<Rightarrow> ('w, ReferenceGrant list res) io"
  kr_GetTunnel :: "NamespacedName \<Rightarrow> ('w, CloudflareTunnel res) io"
  kr_GetDNS :: "NamespacedName \<Rightarrow> ('w, CloudflareDNS res) io"
  kr_GetPolicy :: "NamespacedName \<Rightarrow> ('w, CloudflareAccessPolicy res) io"

section \<open>Targets of an access policy\<close>

record TargetInfo =
  ti_Kind :: string
  ti_Namespace :: string
  ti_Name :: string
  ti_Resolved :: bool
  ti_SectionName :: "string option"
  ti_Error :: "go_error option"

definition ti_NamespacedName :: "TargetInfo \<Rightarrow> NamespacedName" where
  "ti_NamespacedName ti = \<lparr>nn_Namespace = ti_Namespace ti, nn_Name = ti_Name ti\<rparr>"

definition ti_String :: "TargetInfo \<Rightarrow> string" where
  "ti_String ti = ti_Kind ti @ ''/'' @ ti_Namespace ti @ ''/'' @ ti_Name ti @
     (case ti_SectionName ti of None \<Rightarrow> '''' | Some s \<Rightarrow> ''/'' @ s)"

definition IsHTTPRoute :: "TargetInfo \<Rightarrow> bool" where "IsHTTPRoute ti \<longleftrightarrow> ti_Kind ti = ''HTTPRoute''"

definition IsGateway :: "TargetInfo \<Rightarrow> bool" where "IsGateway ti \<longleftrightarrow> ti_Kind ti = ''Gateway''"

definition IsTCPRoute :: "TargetInfo \<Rightarrow> bool" where "IsTCPRoute ti \<longleftrightarrow> ti_Kind ti = ''TCPRoute''"

definition IsUDPRoute :: "TargetInfo \<Rightarrow> bool" where "IsUDPRoute ti \<longleftrightarrow> ti_Kind ti = ''UDPRoute''"

definition IsGRPCRoute :: "TargetInfo \<Rightarrow> bool" where "IsGRPCRoute ti \<longleftrightarrow> ti_Kind ti = ''GRPCRoute''"

text \<open>The read of a target whose value is not used.\<close>

definition exists_from :: "('w, 'a res) io \<Rightarrow> ('w, bool res) io" where
  "exists_from get = do {
     r \<leftarrow> get;
     case r of
       Inl err \<Rightarrow> if IsNotFound err then ret (Inr False) else ret (Inl err)
     | Inr _ \<Rightarrow> ret (Inr True)
   }"

definition targetExists :: "'w K8sReader \<Rightarrow> string \<Rightarrow> string \<Rightarrow> string \<Rightarrow> ('w, bool res) io" where
  "targetExists k kind namespace name =
     (let key = \<lparr>nn_Namespace = namespace, nn_Name = name\<rparr>
      in if kind = ''Gateway'' then exists_from (kr_GetGateway k key)
         else if kind = ''HTTPRoute'' then exists_from (kr_GetHTTPRoute k key)
         else if kind = ''GRPCRoute'' then exists_from (kr_GetGRPCRoute k key)
         else if kind = ''TCPRoute'' then exists_from (kr_GetTCPRoute k key)
         else if kind = ''UDPRoute'' then exists_from (kr_GetUDPRoute k key)
         else ret (Inl (errorf (''unsupported target kind: '' @ kind))))"

definition grant_from :: "string \<Rightarrow> ReferenceGrantFrom \<Rightarrow> bool" where
  "grant_from fromNamespace f \<longleftrightarrow> rgf_Group f = ''cfgate.io'' \<and> rgf_Kind f = ''CloudflareAccessPolicy'' \<and>
     rgf_Namespace f = fromNamespace"

definition grant_to :: "string \<Rightarrow> ReferenceGrantTo \<Rightarrow> bool" where
  "grant_to targetKind t \<longleftrightarrow> rgt_Group t = ''gateway.networking.k8s.io'' \<and> rgt_Kind t = targetKind"

definition checkReferenceGrant :: "'w K8sReader \<Rightarrow> string \<Rightarrow> string \<Rightarrow> string \<Rightarrow> ('w, bool res) io" where
  "checkReferenceGrant k fromNamespace toNamespace targetKind = do {
     r \<leftarrow> kr_ListGrants k toNamespace;
     case r of
       Inl err \<Rightarrow> ret (Inl err)
     | Inr grants \<Rightarrow>
         ret (Inr (list_ex (\<lambda>g. list_ex (\<lambda>f. grant_from fromNamespace f \<and>
           list_ex (grant_to targetKind) (rg_To g)) (rg_From g)) grants))
   }"

definition resolveTarget_ref ::
  "'w K8sReader \<Rightarrow> PolicyTargetReference \<Rightarrow> string \<Rightarrow> ('w, TargetInfo) io" where
  "resolveTarget_ref k ref defaultNamespace =
     (let namespace = (case pt_Namespace ref of None \<Rightarrow> defaultNamespace
                       | Some ns \<Rightarrow> if ns = '''' then defaultNamespace else ns);
          info = \<lparr>ti_Kind = pt_Kind ref, ti_Namespace = namespace, ti_Name = pt_Name ref,
                  ti_Resolved = False, ti_SectionName = pt_SectionName ref, ti_Error = None\<rparr>
      in do {
        e \<leftarrow> targetExists k (pt_Kind ref) namespace (pt_Name ref);
        case e of
          Inl err \<Rightarrow> ret (info\<lparr>ti_Error := Some err\<rparr>)
        | Inr False \<Rightarrow>
            ret (info\<lparr>ti_Error := Some (errorf (''target '' @ namespace @ ''/'' @ pt_Name ref @ '' not found''))\<rparr>)
        | Inr True \<Rightarrow>
            if namespace \<noteq> defaultNamespace then do {
              g \<leftarrow> checkReferenceGrant k defaultNamespace namespace (pt_Kind ref);
              case g of
                Inl err \<Rightarrow> ret (info\<lparr>ti_Error := Some (wrapf ''checking ReferenceGrant'' err)\<rparr>)
              | Inr granted \<Rightarrow>
                  if \<not> granted
                  then ret (info\<lparr>ti_Error := Some (errorf (''cross-namespace reference to '' @ namespace @ ''/'' @
                              pt_Name ref @ '' not permitted by ReferenceGrant''))\<rparr>)
                  else ret (info\<lparr>ti_Resolved := True\<rparr>)
            }
            else ret (info\<lparr>ti_Resolved := True\<rparr>)
      })"

text \<open>\<open>targetRef\<close> before \<open>targetRefs\<close>, as everywhere in the controller.\<close>

definition GetTargetRefs :: "CloudflareAccessPolicy \<Rightarrow> PolicyTargetReference list" where
  "GetTargetRefs policy =
     (case as_TargetRef (acp_Spec policy) of None \<Rightarrow> [] | Some ref \<Rightarrow> [ref]) @ as_TargetRefs (acp_Spec policy)"

fun resolve_refs ::
  "'w K8sReader \<Rightarrow> string \<Rightarrow> PolicyTargetReference list \<Rightarrow> ('w, TargetInfo list) io" where
  "resolve_refs k namespace [] = ret []"
| "resolve_refs k namespace (ref # refs) = do {
     t \<leftarrow> resolveTarget_ref k ref namespace;
     ts \<leftarrow> resolve_refs k namespace refs;
     ret (t # ts)
   }"

definition resolveTargets :: "'w K8sReader \<Rightarrow> CloudflareAccessPolicy \<Rightarrow> ('w, TargetInfo list) io" where
  "resolveTargets k policy = resolve_refs k (om_Namespace (acp_Meta policy)) (GetTargetRefs policy)"

definition target_ok :: "TargetInfo \<Rightarrow> bool" where
  "target_ok t \<longleftrightarrow> ti_Resolved t \<and> ti_Error t = None"

definition countResolved :: "TargetInfo list \<Rightarrow> nat" where
  "countResolved targets = length (filter target_ok targets)"

definition countFailed :: "TargetInfo list \<Rightarrow> nat" where
  "countFailed targets = length (filter (\<lambda>t. ti_Error t \<noteq> None) targets)"

section \<open>AccessPolicyContext\<close>

record AccessPolicyContext =
  apc_Policy :: CloudflareAccessPolicy
  apc_resolvedTargets :: "TargetInfo list"

definition NewAccessPolicyContext ::
  "'w K8sReader \<Rightarrow> CloudflareAccessPolicy \<Rightarrow> ('w, AccessPolicyContext) io" where
  "NewAccessPolicyContext k policy = do {
     targets \<leftarrow> resolveTargets k policy;
     ret \<lparr>apc_Policy = policy, apc_resolvedTargets = targets\<rparr>
   }"

definition ResolvedTargets :: "AccessPolicyContext \<Rightarrow> TargetInfo list" where
  "ResolvedTargets apc = apc_resolvedTargets apc"

definition SuccessfullyResolvedTargets :: "AccessPolicyContext \<Rightarrow> TargetInfo list" where
  "SuccessfullyResolvedTargets apc = filter target_ok (apc_resolvedTargets apc)"

definition FailedTargets :: "AccessPolicyContext \<Rightarrow> TargetInfo list" where
  "FailedTargets apc = filter (\<lambda>t. ti_Error t \<noteq> None) (apc_resolvedTargets apc)"

definition HasFailedTargets :: "AccessPolicyContext \<Rightarrow> bool" where
  "HasFailedTargets apc = list_ex (\<lambda>t. ti_Error t \<noteq> None) (apc_resolvedTargets apc)"

definition AllTargetsResolved :: "AccessPolicyContext \<Rightarrow> bool" where
  "AllTargetsResolved apc \<longleftrightarrow> length (apc_resolvedTargets apc) \<noteq> 0 \<and> list_all target_ok (apc_resolvedTargets apc)"

definition RequiresMTLS :: "AccessPolicyContext \<Rightarrow> bool" where
  "RequiresMTLS apc =
     (case as_MTLS (acp_Spec (apc_Policy apc)) of None \<Rightarrow> False | Some m \<Rightarrow> mt_Enabled m)"

definition RequiresServiceTokens :: "AccessPolicyContext \<Rightarrow> bool" where
  "RequiresServiceTokens apc \<longleftrightarrow> length (as_ServiceTokens (acp_Spec (apc_Policy apc))) > 0"

definition HasCrossNamespaceTargets :: "AccessPolicyContext \<Rightarrow> bool" where
  "HasCrossNamespaceTargets apc =
     list_ex (\<lambda>t. ti_Namespace t \<noteq> om_Namespace (acp_Meta (apc_Policy apc))) (apc_resolvedTargets apc)"

definition extractHostnamesFromTarget :: "'w K8sReader \<Rightarrow> TargetInfo \<Rightarrow> ('w, string list res) io" where
  "extractHostnamesFromTarget k target =
     (if ti_Kind target = ''HTTPRoute'' then do {
        r \<leftarrow> kr_GetHTTPRoute k (ti_NamespacedName target);
        case r of Inl err \<Rightarrow> ret (Inl err) | Inr route \<Rightarrow> ret (Inr (hr_Hostnames route))
      }
      else if ti_Kind target = ''GRPCRoute'' then do {
        r \<leftarrow> kr_GetGRPCRoute k (ti_NamespacedName target);
        case r of Inl err \<Rightarrow> ret (Inl err) | Inr route \<Rightarrow> ret (Inr (grpc_Hostnames route))
      }
      else if ti_Kind target = ''Gateway'' then do {
        r \<leftarrow> kr_GetGateway k (ti_NamespacedName target);
        case r of Inl err \<Rightarrow> ret (Inl err)
        | Inr gw \<Rightarrow> ret (Inr (List.map_filter li_Hostname (gw_Listeners gw)))
      }
      else ret (Inr []))"

text \<open>The set of hostnames is a map; its range order does not matter, because the keys are sorted.\<close>

fun hostname_set :: "'w K8sReader \<Rightarrow> TargetInfo list \<Rightarrow> (string \<times> unit) list \<Rightarrow> ('w, (string \<times> unit) list) io" where
  "hostname_set k [] m = ret m"
| "hostname_set k (t # ts) m = do {
     r \<leftarrow> extractHostnamesFromTarget k t;
     case r of
       Inl err \<Rightarrow> hostname_set k ts m
     | Inr hostnames \<Rightarrow> hostname_set k ts (map_puts (map (\<lambda>h. (h, ())) hostnames) m)
   }"

definition ExtractHostnames :: "'w K8sReader \<Rightarrow> AccessPolicyContext \<Rightarrow> ('w, string list res) io" where
  "ExtractHostnames k apc = do {
     m \<leftarrow> hostname_set k (SuccessfullyResolvedTargets apc) [];
     ret (Inr (sort (map fst m)))
   }"

definition BuildAccessPolicyContext ::
  "'w K8sReader \<Rightarrow> NamespacedName \<Rightarrow> ('w, AccessPolicyContext option res) io" where
  "BuildAccessPolicyContext k ref = do {
     r \<leftarrow> kr_GetPolicy k ref;
     case r of
       Inl err \<Rightarrow> if IsNotFound err then ret (Inr None) else ret (Inl (wrapf ''fetching policy'' err))
     | Inr policy \<Rightarrow> do {
         apc \<leftarrow> NewAccessPolicyContext k policy;
         ret (Inr (Some apc))
       }
   }"

section \<open>TunnelContext\<close>

record 'c TunnelContext =
  tcx_Tunnel :: CloudflareTunnel
  tcx_resolvedAccountID :: string
  tcx_tunnelClient :: 'c

definition NewTunnelContext :: "CloudflareTunnel \<Rightarrow> string \<Rightarrow> 'c \<Rightarrow> 'c TunnelContext" where
  "NewTunnelContext tunnel accountID tunnelClient =
     \<lparr>tcx_Tunnel = tunnel, tcx_resolvedAccountID = accountID, tcx_tunnelClient = tunnelClient\<rparr>"

definition BuildTunnelContext ::
  "'w K8sReader \<Rightarrow> 'c \<Rightarrow> NamespacedName \<Rightarrow> string \<Rightarrow> ('w, 'c TunnelContext option res) io" where
  "BuildTunnelContext k cfClient ref accountID = do {
     r \<leftarrow> kr_GetTunnel k ref;
     case r of
       Inl err \<Rightarrow> if IsNotFound err then ret (Inr None) else ret (Inl (wrapf ''fetching tunnel'' err))
     | Inr tunnel \<Rightarrow> ret (Inr (Some (NewTunnelContext tunnel accountID cfClient)))
   }"

section \<open>DNSContext\<close>

record 'c DNSContext =
  dcx_DNS :: CloudflareDNS
  dcx_resolvedTunnel :: "CloudflareTunnel option"
  dcx_tunnelDomain :: string
  dcx_resolvedZones :: strmap
  dcx_dnsClient :: 'c

definition context_zones :: "CloudflareDNS \<Rightarrow> strmap" where
  "context_zones dns = map_puts (map (\<lambda>z. (zc_Name z, if zc_ID z \<noteq> '''' then zc_ID z else '''')) (ds_Zones (cdns_Spec dns))) []"

definition NewDNSContext :: "'w K8sReader \<Rightarrow> CloudflareDNS \<Rightarrow> 'c \<Rightarrow> ('w, 'c DNSContext res) io" where
  "NewDNSContext k dns dnsClient =
     (let dc = \<lparr>dcx_DNS = dns, dcx_resolvedTunnel = None, dcx_tunnelDomain = '''', dcx_resolvedZones = [],
                dcx_dnsClient = dnsClient\<rparr>
      in case ds_TunnelRef (cdns_Spec dns) of
           Some ref \<Rightarrow>
             (let tunnelNamespace = (if dt_Namespace ref = '''' then om_Namespace (cdns_Meta dns) else dt_Namespace ref)
              in do {
                r \<leftarrow> kr_GetTunnel k \<lparr>nn_Namespace = tunnelNamespace, nn_Name = dt_Name ref\<rparr>;
                case r of
                  Inl err \<Rightarrow>
                    if IsNotFound err
                    then ret (Inl (errorf (''tunnel '' @ tunnelNamespace @ ''/'' @ dt_Name ref @ '' not found'')))
                    else ret (Inl (wrapf ''fetching tunnel'' err))
                | Inr tunnel \<Rightarrow>
                    if tst_TunnelDomain (ct_Status tunnel) = ''''
                    then ret (Inl (errorf (''tunnel '' @ tunnelNamespace @ ''/'' @ dt_Name ref @ '' domain not ready'')))
                    else ret (Inr (dc\<lparr>dcx_resolvedTunnel := Some tunnel,
                                     dcx_tunnelDomain := tst_TunnelDomain (ct_Status tunnel),
                                     dcx_resolvedZones := context_zones dns\<rparr>))
              })
         | None \<Rightarrow>
             ret (Inr (dc\<lparr>dcx_tunnelDomain := (case ds_ExternalTarget (cdns_Spec dns) of None \<Rightarrow> ''''
                                               | Some t \<Rightarrow> et_Value t),
                          dcx_resolvedZones := context_zones dns\<rparr>)))"

definition dcx_TunnelName :: "'c DNSContext \<Rightarrow> string" where
  "dcx_TunnelName dc = (case dcx_resolvedTunnel dc of None \<Rightarrow> '''' | Some t \<Rightarrow> ts_TunnelName (ct_Spec t))"

definition TunnelNamespacedName :: "'c DNSContext \<Rightarrow> NamespacedName" where
  "TunnelNamespacedName dc = (case dcx_resolvedTunnel dc of None \<Rightarrow> \<lparr>nn_Namespace = '''', nn_Name = ''''\<rparr>
     | Some t \<Rightarrow> \<lparr>nn_Namespace = om_Namespace (ct_Meta t), nn_Name = om_Name (ct_Meta t)\<rparr>)"

definition SetResolvedZoneID :: "'c DNSContext \<Rightarrow> string \<Rightarrow> string \<Rightarrow> 'c DNSContext" where
  "SetResolvedZoneID dc zoneName zoneID = dc\<lparr>dcx_resolvedZones := map_put zoneName zoneID (dcx_resolvedZones dc)\<rparr>"

definition GetZoneID :: "'c DNSContext \<Rightarrow> string \<Rightarrow> string" where
  "GetZoneID dc zoneName = (case map_of (dcx_resolvedZones dc) zoneName of None \<Rightarrow> '''' | Some i \<Rightarrow> i)"

definition ZoneForHostname :: "'c DNSContext \<Rightarrow> string \<Rightarrow> string option" where
  "ZoneForHostname dc hostname =
     map_option zc_Name (find (\<lambda>z. HasSuffix hostname (zc_Name z) \<or> hostname = zc_Name z)
       (ds_Zones (cdns_Spec (dcx_DNS dc))))"

definition GetDefaultTTL :: "'c DNSContext \<Rightarrow> int" where
  "GetDefaultTTL dc = (let t = rd_TTL (ds_Defaults (cdns_Spec (dcx_DNS dc))) in if t = 0 then 1 else t)"

definition GetPolicy :: "'c DNSContext \<Rightarrow> string" where
  "GetPolicy dc = (let p = ds_Policy (cdns_Spec (dcx_DNS dc)) in if p = '''' then DNSPolicySync else p)"

definition GetOwnerID :: "'c DNSContext \<Rightarrow> string" where
  "GetOwnerID dc =
     (let d = dcx_DNS dc; o' = oc_OwnerID (ds_Ownership (cdns_Spec d))
      in if o' \<noteq> '''' then o' else om_Namespace (cdns_Meta d) @ ''/'' @ om_Name (cdns_Meta d))"

definition GetOwnershipPrefix :: "'c DNSContext \<Rightarrow> string" where
  "GetOwnershipPrefix dc =
     (let p = to_Prefix (oc_TXTRecord (ds_Ownership (cdns_Spec (dcx_DNS dc)))) in if p = '''' then ''_cfgate'' else p)"

definition ShouldCreateTXTRecords :: "'c DNSContext \<Rightarrow> bool" where
  "ShouldCreateTXTRecords dc =
     (case to_Enabled (oc_TXTRecord (ds_Ownership (cdns_Spec (dcx_DNS dc)))) of None \<Rightarrow> True | Some b \<Rightarrow> b)"

definition GetCommentTemplate :: "'c DNSContext \<Rightarrow> string" where
  "GetCommentTemplate dc =
     (let t = co_Template (oc_Comment (ds_Ownership (cdns_Spec (dcx_DNS dc))))
      in if t = '''' then ''managed by cfgate'' else t)"

definition ShouldDeleteOnRouteRemoval :: "'c DNSContext \<Rightarrow> bool" where
  "ShouldDeleteOnRouteRemoval dc =
     (case cp_DeleteOnRouteRemoval (ds_CleanupPolicy (cdns_Spec (dcx_DNS dc))) of None \<Rightarrow> True | Some b \<Rightarrow> b)"

definition ShouldDeleteOnResourceRemoval :: "'c DNSContext \<Rightarrow> bool" where
  "ShouldDeleteOnResourceRemoval dc =
     (case cp_DeleteOnResourceRemoval (ds_CleanupPolicy (cdns_Spec (dcx_DNS dc))) of None \<Rightarrow> True | Some b \<Rightarrow> b)"

definition OnlyDeleteManaged :: "'c DNSContext \<Rightarrow> bool" where
  "OnlyDeleteManaged dc =
     (case cp_OnlyManaged (ds_CleanupPolicy (cdns_Spec (dcx_DNS dc))) of None \<Rightarrow> True | Some b \<Rightarrow> b)"

definition BuildDNSContext :: "'w K8sReader \<Rightarrow> 'c \<Rightarrow> NamespacedName \<Rightarrow> ('w, 'c DNSContext option res) io" where
  "BuildDNSContext k dnsClient ref = do {
     r \<leftarrow> kr_GetDNS k ref;
     case r of
       Inl err \<Rightarrow> if IsNotFound err then ret (Inr None) else ret (Inl (wrapf ''fetching dns'' err))
     | Inr dns \<Rightarrow> do {
         c \<leftarrow> NewDNSContext k dns dnsClient;
         ret (map_sum id Some c)
       }
   }"

section \<open>Lemmas\<close>

text \<open>A target that resolved was read under its key, and is in the policy's namespace or covered by a
  grant of its namespace for its kind.\<close>

definition granted :: "ReferenceGrant list \<Rightarrow> string \<Rightarrow> string \<Rightarrow> bool" where
  "granted grants fromNamespace kind \<longleftrightarrow>
     (\<exists>g \<in> List.set grants. (\<exists>f \<in> List.set (rg_From g). grant_from fromNamespace f) \<and>
        (\<exists>t \<in> List.set (rg_To g). grant_to kind t))"

lemma list_ex_granted:
  "list_ex (\<lambda>g. list_ex (\<lambda>f. grant_from ns f \<and> list_ex (grant_to kind) (rg_To g)) (rg_From g)) grants \<longleftrightarrow>
     granted grants ns kind"
  by (auto simp: list_ex_iff granted_def)

lemma resolveTarget_ref_shape:
  assumes "run_state (resolveTarget_ref k ref ns) w = (t, w')"
  shows "ti_Kind t = pt_Kind ref \<and> ti_Name t = pt_Name ref \<and> (ti_Resolved t \<longleftrightarrow> ti_Error t = None)"
  using assms
  by (auto simp: resolveTarget_ref_def Let_def split: prod.splits sum.splits bool.splits if_splits)

lemma resolveTarget_ref_granted:
  assumes "\<And>n v. fst (run_state (kr_ListGrants k n) v) = grants n"
    and "run_state (resolveTarget_ref k ref ns) w = (t, w')" "ti_Resolved t" "ti_Namespace t \<noteq> ns"
  shows "\<exists>gs. grants (ti_Namespace t) = Inr gs \<and> granted gs ns (ti_Kind t)"
proof -
  let ?n = "case pt_Namespace ref of None \<Rightarrow> ns | Some n \<Rightarrow> if n = '''' then ns else n"
  obtain e w1 where e: "run_state (targetExists k (pt_Kind ref) ?n (pt_Name ref)) w = (e, w1)" by (rule prod.exhaust)
  have n: "ti_Namespace t = ?n"
    using assms(2) by (auto simp: resolveTarget_ref_def Let_def split: prod.splits sum.splits bool.splits if_splits)
  obtain r w2 where r: "run_state (kr_ListGrants k ?n) w1 = (r, w2)" by (rule prod.exhaust)
  with assms(1) have "grants ?n = r" by (metis fst_conv)
  with assms(2-4) e r n show ?thesis
    by (auto simp: resolveTarget_ref_def Let_def checkReferenceGrant_def list_ex_granted
        split: sum.splits bool.splits if_splits)
qed

lemma resolve_refs_targets:
  assumes "\<And>n v. fst (run_state (kr_ListGrants k n) v) = grants n"
    and "run_state (resolve_refs k ns refs) w = (ts, w')"
  shows "map (\<lambda>t. (ti_Kind t, ti_Name t)) ts = map (\<lambda>r. (pt_Kind r, pt_Name r)) refs \<and>
    list_all (\<lambda>t. (ti_Resolved t \<longleftrightarrow> ti_Error t = None) \<and>
      (ti_Resolved t \<longrightarrow> ti_Namespace t = ns \<or>
        (\<exists>gs. grants (ti_Namespace t) = Inr gs \<and> granted gs ns (ti_Kind t)))) ts"
  using assms(2)
proof (induction refs arbitrary: w ts)
  case (Cons ref refs)
  obtain t w1 where t: "run_state (resolveTarget_ref k ref ns) w = (t, w1)" by (rule prod.exhaust)
  obtain us w2 where us: "run_state (resolve_refs k ns refs) w1 = (us, w2)" by (rule prod.exhaust)
  from Cons.prems t us have ts: "ts = t # us" "w2 = w'" by auto
  with Cons.IH [of w1 us] us resolveTarget_ref_shape [OF t] resolveTarget_ref_granted [OF assms(1) t]
  show ?case by auto
qed simp

lemma hostname_set_keys:
  assumes "distinct (map fst m)" "run_state (hostname_set k ts m) w = (m', w')"
  shows "distinct (map fst m')"
  using assms
proof (induction ts arbitrary: m w)
  case (Cons t ts)
  obtain r w1 where r: "run_state (extractHostnamesFromTarget k t) w = (r, w1)" by (rule prod.exhaust)
  show ?case
  proof (cases r)
    case (Inl e)
    with Cons.IH [OF Cons.prems(1)] r Cons.prems(2) show ?thesis by auto
  next
    case (Inr hs)
    with Cons.IH [of "map_puts (map (\<lambda>h. (h, ())) hs) m" w1] r Cons.prems show ?thesis by auto
  qed
qed simp

text \<open>The hostnames of a target when the reads answer the same throughout.\<close>

definition target_hostnames ::
  "(NamespacedName \<Rightarrow> HTTPRoute res) \<Rightarrow> (NamespacedName \<Rightarrow> GRPCRoute res) \<Rightarrow> (NamespacedName \<Rightarrow> Gateway res) \<Rightarrow>
   TargetInfo \<Rightarrow> string set" where
  "target_hostnames http grpc gws t =
     (if ti_Kind t = ''HTTPRoute'' then
        (case http (ti_NamespacedName t) of Inl e \<Rightarrow> {} | Inr r \<Rightarrow> List.set (hr_Hostnames r))
      else if ti_Kind t = ''GRPCRoute'' then
        (case grpc (ti_NamespacedName t) of Inl e \<Rightarrow> {} | Inr r \<Rightarrow> List.set (grpc_Hostnames r))
      else if ti_Kind t = ''Gateway'' then
        (case gws (ti_NamespacedName t) of Inl e \<Rightarrow> {}
         | Inr g \<Rightarrow> {h. \<exists>l \<in> List.set (gw_Listeners g). li_Hostname l = Some h})
      else {})"

lemma set_map_filter_option: "List.set (List.map_filter f xs) = {y. \<exists>x \<in> List.set xs. f x = Some y}"
  by (induction xs) (auto simp: List.map_filter_simps split: option.split)

lemma extractHostnamesFromTarget_set:
  assumes "\<And>n v. fst (run_state (kr_GetHTTPRoute k n) v) = http n"
    and "\<And>n v. fst (run_state (kr_GetGRPCRoute k n) v) = grpc n"
    and "\<And>n v. fst (run_state (kr_GetGateway k n) v) = gws n"
  shows "(case fst (run_state (extractHostnamesFromTarget k t) w) of Inl e \<Rightarrow> {} | Inr hs \<Rightarrow> List.set hs) =
    target_hostnames http grpc gws t"
proof -
  obtain a w1 where a: "run_state (kr_GetHTTPRoute k (ti_NamespacedName t)) w = (a, w1)" by (rule prod.exhaust)
  obtain b w2 where b: "run_state (kr_GetGRPCRoute k (ti_NamespacedName t)) w = (b, w2)" by (rule prod.exhaust)
  obtain c w3 where c: "run_state (kr_GetGateway k (ti_NamespacedName t)) w = (c, w3)" by (rule prod.exhaust)
  have "http (ti_NamespacedName t) = a" "grpc (ti_NamespacedName t) = b" "gws (ti_NamespacedName t) = c"
    using a b c assms by (metis fst_conv)+
  with a b c show ?thesis
    by (auto simp: extractHostnamesFromTarget_def target_hostnames_def set_map_filter_option split: sum.splits)
qed

lemma hostname_set_all:
  assumes "\<And>n v. fst (run_state (kr_GetHTTPRoute k n) v) = http n"
    and "\<And>n v. fst (run_state (kr_GetGRPCRoute k n) v) = grpc n"
    and "\<And>n v. fst (run_state (kr_GetGateway k n) v) = gws n"
  shows "fst ` List.set (fst (run_state (hostname_set k ts m) w)) =
    fst ` List.set m \<union> (\<Union>t \<in> List.set ts. target_hostnames http grpc gws t)"
proof (induction ts arbitrary: m w)
  case (Cons t ts)
  obtain r w1 where r: "run_state (extractHostnamesFromTarget k t) w = (r, w1)" by (rule prod.exhaust)
  with extractHostnamesFromTarget_set [OF assms, of t w]
  have "(case r of Inl e \<Rightarrow> {} | Inr hs \<Rightarrow> List.set hs) = target_hostnames http grpc gws t" by simp
  with r Cons show ?case by (cases r) (auto simp: image_image)
qed simp

section \<open>Properties\<close>

text \<open>C25: No target in another namespace is resolved without a ReferenceGrant. The resolved targets are
  the references of the policy in their order; a target counts as resolved exactly when it has no
  error, and then it is in the policy's namespace or its namespace has a grant from policies of the
  policy's namespace to its kind. (The name a grant may be limited to is not looked at.)\<close>

theorem resolved_targets_granted:
  assumes "\<And>n v. fst (run_state (kr_ListGrants k n) v) = grants n"
    and "run_state (NewAccessPolicyContext k policy) w = (apc, w')"
  shows "map (\<lambda>t. (ti_Kind t, ti_Name t)) (ResolvedTargets apc) =
      map (\<lambda>r. (pt_Kind r, pt_Name r)) (GetTargetRefs policy) \<and>
    countResolved (ResolvedTargets apc) + countFailed (ResolvedTargets apc) = length (GetTargetRefs policy) \<and>
    (\<forall>t \<in> List.set (SuccessfullyResolvedTargets apc).
       ti_Namespace t = om_Namespace (acp_Meta policy) \<or>
       (\<exists>gs. grants (ti_Namespace t) = Inr gs \<and> granted gs (om_Namespace (acp_Meta policy)) (ti_Kind t)))"
proof -
  obtain ts w1 where ts: "run_state (resolve_refs k (om_Namespace (acp_Meta policy)) (GetTargetRefs policy)) w = (ts, w1)"
    by (rule prod.exhaust)
  have apc: "apc_resolvedTargets apc = ts" using assms(2) ts
    by (auto simp: NewAccessPolicyContext_def resolveTargets_def)
  have len: "length ts = length (GetTargetRefs policy)"
    using resolve_refs_targets [OF assms(1) ts] by (auto dest: map_eq_imp_length_eq)
  have "countResolved ts + countFailed ts = length ts"
    if "list_all (\<lambda>t. ti_Resolved t \<longleftrightarrow> ti_Error t = None) ts" for ts
    using that by (induction ts) (auto simp: countResolved_def countFailed_def target_ok_def)
  then have "countResolved ts + countFailed ts = length ts"
    using resolve_refs_targets [OF assms(1) ts] by (simp add: list_all_iff)
  with len resolve_refs_targets [OF assms(1) ts] apc show ?thesis
    by (auto simp: ResolvedTargets_def SuccessfullyResolvedTargets_def target_ok_def list_all_iff)
qed

definition wit_target_policy :: CloudflareAccessPolicy where
  "wit_target_policy = wit_policy\<lparr>acp_Spec := (acp_Spec wit_policy)\<lparr>as_TargetRef := Some
     \<lparr>pt_Group = ''gateway.networking.k8s.io'', pt_Kind = ''HTTPRoute'', pt_Name = ''web'',
      pt_Namespace = Some ''apps'', pt_SectionName = None\<rparr>\<rparr>\<rparr>"

definition wit_grant :: ReferenceGrant where
  "wit_grant = \<lparr>rg_Namespace = ''apps'',
     rg_From = [\<lparr>rgf_Group = ''cfgate.io'', rgf_Kind = ''CloudflareAccessPolicy'', rgf_Namespace = ''infra''\<rparr>],
     rg_To = [\<lparr>rgt_Group = ''gateway.networking.k8s.io'', rgt_Kind = ''HTTPRoute'', rgt_Name = Some ''other''\<rparr>]\<rparr>"

definition wit_reader :: "'w K8sReader" where
  "wit_reader = \<lparr>kr_GetGateway = (\<lambda>n. ret (Inr wit_gateway)), kr_GetHTTPRoute = (\<lambda>n. ret (Inr wit_route)),
     kr_GetGRPCRoute = (\<lambda>n. ret (Inl down)), kr_GetTCPRoute = (\<lambda>n. ret (Inl down)),
     kr_GetUDPRoute = (\<lambda>n. ret (Inl down)), kr_ListGrants = (\<lambda>n. ret (Inr [wit_grant])),
     kr_GetTunnel = (\<lambda>n. ret (Inl down)), kr_GetDNS = (\<lambda>n. ret (Inl down)),
     kr_GetPolicy = (\<lambda>n. ret (Inr wit_target_policy))\<rparr>"

lemma wit_context:
  "run_state (NewAccessPolicyContext wit_reader wit_target_policy) (w :: int) =
     (\<lparr>apc_Policy = wit_target_policy, apc_resolvedTargets =
        [\<lparr>ti_Kind = ''HTTPRoute'', ti_Namespace = ''apps'', ti_Name = ''web'', ti_Resolved = True,
          ti_SectionName = None, ti_Error = None\<rparr>]\<rparr>, w)"
  by (simp add: NewAccessPolicyContext_def resolveTargets_def GetTargetRefs_def wit_target_policy_def
      wit_policy_def wit_meta_def resolveTarget_ref_def Let_def targetExists_def exists_from_def wit_reader_def
      checkReferenceGrant_def wit_grant_def grant_from_def grant_to_def)

theorem resolved_targets_granted_witness:
  "granted [wit_grant] ''infra'' ''HTTPRoute''"
  using resolved_targets_granted [of wit_reader "\<lambda>n. Inr [wit_grant]", OF _ wit_context]
  by (simp add: wit_reader_def SuccessfullyResolvedTargets_def target_ok_def wit_target_policy_def
      wit_policy_def wit_meta_def)

text \<open>The hostnames of a policy. On a cluster that answers the same throughout, extraction never
  fails and yields, sorted and without duplicates, exactly the hostnames of the HTTP and gRPC
  routes and of the Gateway listeners among the resolved targets that can be read.\<close>

theorem extracted_hostnames_exact:
  assumes "\<And>n v. fst (run_state (kr_GetHTTPRoute k n) v) = http n"
    and "\<And>n v. fst (run_state (kr_GetGRPCRoute k n) v) = grpc n"
    and "\<And>n v. fst (run_state (kr_GetGateway k n) v) = gws n"
  shows "\<exists>hs. fst (run_state (ExtractHostnames k apc) w) = Inr hs \<and> sorted hs \<and> distinct hs \<and>
    List.set hs = (\<Union>t \<in> List.set (SuccessfullyResolvedTargets apc). target_hostnames http grpc gws t)"
proof -
  obtain m w1 where m: "run_state (hostname_set k (SuccessfullyResolvedTargets apc) []) w = (m, w1)"
    by (rule prod.exhaust)
  have "distinct (map fst m)" using hostname_set_keys [OF _ m] by simp
  moreover have "fst ` List.set m = (\<Union>t \<in> List.set (SuccessfullyResolvedTargets apc). target_hostnames http grpc gws t)"
    using hostname_set_all [OF assms, of "SuccessfullyResolvedTargets apc" "[]" w] m by simp
  ultimately show ?thesis using m by (simp add: ExtractHostnames_def)
qed

theorem extracted_hostnames_exact_witness:
  "\<exists>hs. fst (run_state (ExtractHostnames wit_reader (fst (run_state
      (NewAccessPolicyContext wit_reader wit_target_policy) (0 :: int)))) 0) = Inr hs \<and> List.set hs = {''web.example.com''}"
proof -
  have "\<exists>hs. fst (run_state (ExtractHostnames wit_reader (fst (run_state
      (NewAccessPolicyContext wit_reader wit_target_policy) (0 :: int)))) 0) = Inr hs \<and> sorted hs \<and> distinct hs \<and>
    List.set hs = (\<Union>t \<in> List.set (SuccessfullyResolvedTargets (fst (run_state
      (NewAccessPolicyContext wit_reader wit_target_policy) (0 :: int)))).
      target_hostnames (\<lambda>n. Inr wit_route) (\<lambda>n. Inl down) (\<lambda>n. Inr wit_gateway) t)"
    by (rule extracted_hostnames_exact) (simp_all add: wit_reader_def)
  then show ?thesis
    by (auto simp: wit_context SuccessfullyResolvedTargets_def target_ok_def target_hostnames_def wit_route_def)
qed

lemma context_getters:
  assumes "dcx_DNS dc = dns"
  shows "GetPolicy dc = sync_policy dns" "GetOwnerID dc = owner_id dns"
    "GetOwnershipPrefix dc = ownership_prefix dns" "ShouldCreateTXTRecords dc = shouldCreateTXTRecords dns"
    "hs_Explicit (ds_Source (cdns_Spec dns)) = [] \<Longrightarrow> 0 \<le> rd_TTL (ds_Defaults (cdns_Spec dns)) \<Longrightarrow>
       dr_TTL (desired_record dns t h \<lparr>hc_TTL = 0, hc_Proxied = None\<rparr>) = GetDefaultTTL dc"
  using assms
  by (simp_all add: GetPolicy_def sync_policy_def DNSPolicySync_def PolicySync_def Let_def GetOwnerID_def
      owner_id_def GetOwnershipPrefix_def ownership_prefix_def dnsDefaultOwnershipPrefix_def
      ShouldCreateTXTRecords_def shouldCreateTXTRecords_def GetDefaultTTL_def desired_record_def
      BuildCNAMERecord_def)

lemma NewDNSContext_resolves:
  assumes "\<And>n. de_GetTunnel env n = kr_GetTunnel k n"
    and "run_state (resolveTarget env dns) s = (Inr (target, tunnel), s')"
  shows "\<exists>dc. run_state (NewDNSContext k dns client) (ps_world s) = (Inr dc, ps_world s') \<and> dcx_DNS dc = dns \<and>
    dcx_resolvedTunnel dc = tunnel \<and> dcx_tunnelDomain dc = target"
proof (cases "ds_TunnelRef (cdns_Spec dns)")
  case None
  then show ?thesis using assms(2)
    by (auto simp: resolveTarget_def NewDNSContext_def Let_def split: option.splits)
next
  case (Some ref)
  then show ?thesis using assms(2)
    by (auto simp: resolveTarget_def resolveTunnel_def NewDNSContext_def Let_def assms(1)
        split: prod.splits sum.splits if_splits)
qed

text \<open>The DNS context agrees with the DNS controller. Whenever the controller resolves a target, the
  context made for the same resource succeeds with the same tunnel and target; and its policy, owner,
  ownership prefix, TXT setting and default TTL are those the controller computes for itself.\<close>

theorem dns_context_agrees:
  assumes "\<And>n. de_GetTunnel env n = kr_GetTunnel k n"
    and "run_state (resolveTarget env dns) s = (Inr (target, tunnel), s')"
  shows "\<exists>dc. run_state (NewDNSContext k dns client) (ps_world s) = (Inr dc, ps_world s') \<and>
    dcx_resolvedTunnel dc = tunnel \<and> dcx_tunnelDomain dc = target \<and>
    GetPolicy dc = sync_policy dns \<and> GetOwnerID dc = owner_id dns \<and>
    GetOwnershipPrefix dc = ownership_prefix dns \<and> ShouldCreateTXTRecords dc = shouldCreateTXTRecords dns \<and>
    (\<forall>h t. hs_Explicit (ds_Source (cdns_Spec dns)) = [] \<and> 0 \<le> rd_TTL (ds_Defaults (cdns_Spec dns)) \<longrightarrow>
       dr_TTL (desired_record dns t h \<lparr>hc_TTL = 0, hc_Proxied = None\<rparr>) = GetDefaultTTL dc)"
proof -
  obtain dc where dc: "run_state (NewDNSContext k dns client) (ps_world s) = (Inr dc, ps_world s')"
    "dcx_DNS dc = dns" "dcx_resolvedTunnel dc = tunnel" "dcx_tunnelDomain dc = target"
    using NewDNSContext_resolves [OF assms, of client] by (elim exE conjE)
  note get = context_getters [OF dc(2)]
  show ?thesis
  proof (intro exI conjI)
    show "\<forall>h t. hs_Explicit (ds_Source (cdns_Spec dns)) = [] \<and> 0 \<le> rd_TTL (ds_Defaults (cdns_Spec dns)) \<longrightarrow>
       dr_TTL (desired_record dns t h \<lparr>hc_TTL = 0, hc_Proxied = None\<rparr>) = GetDefaultTTL dc"
      using get(5) by blast
  qed (rule dc get(1-4))+
qed

theorem dns_context_agrees_witness:
  "\<exists>dc. run_state (NewDNSContext wit_reader wit_dns ()) (ps_world wit_state) = (Inr dc, ps_world wit_state) \<and>
     dcx_tunnelDomain dc = ''lb.example.net'' \<and> GetOwnerID dc = owner_id wit_dns"
proof -
  have "run_state (resolveTarget wit_env wit_dns) wit_state = (Inr (''lb.example.net'', None), wit_state)"
    by (simp add: resolveTarget_def wit_dns_def)
  from dns_context_agrees [OF _ this, of wit_reader "()"] show ?thesis
    by (auto simp: wit_env_def wit_reader_def)
qed

end
