(* ===== verification/Access_Service.thy ===== *)
theory Access_Service
  imports Access_Types "HOL-Library.Multiset"
begin

text \<open>
  The Access service: the operations of internal/cloudflare/access.go on applications, policies,
  service tokens and mutual TLS certificates. The Access part of the client interface is the
  record \<open>AccessClient\<close>. The order in which Go ranges over the two maps of \<open>SyncPolicies\<close> is a
  parameter. The locale \<open>access_policy_api\<close> states what the service relies on, and a sync is
  proved against it: afterwards an application has exactly the desired policies.
\<close>

section \<open>Applications\<close>

definition update_params :: "CreateApplicationParams \<Rightarrow> UpdateApplicationParams" where
  "update_params params =
     \<lparr>uap_Name = cap_Name params, uap_Domain = cap_Domain params,
      uap_SessionDuration = cap_SessionDuration params, uap_AllowedIdps = cap_AllowedIdps params,
      uap_AutoRedirectToIdentity = cap_AutoRedirectToIdentity params,
      uap_EnableBindingCookie = cap_EnableBindingCookie params,
      uap_HttpOnlyCookieAttribute = cap_HttpOnlyCookieAttribute params,
      uap_SameSiteCookieAttribute = cap_SameSiteCookieAttribute params,
      uap_SkipInterstitial = cap_SkipInterstitial params, uap_LogoURL = cap_LogoURL params,
      uap_AppLauncherVisible = cap_AppLauncherVisible params,
      uap_CustomDenyMessage = cap_CustomDenyMessage params, uap_CustomDenyURL = cap_CustomDenyURL params,
      uap_CORSHeaders = cap_CORSHeaders params,
      uap_OptionsPreflightBypass = cap_OptionsPreflightBypass params,
      uap_PathCookieAttribute = cap_PathCookieAttribute params,
      uap_ServiceAuth401Redirect = cap_ServiceAuth401Redirect params,
      uap_CustomNonIdentityDenyURL = cap_CustomNonIdentityDenyURL params,
      uap_ReadServiceTokensFromHeader = cap_ReadServiceTokensFromHeader params\<rparr>"

text \<open>The identity providers are compared by \<open>reflect.DeepEqual\<close> only when one of the slices is
  not empty, and then nil and empty do not differ from each other.\<close>

definition accessApplicationNeedsUpdate :: "AccessApplication \<Rightarrow> CreateApplicationParams \<Rightarrow> bool" where
  "accessApplicationNeedsUpdate existing desired \<longleftrightarrow>
     aa_Name existing \<noteq> cap_Name desired \<or>
     aa_Domain existing \<noteq> cap_Domain desired \<or>
     aa_SessionDuration existing \<noteq>
       (if cap_SessionDuration desired = '''' then ''24h'' else cap_SessionDuration desired) \<or>
     aa_SkipInterstitial existing \<noteq> cap_SkipInterstitial desired \<or>
     aa_EnableBindingCookie existing \<noteq> cap_EnableBindingCookie desired \<or>
     aa_AutoRedirectToIdentity existing \<noteq> cap_AutoRedirectToIdentity desired \<or>
     aa_AppLauncherVisible existing \<noteq> cap_AppLauncherVisible desired \<or>
     aa_LogoURL existing \<noteq> cap_LogoURL desired \<or>
     aa_CustomDenyMessage existing \<noteq> cap_CustomDenyMessage desired \<or>
     aa_CustomDenyURL existing \<noteq> cap_CustomDenyURL desired \<or>
     aa_CustomNonIdentityDenyURL existing \<noteq> cap_CustomNonIdentityDenyURL desired \<or>
     aa_OptionsPreflightBypass existing \<noteq> cap_OptionsPreflightBypass desired \<or>
     aa_PathCookieAttribute existing \<noteq> cap_PathCookieAttribute desired \<or>
     aa_ServiceAuth401Redirect existing \<noteq> cap_ServiceAuth401Redirect desired \<or>
     aa_ReadServiceTokensFromHeader existing \<noteq> cap_ReadServiceTokensFromHeader desired \<or>
     aa_SameSiteCookieAttribute existing \<noteq>
       (if cap_SameSiteCookieAttribute desired = '''' then ''lax'' else cap_SameSiteCookieAttribute desired) \<or>
     aa_HttpOnlyCookieAttribute existing \<noteq>
       (case cap_HttpOnlyCookieAttribute desired of None \<Rightarrow> True | Some b \<Rightarrow> b) \<or>
     (length (aa_AllowedIdps existing) \<noteq> 0 \<or> length (cap_AllowedIdps desired) \<noteq> 0) \<and>
       aa_AllowedIdps existing \<noteq> cap_AllowedIdps desired \<or>
     aa_CORSHeaders existing \<noteq> cap_CORSHeaders desired"

text \<open>The application and whether it was created.\<close>

definition EnsureApplication ::
  "'w AccessClient \<Rightarrow> string \<Rightarrow> CreateApplicationParams \<Rightarrow> ('w, (AccessApplication \<times> bool) res) io" where
  "EnsureApplication client accountID params = do {
     r \<leftarrow> GetAccessApplicationByName client accountID (cap_Name params);
     case r of
       Inl err \<Rightarrow> ret (Inl (wrapf ''failed to check for existing application'' err))
     | Inr (Some existing) \<Rightarrow>
         if accessApplicationNeedsUpdate existing params then do {
           u \<leftarrow> UpdateAccessApplication client accountID (aa_ID existing) (update_params params);
           case u of
             Inl err \<Rightarrow> ret (Inl (wrapf ''failed to update application'' err))
           | Inr updated \<Rightarrow> ret (Inr (updated, False))
         }
         else ret (Inr (existing, False))
     | Inr None \<Rightarrow> do {
         a \<leftarrow> CreateAccessApplication client accountID params;
         case a of
           Inl err \<Rightarrow> ret (Inl (wrapf ''failed to create application'' err))
         | Inr app \<Rightarrow> ret (Inr (app, True))
       }
   }"

definition DeleteApplication :: "'w AccessClient \<Rightarrow> string \<Rightarrow> string \<Rightarrow> ('w, unit res) io" where
  "DeleteApplication client accountID appID = do {
     r \<leftarrow> DeleteAccessApplication client accountID appID;
     case r of
       Inl err \<Rightarrow> ret (Inl (wrapf ''failed to delete access application'' err))
     | Inr _ \<Rightarrow> ret (Inr ())
   }"

section \<open>Policies\<close>

definition accessPolicyEqual :: "AccessPolicy \<Rightarrow> CreatePolicyParams \<Rightarrow> bool" where
  "accessPolicyEqual existing desired \<longleftrightarrow>
     ap_Name existing = cpp_Name desired \<and>
     ap_Decision existing = cpp_Decision desired \<and>
     ap_Precedence existing = cpp_Precedence desired \<and>
     ap_SessionDuration existing = cpp_SessionDuration desired \<and>
     ap_PurposeJustificationRequired existing = cpp_PurposeJustificationRequired desired \<and>
     ap_PurposeJustificationPrompt existing = cpp_PurposeJustificationPrompt desired \<and>
     ap_ApprovalRequired existing = cpp_ApprovalRequired desired \<and>
     ap_Include existing = cpp_Include desired \<and>
     ap_Exclude existing = cpp_Exclude desired \<and>
     ap_Require existing = cpp_Require desired \<and>
     ap_ApprovalGroups existing = cpp_ApprovalGroups desired"

text \<open>The orders in which one run of \<open>SyncPolicies\<close> ranges over its maps.\<close>

record 'w PolicyRange =
  range_existing :: "(string \<times> AccessPolicy) list \<Rightarrow> ('w, (string \<times> AccessPolicy) list) io"
  range_desired :: "(string \<times> CreatePolicyParams) list \<Rightarrow> ('w, (string \<times> CreatePolicyParams) list) io"

definition existing_by_name :: "AccessPolicy list \<Rightarrow> (string \<times> AccessPolicy) list" where
  "existing_by_name ps = map_puts (map (\<lambda>p. (ap_Name p, p)) ps) []"

definition desired_by_name :: "CreatePolicyParams list \<Rightarrow> (string \<times> CreatePolicyParams) list" where
  "desired_by_name ps = map_puts (map (\<lambda>p. (cpp_Name p, p)) ps) []"

fun delete_policies ::
  "'w AccessClient \<Rightarrow> string \<Rightarrow> string \<Rightarrow> (string \<times> CreatePolicyParams) list \<Rightarrow>
   (string \<times> AccessPolicy) list \<Rightarrow> ('w, unit res) io" where
  "delete_policies client accountID appID desired [] = ret (Inr ())"
| "delete_policies client accountID appID desired ((name, policy) # rest) =
     (if map_of desired name = None then do {
        r \<leftarrow> DeleteAccessPolicy client accountID appID (ap_ID policy);
        case r of
          Inl err \<Rightarrow> ret (Inl (wrapf (''failed to delete policy '' @ name) err))
        | Inr _ \<Rightarrow> delete_policies client accountID appID desired rest
      }
      else delete_policies client accountID appID desired rest)"

fun apply_policies ::
  "'w AccessClient \<Rightarrow> string \<Rightarrow> string \<Rightarrow> (string \<times> AccessPolicy) list \<Rightarrow>
   (string \<times> CreatePolicyParams) list \<Rightarrow> string list \<Rightarrow> ('w, string list res) io" where
  "apply_policies client accountID appID existing [] resultIDs = ret (Inr resultIDs)"
| "apply_policies client accountID appID existing ((name, params) # rest) resultIDs =
     (case map_of existing name of
        Some existingPolicy \<Rightarrow>
          if \<not> accessPolicyEqual existingPolicy params then do {
            r \<leftarrow> UpdateAccessPolicy client accountID appID (ap_ID existingPolicy) params;
            case r of
              Inl err \<Rightarrow> ret (Inl (wrapf (''failed to update policy '' @ name) err))
            | Inr updated \<Rightarrow> apply_policies client accountID appID existing rest (resultIDs @ [ap_ID updated])
          }
          else apply_policies client accountID appID existing rest (resultIDs @ [ap_ID existingPolicy])
      | None \<Rightarrow> do {
          r \<leftarrow> CreateAccessPolicy client accountID appID params;
          case r of
            Inl err \<Rightarrow> ret (Inl (wrapf (''failed to create policy '' @ name) err))
          | Inr created \<Rightarrow> apply_policies client accountID appID existing rest (resultIDs @ [ap_ID created])
        })"

definition SyncPolicies ::
  "'w AccessClient \<Rightarrow> 'w PolicyRange \<Rightarrow> string \<Rightarrow> string \<Rightarrow> CreatePolicyParams list \<Rightarrow>
   ('w, string list res) io" where
  "SyncPolicies client rng accountID appID desired = do {
     r \<leftarrow> ListAccessPolicies client accountID appID;
     case r of
       Inl err \<Rightarrow> ret (Inl (wrapf ''failed to list existing policies'' err))
     | Inr existing \<Rightarrow> do {
         let existingByName = existing_by_name existing;
         let desiredByName = desired_by_name desired;
         es \<leftarrow> range_existing rng existingByName;
         d \<leftarrow> delete_policies client accountID appID desiredByName es;
         case d of
           Inl err \<Rightarrow> ret (Inl err)
         | Inr _ \<Rightarrow> do {
             ds \<leftarrow> range_desired rng desiredByName;
             apply_policies client accountID appID existingByName ds []
           }
       }
   }"

section \<open>Service tokens\<close>

type_synonym 'w SecretWriter = "string \<Rightarrow> strmap \<Rightarrow> ('w, unit res) io"

definition token_secret :: "ServiceTokenWithSecret \<Rightarrow> strmap" where
  "token_secret t = [(''CF_ACCESS_CLIENT_ID'', st_ClientID (sts_Token t)),
                     (''CF_ACCESS_CLIENT_SECRET'', sts_ClientSecret t)]"

definition store_token ::
  "'w SecretWriter option \<Rightarrow> string \<Rightarrow> ServiceTokenWithSecret \<Rightarrow> ('w, ServiceToken res) io" where
  "store_token secretWriter name t =
     (case secretWriter of
        None \<Rightarrow> ret (Inr (sts_Token t))
      | Some write \<Rightarrow> do {
          r \<leftarrow> write name (token_secret t);
          case r of
            Inl err \<Rightarrow> ret (Inl (wrapf ''failed to store service token secret'' err))
          | Inr _ \<Rightarrow> ret (Inr (sts_Token t))
        })"

text \<open>\<open>now\<close> is the clock.\<close>

definition EnsureServiceToken ::
  "'w AccessClient \<Rightarrow> ('w, int) io \<Rightarrow> string \<Rightarrow> CreateServiceTokenParams \<Rightarrow> 'w SecretWriter option \<Rightarrow>
   ('w, ServiceToken res) io" where
  "EnsureServiceToken client clock accountID params secretWriter = do {
     r \<leftarrow> ListServiceTokens client accountID;
     case r of
       Inl err \<Rightarrow> ret (Inl (wrapf ''failed to list service tokens'' err))
     | Inr tokens \<Rightarrow>
         (case find (\<lambda>t. st_TokenName t = cst_Name params) tokens of
            Some existing \<Rightarrow> do {
              now \<leftarrow> clock;
              if st_ExpiresAt existing < now then do {
                rot \<leftarrow> RotateServiceToken client accountID (st_TokenID existing);
                case rot of
                  Inl err \<Rightarrow> ret (Inl (wrapf ''failed to rotate service token'' err))
                | Inr rotated \<Rightarrow> store_token secretWriter (cst_Name params) rotated
              }
              else ret (Inr existing)
            }
          | None \<Rightarrow> do {
              c \<leftarrow> CreateServiceToken client accountID params;
              case c of
                Inl err \<Rightarrow> ret (Inl (wrapf ''failed to create service token'' err))
              | Inr created \<Rightarrow> store_token secretWriter (cst_Name params) created
            })
   }"

section \<open>Certificates\<close>

definition EnsureMTLSCertificate ::
  "'w AccessClient \<Rightarrow> string \<Rightarrow> CreateCertificateParams \<Rightarrow> ('w, (MTLSCertificate \<times> bool) res) io" where
  "EnsureMTLSCertificate client accountID params = do {
     r \<leftarrow> ListMTLSCertificates client accountID;
     case r of
       Inl err \<Rightarrow> ret (Inl (wrapf ''failed to list mTLS certificates'' err))
     | Inr certs \<Rightarrow>
         (case find (\<lambda>c. mc_Name c = ccp_Name params) certs of
            Some cert \<Rightarrow> ret (Inr (cert, False))
          | None \<Rightarrow> do {
              c \<leftarrow> CreateMTLSCertificate client accountID params;
              case c of
                Inl err \<Rightarrow> ret (Inl (wrapf ''failed to create mTLS certificate'' err))
              | Inr cert \<Rightarrow> ret (Inr (cert, True))
            })
   }"

definition UpdateMTLSHostnames ::
  "'w AccessClient \<Rightarrow> string \<Rightarrow> string list \<Rightarrow> bool \<Rightarrow> ('w, unit res) io" where
  "UpdateMTLSHostnames client accountID hostnames enableForwarding = do {
     r \<leftarrow> UpdateMTLSCertificateSettings client accountID
            (map (\<lambda>h. \<lparr>cs_Hostname = h, cs_ChinaNetwork = False,
                       cs_ClientCertificateForwarding = enableForwarding\<rparr>) hostnames);
     case r of
       Inl err \<Rightarrow> ret (Inl (wrapf ''failed to update mTLS certificate settings'' err))
     | Inr _ \<Rightarrow> ret (Inr ())
   }"

section \<open>The contract of the policy operations\<close>

definition policies_by_name :: "AccessPolicy list \<Rightarrow> (string \<rightharpoonup> AccessPolicy)" where
  "policies_by_name ps = map_of (map (\<lambda>p. (ap_Name p, p)) ps)"

definition policies_wf :: "AccessPolicy list \<Rightarrow> bool" where
  "policies_wf ps \<longleftrightarrow> distinct (map ap_ID ps) \<and> distinct (map ap_Name ps)"

text \<open>Ranging over a map visits every entry once, in some order, and has no effect.\<close>

definition ranges_over_maps :: "'w PolicyRange \<Rightarrow> bool" where
  "ranges_over_maps rng \<longleftrightarrow>
     (\<forall>m w m' w'. run_state (range_existing rng m) w = (m', w') \<longrightarrow> mset m' = mset m \<and> w' = w) \<and>
     (\<forall>m w m' w'. run_state (range_desired rng m) w = (m', w') \<longrightarrow> mset m' = mset m \<and> w' = w)"

locale access_policy_api =
  fixes client :: "'w AccessClient"
    and accountID :: string
    and appID :: string
    and pols :: "'w \<Rightarrow> AccessPolicy list"
    and shown :: "CreatePolicyParams \<Rightarrow> AccessPolicy \<Rightarrow> bool"
  assumes shown_name: "shown d p \<Longrightarrow> ap_Name p = cpp_Name d"
    and list_pols: "run_state (ListAccessPolicies client accountID appID) w = (r, w') \<Longrightarrow>
      pols w' = pols w \<and> (\<forall>ps. r = Inr ps \<longrightarrow> ps = pols w)"
    and delete_pols: "run_state (DeleteAccessPolicy client accountID appID i) w = (Inr u, w') \<Longrightarrow>
      pols w' = filter (\<lambda>p. ap_ID p \<noteq> i) (pols w)"
    and update_pols: "run_state (UpdateAccessPolicy client accountID appID i d) w = (Inr p, w') \<Longrightarrow>
      shown d p \<and> ap_ID p = i \<and> pols w' = map (\<lambda>q. if ap_ID q = i then p else q) (pols w)"
    and create_pols: "run_state (CreateAccessPolicy client accountID appID d) w = (Inr p, w') \<Longrightarrow>
      shown d p \<and> ap_ID p \<notin> ap_ID ` List.set (pols w) \<and> pols w' = pols w @ [p]"

text \<open>The lists of policies behind the three writing calls, as maps by name.\<close>

lemma policies_by_name_Some:
  "policies_wf ps \<Longrightarrow> policies_by_name ps n = Some p \<longleftrightarrow> p \<in> List.set ps \<and> ap_Name p = n"
  by (auto simp: policies_by_name_def policies_wf_def comp_def dest: map_of_SomeD)

lemma policies_by_name_None:
  "policies_by_name ps n = None \<longleftrightarrow> n \<notin> ap_Name ` List.set ps"
  by (auto simp: policies_by_name_def map_of_eq_None_iff image_image)

lemma policies_wf_filter: "policies_wf ps \<Longrightarrow> policies_wf (filter P ps)"
  by (auto simp: policies_wf_def distinct_map inj_on_def)

lemma option_eqI: "(\<And>v. a = Some v \<longleftrightarrow> b = Some v) \<Longrightarrow> a = b"
  by (cases a) (auto dest: sym)

lemma policies_wf_inj:
  "policies_wf ps \<Longrightarrow> p \<in> List.set ps \<Longrightarrow> q \<in> List.set ps \<Longrightarrow>
     ap_ID q = ap_ID p \<or> ap_Name q = ap_Name p \<Longrightarrow> q = p"
  by (auto simp: policies_wf_def distinct_map inj_on_def)

lemma policies_by_name_delete:
  assumes "policies_wf ps" "p \<in> List.set ps"
  shows "policies_by_name (filter (\<lambda>q. ap_ID q \<noteq> ap_ID p) ps) = (policies_by_name ps)(ap_Name p := None)"
proof (rule ext, rule option_eqI)
  fix n q
  show "policies_by_name (filter (\<lambda>q. ap_ID q \<noteq> ap_ID p) ps) n = Some q \<longleftrightarrow>
      ((policies_by_name ps)(ap_Name p := None)) n = Some q"
    using policies_wf_inj [OF assms, of q] assms(1)
    by (auto simp: policies_by_name_Some policies_wf_filter)
qed

lemma policies_update:
  assumes "policies_wf ps" "e \<in> List.set ps" "ap_ID p = ap_ID e" "ap_Name p = ap_Name e"
  shows "policies_wf (map (\<lambda>q. if ap_ID q = ap_ID e then p else q) ps) \<and>
    policies_by_name (map (\<lambda>q. if ap_ID q = ap_ID e then p else q) ps) = (policies_by_name ps)(ap_Name e \<mapsto> p)"
proof -
  let ?f = "\<lambda>q. if ap_ID q = ap_ID e then p else q"
  have "map ap_ID (map ?f ps) = map ap_ID ps" "map ap_Name (map ?f ps) = map ap_Name ps"
    using policies_wf_inj [OF assms(1,2)] assms(3,4) by auto
  then have wf: "policies_wf (map ?f ps)" using assms(1) by (simp only: policies_wf_def)
  have mem: "q \<in> List.set (map ?f ps) \<longleftrightarrow> q = p \<or> q \<in> List.set ps \<and> q \<noteq> e" for q
  proof
    assume "q \<in> List.set (map ?f ps)"
    then show "q = p \<or> q \<in> List.set ps \<and> q \<noteq> e" by (auto split: if_splits)
  next
    assume "q = p \<or> q \<in> List.set ps \<and> q \<noteq> e"
    then show "q \<in> List.set (map ?f ps)"
    proof
      assume "q = p"
      moreover have "?f e \<in> List.set (map ?f ps)" using assms(2) unfolding list.set_map by (rule imageI)
      ultimately show ?thesis by simp
    next
      assume q: "q \<in> List.set ps \<and> q \<noteq> e"
      then have "?f q = q" using policies_wf_inj [OF assms(1,2), of q] by auto
      moreover have "?f q \<in> List.set (map ?f ps)" using q unfolding list.set_map by (blast intro: imageI)
      ultimately show ?thesis by simp
    qed
  qed
  have "policies_by_name (map ?f ps) n = Some q \<longleftrightarrow> ((policies_by_name ps)(ap_Name e \<mapsto> p)) n = Some q" for n q
    using policies_wf_inj [OF assms(1,2), of q] assms(4)
    unfolding policies_by_name_Some [OF wf] mem by (auto simp: policies_by_name_Some [OF assms(1)])
  then show ?thesis using wf by (blast intro: ext option_eqI)
qed

lemma policies_create:
  assumes "policies_wf ps" "ap_ID p \<notin> ap_ID ` List.set ps" "policies_by_name ps (ap_Name p) = None"
  shows "policies_wf (ps @ [p]) \<and> policies_by_name (ps @ [p]) = (policies_by_name ps)(ap_Name p \<mapsto> p)"
proof -
  have "policies_wf (ps @ [p])" using assms by (auto simp: policies_wf_def policies_by_name_None)
  moreover have "policies_by_name (ps @ [p]) n = ((policies_by_name ps)(ap_Name p \<mapsto> p)) n" for n
    using assms(3) by (auto simp: policies_by_name_def map_add_def split: option.splits)
  ultimately show ?thesis by blast
qed

lemma map_puts_distinct:
  "distinct (map fst kvs) \<Longrightarrow> fst ` List.set kvs \<inter> fst ` List.set m = {} \<Longrightarrow> map_puts kvs m = m @ kvs"
proof (induction kvs arbitrary: m)
  case (Cons x kvs)
  obtain k v where x: "x = (k, v)" by (cases x)
  have "map_put k v m = m @ [(k, v)]" if "k \<notin> fst ` List.set m" for m :: "('a \<times> 'b) list"
    using that by (induction m) auto
  with Cons x show ?case by auto
qed simp

lemma existing_by_name_wf:
  "policies_wf ps \<Longrightarrow> existing_by_name ps = map (\<lambda>p. (ap_Name p, p)) ps"
  by (simp add: existing_by_name_def policies_wf_def map_puts_distinct comp_def)

lemma desired_by_name_keys:
  "distinct (map fst (desired_by_name ds))"
  "fst ` List.set (desired_by_name ds) = cpp_Name ` List.set ds"
  by (simp_all add: desired_by_name_def image_image)

lemma desired_by_name_name:
  assumes "(n, d) \<in> List.set (desired_by_name ds)"
  shows "cpp_Name d = n \<and> d \<in> List.set ds"
proof -
  have "map_of (desired_by_name ds) n = Some d"
    using assms desired_by_name_keys(1) by simp
  then have "map_of (rev (map (\<lambda>p. (cpp_Name p, p)) ds)) n = Some d"
    by (simp add: desired_by_name_def map_of_map_puts)
  then show ?thesis by (auto dest!: map_of_SomeD)
qed

lemma same_entries:
  "mset xs = mset ys \<Longrightarrow> distinct (map fst ys) \<Longrightarrow> List.set xs = List.set ys \<and> distinct (map fst xs)"
  using mset_eq_setD [of xs ys] mset_eq_imp_distinct_iff [of "map fst xs" "map fst ys"] by (metis mset_map)

text \<open>The phases of a sync that succeeds.\<close>

lemma SyncPolicies_phases:
  assumes "run_state (SyncPolicies client rng accountID appID desired) w = (Inr ids, w')" "ranges_over_maps rng"
  obtains ps w1 es u w2 ds where
    "run_state (ListAccessPolicies client accountID appID) w = (Inr ps, w1)"
    "mset es = mset (existing_by_name ps)"
    "run_state (delete_policies client accountID appID (desired_by_name desired) es) w1 = (Inr u, w2)"
    "mset ds = mset (desired_by_name desired)"
    "run_state (apply_policies client accountID appID (existing_by_name ps) ds []) w2 = (Inr ids, w')"
proof -
  obtain r w1 where r: "run_state (ListAccessPolicies client accountID appID) w = (r, w1)" by (rule prod.exhaust)
  with assms(1) obtain ps where ps: "r = Inr ps" by (cases r) (auto simp: SyncPolicies_def)
  obtain es w1' where es0: "run_state (range_existing rng (existing_by_name ps)) w1 = (es, w1')"
    by (rule prod.exhaust)
  then have es: "mset es = mset (existing_by_name ps)" "w1' = w1" using assms(2) by (auto simp: ranges_over_maps_def)
  obtain d w2 where d: "run_state (delete_policies client accountID appID (desired_by_name desired) es) w1 = (d, w2)"
    by (rule prod.exhaust)
  with assms(1) r ps es0 es(2) obtain u where u: "d = Inr u" by (cases d) (auto simp: SyncPolicies_def Let_def)
  obtain ds w2' where ds0: "run_state (range_desired rng (desired_by_name desired)) w2 = (ds, w2')"
    by (rule prod.exhaust)
  then have ds: "mset ds = mset (desired_by_name desired)" "w2' = w2"
    using assms(2) by (auto simp: ranges_over_maps_def)
  have "run_state (apply_policies client accountID appID (existing_by_name ps) ds []) w2 = (Inr ids, w')"
    using assms(1) r ps es0 es(2) d u ds0 ds(2) by (simp add: SyncPolicies_def Let_def)
  with r ps es(1) d u ds(1) that show thesis by blast
qed

section \<open>A sync against the contract\<close>

context access_policy_api
begin

text \<open>A policy realises desired parameters when it was written with them or compares equal to them.\<close>

definition realises :: "CreatePolicyParams \<Rightarrow> AccessPolicy \<Rightarrow> bool" where
  "realises d p \<longleftrightarrow> shown d p \<or> accessPolicyEqual p d"

lemma delete_policies_effect:
  assumes "run_state (delete_policies client accountID appID desired es) w = (Inr u, w')"
    and "policies_wf (pols w)" "distinct (map fst es)"
    and "\<And>n p. (n, p) \<in> List.set es \<Longrightarrow> policies_by_name (pols w) n = Some p"
  shows "policies_wf (pols w') \<and> policies_by_name (pols w') =
    (\<lambda>n. if n \<in> fst ` List.set es \<and> map_of desired n = None then None else policies_by_name (pols w) n)"
  using assms
proof (induction es arbitrary: w)
  case (Cons e es)
  obtain n p where e: "e = (n, p)" by (cases e)
  show ?case
  proof (cases "map_of desired n")
    case (Some d)
    then have "run_state (delete_policies client accountID appID desired es) w = (Inr u, w')"
      using Cons.prems(1) e by simp
    from Cons.IH [OF this Cons.prems(2)] Cons.prems(3,4) Some e show ?thesis by (auto simp: fun_eq_iff)
  next
    case None
    obtain r w1 where r: "run_state (DeleteAccessPolicy client accountID appID (ap_ID p)) w = (r, w1)"
      by (rule prod.exhaust)
    with Cons.prems(1) e None obtain v where v: "r = Inr v"
      and rest: "run_state (delete_policies client accountID appID desired es) w1 = (Inr u, w')"
      by (cases r) auto
    have p: "p \<in> List.set (pols w)" "ap_Name p = n"
      using Cons.prems(4) [of n p] e policies_by_name_Some [OF Cons.prems(2)] by auto
    have d: "pols w1 = filter (\<lambda>q. ap_ID q \<noteq> ap_ID p) (pols w)" using delete_pols r v by blast
    then have w1: "policies_wf (pols w1)" "policies_by_name (pols w1) = (policies_by_name (pols w))(n := None)"
      using policies_by_name_delete [OF Cons.prems(2) p(1)] p(2) policies_wf_filter [OF Cons.prems(2)] by simp_all
    have "distinct (map fst es)" "n \<notin> fst ` List.set es" using Cons.prems(3) e by simp_all
    moreover from this have "(m, q) \<in> List.set es \<Longrightarrow> policies_by_name (pols w1) m = Some q" for m q
      using Cons.prems(4) [of m q] w1(2) by force
    ultimately show ?thesis using Cons.IH [OF rest w1(1)] w1(2) None e by (auto simp: fun_eq_iff)
  qed
qed auto

lemma apply_policies_effect:
  assumes "run_state (apply_policies client accountID appID ex ds ids) w = (Inr ids', w')"
    and "policies_wf (pols w)" "distinct (map fst ds)"
    and "\<And>n d. (n, d) \<in> List.set ds \<Longrightarrow> cpp_Name d = n \<and> map_of ex n = policies_by_name (pols w) n"
  shows "policies_wf (pols w') \<and>
    (\<forall>n. n \<notin> fst ` List.set ds \<longrightarrow> policies_by_name (pols w') n = policies_by_name (pols w) n) \<and>
    (\<forall>(n, d) \<in> List.set ds. \<exists>p. policies_by_name (pols w') n = Some p \<and> realises d p) \<and>
    ids' = ids @ map (\<lambda>(n, d). ap_ID (the (policies_by_name (pols w') n))) ds"
  using assms
proof (induction ds arbitrary: w ids)
  case (Cons x ds)
  obtain n d where x: "x = (n, d)" by (cases x)
  have name: "cpp_Name d = n" and ex: "map_of ex n = policies_by_name (pols w) n"
    using Cons.prems(4) [of n d] x by auto
  have n: "n \<notin> fst ` List.set ds" "distinct (map fst ds)" using Cons.prems(3) x by simp_all
  text \<open>One step puts a realising policy under the name and leaves the other names alone.\<close>
  have "\<exists>p w1. realises d p \<and> policies_wf (pols w1) \<and>
      policies_by_name (pols w1) = (policies_by_name (pols w))(n \<mapsto> p) \<and>
      run_state (apply_policies client accountID appID ex ds (ids @ [ap_ID p])) w1 = (Inr ids', w')"
  proof (cases "map_of ex n")
    case None
    obtain r w1 where r: "run_state (CreateAccessPolicy client accountID appID d) w = (r, w1)"
      by (rule prod.exhaust)
    with Cons.prems(1) x None obtain p where p: "r = Inr p"
      "run_state (apply_policies client accountID appID ex ds (ids @ [ap_ID p])) w1 = (Inr ids', w')"
      by (cases r) auto
    from create_pols [OF r [unfolded p(1)]]
    have c: "shown d p" "ap_ID p \<notin> ap_ID ` List.set (pols w)" "pols w1 = pols w @ [p]" by auto
    then have "ap_Name p = n" using shown_name name by auto
    with c policies_create [OF Cons.prems(2) c(2)] None ex p(2) show ?thesis
      by (intro exI [of _ p] exI [of _ w1]) (simp add: realises_def)
  next
    case (Some e)
    with ex have "policies_by_name (pols w) n = Some e" by simp
    then have e: "e \<in> List.set (pols w)" "ap_Name e = n"
      using policies_by_name_Some [OF Cons.prems(2)] by auto
    show ?thesis
    proof (cases "accessPolicyEqual e d")
      case True
      then show ?thesis using Cons.prems(1,2) x Some ex
        by (intro exI [of _ e] exI [of _ w]) (simp add: realises_def fun_upd_idem)
    next
      case False
      obtain r w1 where r: "run_state (UpdateAccessPolicy client accountID appID (ap_ID e) d) w = (r, w1)"
        by (rule prod.exhaust)
      with Cons.prems(1) x Some False obtain p where p: "r = Inr p"
        "run_state (apply_policies client accountID appID ex ds (ids @ [ap_ID p])) w1 = (Inr ids', w')"
        by (cases r) auto
      from update_pols [OF r [unfolded p(1)]] have u: "shown d p" "ap_ID p = ap_ID e"
        "pols w1 = map (\<lambda>q. if ap_ID q = ap_ID e then p else q) (pols w)" by auto
      then have "ap_Name p = ap_Name e" using shown_name name e(2) by auto
      with policies_update [OF Cons.prems(2) e(1) u(2)] u e(2) p(2) show ?thesis
        by (intro exI [of _ p] exI [of _ w1]) (simp add: realises_def)
    qed
  qed
  then obtain p w1 where p: "realises d p" "policies_wf (pols w1)"
    "policies_by_name (pols w1) = (policies_by_name (pols w))(n \<mapsto> p)"
    "run_state (apply_policies client accountID appID ex ds (ids @ [ap_ID p])) w1 = (Inr ids', w')"
    by blast
  have "(m, d') \<in> List.set ds \<Longrightarrow> cpp_Name d' = m \<and> map_of ex m = policies_by_name (pols w1) m" for m d'
    using Cons.prems(4) [of m d'] x n(1) p(3) by force
  from Cons.IH [OF p(4,2) n(2) this] p(1,3) n(1) x show ?case by auto
qed auto

lemma SyncPolicies_maps:
  assumes "run_state (SyncPolicies client rng accountID appID desired) w = (Inr ids, w')"
    and "policies_wf (pols w)" "ranges_over_maps rng"
  obtains ds where "mset ds = mset (desired_by_name desired)" "policies_wf (pols w')"
    "\<And>n. n \<notin> fst ` List.set ds \<Longrightarrow> policies_by_name (pols w') n = None"
    "\<And>n d. (n, d) \<in> List.set ds \<Longrightarrow> \<exists>p. policies_by_name (pols w') n = Some p \<and> realises d p"
    "ids = map (\<lambda>(n, d). ap_ID (the (policies_by_name (pols w') n))) ds"
proof -
  let ?D = "desired_by_name desired"
  obtain ps w1 es u w2 ds where
    l: "run_state (ListAccessPolicies client accountID appID) w = (Inr ps, w1)"
    and es: "mset es = mset (existing_by_name ps)"
    and d: "run_state (delete_policies client accountID appID ?D es) w1 = (Inr u, w2)"
    and ds: "mset ds = mset ?D"
    and run: "run_state (apply_policies client accountID appID (existing_by_name ps) ds []) w2 = (Inr ids, w')"
    using SyncPolicies_phases [OF assms(1,3)] by blast
  from list_pols [OF l] have w1: "pols w1 = pols w" "ps = pols w" by auto
  have E: "existing_by_name ps = map (\<lambda>p. (ap_Name p, p)) (pols w)"
    using existing_by_name_wf [OF assms(2)] w1(2) by simp
  have es': "List.set es = List.set (existing_by_name ps) \<and> distinct (map fst es)"
    using same_entries [OF es] E assms(2) by (simp add: policies_wf_def comp_def)
  have ds': "List.set ds = List.set ?D \<and> distinct (map fst ds)"
    using same_entries [OF ds desired_by_name_keys(1)] .
  have "policies_wf (pols w2) \<and> policies_by_name (pols w2) =
      (\<lambda>n. if n \<in> fst ` List.set es \<and> map_of ?D n = None then None else policies_by_name (pols w1) n)"
    using d w1 es' E assms(2) policies_by_name_Some [OF assms(2)]
    by (intro delete_policies_effect) auto
  moreover have "fst ` List.set es = ap_Name ` List.set (pols w)" using es' E by (simp add: image_image)
  ultimately have w2: "policies_wf (pols w2)"
    "policies_by_name (pols w2) = (\<lambda>n. if map_of ?D n = None then None else policies_by_name (pols w) n)"
    using w1 by (auto simp: fun_eq_iff policies_by_name_None)
  have "cpp_Name d = n \<and> map_of (existing_by_name ps) n = policies_by_name (pols w2) n"
    if "(n, d) \<in> List.set ds" for n d
    using that ds' w2(2) E desired_by_name_name [of n d desired] desired_by_name_keys(1) [of desired]
    by (auto simp: policies_by_name_def map_of_eq_None_iff image_iff)
  from apply_policies_effect [OF run w2(1) _ this] ds'
  have result: "policies_wf (pols w')"
    "\<forall>n. n \<notin> fst ` List.set ds \<longrightarrow> policies_by_name (pols w') n = policies_by_name (pols w2) n"
    "\<forall>(n, d) \<in> List.set ds. \<exists>p. policies_by_name (pols w') n = Some p \<and> realises d p"
    "ids = map (\<lambda>(n, d). ap_ID (the (policies_by_name (pols w') n))) ds" by auto
  have "policies_by_name (pols w2) n = None" if "n \<notin> fst ` List.set ds" for n
    using that ds' w2(2) by (simp add: map_of_eq_None_iff)
  with result ds show thesis by (intro that [of ds]) auto
qed

text \<open>The abstract result of a sync: the policies of the application are the desired ones.\<close>

definition policies_match :: "CreatePolicyParams list \<Rightarrow> AccessPolicy list \<Rightarrow> bool" where
  "policies_match ds ps \<longleftrightarrow> policies_wf ps \<and> ap_Name ` List.set ps = cpp_Name ` List.set ds \<and>
     (\<forall>p \<in> List.set ps. \<forall>d. map_of (desired_by_name ds) (ap_Name p) = Some d \<longrightarrow> realises d p)"

lemma SyncPolicies_match:
  assumes "run_state (SyncPolicies client rng accountID appID desired) w = (Inr ids, w')"
    and "policies_wf (pols w)" "ranges_over_maps rng"
  shows "policies_match desired (pols w') \<and> List.set ids = ap_ID ` List.set (pols w') \<and>
    length ids = card (cpp_Name ` List.set desired)"
proof -
  obtain ds where ds: "mset ds = mset (desired_by_name desired)" and wf: "policies_wf (pols w')"
    and gone: "\<And>n. n \<notin> fst ` List.set ds \<Longrightarrow> policies_by_name (pols w') n = None"
    and real: "\<And>n d. (n, d) \<in> List.set ds \<Longrightarrow> \<exists>p. policies_by_name (pols w') n = Some p \<and> realises d p"
    and ids: "ids = map (\<lambda>(n, d). ap_ID (the (policies_by_name (pols w') n))) ds"
    using SyncPolicies_maps [OF assms] by blast
  have ds': "List.set ds = List.set (desired_by_name desired) \<and> distinct (map fst ds)"
    using same_entries [OF ds desired_by_name_keys(1)] .
  then have fst_ds: "fst ` List.set ds = cpp_Name ` List.set desired" using desired_by_name_keys(2) by metis
  have "policies_by_name (pols w') n = None \<longleftrightarrow> n \<notin> fst ` List.set ds" for n
    using gone real by force
  then have names: "ap_Name ` List.set (pols w') = fst ` List.set ds" by (auto simp: policies_by_name_None)
  have "realises d p" if "p \<in> List.set (pols w')" "map_of (desired_by_name desired) (ap_Name p) = Some d" for p d
  proof -
    have "policies_by_name (pols w') (ap_Name p) = Some p" using that(1) policies_by_name_Some [OF wf] by blast
    moreover have "(ap_Name p, d) \<in> List.set ds" using that(2) ds' by (auto dest: map_of_SomeD)
    ultimately show ?thesis using real by force
  qed
  with wf names fst_ds have "policies_match desired (pols w')" by (simp add: policies_match_def)
  moreover have "List.set ids = (\<lambda>n. ap_ID (the (policies_by_name (pols w') n))) ` (fst ` List.set ds)"
    unfolding ids by (force simp: image_image)
  then have "List.set ids = ap_ID ` List.set (pols w')"
    using policies_by_name_Some [OF wf, THEN iffD2] unfolding names [symmetric]
    by (simp add: image_image cong: image_cong_simp)
  moreover have "length ids = card (cpp_Name ` List.set desired)"
    using ids ds' fst_ds by (metis distinct_card length_map list.set_map)
  ultimately show ?thesis by blast
qed

end

text \<open>Policies that compare equal to what is desired are left alone: the sync only lists them.\<close>

lemma delete_policies_none:
  "(\<And>n p. (n, p) \<in> List.set es \<Longrightarrow> map_of desired n \<noteq> None) \<Longrightarrow>
     run_state (delete_policies client accountID appID desired es) w = (Inr (), w)"
proof (induction es)
  case (Cons e es)
  obtain n p where e: "e = (n, p)" by (cases e)
  with Cons.prems [of n p] have "map_of desired n \<noteq> None" by simp
  with Cons e show ?case by auto
qed simp

lemma apply_policies_none:
  "(\<And>n d. (n, d) \<in> List.set ds \<Longrightarrow> \<exists>p. map_of ex n = Some p \<and> accessPolicyEqual p d) \<Longrightarrow>
     run_state (apply_policies client accountID appID ex ds ids) w =
       (Inr (ids @ map (\<lambda>(n, d). ap_ID (the (map_of ex n))) ds), w)"
proof (induction ds arbitrary: ids)
  case (Cons x ds)
  obtain n d where x: "x = (n, d)" by (cases x)
  with Cons.prems [of n d] obtain p where "map_of ex n = Some p" "accessPolicyEqual p d" by auto
  with Cons x show ?case by simp
qed simp

lemma SyncPolicies_stable:
  assumes "run_state (ListAccessPolicies client accountID appID) w = (Inr ps, w1)"
    and "ranges_over_maps rng" "policies_wf ps" "ap_Name ` List.set ps = cpp_Name ` List.set desired"
    and "\<And>p d. p \<in> List.set ps \<Longrightarrow> map_of (desired_by_name desired) (ap_Name p) = Some d \<Longrightarrow> accessPolicyEqual p d"
  shows "\<exists>ids. run_state (SyncPolicies client rng accountID appID desired) w = (Inr ids, w1)"
proof -
  let ?D = "desired_by_name desired" and ?E = "existing_by_name ps"
  have E: "?E = map (\<lambda>p. (ap_Name p, p)) ps" using existing_by_name_wf [OF assms(3)] .
  obtain es w2 where es0: "run_state (range_existing rng ?E) w1 = (es, w2)" by (rule prod.exhaust)
  then have es: "mset es = mset ?E" "w2 = w1" using assms(2) by (auto simp: ranges_over_maps_def)
  obtain ds w3 where ds0: "run_state (range_desired rng ?D) w1 = (ds, w3)" by (rule prod.exhaust)
  then have ds: "mset ds = mset ?D" "w3 = w1" using assms(2) by (auto simp: ranges_over_maps_def)
  have keys: "fst ` List.set ?D = ap_Name ` List.set ps" using desired_by_name_keys(2) assms(4) by simp
  have del: "run_state (delete_policies client accountID appID ?D es) w1 = (Inr (), w1)"
    by (rule delete_policies_none)
      (use mset_eq_setD [OF es(1)] E keys in \<open>auto simp: map_of_eq_None_iff\<close>)
  have "\<exists>p. map_of ?E n = Some p \<and> accessPolicyEqual p d" if "(n, d) \<in> List.set ds" for n d
  proof -
    have nd: "map_of ?D n = Some d" using that mset_eq_setD [OF ds(1)] desired_by_name_keys(1) by auto
    then obtain p where p: "p \<in> List.set ps" "ap_Name p = n"
      using keys by (metis imageE image_eqI map_of_SomeD fst_conv)
    then have "map_of ?E n = Some p"
      using policies_by_name_Some [OF assms(3), of n p] E by (simp add: policies_by_name_def)
    with assms(5) [OF p(1)] p(2) nd show ?thesis by auto
  qed
  then have "run_state (apply_policies client accountID appID ?E ds []) w1 =
      (Inr ([] @ map (\<lambda>(n, d). ap_ID (the (map_of ?E n))) ds), w1)"
    by (rule apply_policies_none)
  then show ?thesis using assms(1) es0 es(2) ds0 ds(2) del by (simp add: SyncPolicies_def Let_def)
qed

section \<open>What ensuring an application compares\<close>

text \<open>The application with every managed field as desired, with the defaults for what is not given.\<close>

definition desired_application :: "CreateApplicationParams \<Rightarrow> AccessApplication \<Rightarrow> AccessApplication" where
  "desired_application d a = a\<lparr>
     aa_Name := cap_Name d, aa_Domain := cap_Domain d,
     aa_SessionDuration := (if cap_SessionDuration d = '''' then ''24h'' else cap_SessionDuration d),
     aa_AllowedIdps := cap_AllowedIdps d, aa_AutoRedirectToIdentity := cap_AutoRedirectToIdentity d,
     aa_EnableBindingCookie := cap_EnableBindingCookie d,
     aa_HttpOnlyCookieAttribute := (cap_HttpOnlyCookieAttribute d \<noteq> Some False),
     aa_SameSiteCookieAttribute :=
       (if cap_SameSiteCookieAttribute d = '''' then ''lax'' else cap_SameSiteCookieAttribute d),
     aa_SkipInterstitial := cap_SkipInterstitial d, aa_LogoURL := cap_LogoURL d,
     aa_AppLauncherVisible := cap_AppLauncherVisible d, aa_CustomDenyMessage := cap_CustomDenyMessage d,
     aa_CustomDenyURL := cap_CustomDenyURL d, aa_CustomNonIdentityDenyURL := cap_CustomNonIdentityDenyURL d,
     aa_CORSHeaders := cap_CORSHeaders d, aa_OptionsPreflightBypass := cap_OptionsPreflightBypass d,
     aa_PathCookieAttribute := cap_PathCookieAttribute d,
     aa_ServiceAuth401Redirect := cap_ServiceAuth401Redirect d,
     aa_ReadServiceTokensFromHeader := cap_ReadServiceTokensFromHeader d\<rparr>"

lemma accessApplicationNeedsUpdate_iff:
  "accessApplicationNeedsUpdate a d \<longleftrightarrow> a \<noteq> desired_application d a"
proof -
  have h: "(case cap_HttpOnlyCookieAttribute d of None \<Rightarrow> True | Some b \<Rightarrow> b) \<longleftrightarrow>
      cap_HttpOnlyCookieAttribute d \<noteq> Some False" by (auto split: option.split)
  have i: "(length xs \<noteq> 0 \<or> length ys \<noteq> 0) \<and> xs \<noteq> ys \<longleftrightarrow> xs \<noteq> ys" for xs ys :: "string list"
    by auto
  have "\<not> accessApplicationNeedsUpdate a d \<Longrightarrow> a = desired_application d a"
    unfolding accessApplicationNeedsUpdate_def h i de_Morgan_disj not_not
    by (cases a) (simp add: desired_application_def)
  moreover have "\<not> accessApplicationNeedsUpdate (desired_application d a) d"
    unfolding accessApplicationNeedsUpdate_def h i by (simp add: desired_application_def)
  ultimately show ?thesis by metis
qed

section \<open>Properties\<close>

text \<open>An application is written exactly when a managed field has drifted. When an application with
  the desired name exists, ensuring it adopts it without a further call if its name, domain, flags,
  messages, URLs, identity providers and CORS settings are the desired ones (with the defaults
  24h, lax and HttpOnly for what is not given); otherwise it makes one update of that application
  with the desired parameters, and in no case does it create a second one.\<close>

theorem ensure_application_drift:
  assumes "run_state (GetAccessApplicationByName client accountID (cap_Name d)) w = (Inr (Some a), w1)"
  shows "run_state (EnsureApplication client accountID d) w =
    (if a = desired_application d a then (Inr (a, False), w1)
     else (case run_state (UpdateAccessApplication client accountID (aa_ID a) (update_params d)) w1 of
             (Inl err, w2) \<Rightarrow> (Inl (wrapf ''failed to update application'' err), w2)
           | (Inr b, w2) \<Rightarrow> (Inr (b, False), w2)))"
  using assms
  by (simp add: EnsureApplication_def accessApplicationNeedsUpdate_iff split: prod.split sum.split)

definition wit_app_params :: CreateApplicationParams where
  "wit_app_params = \<lparr>cap_Name = ''staff'', cap_Domain = ''app.example.com'', cap_Type = '''',
     cap_SessionDuration = '''', cap_AllowedIdps = [], cap_AutoRedirectToIdentity = False,
     cap_EnableBindingCookie = False, cap_HttpOnlyCookieAttribute = None, cap_SameSiteCookieAttribute = '''',
     cap_SkipInterstitial = False, cap_LogoURL = '''', cap_AppLauncherVisible = True,
     cap_CustomDenyMessage = '''', cap_CustomDenyURL = '''', cap_CORSHeaders = None,
     cap_OptionsPreflightBypass = False, cap_PathCookieAttribute = False,
     cap_ServiceAuth401Redirect = False, cap_CustomNonIdentityDenyURL = '''',
     cap_ReadServiceTokensFromHeader = ''''\<rparr>"

definition wit_app :: AccessApplication where
  "wit_app = desired_application wit_app_params
     \<lparr>aa_ID = ''a1'', aa_AUD = ''aud'', aa_Name = '''', aa_Domain = '''', aa_Type = ''self_hosted'',
      aa_SessionDuration = '''', aa_AllowedIdps = [], aa_AutoRedirectToIdentity = False,
      aa_EnableBindingCookie = False, aa_HttpOnlyCookieAttribute = False, aa_SameSiteCookieAttribute = '''',
      aa_SkipInterstitial = False, aa_LogoURL = '''', aa_AppLauncherVisible = False,
      aa_CustomDenyMessage = '''', aa_CustomDenyURL = '''', aa_CustomNonIdentityDenyURL = '''',
      aa_CORSHeaders = None, aa_OptionsPreflightBypass = False, aa_PathCookieAttribute = False,
      aa_ServiceAuth401Redirect = False, aa_ReadServiceTokensFromHeader = '''', aa_CreatedAt = 0,
      aa_UpdatedAt = 0\<rparr>"

text \<open>A client whose calls all fail; a witness replaces the calls it needs.\<close>

definition access_down :: go_error where
  "access_down = errorf ''connection refused''"

definition down_access :: "'w AccessClient" where
  "down_access = \<lparr>
     CreateAccessApplication = \<lambda>a p. ret (Inl access_down), GetAccessApplication = \<lambda>a i. ret (Inl access_down),
     UpdateAccessApplication = \<lambda>a i p. ret (Inl access_down), DeleteAccessApplication = \<lambda>a i. ret (Inl access_down),
     ListAccessApplications = \<lambda>a. ret (Inl access_down), GetAccessApplicationByName = \<lambda>a n. ret (Inl access_down),
     CreateAccessPolicy = \<lambda>a i p. ret (Inl access_down), GetAccessPolicy = \<lambda>a i j. ret (Inl access_down),
     UpdateAccessPolicy = \<lambda>a i j p. ret (Inl access_down), DeleteAccessPolicy = \<lambda>a i j. ret (Inl access_down),
     ListAccessPolicies = \<lambda>a i. ret (Inl access_down), CreateAccessGroup = \<lambda>a p. ret (Inl access_down),
     GetAccessGroup = \<lambda>a i. ret (Inl access_down), UpdateAccessGroup = \<lambda>a i p. ret (Inl access_down),
     DeleteAccessGroup = \<lambda>a i. ret (Inl access_down), ListAccessGroups = \<lambda>a. ret (Inl access_down),
     GetAccessGroupByName = \<lambda>a n. ret (Inl access_down), CreateServiceToken = \<lambda>a p. ret (Inl access_down),
     GetServiceToken = \<lambda>a i. ret (Inl access_down), UpdateServiceToken = \<lambda>a i p. ret (Inl access_down),
     DeleteServiceToken = \<lambda>a i. ret (Inl access_down), ListServiceTokens = \<lambda>a. ret (Inl access_down),
     RotateServiceToken = \<lambda>a i. ret (Inl access_down), RefreshServiceToken = \<lambda>a i. ret (Inl access_down),
     CreateMTLSCertificate = \<lambda>a p. ret (Inl access_down), GetMTLSCertificate = \<lambda>a i. ret (Inl access_down),
     UpdateMTLSCertificate = \<lambda>a i p. ret (Inl access_down), DeleteMTLSCertificate = \<lambda>a i. ret (Inl access_down),
     ListMTLSCertificates = \<lambda>a. ret (Inl access_down), GetMTLSCertificateSettings = \<lambda>a. ret (Inl access_down),
     UpdateMTLSCertificateSettings = \<lambda>a s. ret (Inl access_down)\<rparr>"

theorem ensure_application_drift_witness:
  "run_state (EnsureApplication (down_access\<lparr>GetAccessApplicationByName := \<lambda>a n. ret (Inr (Some wit_app))\<rparr>)
     ''acc'' wit_app_params) (0 :: nat) = (Inr (wit_app, False), 0)"
  using ensure_application_drift [of "down_access\<lparr>GetAccessApplicationByName := \<lambda>a n. ret (Inr (Some wit_app))\<rparr>"
      "''acc''" wit_app_params 0 wit_app 0]
  by (simp add: wit_app_def desired_application_def)

text \<open>C37: The secret of a service token is stored at most once, and lost when that fails. When the
  token was created but the Secret could not be written, ensuring the token reports an error; and
  once the API lists an unexpired token of that name, ensuring it succeeds without a write,
  whatever the writer, so the Secret is not written before the token expires and is rotated.\<close>

theorem token_secret_lost:
  assumes "\<And>n kv v. \<exists>e. fst (run_state (write n kv) v) = Inl e"
    and "run_state (ListServiceTokens client accountID) w = (Inr ts, w1)"
    and "cst_Name params \<notin> st_TokenName ` List.set ts"
    and "run_state (ListServiceTokens client accountID) v = (Inr us, v1)"
    and "find (\<lambda>t. st_TokenName t = cst_Name params) us = Some u"
    and "run_state clock v1 = (now, v2)" "now \<le> st_ExpiresAt u"
  shows "(\<exists>e. fst (run_state (EnsureServiceToken client clock accountID params (Some write)) w) = Inl e) \<and>
    (\<forall>writer. run_state (EnsureServiceToken client clock accountID params writer) v = (Inr u, v2))"
proof
  have none: "find (\<lambda>t. st_TokenName t = cst_Name params) ts = None"
    using assms(3) by (force simp: find_None_iff)
  obtain c w2 where c: "run_state (CreateServiceToken client accountID params) w1 = (c, w2)" by (rule prod.exhaust)
  show "\<exists>e. fst (run_state (EnsureServiceToken client clock accountID params (Some write)) w) = Inl e"
  proof (cases c)
    case (Inr t)
    obtain e where "fst (run_state (write (cst_Name params) (token_secret t)) w2) = Inl e" using assms(1) by blast
    then show ?thesis using assms(2) none c Inr
      by (auto simp: EnsureServiceToken_def store_token_def split: prod.split)
  qed (use assms(2) none c in \<open>simp add: EnsureServiceToken_def\<close>)
  show "\<forall>writer. run_state (EnsureServiceToken client clock accountID params writer) v = (Inr u, v2)"
    using assms(4-7) by (simp add: EnsureServiceToken_def)
qed

definition wit_token :: ServiceToken where
  "wit_token = \<lparr>st_TokenID = ''t1'', st_TokenName = ''ci'', st_ClientID = ''c'', st_Duration = ''8760h'',
     st_ExpiresAt = 9\<rparr>"

definition wit_token_client :: "ServiceToken list AccessClient" where
  "wit_token_client = down_access\<lparr>ListServiceTokens := \<lambda>a. State (\<lambda>w. (Inr w, w)),
     CreateServiceToken := \<lambda>a p. State (\<lambda>w. (Inr \<lparr>sts_Token = wit_token, sts_ClientSecret = ''s''\<rparr>, w @ [wit_token]))\<rparr>"

theorem token_secret_lost_witness:
  "(\<exists>e. fst (run_state (EnsureServiceToken wit_token_client (ret 3) ''acc'' \<lparr>cst_Name = ''ci'', cst_Duration = ''''\<rparr>
      (Some (\<lambda>n kv. ret (Inl access_down)))) []) = Inl e) \<and>
   (\<forall>writer. run_state (EnsureServiceToken wit_token_client (ret 3) ''acc'' \<lparr>cst_Name = ''ci'', cst_Duration = ''''\<rparr>
      writer) [wit_token] = (Inr wit_token, [wit_token]))"
  by (rule token_secret_lost) (simp_all add: wit_token_client_def wit_token_def)+

end
