(* ===== verification/Access_Client.thy ===== *)
theory Access_Client
  imports Access_Service Client_Impl
begin

text \<open>
  The Access operations of the client implementation: internal/cloudflare/client_impl.go from the
  application operations on. The part of the SDK they use is the record \<open>AccessSdk\<close>, a parameter.
  The SDK has one response type per operation with the same fields, which is one record here; a
  successful call returns a value, only a read may return none. A field of a rule in a response is
  None when it does not hold a value of the type the code asserts.
\<close>

section \<open>The SDK\<close>

datatype SdkRuleParam =
    IPRuleParam string
  | CountryRuleParam string
  | EveryoneRuleParam
  | ServiceTokenRuleParam string
  | AnyValidServiceTokenRuleParam
  | EmailRuleParam string
  | DomainRuleParam string
  | OIDCClaimRuleParam string string string
  | GSuiteGroupRuleParam string string
  | CertificateRuleParam
  | GroupRuleParam string
  | CommonNameRuleParam string

record SdkRule =
  sr_IP :: "string option"
  sr_Geo :: "string option"
  sr_Everyone :: bool
  sr_ServiceToken :: "string option"
  sr_AnyValidServiceToken :: bool
  sr_Email :: "string option"
  sr_EmailDomain :: "string option"
  sr_EmailList :: "string option"
  sr_IPList :: "string option"
  sr_OIDC :: "(string \<times> string \<times> string) option"
  sr_GSuite :: "(string \<times> string) option"
  sr_Certificate :: bool
  sr_CommonName :: "string option"
  sr_Group :: "string option"

text \<open>The lists of a CORS parameter are None when they are not sent.\<close>

record SdkCORSParam =
  scp_AllowAllHeaders :: bool
  scp_AllowAllMethods :: bool
  scp_AllowAllOrigins :: bool
  scp_AllowCredentials :: bool
  scp_MaxAge :: int
  scp_AllowedHeaders :: "string list option"
  scp_AllowedMethods :: "string list option"
  scp_AllowedOrigins :: "string list option"

record SdkCORS =
  sco_AllowAllHeaders :: bool
  sco_AllowAllMethods :: bool
  sco_AllowAllOrigins :: bool
  sco_AllowCredentials :: bool
  sco_MaxAge :: int
  sco_AllowedHeaders :: "string list"
  sco_AllowedMethods :: "string list"
  sco_AllowedOrigins :: "string list"

text \<open>The body of a create or update of a self-hosted application.\<close>

record SdkAppBody =
  sb_Domain :: string
  sb_Type :: string
  sb_Name :: string
  sb_SessionDuration :: string
  sb_AllowedIdPs :: "string list"
  sb_AutoRedirectToIdentity :: bool
  sb_EnableBindingCookie :: bool
  sb_HTTPOnlyCookieAttribute :: bool
  sb_SameSiteCookieAttribute :: string
  sb_SkipInterstitial :: bool
  sb_LogoURL :: string
  sb_AppLauncherVisible :: bool
  sb_CustomDenyMessage :: string
  sb_CustomDenyURL :: string
  sb_OptionsPreflightBypass :: bool
  sb_PathCookieAttribute :: bool
  sb_ServiceAuth401Redirect :: bool
  sb_CustomNonIdentityDenyURL :: string
  sb_ReadServiceTokensFromHeader :: string
  sb_CORSHeaders :: "SdkCORSParam option"

text \<open>The dynamic type of the identity providers of a response.\<close>

datatype SdkIdPs = StringSlice "string list" | InterfaceSlice "string option list" | OtherIdPs

record SdkApp =
  sa_ID :: string
  sa_AUD :: string
  sa_Name :: string
  sa_Domain :: string
  sa_Type :: string
  sa_SessionDuration :: string
  sa_AllowedIdPs :: SdkIdPs
  sa_AutoRedirectToIdentity :: bool
  sa_EnableBindingCookie :: bool
  sa_HTTPOnlyCookieAttribute :: bool
  sa_SameSiteCookieAttribute :: string
  sa_SkipInterstitial :: bool
  sa_LogoURL :: string
  sa_AppLauncherVisible :: bool
  sa_CustomDenyMessage :: string
  sa_CustomDenyURL :: string
  sa_OptionsPreflightBypass :: bool
  sa_PathCookieAttribute :: bool
  sa_ServiceAuth401Redirect :: bool
  sa_CustomNonIdentityDenyURL :: string
  sa_ReadServiceTokensFromHeader :: string
  sa_CORSHeaders :: SdkCORS

text \<open>The request for a policy: the parameters and the JSON fields set beside them.\<close>

record SdkPolicyBody =
  pb_Name :: string
  pb_Decision :: string
  pb_Include :: "SdkRuleParam list option"
  pb_Exclude :: "SdkRuleParam list option"
  pb_Require :: "SdkRuleParam list option"
  pb_Precedence :: int
  pb_SessionDuration :: string
  pb_PurposeJustificationRequired :: bool
  pb_PurposeJustificationPrompt :: string
  pb_ApprovalRequired :: bool

record SdkPolicy =
  sp_ID :: string
  sp_Name :: string
  sp_Decision :: string
  sp_Precedence :: int
  sp_Include :: "SdkRule list"
  sp_Exclude :: "SdkRule list"
  sp_Require :: "SdkRule list"
  sp_SessionDuration :: string
  sp_PurposeJustificationRequired :: bool
  sp_PurposeJustificationPrompt :: string
  sp_ApprovalRequired :: bool
  sp_CreatedAt :: int
  sp_UpdatedAt :: int

record SdkGroup =
  sg_ID :: string
  sg_Name :: string

record SdkToken =
  sk_ID :: string
  sk_Name :: string
  sk_ClientID :: string
  sk_Duration :: string
  sk_ExpiresAt :: int
  sk_ClientSecret :: string

record SdkCert =
  se_ID :: string
  se_Name :: string
  se_Fingerprint :: string
  se_AssociatedHostnames :: "string list"
  se_ExpiresOn :: int

record SdkCertSetting =
  ss_Hostname :: string
  ss_ChinaNetwork :: bool
  ss_ClientCertificateForwarding :: bool

record 'w AccessSdk =
  ApplicationsNew :: "string \<Rightarrow> SdkAppBody \<Rightarrow> ('w, SdkApp res) io"
  ApplicationsGet :: "string \<Rightarrow> string \<Rightarrow> ('w, SdkApp option res) io"
  ApplicationsUpdate :: "string \<Rightarrow> string \<Rightarrow> SdkAppBody \<Rightarrow> ('w, SdkApp res) io"
  ApplicationsDelete :: "string \<Rightarrow> string \<Rightarrow> ('w, unit res) io"
  ApplicationsList :: "string \<Rightarrow> ('w, SdkApp list \<times> go_error option) io"
  PoliciesNew :: "string \<Rightarrow> string \<Rightarrow> SdkPolicyBody \<Rightarrow> ('w, SdkPolicy res) io"
  PoliciesGet :: "string \<Rightarrow> string \<Rightarrow> string \<Rightarrow> ('w, SdkPolicy option res) io"
  PoliciesUpdate :: "string \<Rightarrow> string \<Rightarrow> string \<Rightarrow> SdkPolicyBody \<Rightarrow> ('w, SdkPolicy res) io"
  PoliciesDelete :: "string \<Rightarrow> string \<Rightarrow> string \<Rightarrow> ('w, unit res) io"
  PoliciesList :: "string \<Rightarrow> string \<Rightarrow> ('w, SdkPolicy list \<times> go_error option) io"
  GroupsNew :: "string \<Rightarrow> string \<Rightarrow> SdkRuleParam list \<Rightarrow> ('w, SdkGroup res) io"
  GroupsGet :: "string \<Rightarrow> string \<Rightarrow> ('w, SdkGroup option res) io"
  GroupsUpdate :: "string \<Rightarrow> string \<Rightarrow> string \<Rightarrow> SdkRuleParam list \<Rightarrow> ('w, SdkGroup res) io"
  GroupsDelete :: "string \<Rightarrow> string \<Rightarrow> ('w, unit res) io"
  GroupsList :: "string \<Rightarrow> ('w, SdkGroup list \<times> go_error option) io"
  TokensNew :: "string \<Rightarrow> string \<Rightarrow> string \<Rightarrow> ('w, SdkToken res) io"
  TokensUpdate :: "string \<Rightarrow> string \<Rightarrow> string \<Rightarrow> string \<Rightarrow> ('w, SdkToken res) io"
  TokensDelete :: "string \<Rightarrow> string \<Rightarrow> ('w, unit res) io"
  TokensList :: "string \<Rightarrow> ('w, SdkToken list \<times> go_error option) io"
  TokensRotate :: "string \<Rightarrow> string \<Rightarrow> ('w, SdkToken res) io"
  TokensRefresh :: "string \<Rightarrow> string \<Rightarrow> ('w, SdkToken res) io"
  CertificatesNew :: "string \<Rightarrow> string \<Rightarrow> string \<Rightarrow> string list \<Rightarrow> ('w, SdkCert res) io"
  CertificatesGet :: "string \<Rightarrow> string \<Rightarrow> ('w, SdkCert res) io"
  CertificatesUpdate :: "string \<Rightarrow> string \<Rightarrow> string \<Rightarrow> string list \<Rightarrow> ('w, SdkCert res) io"
  CertificatesDelete :: "string \<Rightarrow> string \<Rightarrow> ('w, unit res) io"
  CertificatesList :: "string \<Rightarrow> ('w, SdkCert list \<times> go_error option) io"
  CertSettingsGet :: "string \<Rightarrow> ('w, SdkCertSetting list res) io"
  CertSettingsUpdate :: "string \<Rightarrow> SdkCertSetting list \<Rightarrow> ('w, SdkCertSetting list res) io"

section \<open>Conversions: rules\<close>

text \<open>The first test that succeeds decides, as in the chains of if and return of the code.\<close>

fun first_match :: "'a option list \<Rightarrow> 'a option" where
  "first_match [] = None"
| "first_match (Some x # xs) = Some x"
| "first_match (None # xs) = first_match xs"

definition guarded :: "bool \<Rightarrow> 'a \<Rightarrow> 'a option" where
  "guarded b x = (if b then Some x else None)"

definition accessRuleToAPI :: "AccessRuleParam \<Rightarrow> SdkRuleParam option" where
  "accessRuleToAPI rule = first_match
     [map_option IPRuleParam (ar_IPRange rule),
      map_option CountryRuleParam (ar_Country rule),
      guarded (ar_Everyone rule = Some True) EveryoneRuleParam,
      map_option ServiceTokenRuleParam (ar_ServiceTokenID rule),
      guarded (ar_AnyValidServiceToken rule = Some True) AnyValidServiceTokenRuleParam,
      map_option EmailRuleParam (ar_Email rule),
      map_option DomainRuleParam (ar_EmailDomain rule),
      map_option (\<lambda>c. OIDCClaimRuleParam (oi_IdentityProviderID c) (oi_ClaimName c) (oi_ClaimValue c))
        (ar_OIDCClaim rule),
      map_option (\<lambda>g. GSuiteGroupRuleParam (gs_IdentityProviderID g) (gs_Email g)) (ar_GSuiteGroup rule),
      guarded (ar_Certificate rule = Some True) CertificateRuleParam,
      map_option GroupRuleParam (ar_GroupID rule),
      map_option CommonNameRuleParam (ar_CommonName rule)]"

text \<open>The nil slice that is sent for an empty one is the empty list of the request.\<close>

definition accessRulesToAPI :: "AccessRuleParam list \<Rightarrow> SdkRuleParam list" where
  "accessRulesToAPI rules = List.map_filter accessRuleToAPI rules"

definition accessRuleFromAPI :: "SdkRule \<Rightarrow> AccessRuleParam option" where
  "accessRuleFromAPI rule = first_match
     [map_option (\<lambda>ip. zero_AccessRuleParam\<lparr>ar_IPRange := Some ip\<rparr>) (sr_IP rule),
      map_option (\<lambda>cc. zero_AccessRuleParam\<lparr>ar_Country := Some cc\<rparr>) (sr_Geo rule),
      guarded (sr_Everyone rule) (zero_AccessRuleParam\<lparr>ar_Everyone := Some True\<rparr>),
      map_option (\<lambda>t. zero_AccessRuleParam\<lparr>ar_ServiceTokenID := Some t\<rparr>) (sr_ServiceToken rule),
      guarded (sr_AnyValidServiceToken rule) (zero_AccessRuleParam\<lparr>ar_AnyValidServiceToken := Some True\<rparr>),
      map_option (\<lambda>e. zero_AccessRuleParam\<lparr>ar_Email := Some e\<rparr>) (sr_Email rule),
      map_option (\<lambda>d. zero_AccessRuleParam\<lparr>ar_EmailDomain := Some d\<rparr>) (sr_EmailDomain rule),
      map_option (\<lambda>l. zero_AccessRuleParam\<lparr>ar_EmailListID := Some l\<rparr>) (sr_EmailList rule),
      map_option (\<lambda>l. zero_AccessRuleParam\<lparr>ar_IPListID := Some l\<rparr>) (sr_IPList rule),
      map_option (\<lambda>c. zero_AccessRuleParam\<lparr>ar_OIDCClaim := Some
        \<lparr>oi_IdentityProviderID = fst c, oi_ClaimName = fst (snd c), oi_ClaimValue = snd (snd c)\<rparr>\<rparr>) (sr_OIDC rule),
      map_option (\<lambda>g. zero_AccessRuleParam\<lparr>ar_GSuiteGroup := Some
        \<lparr>gs_IdentityProviderID = fst g, gs_Email = snd g\<rparr>\<rparr>) (sr_GSuite rule),
      guarded (sr_Certificate rule) (zero_AccessRuleParam\<lparr>ar_Certificate := Some True\<rparr>),
      map_option (\<lambda>c. zero_AccessRuleParam\<lparr>ar_CommonName := Some c\<rparr>) (sr_CommonName rule),
      map_option (\<lambda>g. zero_AccessRuleParam\<lparr>ar_GroupID := Some g\<rparr>) (sr_Group rule)]"

text \<open>None is the nil slice; rules that are not recognised are left out of a slice that is not nil.\<close>

definition accessRulesFromAPI :: "SdkRule list \<Rightarrow> AccessRuleParam list option" where
  "accessRulesFromAPI rules =
     (if length rules = 0 then None else Some (List.map_filter accessRuleFromAPI rules))"

section \<open>Conversions: responses\<close>

text \<open>\<open>sent_list\<close> is a slice that is sent only when it is not empty, \<open>grown\<close> the slice that appending
  to a nil slice gives.\<close>

definition sent_list :: "string list option \<Rightarrow> string list option" where
  "sent_list xs = (case xs of None \<Rightarrow> None | Some ys \<Rightarrow> if length ys > 0 then Some ys else None)"

definition grown :: "string list \<Rightarrow> string list option" where
  "grown xs = (if xs = [] then None else Some xs)"

definition corsHeadersToSDK :: "CORSHeadersParam \<Rightarrow> SdkCORSParam" where
  "corsHeadersToSDK h =
     \<lparr>scp_AllowAllHeaders = ch_AllowAllHeaders h, scp_AllowAllMethods = ch_AllowAllMethods h,
      scp_AllowAllOrigins = ch_AllowAllOrigins h, scp_AllowCredentials = ch_AllowCredentials h,
      scp_MaxAge = ch_MaxAge h, scp_AllowedHeaders = sent_list (ch_AllowedHeaders h),
      scp_AllowedMethods = sent_list (ch_AllowedMethods h), scp_AllowedOrigins = sent_list (ch_AllowedOrigins h)\<rparr>"

definition corsHeadersFromSDK :: "SdkCORS \<Rightarrow> CORSHeadersParam" where
  "corsHeadersFromSDK h =
     \<lparr>ch_AllowAllHeaders = sco_AllowAllHeaders h, ch_AllowAllMethods = sco_AllowAllMethods h,
      ch_AllowAllOrigins = sco_AllowAllOrigins h, ch_AllowCredentials = sco_AllowCredentials h,
      ch_AllowedHeaders = grown (sco_AllowedHeaders h), ch_AllowedMethods = grown (sco_AllowedMethods h),
      ch_AllowedOrigins = grown (sco_AllowedOrigins h), ch_MaxAge = sco_MaxAge h\<rparr>"

fun extractAllowedIdPs :: "SdkIdPs \<Rightarrow> string list" where
  "extractAllowedIdPs (StringSlice idps) = idps"
| "extractAllowedIdPs (InterfaceSlice idps) = List.map_filter (\<lambda>i. i) idps"
| "extractAllowedIdPs OtherIdPs = []"

definition cors_present :: "SdkCORS \<Rightarrow> bool" where
  "cors_present h \<longleftrightarrow> sco_AllowAllHeaders h \<or> sco_AllowAllMethods h \<or> sco_AllowAllOrigins h \<or>
     sco_AllowCredentials h \<or> length (sco_AllowedHeaders h) > 0 \<or> length (sco_AllowedMethods h) > 0 \<or>
     length (sco_AllowedOrigins h) > 0 \<or> sco_MaxAge h > 0"

definition applicationFromNewResponse :: "SdkApp \<Rightarrow> AccessApplication" where
  "applicationFromNewResponse resp =
     \<lparr>aa_ID = sa_ID resp, aa_AUD = sa_AUD resp, aa_Name = sa_Name resp, aa_Domain = sa_Domain resp,
      aa_Type = sa_Type resp, aa_SessionDuration = sa_SessionDuration resp,
      aa_AllowedIdps = extractAllowedIdPs (sa_AllowedIdPs resp),
      aa_AutoRedirectToIdentity = sa_AutoRedirectToIdentity resp,
      aa_EnableBindingCookie = sa_EnableBindingCookie resp,
      aa_HttpOnlyCookieAttribute = sa_HTTPOnlyCookieAttribute resp,
      aa_SameSiteCookieAttribute = sa_SameSiteCookieAttribute resp,
      aa_SkipInterstitial = sa_SkipInterstitial resp, aa_LogoURL = sa_LogoURL resp,
      aa_AppLauncherVisible = sa_AppLauncherVisible resp,
      aa_CustomDenyMessage = sa_CustomDenyMessage resp, aa_CustomDenyURL = sa_CustomDenyURL resp,
      aa_CustomNonIdentityDenyURL = sa_CustomNonIdentityDenyURL resp,
      aa_CORSHeaders = (if cors_present (sa_CORSHeaders resp)
                        then Some (corsHeadersFromSDK (sa_CORSHeaders resp)) else None),
      aa_OptionsPreflightBypass = sa_OptionsPreflightBypass resp,
      aa_PathCookieAttribute = sa_PathCookieAttribute resp,
      aa_ServiceAuth401Redirect = sa_ServiceAuth401Redirect resp,
      aa_ReadServiceTokensFromHeader = sa_ReadServiceTokensFromHeader resp,
      aa_CreatedAt = 0, aa_UpdatedAt = 0\<rparr>"

text \<open>The conversions of the other responses read the same fields.\<close>

definition applicationFromGetResponse :: "SdkApp option \<Rightarrow> AccessApplication option" where
  "applicationFromGetResponse resp =
     (case resp of None \<Rightarrow> None | Some resp \<Rightarrow> Some (applicationFromNewResponse resp))"

definition applicationFromUpdateResponse :: "SdkApp \<Rightarrow> AccessApplication" where
  "applicationFromUpdateResponse resp = applicationFromNewResponse resp"

definition applicationFromListResponse :: "SdkApp \<Rightarrow> AccessApplication" where
  "applicationFromListResponse resp = applicationFromNewResponse resp"

text \<open>The approval groups of a policy are not read from any response.\<close>

definition policy_of :: "SdkPolicy \<Rightarrow> string \<Rightarrow> string \<Rightarrow> AccessPolicy" where
  "policy_of resp name decision =
     \<lparr>ap_ID = sp_ID resp, ap_Name = name, ap_Decision = decision, ap_Precedence = sp_Precedence resp,
      ap_Include = accessRulesFromAPI (sp_Include resp), ap_Exclude = accessRulesFromAPI (sp_Exclude resp),
      ap_Require = accessRulesFromAPI (sp_Require resp), ap_SessionDuration = sp_SessionDuration resp,
      ap_PurposeJustificationRequired = sp_PurposeJustificationRequired resp,
      ap_PurposeJustificationPrompt = sp_PurposeJustificationPrompt resp,
      ap_ApprovalRequired = sp_ApprovalRequired resp, ap_ApprovalGroups = None,
      ap_CreatedAt = sp_CreatedAt resp, ap_UpdatedAt = sp_UpdatedAt resp\<rparr>"

definition policyFromNewResponse :: "SdkPolicy \<Rightarrow> string \<Rightarrow> string \<Rightarrow> AccessPolicy" where
  "policyFromNewResponse resp name decision = policy_of resp name decision"

definition policyFromGetResponse :: "SdkPolicy option \<Rightarrow> AccessPolicy option" where
  "policyFromGetResponse resp =
     (case resp of None \<Rightarrow> None | Some resp \<Rightarrow> Some (policy_of resp (sp_Name resp) (sp_Decision resp)))"

definition policyFromUpdateResponse :: "SdkPolicy \<Rightarrow> string \<Rightarrow> string \<Rightarrow> AccessPolicy" where
  "policyFromUpdateResponse resp name decision = policy_of resp name decision"

definition policyFromListResponse :: "SdkPolicy \<Rightarrow> AccessPolicy" where
  "policyFromListResponse resp = policy_of resp (sp_Name resp) (sp_Decision resp)"

definition groupFromNewResponse :: "SdkGroup \<Rightarrow> AccessGroup" where
  "groupFromNewResponse resp = \<lparr>agr_ID = sg_ID resp, agr_Name = sg_Name resp, agr_Include = [],
     agr_Exclude = [], agr_Require = [], agr_CreatedAt = 0, agr_UpdatedAt = 0\<rparr>"

definition groupFromGetResponse :: "SdkGroup option \<Rightarrow> AccessGroup option" where
  "groupFromGetResponse resp = (case resp of None \<Rightarrow> None | Some resp \<Rightarrow> Some (groupFromNewResponse resp))"

definition groupFromUpdateResponse :: "SdkGroup \<Rightarrow> AccessGroup" where
  "groupFromUpdateResponse resp = groupFromNewResponse resp"

definition groupFromListResponse :: "SdkGroup \<Rightarrow> AccessGroup" where
  "groupFromListResponse resp = groupFromNewResponse resp"

text \<open>Only the listing and the refresh of a token report when it expires.\<close>

definition token_of :: "SdkToken \<Rightarrow> ServiceToken" where
  "token_of r = \<lparr>st_TokenID = sk_ID r, st_TokenName = sk_Name r, st_ClientID = sk_ClientID r,
     st_Duration = sk_Duration r, st_ExpiresAt = 0\<rparr>"

definition token_with_expiry :: "SdkToken \<Rightarrow> ServiceToken" where
  "token_with_expiry r = (token_of r)\<lparr>st_ExpiresAt := sk_ExpiresAt r\<rparr>"

definition certificate_of :: "SdkCert \<Rightarrow> MTLSCertificate" where
  "certificate_of r = \<lparr>mc_ID = se_ID r, mc_Name = se_Name r, mc_Fingerprint = se_Fingerprint r,
     mc_AssociatedHostnames = se_AssociatedHostnames r, mc_ExpiresOn = se_ExpiresOn r\<rparr>"

definition setting_of :: "SdkCertSetting \<Rightarrow> CertificateSettings" where
  "setting_of s = \<lparr>cs_Hostname = ss_Hostname s, cs_ChinaNetwork = ss_ChinaNetwork s,
     cs_ClientCertificateForwarding = ss_ClientCertificateForwarding s\<rparr>"

section \<open>Application operations\<close>

definition default_http_only :: "bool option \<Rightarrow> bool" where
  "default_http_only b = (case b of None \<Rightarrow> True | Some v \<Rightarrow> v)"

definition default_same_site :: "string \<Rightarrow> string" where
  "default_same_site s = (if s = '''' then ''lax'' else s)"

definition ci_CreateAccessApplication ::
  "'w AccessSdk \<Rightarrow> string \<Rightarrow> CreateApplicationParams \<Rightarrow> ('w, AccessApplication res) io" where
  "ci_CreateAccessApplication sdk accountID params =
     (let body =
        \<lparr>sb_Domain = cap_Domain params,
         sb_Type = (if cap_Type params = '''' then ''self_hosted'' else cap_Type params),
         sb_Name = cap_Name params,
         sb_SessionDuration = (if cap_SessionDuration params = '''' then ''24h'' else cap_SessionDuration params),
         sb_AllowedIdPs = cap_AllowedIdps params,
         sb_AutoRedirectToIdentity = cap_AutoRedirectToIdentity params,
         sb_EnableBindingCookie = cap_EnableBindingCookie params,
         sb_HTTPOnlyCookieAttribute = default_http_only (cap_HttpOnlyCookieAttribute params),
         sb_SameSiteCookieAttribute = default_same_site (cap_SameSiteCookieAttribute params),
         sb_SkipInterstitial = cap_SkipInterstitial params, sb_LogoURL = cap_LogoURL params,
         sb_AppLauncherVisible = cap_AppLauncherVisible params,
         sb_CustomDenyMessage = cap_CustomDenyMessage params, sb_CustomDenyURL = cap_CustomDenyURL params,
         sb_OptionsPreflightBypass = cap_OptionsPreflightBypass params,
         sb_PathCookieAttribute = cap_PathCookieAttribute params,
         sb_ServiceAuth401Redirect = cap_ServiceAuth401Redirect params,
         sb_CustomNonIdentityDenyURL = cap_CustomNonIdentityDenyURL params,
         sb_ReadServiceTokensFromHeader = cap_ReadServiceTokensFromHeader params,
         sb_CORSHeaders = map_option corsHeadersToSDK (cap_CORSHeaders params)\<rparr>
      in do {
        r \<leftarrow> ApplicationsNew sdk accountID body;
        case r of
          Inl err \<Rightarrow> ret (Inl (wrapf ''failed to create access application'' err))
        | Inr result \<Rightarrow> ret (Inr (applicationFromNewResponse result))
      })"

definition ci_GetAccessApplication ::
  "'w AccessSdk \<Rightarrow> string \<Rightarrow> string \<Rightarrow> ('w, AccessApplication option res) io" where
  "ci_GetAccessApplication sdk accountID appID = do {
     r \<leftarrow> ApplicationsGet sdk appID accountID;
     case r of
       Inl err \<Rightarrow> if not_found_text err then ret (Inr None)
                  else ret (Inl (wrapf ''failed to get access application'' err))
     | Inr result \<Rightarrow> ret (Inr (applicationFromGetResponse result))
   }"

definition ci_UpdateAccessApplication ::
  "'w AccessSdk \<Rightarrow> string \<Rightarrow> string \<Rightarrow> UpdateApplicationParams \<Rightarrow> ('w, AccessApplication res) io" where
  "ci_UpdateAccessApplication sdk accountID appID params =
     (let body =
        \<lparr>sb_Domain = uap_Domain params, sb_Type = ''self_hosted'', sb_Name = uap_Name params,
         sb_SessionDuration = uap_SessionDuration params, sb_AllowedIdPs = uap_AllowedIdps params,
         sb_AutoRedirectToIdentity = uap_AutoRedirectToIdentity params,
         sb_EnableBindingCookie = uap_EnableBindingCookie params,
         sb_HTTPOnlyCookieAttribute = default_http_only (uap_HttpOnlyCookieAttribute params),
         sb_SameSiteCookieAttribute = default_same_site (uap_SameSiteCookieAttribute params),
         sb_SkipInterstitial = uap_SkipInterstitial params, sb_LogoURL = uap_LogoURL params,
         sb_AppLauncherVisible = uap_AppLauncherVisible params,
         sb_CustomDenyMessage = uap_CustomDenyMessage params, sb_CustomDenyURL = uap_CustomDenyURL params,
         sb_OptionsPreflightBypass = uap_OptionsPreflightBypass params,
         sb_PathCookieAttribute = uap_PathCookieAttribute params,
         sb_ServiceAuth401Redirect = uap_ServiceAuth401Redirect params,
         sb_CustomNonIdentityDenyURL = uap_CustomNonIdentityDenyURL params,
         sb_ReadServiceTokensFromHeader = uap_ReadServiceTokensFromHeader params,
         sb_CORSHeaders = map_option corsHeadersToSDK (uap_CORSHeaders params)\<rparr>
      in do {
        r \<leftarrow> ApplicationsUpdate sdk appID accountID body;
        case r of
          Inl err \<Rightarrow> ret (Inl (wrapf ''failed to update access application'' err))
        | Inr result \<Rightarrow> ret (Inr (applicationFromUpdateResponse result))
      })"

definition ci_DeleteAccessApplication :: "'w AccessSdk \<Rightarrow> string \<Rightarrow> string \<Rightarrow> ('w, unit res) io" where
  "ci_DeleteAccessApplication sdk accountID appID = do {
     r \<leftarrow> ApplicationsDelete sdk appID accountID;
     case r of
       Inl err \<Rightarrow> if not_found_text err then ret (Inr ())
                  else ret (Inl (wrapf ''failed to delete access application'' err))
     | Inr u \<Rightarrow> ret (Inr ())
   }"

definition ci_ListAccessApplications :: "'w AccessSdk \<Rightarrow> string \<Rightarrow> ('w, AccessApplication list res) io" where
  "ci_ListAccessApplications sdk accountID = do {
     page \<leftarrow> ApplicationsList sdk accountID;
     case page of
       (items, Some err) \<Rightarrow> ret (Inl (wrapf ''failed to list access applications'' err))
     | (items, None) \<Rightarrow> ret (Inr (map applicationFromListResponse items))
   }"

definition ci_GetAccessApplicationByName ::
  "'w AccessSdk \<Rightarrow> string \<Rightarrow> string \<Rightarrow> ('w, AccessApplication option res) io" where
  "ci_GetAccessApplicationByName sdk accountID name = do {
     r \<leftarrow> ci_ListAccessApplications sdk accountID;
     case r of
       Inl err \<Rightarrow> ret (Inl err)
     | Inr apps \<Rightarrow> ret (Inr (find (\<lambda>a. aa_Name a = name) apps))
   }"

section \<open>Policy operations\<close>

text \<open>A list of rules that is empty is not sent.\<close>

definition sent_rules :: "AccessRuleParam list option \<Rightarrow> SdkRuleParam list option" where
  "sent_rules rules =
     (case rules of None \<Rightarrow> None
      | Some rs \<Rightarrow> if length rs > 0 then Some (accessRulesToAPI rs) else None)"

definition policy_body :: "CreatePolicyParams \<Rightarrow> SdkPolicyBody" where
  "policy_body params =
     \<lparr>pb_Name = cpp_Name params, pb_Decision = cpp_Decision params,
      pb_Include = sent_rules (cpp_Include params), pb_Exclude = sent_rules (cpp_Exclude params),
      pb_Require = sent_rules (cpp_Require params), pb_Precedence = cpp_Precedence params,
      pb_SessionDuration = cpp_SessionDuration params,
      pb_PurposeJustificationRequired = cpp_PurposeJustificationRequired params,
      pb_PurposeJustificationPrompt = cpp_PurposeJustificationPrompt params,
      pb_ApprovalRequired = cpp_ApprovalRequired params\<rparr>"

definition ci_CreateAccessPolicy ::
  "'w AccessSdk \<Rightarrow> string \<Rightarrow> string \<Rightarrow> CreatePolicyParams \<Rightarrow> ('w, AccessPolicy res) io" where
  "ci_CreateAccessPolicy sdk accountID appID params = do {
     r \<leftarrow> PoliciesNew sdk appID accountID (policy_body params);
     case r of
       Inl err \<Rightarrow> ret (Inl (wrapf ''failed to create access policy'' err))
     | Inr result \<Rightarrow> ret (Inr (policyFromNewResponse result (cpp_Name params) (cpp_Decision params)))
   }"

definition ci_GetAccessPolicy ::
  "'w AccessSdk \<Rightarrow> string \<Rightarrow> string \<Rightarrow> string \<Rightarrow> ('w, AccessPolicy option res) io" where
  "ci_GetAccessPolicy sdk accountID appID policyID = do {
     r \<leftarrow> PoliciesGet sdk appID policyID accountID;
     case r of
       Inl err \<Rightarrow> if not_found_text err then ret (Inr None)
                  else ret (Inl (wrapf ''failed to get access policy'' err))
     | Inr result \<Rightarrow> ret (Inr (policyFromGetResponse result))
   }"

definition ci_UpdateAccessPolicy ::
  "'w AccessSdk \<Rightarrow> string \<Rightarrow> string \<Rightarrow> string \<Rightarrow> UpdatePolicyParams \<Rightarrow> ('w, AccessPolicy res) io" where
  "ci_UpdateAccessPolicy sdk accountID appID policyID params = do {
     r \<leftarrow> PoliciesUpdate sdk appID policyID accountID (policy_body params);
     case r of
       Inl err \<Rightarrow> ret (Inl (wrapf ''failed to update access policy'' err))
     | Inr result \<Rightarrow> ret (Inr (policyFromUpdateResponse result (cpp_Name params) (cpp_Decision params)))
   }"

definition ci_DeleteAccessPolicy :: "'w AccessSdk \<Rightarrow> string \<Rightarrow> string \<Rightarrow> string \<Rightarrow> ('w, unit res) io" where
  "ci_DeleteAccessPolicy sdk accountID appID policyID = do {
     r \<leftarrow> PoliciesDelete sdk appID policyID accountID;
     case r of
       Inl err \<Rightarrow> if not_found_text err then ret (Inr ())
                  else ret (Inl (wrapf ''failed to delete access policy'' err))
     | Inr u \<Rightarrow> ret (Inr ())
   }"

definition ci_ListAccessPolicies :: "'w AccessSdk \<Rightarrow> string \<Rightarrow> string \<Rightarrow> ('w, AccessPolicy list res) io" where
  "ci_ListAccessPolicies sdk accountID appID = do {
     page \<leftarrow> PoliciesList sdk appID accountID;
     case page of
       (items, Some err) \<Rightarrow> ret (Inl (wrapf ''failed to list access policies'' err))
     | (items, None) \<Rightarrow> ret (Inr (map policyFromListResponse items))
   }"

section \<open>Group operations\<close>

text \<open>Only the name and the include rules of a group are sent.\<close>

definition ci_CreateAccessGroup :: "'w AccessSdk \<Rightarrow> string \<Rightarrow> CreateGroupParams \<Rightarrow> ('w, AccessGroup res) io" where
  "ci_CreateAccessGroup sdk accountID params = do {
     r \<leftarrow> GroupsNew sdk accountID (cg_Name params) (accessRulesToAPI (cg_Include params));
     case r of
       Inl err \<Rightarrow> ret (Inl (wrapf ''failed to create access group'' err))
     | Inr result \<Rightarrow> ret (Inr (groupFromNewResponse result))
   }"

definition ci_GetAccessGroup :: "'w AccessSdk \<Rightarrow> string \<Rightarrow> string \<Rightarrow> ('w, AccessGroup option res) io" where
  "ci_GetAccessGroup sdk accountID groupID = do {
     r \<leftarrow> GroupsGet sdk groupID accountID;
     case r of
       Inl err \<Rightarrow> if not_found_text err then ret (Inr None)
                  else ret (Inl (wrapf ''failed to get access group'' err))
     | Inr result \<Rightarrow> ret (Inr (groupFromGetResponse result))
   }"

definition ci_UpdateAccessGroup ::
  "'w AccessSdk \<Rightarrow> string \<Rightarrow> string \<Rightarrow> UpdateGroupParams \<Rightarrow> ('w, AccessGroup res) io" where
  "ci_UpdateAccessGroup sdk accountID groupID params = do {
     r \<leftarrow> GroupsUpdate sdk groupID accountID (cg_Name params) (accessRulesToAPI (cg_Include params));
     case r of
       Inl err \<Rightarrow> ret (Inl (wrapf ''failed to update access group'' err))
     | Inr result \<Rightarrow> ret (Inr (groupFromUpdateResponse result))
   }"

definition ci_DeleteAccessGroup :: "'w AccessSdk \<Rightarrow> string \<Rightarrow> string \<Rightarrow> ('w, unit res) io" where
  "ci_DeleteAccessGroup sdk accountID groupID = do {
     r \<leftarrow> GroupsDelete sdk groupID accountID;
     case r of
       Inl err \<Rightarrow> if not_found_text err then ret (Inr ())
                  else ret (Inl (wrapf ''failed to delete access group'' err))
     | Inr u \<Rightarrow> ret (Inr ())
   }"

definition ci_ListAccessGroups :: "'w AccessSdk \<Rightarrow> string \<Rightarrow> ('w, AccessGroup list res) io" where
  "ci_ListAccessGroups sdk accountID = do {
     page \<leftarrow> GroupsList sdk accountID;
     case page of
       (items, Some err) \<Rightarrow> ret (Inl (wrapf ''failed to list access groups'' err))
     | (items, None) \<Rightarrow> ret (Inr (map groupFromListResponse items))
   }"

definition ci_GetAccessGroupByName ::
  "'w AccessSdk \<Rightarrow> string \<Rightarrow> string \<Rightarrow> ('w, AccessGroup option res) io" where
  "ci_GetAccessGroupByName sdk accountID name = do {
     r \<leftarrow> ci_ListAccessGroups sdk accountID;
     case r of
       Inl err \<Rightarrow> ret (Inl err)
     | Inr groups \<Rightarrow> ret (Inr (find (\<lambda>g. agr_Name g = name) groups))
   }"

section \<open>Service token operations\<close>

definition token_with_secret :: "SdkToken \<Rightarrow> ServiceTokenWithSecret" where
  "token_with_secret r = \<lparr>sts_Token = token_of r, sts_ClientSecret = sk_ClientSecret r\<rparr>"

definition ci_CreateServiceToken ::
  "'w AccessSdk \<Rightarrow> string \<Rightarrow> CreateServiceTokenParams \<Rightarrow> ('w, ServiceTokenWithSecret res) io" where
  "ci_CreateServiceToken sdk accountID params = do {
     r \<leftarrow> TokensNew sdk accountID (cst_Name params) (cst_Duration params);
     case r of
       Inl err \<Rightarrow> ret (Inl (wrapf ''failed to create service token'' err))
     | Inr result \<Rightarrow> ret (Inr (token_with_secret result))
   }"

definition ci_ListServiceTokens :: "'w AccessSdk \<Rightarrow> string \<Rightarrow> ('w, ServiceToken list res) io" where
  "ci_ListServiceTokens sdk accountID = do {
     page \<leftarrow> TokensList sdk accountID;
     case page of
       (items, Some err) \<Rightarrow> ret (Inl (wrapf ''failed to list service tokens'' err))
     | (items, None) \<Rightarrow> ret (Inr (map token_with_expiry items))
   }"

definition ci_GetServiceToken :: "'w AccessSdk \<Rightarrow> string \<Rightarrow> string \<Rightarrow> ('w, ServiceToken option res) io" where
  "ci_GetServiceToken sdk accountID tokenID = do {
     r \<leftarrow> ci_ListServiceTokens sdk accountID;
     case r of
       Inl err \<Rightarrow> ret (Inl err)
     | Inr tokens \<Rightarrow> ret (Inr (find (\<lambda>t. st_TokenID t = tokenID) tokens))
   }"

definition ci_UpdateServiceToken ::
  "'w AccessSdk \<Rightarrow> string \<Rightarrow> string \<Rightarrow> UpdateServiceTokenParams \<Rightarrow> ('w, ServiceToken res) io" where
  "ci_UpdateServiceToken sdk accountID tokenID params = do {
     r \<leftarrow> TokensUpdate sdk tokenID accountID (cst_Name params) (cst_Duration params);
     case r of
       Inl err \<Rightarrow> ret (Inl (wrapf ''failed to update service token'' err))
     | Inr result \<Rightarrow> ret (Inr (token_of result))
   }"

definition ci_DeleteServiceToken :: "'w AccessSdk \<Rightarrow> string \<Rightarrow> string \<Rightarrow> ('w, unit res) io" where
  "ci_DeleteServiceToken sdk accountID tokenID = do {
     r \<leftarrow> TokensDelete sdk tokenID accountID;
     case r of
       Inl err \<Rightarrow> if not_found_text err then ret (Inr ())
                  else ret (Inl (wrapf ''failed to delete service token'' err))
     | Inr u \<Rightarrow> ret (Inr ())
   }"

definition ci_RotateServiceToken :: "'w AccessSdk \<Rightarrow> string \<Rightarrow> string \<Rightarrow> ('w, ServiceTokenWithSecret res) io" where
  "ci_RotateServiceToken sdk accountID tokenID = do {
     r \<leftarrow> TokensRotate sdk tokenID accountID;
     case r of
       Inl err \<Rightarrow> ret (Inl (wrapf ''failed to rotate service token'' err))
     | Inr result \<Rightarrow> ret (Inr (token_with_secret result))
   }"

definition ci_RefreshServiceToken :: "'w AccessSdk \<Rightarrow> string \<Rightarrow> string \<Rightarrow> ('w, ServiceToken res) io" where
  "ci_RefreshServiceToken sdk accountID tokenID = do {
     r \<leftarrow> TokensRefresh sdk tokenID accountID;
     case r of
       Inl err \<Rightarrow> ret (Inl (wrapf ''failed to refresh service token'' err))
     | Inr result \<Rightarrow> ret (Inr (token_with_expiry result))
   }"

section \<open>Certificate operations\<close>

definition ci_CreateMTLSCertificate ::
  "'w AccessSdk \<Rightarrow> string \<Rightarrow> CreateCertificateParams \<Rightarrow> ('w, MTLSCertificate res) io" where
  "ci_CreateMTLSCertificate sdk accountID params = do {
     r \<leftarrow> CertificatesNew sdk accountID (ccp_Name params) (ccp_Certificate params) (ccp_AssociatedHostnames params);
     case r of
       Inl err \<Rightarrow> ret (Inl (wrapf ''failed to create mTLS certificate'' err))
     | Inr result \<Rightarrow> ret (Inr (certificate_of result))
   }"

definition ci_GetMTLSCertificate :: "'w AccessSdk \<Rightarrow> string \<Rightarrow> string \<Rightarrow> ('w, MTLSCertificate option res) io" where
  "ci_GetMTLSCertificate sdk accountID certID = do {
     r \<leftarrow> CertificatesGet sdk certID accountID;
     case r of
       Inl err \<Rightarrow> if not_found_text err then ret (Inr None)
                  else ret (Inl (wrapf ''failed to get mTLS certificate'' err))
     | Inr result \<Rightarrow> ret (Inr (Some (certificate_of result)))
   }"

definition ci_UpdateMTLSCertificate ::
  "'w AccessSdk \<Rightarrow> string \<Rightarrow> string \<Rightarrow> UpdateCertificateParams \<Rightarrow> ('w, MTLSCertificate res) io" where
  "ci_UpdateMTLSCertificate sdk accountID certID params = do {
     r \<leftarrow> CertificatesUpdate sdk certID accountID (ucp_Name params) (ucp_AssociatedHostnames params);
     case r of
       Inl err \<Rightarrow> ret (Inl (wrapf ''failed to update mTLS certificate'' err))
     | Inr result \<Rightarrow> ret (Inr (certificate_of result))
   }"

definition ci_DeleteMTLSCertificate :: "'w AccessSdk \<Rightarrow> string \<Rightarrow> string \<Rightarrow> ('w, unit res) io" where
  "ci_DeleteMTLSCertificate sdk accountID certID = do {
     r \<leftarrow> CertificatesDelete sdk certID accountID;
     case r of
       Inl err \<Rightarrow> if not_found_text err then ret (Inr ())
                  else ret (Inl (wrapf ''failed to delete mTLS certificate'' err))
     | Inr u \<Rightarrow> ret (Inr ())
   }"

definition ci_ListMTLSCertificates :: "'w AccessSdk \<Rightarrow> string \<Rightarrow> ('w, MTLSCertificate list res) io" where
  "ci_ListMTLSCertificates sdk accountID = do {
     page \<leftarrow> CertificatesList sdk accountID;
     case page of
       (items, Some err) \<Rightarrow> ret (Inl (wrapf ''failed to list mTLS certificates'' err))
     | (items, None) \<Rightarrow> ret (Inr (map certificate_of items))
   }"

definition ci_GetMTLSCertificateSettings :: "'w AccessSdk \<Rightarrow> string \<Rightarrow> ('w, CertificateSettings list res) io" where
  "ci_GetMTLSCertificateSettings sdk accountID = do {
     r \<leftarrow> CertSettingsGet sdk accountID;
     case r of
       Inl err \<Rightarrow> ret (Inl (wrapf ''failed to get mTLS certificate settings'' err))
     | Inr result \<Rightarrow> ret (Inr (map setting_of result))
   }"

definition setting_to_API :: "CertificateSettingsParam \<Rightarrow> SdkCertSetting" where
  "setting_to_API s = \<lparr>ss_Hostname = cs_Hostname s, ss_ChinaNetwork = cs_ChinaNetwork s,
     ss_ClientCertificateForwarding = cs_ClientCertificateForwarding s\<rparr>"

definition ci_UpdateMTLSCertificateSettings ::
  "'w AccessSdk \<Rightarrow> string \<Rightarrow> CertificateSettingsParam list \<Rightarrow> ('w, CertificateSettings list res) io" where
  "ci_UpdateMTLSCertificateSettings sdk accountID settings = do {
     r \<leftarrow> CertSettingsUpdate sdk accountID (map setting_to_API settings);
     case r of
       Inl err \<Rightarrow> ret (Inl (wrapf ''failed to update mTLS certificate settings'' err))
     | Inr result \<Rightarrow> ret (Inr (map setting_of result))
   }"

section \<open>The client\<close>

definition accessClientImpl :: "'w AccessSdk \<Rightarrow> 'w AccessClient" where
  "accessClientImpl sdk = \<lparr>
     CreateAccessApplication = ci_CreateAccessApplication sdk,
     GetAccessApplication = ci_GetAccessApplication sdk,
     UpdateAccessApplication = ci_UpdateAccessApplication sdk,
     DeleteAccessApplication = ci_DeleteAccessApplication sdk,
     ListAccessApplications = ci_ListAccessApplications sdk,
     GetAccessApplicationByName = ci_GetAccessApplicationByName sdk,
     CreateAccessPolicy = ci_CreateAccessPolicy sdk,
     GetAccessPolicy = ci_GetAccessPolicy sdk,
     UpdateAccessPolicy = ci_UpdateAccessPolicy sdk,
     DeleteAccessPolicy = ci_DeleteAccessPolicy sdk,
     ListAccessPolicies = ci_ListAccessPolicies sdk,
     CreateAccessGroup = ci_CreateAccessGroup sdk,
     GetAccessGroup = ci_GetAccessGroup sdk,
     UpdateAccessGroup = ci_UpdateAccessGroup sdk,
     DeleteAccessGroup = ci_DeleteAccessGroup sdk,
     ListAccessGroups = ci_ListAccessGroups sdk,
     GetAccessGroupByName = ci_GetAccessGroupByName sdk,
     CreateServiceToken = ci_CreateServiceToken sdk,
     GetServiceToken = ci_GetServiceToken sdk,
     UpdateServiceToken = ci_UpdateServiceToken sdk,
     DeleteServiceToken = ci_DeleteServiceToken sdk,
     ListServiceTokens = ci_ListServiceTokens sdk,
     RotateServiceToken = ci_RotateServiceToken sdk,
     RefreshServiceToken = ci_RefreshServiceToken sdk,
     CreateMTLSCertificate = ci_CreateMTLSCertificate sdk,
     GetMTLSCertificate = ci_GetMTLSCertificate sdk,
     UpdateMTLSCertificate = ci_UpdateMTLSCertificate sdk,
     DeleteMTLSCertificate = ci_DeleteMTLSCertificate sdk,
     ListMTLSCertificates = ci_ListMTLSCertificates sdk,
     GetMTLSCertificateSettings = ci_GetMTLSCertificateSettings sdk,
     UpdateMTLSCertificateSettings = ci_UpdateMTLSCertificateSettings sdk\<rparr>"

end
