(* ===== verification/Access_Policies.thy ===== *)
theory Access_Policies
  imports Access_Client
begin

text \<open>
  Access policies end to end: what the policy part of the Access API promises (locale
  \<open>sdk_policies\<close>), that the client provides the contract of the Access service on it, which rules
  survive the way to the API and back, and an in-memory server that keeps the promises.
\<close>

section \<open>How the API shows a rule and a policy\<close>

definition no_rule :: SdkRule where
  "no_rule = \<lparr>sr_IP = None, sr_Geo = None, sr_Everyone = False, sr_ServiceToken = None,
     sr_AnyValidServiceToken = False, sr_Email = None, sr_EmailDomain = None, sr_EmailList = None,
     sr_IPList = None, sr_OIDC = None, sr_GSuite = None, sr_Certificate = False, sr_CommonName = None,
     sr_Group = None\<rparr>"

text \<open>A rule is shown as a union in which the field of its kind is set.\<close>

fun rule_shown :: "SdkRuleParam \<Rightarrow> SdkRule" where
  "rule_shown (IPRuleParam ip) = no_rule\<lparr>sr_IP := Some ip\<rparr>"
| "rule_shown (CountryRuleParam cc) = no_rule\<lparr>sr_Geo := Some cc\<rparr>"
| "rule_shown EveryoneRuleParam = no_rule\<lparr>sr_Everyone := True\<rparr>"
| "rule_shown (ServiceTokenRuleParam t) = no_rule\<lparr>sr_ServiceToken := Some t\<rparr>"
| "rule_shown AnyValidServiceTokenRuleParam = no_rule\<lparr>sr_AnyValidServiceToken := True\<rparr>"
| "rule_shown (EmailRuleParam e) = no_rule\<lparr>sr_Email := Some e\<rparr>"
| "rule_shown (DomainRuleParam d) = no_rule\<lparr>sr_EmailDomain := Some d\<rparr>"
| "rule_shown (OIDCClaimRuleParam i n v) = no_rule\<lparr>sr_OIDC := Some (i, n, v)\<rparr>"
| "rule_shown (GSuiteGroupRuleParam i e) = no_rule\<lparr>sr_GSuite := Some (i, e)\<rparr>"
| "rule_shown CertificateRuleParam = no_rule\<lparr>sr_Certificate := True\<rparr>"
| "rule_shown (GroupRuleParam g) = no_rule\<lparr>sr_Group := Some g\<rparr>"
| "rule_shown (CommonNameRuleParam c) = no_rule\<lparr>sr_CommonName := Some c\<rparr>"

definition rules_shown :: "SdkRuleParam list option \<Rightarrow> SdkRule list" where
  "rules_shown rs = (case rs of None \<Rightarrow> [] | Some rs \<Rightarrow> map rule_shown rs)"

definition shows_body :: "SdkPolicy \<Rightarrow> SdkPolicyBody \<Rightarrow> bool" where
  "shows_body p b \<longleftrightarrow>
     sp_Name p = pb_Name b \<and> sp_Decision p = pb_Decision b \<and> sp_Precedence p = pb_Precedence b \<and>
     sp_Include p = rules_shown (pb_Include b) \<and> sp_Exclude p = rules_shown (pb_Exclude b) \<and>
     sp_Require p = rules_shown (pb_Require b) \<and> sp_SessionDuration p = pb_SessionDuration b \<and>
     sp_PurposeJustificationRequired p = pb_PurposeJustificationRequired b \<and>
     sp_PurposeJustificationPrompt p = pb_PurposeJustificationPrompt b \<and>
     sp_ApprovalRequired p = pb_ApprovalRequired b"

text \<open>The policies of each application; a write replaces the whole policy.\<close>

locale sdk_policies =
  fixes sdk :: "'w AccessSdk"
    and store :: "'w \<Rightarrow> string \<Rightarrow> string \<Rightarrow> SdkPolicy list"
  assumes sdk_list_policies: "run_state (PoliciesList sdk app acc) w = ((ps, err), w') \<Longrightarrow>
      store w' = store w \<and> (err = None \<longrightarrow> ps = store w acc app)"
    and sdk_new_policy: "run_state (PoliciesNew sdk app acc b) w = (Inr p, w') \<Longrightarrow>
      shows_body p b \<and> sp_ID p \<notin> sp_ID ` List.set (store w acc app) \<and>
      store w' acc app = store w acc app @ [p]"
    and sdk_update_policy: "run_state (PoliciesUpdate sdk app i acc b) w = (Inr p, w') \<Longrightarrow>
      shows_body p b \<and> sp_ID p = i \<and>
      store w' acc app = map (\<lambda>q. if sp_ID q = i then p else q) (store w acc app)"
    and sdk_delete_policy: "run_state (PoliciesDelete sdk app i acc) w = (r, w') \<Longrightarrow>
      (case r of Inl e \<Rightarrow> not_found_text e \<longrightarrow>
                   store w' = store w \<and> i \<notin> sp_ID ` List.set (store w acc app)
       | Inr u \<Rightarrow> store w' acc app = filter (\<lambda>q. sp_ID q \<noteq> i) (store w acc app))"

section \<open>The client provides the contract\<close>

definition client_policies ::
  "('w \<Rightarrow> string \<Rightarrow> string \<Rightarrow> SdkPolicy list) \<Rightarrow> string \<Rightarrow> string \<Rightarrow> 'w \<Rightarrow> AccessPolicy list" where
  "client_policies store acc app w = map policyFromListResponse (store w acc app)"

text \<open>What the client reads after a write with these parameters.\<close>

definition rules_read :: "AccessRuleParam list option \<Rightarrow> AccessRuleParam list option" where
  "rules_read rs = accessRulesFromAPI (rules_shown (sent_rules rs))"

definition policy_shown :: "CreatePolicyParams \<Rightarrow> AccessPolicy \<Rightarrow> bool" where
  "policy_shown d p \<longleftrightarrow>
     ap_Name p = cpp_Name d \<and> ap_Decision p = cpp_Decision d \<and> ap_Precedence p = cpp_Precedence d \<and>
     ap_Include p = rules_read (cpp_Include d) \<and> ap_Exclude p = rules_read (cpp_Exclude d) \<and>
     ap_Require p = rules_read (cpp_Require d) \<and> ap_SessionDuration p = cpp_SessionDuration d \<and>
     ap_PurposeJustificationRequired p = cpp_PurposeJustificationRequired d \<and>
     ap_PurposeJustificationPrompt p = cpp_PurposeJustificationPrompt d \<and>
     ap_ApprovalRequired p = cpp_ApprovalRequired d \<and> ap_ApprovalGroups p = None"

lemma policy_shown_name: "policy_shown d p \<Longrightarrow> ap_Name p = cpp_Name d"
  by (simp add: policy_shown_def)

lemma policyFromListResponse_simps [simp]:
  "ap_ID (policyFromListResponse p) = sp_ID p" "ap_Name (policyFromListResponse p) = sp_Name p"
  by (simp_all add: policyFromListResponse_def policy_of_def)

lemma shows_body_shown:
  assumes "shows_body p (policy_body d)"
  shows "policy_shown d (policyFromListResponse p)"
    "policyFromNewResponse p (cpp_Name d) (cpp_Decision d) = policyFromListResponse p"
    "policyFromUpdateResponse p (cpp_Name d) (cpp_Decision d) = policyFromListResponse p"
  using assms
  by (simp_all add: shows_body_def policy_body_def policy_shown_def policyFromListResponse_def
      policyFromNewResponse_def policyFromUpdateResponse_def policy_of_def rules_read_def)

lemma client_policies_ids: "ap_ID ` List.set (client_policies store acc app w) = sp_ID ` List.set (store w acc app)"
  by (simp add: client_policies_def image_image)

lemma accessClientImpl_policies [simp]:
  "ListAccessPolicies (accessClientImpl sdk) = ci_ListAccessPolicies sdk"
  "CreateAccessPolicy (accessClientImpl sdk) = ci_CreateAccessPolicy sdk"
  "UpdateAccessPolicy (accessClientImpl sdk) = ci_UpdateAccessPolicy sdk"
  "DeleteAccessPolicy (accessClientImpl sdk) = ci_DeleteAccessPolicy sdk"
  by (simp_all add: accessClientImpl_def)

context sdk_policies
begin

lemma list_policies_client:
  assumes "run_state (ci_ListAccessPolicies sdk acc app) w = (r, w')"
  shows "client_policies store acc app w' = client_policies store acc app w \<and>
    (\<forall>ps. r = Inr ps \<longrightarrow> ps = client_policies store acc app w)"
proof -
  obtain items err w1 where p: "run_state (PoliciesList sdk app acc) w = ((items, err), w1)"
    by (metis prod.exhaust)
  from sdk_list_policies [OF p] p assms show ?thesis
    by (cases err) (auto simp: ci_ListAccessPolicies_def client_policies_def)
qed

lemma create_policy_client:
  assumes "run_state (ci_CreateAccessPolicy sdk acc app d) w = (Inr p, w')"
  shows "policy_shown d p \<and> ap_ID p \<notin> ap_ID ` List.set (client_policies store acc app w) \<and>
    client_policies store acc app w' = client_policies store acc app w @ [p]"
proof -
  obtain r w1 where r: "run_state (PoliciesNew sdk app acc (policy_body d)) w = (r, w1)" by (rule prod.exhaust)
  with assms obtain q where q: "r = Inr q" "p = policyFromNewResponse q (cpp_Name d) (cpp_Decision d)" "w1 = w'"
    by (cases r) (auto simp: ci_CreateAccessPolicy_def)
  from sdk_new_policy [OF r [unfolded q(1)]] shows_body_shown [of q d] q(2,3) show ?thesis
    by (simp add: client_policies_ids) (simp add: client_policies_def)
qed

lemma update_policy_client:
  assumes "run_state (ci_UpdateAccessPolicy sdk acc app i d) w = (Inr p, w')"
  shows "policy_shown d p \<and> ap_ID p = i \<and>
    client_policies store acc app w' = map (\<lambda>q. if ap_ID q = i then p else q) (client_policies store acc app w)"
proof -
  obtain r w1 where r: "run_state (PoliciesUpdate sdk app i acc (policy_body d)) w = (r, w1)" by (rule prod.exhaust)
  with assms obtain q where q: "r = Inr q" "p = policyFromUpdateResponse q (cpp_Name d) (cpp_Decision d)" "w1 = w'"
    by (cases r) (auto simp: ci_UpdateAccessPolicy_def)
  from sdk_update_policy [OF r [unfolded q(1)]] shows_body_shown [of q d] q(2,3) show ?thesis
    by (simp add: client_policies_def)
qed

lemma delete_policy_client:
  assumes "run_state (ci_DeleteAccessPolicy sdk acc app i) w = (Inr u, w')"
  shows "client_policies store acc app w' = filter (\<lambda>p. ap_ID p \<noteq> i) (client_policies store acc app w)"
proof -
  obtain r w1 where r: "run_state (PoliciesDelete sdk app i acc) w = (r, w1)" by (rule prod.exhaust)
  have absent: "i \<notin> sp_ID ` List.set xs \<Longrightarrow> filter (\<lambda>x. sp_ID x \<noteq> i) xs = xs" for xs
    by (rule filter_True) auto
  from sdk_delete_policy [OF r] r assms show ?thesis
    by (cases r) (auto simp: ci_DeleteAccessPolicy_def client_policies_def filter_map comp_def absent
        split: if_splits)
qed

end

sublocale sdk_policies \<subseteq> impl: access_policy_api "accessClientImpl sdk" acc app
  "client_policies store acc app" policy_shown for acc app
  by unfold_locales
    (simp_all add: policy_shown_name list_policies_client create_policy_client update_policy_client
      delete_policy_client)

context sdk_policies
begin

lemmas client_provides_policies = impl.access_policy_api_axioms

end

section \<open>Which rules survive\<close>

definition rule_read :: "AccessRuleParam \<Rightarrow> AccessRuleParam option" where
  "rule_read r = Option.bind (accessRuleToAPI r) (\<lambda>s. accessRuleFromAPI (rule_shown s))"

text \<open>One kind of rule is set, and it is one of the kinds that are sent.\<close>

definition sent_kind :: "AccessRuleParam \<Rightarrow> bool" where
  "sent_kind r \<longleftrightarrow>
     (\<exists>x. r = zero_AccessRuleParam\<lparr>ar_IPRange := Some x\<rparr>) \<or>
     (\<exists>x. r = zero_AccessRuleParam\<lparr>ar_Country := Some x\<rparr>) \<or>
     r = zero_AccessRuleParam\<lparr>ar_Everyone := Some True\<rparr> \<or>
     (\<exists>x. r = zero_AccessRuleParam\<lparr>ar_ServiceTokenID := Some x\<rparr>) \<or>
     r = zero_AccessRuleParam\<lparr>ar_AnyValidServiceToken := Some True\<rparr> \<or>
     (\<exists>x. r = zero_AccessRuleParam\<lparr>ar_Email := Some x\<rparr>) \<or>
     (\<exists>x. r = zero_AccessRuleParam\<lparr>ar_EmailDomain := Some x\<rparr>) \<or>
     (\<exists>x. r = zero_AccessRuleParam\<lparr>ar_OIDCClaim := Some x\<rparr>) \<or>
     (\<exists>x. r = zero_AccessRuleParam\<lparr>ar_GSuiteGroup := Some x\<rparr>) \<or>
     r = zero_AccessRuleParam\<lparr>ar_Certificate := Some True\<rparr> \<or>
     (\<exists>x. r = zero_AccessRuleParam\<lparr>ar_GroupID := Some x\<rparr>) \<or>
     (\<exists>x. r = zero_AccessRuleParam\<lparr>ar_CommonName := Some x\<rparr>)"

lemma accessRuleFromAPI_shown:
  "accessRuleFromAPI (rule_shown s) = Some (case s of
      IPRuleParam x \<Rightarrow> zero_AccessRuleParam\<lparr>ar_IPRange := Some x\<rparr>
    | CountryRuleParam x \<Rightarrow> zero_AccessRuleParam\<lparr>ar_Country := Some x\<rparr>
    | EveryoneRuleParam \<Rightarrow> zero_AccessRuleParam\<lparr>ar_Everyone := Some True\<rparr>
    | ServiceTokenRuleParam x \<Rightarrow> zero_AccessRuleParam\<lparr>ar_ServiceTokenID := Some x\<rparr>
    | AnyValidServiceTokenRuleParam \<Rightarrow> zero_AccessRuleParam\<lparr>ar_AnyValidServiceToken := Some True\<rparr>
    | EmailRuleParam x \<Rightarrow> zero_AccessRuleParam\<lparr>ar_Email := Some x\<rparr>
    | DomainRuleParam x \<Rightarrow> zero_AccessRuleParam\<lparr>ar_EmailDomain := Some x\<rparr>
    | OIDCClaimRuleParam i n v \<Rightarrow> zero_AccessRuleParam\<lparr>ar_OIDCClaim := Some
        \<lparr>oi_IdentityProviderID = i, oi_ClaimName = n, oi_ClaimValue = v\<rparr>\<rparr>
    | GSuiteGroupRuleParam i e \<Rightarrow> zero_AccessRuleParam\<lparr>ar_GSuiteGroup := Some
        \<lparr>gs_IdentityProviderID = i, gs_Email = e\<rparr>\<rparr>
    | CertificateRuleParam \<Rightarrow> zero_AccessRuleParam\<lparr>ar_Certificate := Some True\<rparr>
    | GroupRuleParam x \<Rightarrow> zero_AccessRuleParam\<lparr>ar_GroupID := Some x\<rparr>
    | CommonNameRuleParam x \<Rightarrow> zero_AccessRuleParam\<lparr>ar_CommonName := Some x\<rparr>)"
  by (cases s) (simp_all add: accessRuleFromAPI_def guarded_def no_rule_def)

lemma rule_read_fixed: "rule_read r = Some r \<longleftrightarrow> sent_kind r"
proof
  assume "rule_read r = Some r"
  then obtain s where "accessRuleFromAPI (rule_shown s) = Some r" by (auto simp: rule_read_def bind_eq_Some_conv)
  then show "sent_kind r"
    unfolding accessRuleFromAPI_shown by (cases s) (auto simp: sent_kind_def)
next
  assume "sent_kind r"
  then show "rule_read r = Some r"
    unfolding sent_kind_def rule_read_def
    by (elim disjE exE)
      (simp_all add: accessRuleToAPI_def accessRuleFromAPI_shown guarded_def zero_AccessRuleParam_def)
qed

lemma length_map_filter_le: "length (List.map_filter f xs) \<le> length xs"
  by (induction xs) (auto simp: List.map_filter_simps split: option.split)

lemma map_filter_fixed: "List.map_filter f xs = xs \<longleftrightarrow> list_all (\<lambda>x. f x = Some x) xs"
proof (induction xs)
  case (Cons x xs)
  show ?case
  proof (cases "f x")
    case None
    have "length (List.map_filter f xs) \<noteq> length (x # xs)" using length_map_filter_le [of f xs] by simp
    then have "List.map_filter f xs \<noteq> x # xs" by metis
    with None show ?thesis by (simp add: List.map_filter_simps)
  qed (use Cons in \<open>simp add: List.map_filter_simps\<close>)
qed (simp add: List.map_filter_simps)

lemma map_filter_bind:
  "List.map_filter g (map h (List.map_filter f xs)) = List.map_filter (\<lambda>x. Option.bind (f x) (\<lambda>y. g (h y))) xs"
  by (induction xs) (auto simp: List.map_filter_simps split: option.split)

lemma rules_read_Some:
  "rules_read (Some rs) = (if accessRulesToAPI rs = [] then None else Some (List.map_filter rule_read rs))"
proof -
  have "rule_read = (\<lambda>x. Option.bind (accessRuleToAPI x) (\<lambda>y. accessRuleFromAPI (rule_shown y)))"
    by (simp add: fun_eq_iff rule_read_def)
  then have "List.map_filter accessRuleFromAPI (map rule_shown (accessRulesToAPI rs)) = List.map_filter rule_read rs"
    by (simp add: accessRulesToAPI_def map_filter_bind)
  moreover have "accessRulesToAPI [] = []" by (simp add: accessRulesToAPI_def List.map_filter_simps)
  ultimately show ?thesis
    by (auto simp: rules_read_def sent_rules_def rules_shown_def accessRulesFromAPI_def)
qed

lemma rules_read_None [simp]: "rules_read None = None"
  by (simp add: rules_read_def sent_rules_def rules_shown_def accessRulesFromAPI_def)

lemma sent_kind_sent: "sent_kind r \<Longrightarrow> accessRuleToAPI r \<noteq> None"
  using rule_read_fixed [of r] by (auto simp: rule_read_def bind_eq_Some_conv)

lemma rules_read_fixed:
  "rules_read rs = rs \<longleftrightarrow> (case rs of None \<Rightarrow> True | Some xs \<Rightarrow> xs \<noteq> [] \<and> list_all sent_kind xs)"
proof (cases rs)
  case (Some xs)
  have sent: "accessRulesToAPI xs \<noteq> []" if "list_all sent_kind xs" "xs \<noteq> []"
    using that sent_kind_sent
    by (cases xs) (fastforce simp: accessRulesToAPI_def List.map_filter_simps split: option.splits)+
  show ?thesis
  proof (cases "accessRulesToAPI xs = []")
    case True
    with sent Some show ?thesis by (auto simp: rules_read_Some)
  next
    case False
    moreover from this have "xs \<noteq> []" by (auto simp: accessRulesToAPI_def List.map_filter_simps)
    ultimately show ?thesis using Some map_filter_fixed [of rule_read xs]
      by (simp add: rules_read_Some rule_read_fixed)
  qed
qed simp

text \<open>Parameters under which a written policy compares equal to what is desired.\<close>

definition representable :: "CreatePolicyParams \<Rightarrow> bool" where
  "representable d \<longleftrightarrow> cpp_ApprovalGroups d = None \<and>
     list_all (\<lambda>rs. case rs of None \<Rightarrow> True | Some xs \<Rightarrow> xs \<noteq> [] \<and> list_all sent_kind xs)
       [cpp_Include d, cpp_Exclude d, cpp_Require d]"

lemma policy_shown_equal:
  "policy_shown d p \<Longrightarrow> accessPolicyEqual p d \<longleftrightarrow> representable d"
  by (auto simp: policy_shown_def accessPolicyEqual_def representable_def rules_read_fixed [symmetric])

section \<open>An in-memory server\<close>

definition mem_fresh_policy :: "SdkPolicy list \<Rightarrow> string" where
  "mem_fresh_policy ps = ''p'' @ concat (map sp_ID ps)"

definition mem_policy :: "string \<Rightarrow> SdkPolicyBody \<Rightarrow> SdkPolicy" where
  "mem_policy i b = \<lparr>sp_ID = i, sp_Name = pb_Name b, sp_Decision = pb_Decision b,
     sp_Precedence = pb_Precedence b, sp_Include = rules_shown (pb_Include b),
     sp_Exclude = rules_shown (pb_Exclude b), sp_Require = rules_shown (pb_Require b),
     sp_SessionDuration = pb_SessionDuration b,
     sp_PurposeJustificationRequired = pb_PurposeJustificationRequired b,
     sp_PurposeJustificationPrompt = pb_PurposeJustificationPrompt b,
     sp_ApprovalRequired = pb_ApprovalRequired b, sp_CreatedAt = 0, sp_UpdatedAt = 0\<rparr>"

type_synonym mem_policies = "string \<Rightarrow> string \<Rightarrow> SdkPolicy list"

definition mem_put_policies :: "mem_policies \<Rightarrow> string \<Rightarrow> string \<Rightarrow> SdkPolicy list \<Rightarrow> mem_policies" where
  "mem_put_policies w acc app ps = w(acc := (w acc)(app := ps))"

definition down_access_sdk :: "'w AccessSdk" where
  "down_access_sdk = \<lparr>
     ApplicationsNew = \<lambda>a b. ret (Inl access_down), ApplicationsGet = \<lambda>a b. ret (Inl access_down),
     ApplicationsUpdate = \<lambda>a b c. ret (Inl access_down), ApplicationsDelete = \<lambda>a b. ret (Inl access_down),
     ApplicationsList = \<lambda>a. ret ([], Some access_down), PoliciesNew = \<lambda>a b c. ret (Inl access_down),
     PoliciesGet = \<lambda>a b c. ret (Inl access_down), PoliciesUpdate = \<lambda>a b c d. ret (Inl access_down),
     PoliciesDelete = \<lambda>a b c. ret (Inl access_down), PoliciesList = \<lambda>a b. ret ([], Some access_down),
     GroupsNew = \<lambda>a b c. ret (Inl access_down), GroupsGet = \<lambda>a b. ret (Inl access_down),
     GroupsUpdate = \<lambda>a b c d. ret (Inl access_down), GroupsDelete = \<lambda>a b. ret (Inl access_down),
     GroupsList = \<lambda>a. ret ([], Some access_down), TokensNew = \<lambda>a b c. ret (Inl access_down),
     TokensUpdate = \<lambda>a b c d. ret (Inl access_down), TokensDelete = \<lambda>a b. ret (Inl access_down),
     TokensList = \<lambda>a. ret ([], Some access_down), TokensRotate = \<lambda>a b. ret (Inl access_down),
     TokensRefresh = \<lambda>a b. ret (Inl access_down), CertificatesNew = \<lambda>a b c d. ret (Inl access_down),
     CertificatesGet = \<lambda>a b. ret (Inl access_down), CertificatesUpdate = \<lambda>a b c d. ret (Inl access_down),
     CertificatesDelete = \<lambda>a b. ret (Inl access_down), CertificatesList = \<lambda>a. ret ([], Some access_down),
     CertSettingsGet = \<lambda>a. ret (Inl access_down), CertSettingsUpdate = \<lambda>a b. ret (Inl access_down)\<rparr>"

definition mem_access_sdk :: "mem_policies AccessSdk" where
  "mem_access_sdk = down_access_sdk\<lparr>
     PoliciesList := \<lambda>app acc. State (\<lambda>w. ((w acc app, None), w)),
     PoliciesNew := \<lambda>app acc b. State (\<lambda>w. let p = mem_policy (mem_fresh_policy (w acc app)) b in
       (Inr p, mem_put_policies w acc app (w acc app @ [p]))),
     PoliciesUpdate := \<lambda>app i acc b. State (\<lambda>w. let p = mem_policy i b in
       (Inr p, mem_put_policies w acc app (map (\<lambda>q. if sp_ID q = i then p else q) (w acc app)))),
     PoliciesDelete := \<lambda>app i acc. State (\<lambda>w.
       (Inr (), mem_put_policies w acc app (filter (\<lambda>q. sp_ID q \<noteq> i) (w acc app))))\<rparr>"

lemma mem_fresh_policy_new: "mem_fresh_policy ps \<notin> sp_ID ` List.set ps"
proof
  assume "mem_fresh_policy ps \<in> sp_ID ` List.set ps"
  then obtain p where p: "p \<in> List.set ps" "sp_ID p = mem_fresh_policy ps" by auto
  have "length (sp_ID p) \<le> length (concat (map sp_ID ps))" using p(1)
    by (induction ps) auto
  with p(2) show False by (simp add: mem_fresh_policy_def)
qed

lemma mem_policy_shows: "shows_body (mem_policy i b) b" "sp_ID (mem_policy i b) = i"
  by (simp_all add: shows_body_def mem_policy_def)

interpretation mem_pol: sdk_policies mem_access_sdk "\<lambda>w. w"
  by unfold_locales
    (auto simp: mem_access_sdk_def mem_put_policies_def Let_def mem_policy_shows mem_fresh_policy_new)

section \<open>Properties\<close>

text \<open>C17: A sync leaves an application with exactly the desired policies. Against an API that keeps its
  promises, when the policies of the application have distinct names and identifiers, a sync that
  succeeds leaves policies with distinct names and identifiers; their names are the desired names;
  each of them was written with the desired parameters of its name or compares equal to them; and
  the returned identifiers are those of these policies. This holds for every order in which the
  maps are ranged over.\<close>

theorem sync_policies_exact:
  assumes "sdk_policies sdk store" "ranges_over_maps rng"
    and "policies_wf (client_policies store acc app w)"
    and "run_state (SyncPolicies (accessClientImpl sdk) rng acc app desired) w = (Inr ids, w')"
  shows "let ps = client_policies store acc app w' in
    policies_wf ps \<and> ap_Name ` List.set ps = cpp_Name ` List.set desired \<and>
    (\<forall>p \<in> List.set ps. \<forall>d. map_of (desired_by_name desired) (ap_Name p) = Some d \<longrightarrow>
       policy_shown d p \<or> accessPolicyEqual p d) \<and>
    List.set ids = ap_ID ` List.set ps \<and> length ids = card (cpp_Name ` List.set desired)"
proof -
  have api: "access_policy_api (accessClientImpl sdk) acc app (client_policies store acc app) policy_shown"
    using assms(1) by (rule sdk_policies.client_provides_policies)
  from access_policy_api.SyncPolicies_match [OF api assms(4,3,2)] show ?thesis
    unfolding access_policy_api.policies_match_def [OF api] access_policy_api.realises_def [OF api] Let_def
    by blast
qed

definition wit_rng :: "'w PolicyRange" where
  "wit_rng = \<lparr>range_existing = (\<lambda>m. ret (rev m)), range_desired = (\<lambda>m. ret (rev m))\<rparr>"

lemma wit_rng_ranges: "ranges_over_maps wit_rng"
  by (auto simp: ranges_over_maps_def wit_rng_def)

definition wit_policy_params :: CreatePolicyParams where
  "wit_policy_params = \<lparr>cpp_Name = ''staff'', cpp_Decision = ''allow'', cpp_Precedence = 1,
     cpp_Include = Some [zero_AccessRuleParam\<lparr>ar_EmailDomain := Some ''example.com''\<rparr>],
     cpp_Exclude = None, cpp_Require = None, cpp_SessionDuration = '''',
     cpp_PurposeJustificationRequired = False, cpp_PurposeJustificationPrompt = '''',
     cpp_ApprovalRequired = False, cpp_ApprovalGroups = None\<rparr>"

definition wit_old_policy :: SdkPolicy where
  "wit_old_policy = mem_policy ''q'' (policy_body (wit_policy_params\<lparr>cpp_Name := ''old''\<rparr>))"

definition wit_policies_before :: mem_policies where
  "wit_policies_before = (\<lambda>acc app. [wit_old_policy])"

definition wit_policies_after :: mem_policies where
  "wit_policies_after = mem_put_policies wit_policies_before ''acc'' ''app''
     [mem_policy ''p'' (policy_body wit_policy_params)]"

lemma wit_old_policy_simps [simp]: "sp_ID wit_old_policy = ''q''" "sp_Name wit_old_policy = ''old''"
  by (simp_all add: wit_old_policy_def mem_policy_def policy_body_def)

lemma wit_policies_wf: "policies_wf (client_policies (\<lambda>w. w) ''acc'' ''app'' wit_policies_before)"
  by (simp add: policies_wf_def client_policies_def wit_policies_before_def)

lemma wit_desired: "desired_by_name [wit_policy_params] = [(''staff'', wit_policy_params)]"
  by (simp add: desired_by_name_def wit_policy_params_def)

lemma wit_policy_sync_run:
  "run_state (SyncPolicies (accessClientImpl mem_access_sdk) wit_rng ''acc'' ''app'' [wit_policy_params])
     wit_policies_before = (Inr [''p''], wit_policies_after)"
proof -
  have l: "run_state (ci_ListAccessPolicies mem_access_sdk ''acc'' ''app'') wit_policies_before =
      (Inr [policyFromListResponse wit_old_policy], wit_policies_before)"
    by (simp add: ci_ListAccessPolicies_def mem_access_sdk_def wit_policies_before_def)
  have d: "run_state (ci_DeleteAccessPolicy mem_access_sdk ''acc'' ''app'' ''q'') wit_policies_before =
      (Inr (), mem_put_policies wit_policies_before ''acc'' ''app'' [])"
    by (simp add: ci_DeleteAccessPolicy_def mem_access_sdk_def wit_policies_before_def)
  have c: "run_state (ci_CreateAccessPolicy mem_access_sdk ''acc'' ''app'' wit_policy_params)
      (mem_put_policies wit_policies_before ''acc'' ''app'' []) =
      (Inr (policyFromListResponse (mem_policy ''p'' (policy_body wit_policy_params))), wit_policies_after)"
    using shows_body_shown(2) [OF mem_policy_shows(1), of "''p''" wit_policy_params]
    by (simp add: ci_CreateAccessPolicy_def mem_access_sdk_def Let_def mem_put_policies_def
        mem_fresh_policy_def wit_policies_after_def)
  show ?thesis using l d c
    by (simp add: SyncPolicies_def wit_rng_def wit_desired existing_by_name_def Let_def mem_policy_def)
qed

theorem sync_policies_exact_witness:
  "ap_Name ` List.set (client_policies (\<lambda>w. w) ''acc'' ''app'' wit_policies_after) = {''staff''}"
  using sync_policies_exact [OF mem_pol.sdk_policies_axioms wit_rng_ranges wit_policies_wf wit_policy_sync_run]
  by (simp add: Let_def wit_policy_params_def)

text \<open>A sync of representable policies converges. When every desired policy has only rules that
  survive the API and no approval groups, then after a sync that succeeded, a later sync that reads
  the same policies makes no call but the listing.\<close>

theorem sync_policies_converges:
  assumes "sdk_policies sdk store" "ranges_over_maps rng"
    and "policies_wf (client_policies store acc app w)" "list_all representable desired"
    and "run_state (SyncPolicies (accessClientImpl sdk) rng acc app desired) w = (Inr ids, w')"
    and "run_state (ListAccessPolicies (accessClientImpl sdk) acc app) v = (Inr ps, v1)"
    and "store v acc app = store w' acc app"
  shows "\<exists>ids'. run_state (SyncPolicies (accessClientImpl sdk) rng acc app desired) v = (Inr ids', v1)"
proof -
  have api: "access_policy_api (accessClientImpl sdk) acc app (client_policies store acc app) policy_shown"
    using assms(1) by (rule sdk_policies.client_provides_policies)
  have ps: "ps = client_policies store acc app w'"
    using access_policy_api.list_pols [OF api assms(6)] assms(7) by (simp add: client_policies_def)
  from access_policy_api.SyncPolicies_match [OF api assms(5,3,2)] ps
  have m: "policies_wf ps" "ap_Name ` List.set ps = cpp_Name ` List.set desired"
    "\<And>p d. p \<in> List.set ps \<Longrightarrow> map_of (desired_by_name desired) (ap_Name p) = Some d \<Longrightarrow>
       policy_shown d p \<or> accessPolicyEqual p d"
    unfolding access_policy_api.policies_match_def [OF api] access_policy_api.realises_def [OF api] by auto
  show ?thesis
  proof (rule SyncPolicies_stable [OF assms(6,2) m(1,2)])
    fix p d
    assume "p \<in> List.set ps" and d: "map_of (desired_by_name desired) (ap_Name p) = Some d"
    moreover from d have "representable d"
      using assms(4) desired_by_name_name [of "ap_Name p" d desired]
      by (auto simp: list_all_iff dest: map_of_SomeD)
    ultimately show "accessPolicyEqual p d" using m(3) policy_shown_equal by blast
  qed
qed

lemma wit_representable: "representable wit_policy_params"
  by (simp add: representable_def wit_policy_params_def sent_kind_def) blast

theorem sync_policies_converges_witness:
  "\<exists>ids. run_state (SyncPolicies (accessClientImpl mem_access_sdk) wit_rng ''acc'' ''app'' [wit_policy_params])
     wit_policies_after = (Inr ids, wit_policies_after)"
proof (rule sync_policies_converges [OF mem_pol.sdk_policies_axioms wit_rng_ranges wit_policies_wf _ wit_policy_sync_run])
  show "run_state (ListAccessPolicies (accessClientImpl mem_access_sdk) ''acc'' ''app'') wit_policies_after =
      (Inr [policyFromListResponse (mem_policy ''p'' (policy_body wit_policy_params))], wit_policies_after)"
    by (simp add: ci_ListAccessPolicies_def mem_access_sdk_def wit_policies_after_def mem_put_policies_def)
qed (simp_all add: wit_representable)


text \<open>Requirements by list are lost. A policy whose requirements are IP lists and email lists is
  written without any requirement, whatever the lists; the policy the API then holds never compares
  equal to the desired one, so every later sync writes it again.\<close>

theorem list_requirements_lost:
  assumes "cpp_Require d = Some rs"
    and "\<forall>r \<in> List.set rs. \<exists>l. r = zero_AccessRuleParam\<lparr>ar_IPListID := Some l\<rparr> \<or>
           r = zero_AccessRuleParam\<lparr>ar_EmailListID := Some l\<rparr>"
    and "policy_shown d p"
  shows "ap_Require p = None \<and> \<not> accessPolicyEqual p d"
proof -
  have unsent: "accessRuleToAPI (zero_AccessRuleParam\<lparr>ar_IPListID := Some l\<rparr>) = None"
    "accessRuleToAPI (zero_AccessRuleParam\<lparr>ar_EmailListID := Some l\<rparr>) = None" for l
    by (simp_all add: accessRuleToAPI_def guarded_def zero_AccessRuleParam_def)
  have "accessRuleToAPI r = None" if "r \<in> List.set rs" for r
  proof -
    from assms(2) that obtain l where "r = zero_AccessRuleParam\<lparr>ar_IPListID := Some l\<rparr> \<or>
        r = zero_AccessRuleParam\<lparr>ar_EmailListID := Some l\<rparr>" by blast
    then show ?thesis by (elim disjE) (simp_all only: unsent)
  qed
  then have "accessRulesToAPI rs = []"
    by (induction rs) (auto simp: accessRulesToAPI_def List.map_filter_simps)
  then have "rules_read (cpp_Require d) = None" using assms(1) by (simp add: rules_read_Some)
  with assms(1,3) show ?thesis by (simp add: policy_shown_def accessPolicyEqual_def)
qed

theorem list_requirements_lost_witness:
  "\<exists>p. policy_shown (wit_policy_params\<lparr>cpp_Require := Some [zero_AccessRuleParam\<lparr>ar_IPListID := Some ''office''\<rparr>]\<rparr>) p \<and>
     ap_Require p = None"
proof -
  let ?d = "wit_policy_params\<lparr>cpp_Require := Some [zero_AccessRuleParam\<lparr>ar_IPListID := Some ''office''\<rparr>]\<rparr>"
  let ?p = "policyFromListResponse (mem_policy ''p'' (policy_body ?d))"
  have shown: "policy_shown ?d ?p"
    by (rule shows_body_shown(1) [OF mem_policy_shows(1)])
  have req: "cpp_Require ?d = Some [zero_AccessRuleParam\<lparr>ar_IPListID := Some ''office''\<rparr>]" by simp
  have "ap_Require ?p = None"
    by (rule list_requirements_lost [OF req _ shown, THEN conjunct1]) (simp, blast)
  with shown show ?thesis by blast
qed

end
