(* ===== verification/Features.thy ===== *)
theory Features
  imports Cfgate_Prelude
begin

text \<open>
  Feature detection: internal/controller/features/detection.go. The discovery API, which lists the
  resource names of a group and version, is a parameter.
\<close>

definition GatewayAPIGroup :: string where
  "GatewayAPIGroup = ''gateway.networking.k8s.io''"

record FeatureGates =
  fg_TCPRouteCRDExists :: bool
  fg_UDPRouteCRDExists :: bool
  fg_GRPCRouteCRDExists :: bool
  fg_ReferenceGrantCRDExists :: bool

type_synonym 'w Discovery = "string \<Rightarrow> ('w, string list res) io"

definition crdExists :: "'w Discovery \<Rightarrow> string \<Rightarrow> string \<Rightarrow> string \<Rightarrow> ('w, bool) io" where
  "crdExists dc grp version resource = do {
     r \<leftarrow> dc (grp @ ''/'' @ version);
     case r of
       Inl err \<Rightarrow> ret False
     | Inr resources \<Rightarrow> ret (list_ex (\<lambda>n. n = resource) resources)
   }"

definition DetectFeatures :: "'w Discovery \<Rightarrow> ('w, FeatureGates res) io" where
  "DetectFeatures dc = do {
     tcp \<leftarrow> crdExists dc GatewayAPIGroup ''v1alpha2'' ''tcproutes'';
     udp \<leftarrow> crdExists dc GatewayAPIGroup ''v1alpha2'' ''udproutes'';
     grpc \<leftarrow> crdExists dc GatewayAPIGroup ''v1'' ''grpcroutes'';
     rg \<leftarrow> crdExists dc GatewayAPIGroup ''v1beta1'' ''referencegrants'';
     ret (Inr \<lparr>fg_TCPRouteCRDExists = tcp, fg_UDPRouteCRDExists = udp, fg_GRPCRouteCRDExists = grpc,
               fg_ReferenceGrantCRDExists = rg\<rparr>)
   }"

definition HasTCPRouteSupport :: "FeatureGates \<Rightarrow> bool" where
  "HasTCPRouteSupport g = fg_TCPRouteCRDExists g"

definition HasUDPRouteSupport :: "FeatureGates \<Rightarrow> bool" where
  "HasUDPRouteSupport g = fg_UDPRouteCRDExists g"

definition HasGRPCRouteSupport :: "FeatureGates \<Rightarrow> bool" where
  "HasGRPCRouteSupport g = fg_GRPCRouteCRDExists g"

definition HasReferenceGrantSupport :: "FeatureGates \<Rightarrow> bool" where
  "HasReferenceGrantSupport g = fg_ReferenceGrantCRDExists g"

definition SupportedRouteKinds :: "FeatureGates \<Rightarrow> string list" where
  "SupportedRouteKinds g =
     [''HTTPRoute''] @
     (if fg_TCPRouteCRDExists g then [''TCPRoute''] else []) @
     (if fg_UDPRouteCRDExists g then [''UDPRoute''] else []) @
     (if fg_GRPCRouteCRDExists g then [''GRPCRoute''] else [])"

text \<open>When discovery answers the same throughout, a feature is on exactly when its resource is
  listed; a failing discovery disables the feature and never makes the detection fail.\<close>

definition listed :: "(string \<Rightarrow> string list res) \<Rightarrow> string \<Rightarrow> string \<Rightarrow> bool" where
  "listed answer gv r \<longleftrightarrow> (\<exists>rs. answer gv = Inr rs \<and> r \<in> List.set rs)"

lemma crdExists_listed:
  assumes "\<And>gv v. fst (run_state (dc gv) v) = answer gv"
  shows "fst (run_state (crdExists dc g v r) w) = listed answer (g @ ''/'' @ v) r"
proof -
  obtain a w' where a: "run_state (dc (g @ ''/'' @ v)) w = (a, w')" by (rule prod.exhaust)
  with assms [of "g @ ''/'' @ v" w] have "answer (g @ ''/'' @ v) = a" by simp
  with a show ?thesis by (cases a) (auto simp: crdExists_def list_ex_iff listed_def)
qed

lemma DetectFeatures_listed:
  assumes "\<And>gv v. fst (run_state (dc gv) v) = answer gv"
  shows "fst (run_state (DetectFeatures dc) w) = Inr
    \<lparr>fg_TCPRouteCRDExists = listed answer ''gateway.networking.k8s.io/v1alpha2'' ''tcproutes'',
     fg_UDPRouteCRDExists = listed answer ''gateway.networking.k8s.io/v1alpha2'' ''udproutes'',
     fg_GRPCRouteCRDExists = listed answer ''gateway.networking.k8s.io/v1'' ''grpcroutes'',
     fg_ReferenceGrantCRDExists = listed answer ''gateway.networking.k8s.io/v1beta1'' ''referencegrants''\<rparr>"
  by (simp add: DetectFeatures_def GatewayAPIGroup_def split_beta crdExists_listed [OF assms])

end
