(* ===== verification/Access_Controller.thy ===== *)
theory Access_Controller
  imports Context_Wrappers Access_Policies Features
begin

text \<open>
  The CloudflareAccessPolicy controller: internal/controller/cloudflareaccesspolicy_controller.go.
  A reconcile resolves credentials and targets, checks ReferenceGrants, and then ensures the Access
  application, its policies, service tokens and mTLS settings in Cloudflare, recording each phase
  as a condition. Deletion cleans up and releases the finalizer.

  The cluster, the clock, the SDK constructor, the finalizer and owner reference helpers of
  controller-runtime and the order in which maps are ranged over are the parameter \<open>AccEnv\<close>.
  The policy that the code changes through a pointer is passed on and returned.
\<close>

section \<open>Environment and state\<close>

record 'w AccEnv =
  ae_Get :: "NamespacedName \<Rightarrow> ('w, CloudflareAccessPolicy res) io"
  ae_Patch :: "CloudflareAccessPolicy \<Rightarrow> CloudflareAccessPolicy \<Rightarrow> ('w, unit res) io"
  ae_StatusUpdate :: "CloudflareAccessPolicy \<Rightarrow> ('w, unit res) io"
  ae_Reader :: "'w K8sReader"
  ae_GetClass :: "string \<Rightarrow> ('w, GatewayClass res) io"
  ae_GetSecret :: "NamespacedName \<Rightarrow> ('w, Secret res) io"
  ae_CreateSecret :: "Secret \<Rightarrow> ('w, unit res) io"
  ae_UpdateSecret :: "Secret \<Rightarrow> ('w, unit res) io"
  ae_ListPolicies :: "('w, CloudflareAccessPolicy list res) io"
  ae_ListByTarget :: "string \<Rightarrow> ('w, CloudflareAccessPolicy list res) io"
  ae_Event :: "NamespacedName \<Rightarrow> string \<Rightarrow> string \<Rightarrow> string \<Rightarrow> string \<Rightarrow> ('w, unit) io"
  ae_Now :: "('w, int) io"
  ae_CFClient :: "'w AccessClient option"
  ae_cfNewClient :: "string \<Rightarrow> 'w AccessSdk"
  ae_Gates :: "FeatureGates option"
  ae_Finalizers :: FinalizerLib
  ae_SetOwner :: "CloudflareAccessPolicy \<Rightarrow> Secret \<Rightarrow> Secret res"
  ae_Range :: "'w PolicyRange"
  ae_RangeTokens :: "strmap \<Rightarrow> ('w, strmap) io"

text \<open>The credential cache lives as long as the process; None is the nil cache.\<close>

record 'w AccState =
  acs_cred :: "'w AccessClient CredentialCache option"
  acs_world :: 'w

definition call :: "('w, 'a) io \<Rightarrow> ('w AccState, 'a) io" where
  "call m = State (\<lambda>s. case run_state m (acs_world s) of (a, w) \<Rightarrow> (a, s\<lparr>acs_world := w\<rparr>))"

definition accessPolicyFinalizer :: string where
  "accessPolicyFinalizer = ''cfgate.io/access-policy-cleanup''"

definition accessPolicyRequeueAfterError :: int where
  "accessPolicyRequeueAfterError = seconds 30"

definition accessPolicyRequeueAfterSuccess :: int where
  "accessPolicyRequeueAfterSuccess = seconds 300"

definition AccessPolicyControllerName :: string where
  "AccessPolicyControllerName = ''cfgate.io/cloudflare-tunnel-controller''"

abbreviation policy_key :: "CloudflareAccessPolicy \<Rightarrow> NamespacedName" where
  "policy_key p \<equiv> \<lparr>nn_Namespace = om_Namespace (acp_Meta p), nn_Name = om_Name (acp_Meta p)\<rparr>"

abbreviation policy_conditions :: "CloudflareAccessPolicy \<Rightarrow> Condition list" where
  "policy_conditions p \<equiv> ast_Conditions (acp_Status p)"

section \<open>Watches\<close>

definition accessPolicyTargetKey :: "string \<Rightarrow> string \<Rightarrow> string \<Rightarrow> string" where
  "accessPolicyTargetKey kind namespace name = kind @ ''/'' @ namespace @ ''/'' @ name"

definition ref_namespace :: "string \<Rightarrow> PolicyTargetReference \<Rightarrow> string" where
  "ref_namespace ns ref = (case pt_Namespace ref of None \<Rightarrow> ns | Some n \<Rightarrow> n)"

text \<open>None is an object of another type.\<close>

definition accessPolicyTargetIndexFunc :: "CloudflareAccessPolicy option \<Rightarrow> string list" where
  "accessPolicyTargetIndexFunc obj =
     (case obj of None \<Rightarrow> []
      | Some policy \<Rightarrow> map (\<lambda>ref. accessPolicyTargetKey (pt_Kind ref)
          (ref_namespace (om_Namespace (acp_Meta policy)) ref) (pt_Name ref)) (GetTargetRefs policy))"

definition findPoliciesForTarget ::
  "'w AccEnv \<Rightarrow> string \<Rightarrow> string \<Rightarrow> string \<Rightarrow> ('w, NamespacedName list) io" where
  "findPoliciesForTarget env kind namespace name = do {
     r \<leftarrow> ae_ListByTarget env (accessPolicyTargetKey kind namespace name);
     case r of Inl err \<Rightarrow> ret [] | Inr policies \<Rightarrow> ret (map policy_key policies)
   }"

definition findPoliciesForHTTPRoute :: "'w AccEnv \<Rightarrow> string \<Rightarrow> string \<Rightarrow> ('w, NamespacedName list) io" where
  "findPoliciesForHTTPRoute env = findPoliciesForTarget env ''HTTPRoute''"

definition findPoliciesForGRPCRoute :: "'w AccEnv \<Rightarrow> string \<Rightarrow> string \<Rightarrow> ('w, NamespacedName list) io" where
  "findPoliciesForGRPCRoute env = findPoliciesForTarget env ''GRPCRoute''"

definition findPoliciesForTCPRoute :: "'w AccEnv \<Rightarrow> string \<Rightarrow> string \<Rightarrow> ('w, NamespacedName list) io" where
  "findPoliciesForTCPRoute env = findPoliciesForTarget env ''TCPRoute''"

definition findPoliciesForUDPRoute :: "'w AccEnv \<Rightarrow> string \<Rightarrow> string \<Rightarrow> ('w, NamespacedName list) io" where
  "findPoliciesForUDPRoute env = findPoliciesForTarget env ''UDPRoute''"

definition findPoliciesForReferenceGrant ::
  "'w AccEnv \<Rightarrow> ReferenceGrant option \<Rightarrow> ('w, NamespacedName list) io" where
  "findPoliciesForReferenceGrant env obj =
     (case obj of
        None \<Rightarrow> ret []
      | Some grant \<Rightarrow> do {
          r \<leftarrow> ae_ListPolicies env;
          case r of
            Inl err \<Rightarrow> ret []
          | Inr policies \<Rightarrow>
              ret (map policy_key (filter (\<lambda>policy. list_ex (\<lambda>ref. pt_Namespace ref = Some (rg_Namespace grant))
                (GetTargetRefs policy)) policies))
        })"

text \<open>The route kinds \<open>SetupWithManager\<close> watches, each with its mapping, and whether it watches
  ReferenceGrants.\<close>

definition access_watches ::
  "'w AccEnv \<Rightarrow> (string \<times> (string \<Rightarrow> string \<Rightarrow> ('w, NamespacedName list) io)) list" where
  "access_watches env =
     [(''HTTPRoute'', findPoliciesForHTTPRoute env)] @
     (case ae_Gates env of
        None \<Rightarrow> []
      | Some g \<Rightarrow>
          (if HasGRPCRouteSupport g then [(''GRPCRoute'', findPoliciesForGRPCRoute env)] else []) @
          (if HasTCPRouteSupport g then [(''TCPRoute'', findPoliciesForTCPRoute env)] else []) @
          (if HasUDPRouteSupport g then [(''UDPRoute'', findPoliciesForUDPRoute env)] else []))"

definition watches_grants :: "'w AccEnv \<Rightarrow> bool" where
  "watches_grants env = (case ae_Gates env of None \<Rightarrow> False | Some g \<Rightarrow> HasReferenceGrantSupport g)"

section \<open>Credentials\<close>

definition NewAccessClient :: "(string \<Rightarrow> 'w AccessSdk) \<Rightarrow> string \<Rightarrow> 'w AccessClient res" where
  "NewAccessClient cfNewClient apiToken =
     (if apiToken = '''' then Inl (errorf ''API token is required'')
      else Inr (accessClientImpl (cfNewClient apiToken)))"

definition access_createClientFromSecret ::
  "(string \<Rightarrow> 'w AccessSdk) \<Rightarrow> Secret \<Rightarrow> 'w AccessClient res" where
  "access_createClientFromSecret cfNewClient secret =
     (let tokenKey = ''CLOUDFLARE_API_TOKEN''
      in case map_of (sec_Data secret) tokenKey of
           None \<Rightarrow> Inl (errorf (''API token key '' @ quote tokenKey @ '' not found in secret''))
         | Some token \<Rightarrow> NewAccessClient cfNewClient token)"

definition access_getCloudflareClient ::
  "'w AccEnv \<Rightarrow> string \<Rightarrow> CloudflareSecretRef \<Rightarrow> ('w AccState, 'w AccessClient res) io" where
  "access_getCloudflareClient env policyNamespace secretRef =
     (case ae_CFClient env of
        Some c \<Rightarrow> ret (Inr c)
      | None \<Rightarrow>
          (let secretNamespace = (case csr_Namespace secretRef of None \<Rightarrow> policyNamespace
                                  | Some ns \<Rightarrow> if ns \<noteq> '''' then ns else policyNamespace)
           in do {
             r \<leftarrow> call (ae_GetSecret env \<lparr>nn_Namespace = secretNamespace, nn_Name = csr_Name secretRef\<rparr>);
             case r of
               Inl err \<Rightarrow> ret (Inl (wrapf ''failed to get credentials secret'' err))
             | Inr secret \<Rightarrow> do {
                 cc \<leftarrow> State (\<lambda>s. (acs_cred s, s));
                 let created = access_createClientFromSecret (ae_cfNewClient env) secret;
                 case cc of
                   None \<Rightarrow> ret created
                 | Some c \<Rightarrow> do {
                     now1 \<leftarrow> call (ae_Now env);
                     now2 \<leftarrow> call (ae_Now env);
                     let (g, c') = crc_GetOrCreate now1 now2 c secret (map_sum id Some created);
                     _ \<leftarrow> State (\<lambda>s. ((), s\<lparr>acs_cred := Some c'\<rparr>));
                     ret (map_sum id the g)
                   }
               }
           }))"

text \<open>The tunnel a Gateway's annotation names, and the credentials it lends.\<close>

definition tunnel_credentials ::
  "'w AccEnv \<Rightarrow> Gateway \<Rightarrow> ('w, (CloudflareSecretRef \<times> string) option) io" where
  "tunnel_credentials env gw =
     (case map_of (om_Annotations (gw_Meta gw)) AnnotationTunnelRef of
        None \<Rightarrow> ret None
      | Some tunnelRef \<Rightarrow>
          (let (tunnelNS, tunnelName) = (case SplitN2 tunnelRef (CHR ''/'') of
                                           [ns, n] \<Rightarrow> (ns, n)
                                         | parts \<Rightarrow> (om_Namespace (gw_Meta gw), parts ! 0))
           in do {
             r \<leftarrow> kr_GetTunnel (ae_Reader env) \<lparr>nn_Namespace = tunnelNS, nn_Name = tunnelName\<rparr>;
             case r of
               Inl err \<Rightarrow> ret None
             | Inr tunnel \<Rightarrow>
                 (let cf = ts_Cloudflare (ct_Spec tunnel)
                  in ret (Some (\<lparr>csr_Name = sr_Name (cc_SecretRef cf),
                                 csr_Namespace = Some (om_Namespace (ct_Meta tunnel)),
                                 csr_AccountID = cc_AccountID cf, csr_AccountName = ''''\<rparr>, cc_AccountID cf)))
           }))"

fun parent_credentials ::
  "'w AccEnv \<Rightarrow> HTTPRoute \<Rightarrow> ParentReference list \<Rightarrow> ('w, (CloudflareSecretRef \<times> string) option) io" where
  "parent_credentials env route [] = ret None"
| "parent_credentials env route (p # ps) =
     (if pr_Kind p \<noteq> None \<and> pr_Kind p \<noteq> Some ''Gateway'' then parent_credentials env route ps
      else
        (let gwNamespace = (case pr_Namespace p of None \<Rightarrow> om_Namespace (hr_Meta route) | Some ns \<Rightarrow> ns)
         in do {
           g \<leftarrow> kr_GetGateway (ae_Reader env) \<lparr>nn_Namespace = gwNamespace, nn_Name = pr_Name p\<rparr>;
           case g of
             Inl err \<Rightarrow> parent_credentials env route ps
           | Inr gw \<Rightarrow> do {
               c \<leftarrow> ae_GetClass env (gw_GatewayClassName gw);
               case c of
                 Inl err \<Rightarrow> parent_credentials env route ps
               | Inr gc \<Rightarrow>
                   if gc_ControllerName gc \<noteq> GatewayControllerName then parent_credentials env route ps
                   else do {
                     t \<leftarrow> tunnel_credentials env gw;
                     case t of None \<Rightarrow> parent_credentials env route ps | Some creds \<Rightarrow> ret (Some creds)
                   }
             }
         }))"

fun refs_credentials ::
  "'w AccEnv \<Rightarrow> string \<Rightarrow> PolicyTargetReference list \<Rightarrow> ('w, (CloudflareSecretRef \<times> string) option) io" where
  "refs_credentials env ns [] = ret None"
| "refs_credentials env ns (ref # refs) =
     (let key = \<lparr>nn_Namespace = ref_namespace ns ref, nn_Name = pt_Name ref\<rparr>
      in if pt_Kind ref = ''Gateway'' then do {
           g \<leftarrow> kr_GetGateway (ae_Reader env) key;
           case g of
             Inl err \<Rightarrow> refs_credentials env ns refs
           | Inr gw \<Rightarrow> do {
               t \<leftarrow> tunnel_credentials env gw;
               case t of None \<Rightarrow> refs_credentials env ns refs | Some creds \<Rightarrow> ret (Some creds)
             }
         }
         else if pt_Kind ref = ''HTTPRoute'' then do {
           h \<leftarrow> kr_GetHTTPRoute (ae_Reader env) key;
           case h of
             Inl err \<Rightarrow> refs_credentials env ns refs
           | Inr route \<Rightarrow> do {
               t \<leftarrow> parent_credentials env route (hr_ParentRefs route);
               case t of None \<Rightarrow> refs_credentials env ns refs | Some creds \<Rightarrow> ret (Some creds)
             }
         }
         else refs_credentials env ns refs)"

text \<open>None is the nil reference; the function never returns an error.\<close>

definition inheritCredentialsFromTunnel ::
  "'w AccEnv \<Rightarrow> CloudflareAccessPolicy \<Rightarrow> ('w, (CloudflareSecretRef \<times> string) option res) io" where
  "inheritCredentialsFromTunnel env policy = do {
     c \<leftarrow> refs_credentials env (om_Namespace (acp_Meta policy)) (GetTargetRefs policy);
     ret (Inr c)
   }"

text \<open>\<open>resolveCredentials\<close>: where the credentials come from, then the client.\<close>

definition credentials_source ::
  "'w AccEnv \<Rightarrow> CloudflareAccessPolicy \<Rightarrow> ('w, (CloudflareSecretRef \<times> string) res) io" where
  "credentials_source env policy =
     (case as_CloudflareRef (acp_Spec policy) of
        Some ref \<Rightarrow> ret (Inr (ref, csr_AccountID ref))
      | None \<Rightarrow> do {
          r \<leftarrow> inheritCredentialsFromTunnel env policy;
          case r of
            Inl err \<Rightarrow> ret (Inl (wrapf ''failed to inherit credentials'' err))
          | Inr None \<Rightarrow> ret (Inl (errorf ''no credentials configured: set cloudflareRef or ensure targets reference a tunnel''))
          | Inr (Some creds) \<Rightarrow> ret (Inr creds)
        })"

definition access_resolveCredentials ::
  "'w AccEnv \<Rightarrow> CloudflareAccessPolicy \<Rightarrow> ('w AccState, ('w AccessClient \<times> string) res) io" where
  "access_resolveCredentials env policy = do {
     found \<leftarrow> call (credentials_source env policy);
     case found of
       Inl err \<Rightarrow> ret (Inl err)
     | Inr (secretRef, accountID) \<Rightarrow>
         if accountID = '''' then ret (Inl (errorf ''account ID not specified and could not be resolved''))
         else do {
           c \<leftarrow> access_getCloudflareClient env (om_Namespace (acp_Meta policy)) secretRef;
           case c of
             Inl err \<Rightarrow> ret (Inl (wrapf ''failed to create Cloudflare client'' err))
           | Inr client \<Rightarrow> ret (Inr (client, accountID))
         }
   }"

section \<open>Targets\<close>

fun unsupported_kind :: "FeatureGates option \<Rightarrow> PolicyTargetReference list \<Rightarrow> go_error option" where
  "unsupported_kind gates [] = None"
| "unsupported_kind gates (ref # refs) =
     (let lacks = (\<lambda>support. case gates of None \<Rightarrow> False | Some g \<Rightarrow> \<not> support g);
          kind = pt_Kind ref
      in if kind = ''Gateway'' \<or> kind = ''HTTPRoute'' then unsupported_kind gates refs
         else if kind = ''GRPCRoute'' then
           (if lacks HasGRPCRouteSupport then Some (errorf ''GRPCRoute CRD not installed'') else unsupported_kind gates refs)
         else if kind = ''TCPRoute'' then
           (if lacks HasTCPRouteSupport then Some (errorf ''TCPRoute CRD not installed'') else unsupported_kind gates refs)
         else if kind = ''UDPRoute'' then
           (if lacks HasUDPRouteSupport then Some (errorf ''UDPRoute CRD not installed'') else unsupported_kind gates refs)
         else Some (errorf (''unsupported target kind: '' @ kind)))"

definition validateTargetKinds :: "FeatureGates option \<Rightarrow> CloudflareAccessPolicy \<Rightarrow> go_error option" where
  "validateTargetKinds gates policy = unsupported_kind gates (GetTargetRefs policy)"

definition grantPermitsAccess :: "ReferenceGrant \<Rightarrow> string \<Rightarrow> string \<Rightarrow> bool" where
  "grantPermitsAccess grant fromNamespace targetKind =
     list_ex (\<lambda>f. grant_from fromNamespace f \<and> list_ex (grant_to targetKind) (rg_To grant)) (rg_From grant)"

fun check_targets :: "'w K8sReader \<Rightarrow> string \<Rightarrow> TargetInfo list \<Rightarrow> ('w, unit res) io" where
  "check_targets k ns [] = ret (Inr ())"
| "check_targets k ns (t # ts) =
     (if ti_Namespace t = ns then check_targets k ns ts
      else do {
        r \<leftarrow> kr_ListGrants k (ti_Namespace t);
        case r of
          Inl err \<Rightarrow> ret (Inl (wrapf ''listing ReferenceGrants'' err))
        | Inr grants \<Rightarrow>
            if list_ex (\<lambda>grant. grantPermitsAccess grant ns (ti_Kind t)) grants then check_targets k ns ts
            else ret (Inl (errorf (''cross-namespace reference to '' @ ti_Namespace t @ ''/'' @ ti_Name t @
                   '' not permitted by ReferenceGrant'')))
      })"

definition checkReferenceGrants ::
  "'w AccEnv \<Rightarrow> CloudflareAccessPolicy \<Rightarrow> AccessPolicyContext \<Rightarrow> ('w, unit res) io" where
  "checkReferenceGrants env policy policyCtx =
     (if (case ae_Gates env of None \<Rightarrow> False | Some g \<Rightarrow> \<not> HasReferenceGrantSupport g) then ret (Inr ())
      else check_targets (ae_Reader env) (om_Namespace (acp_Meta policy)) (ResolvedTargets policyCtx))"

section \<open>The Access application and its policies\<close>

text \<open>A slice that appending to a nil slice gives.\<close>

definition appended :: "'a list \<Rightarrow> 'a list option" where
  "appended xs = (if xs = [] then None else Some xs)"

definition application_domain :: "CloudflareAccessPolicy \<Rightarrow> string list \<Rightarrow> string" where
  "application_domain policy hostnames =
     (let domain = app_Domain (as_Application (acp_Spec policy))
      in if domain = '''' \<and> length hostnames > 0 then hostnames ! 0 else domain)"

definition cors_params :: "CORSHeaders \<Rightarrow> CORSHeadersParam" where
  "cors_params cors =
     (let items = (\<lambda>xs. appended (case xs of None \<Rightarrow> [] | Some ys \<Rightarrow> ys))
      in \<lparr>ch_AllowAllHeaders = co_AllowAllHeaders cors, ch_AllowAllMethods = co_AllowAllMethods cors,
          ch_AllowAllOrigins = co_AllowAllOrigins cors, ch_AllowCredentials = co_AllowCredentials cors,
          ch_AllowedHeaders = items (co_AllowedHeaders cors), ch_AllowedMethods = items (co_AllowedMethods cors),
          ch_AllowedOrigins = items (co_AllowedOrigins cors),
          ch_MaxAge = (case co_MaxAge cors of None \<Rightarrow> 0 | Some m \<Rightarrow> m)\<rparr>)"

definition application_params :: "CloudflareAccessPolicy \<Rightarrow> string \<Rightarrow> CreateApplicationParams" where
  "application_params policy domain =
     (let a = as_Application (acp_Spec policy)
      in \<lparr>cap_Name = (if app_Name a = '''' then om_Name (acp_Meta policy) else app_Name a),
          cap_Domain = domain, cap_Type = app_Type a, cap_SessionDuration = app_SessionDuration a,
          cap_AllowedIdps = app_AllowedIdps a, cap_AutoRedirectToIdentity = app_AutoRedirectToIdentity a,
          cap_EnableBindingCookie = app_EnableBindingCookie a,
          cap_HttpOnlyCookieAttribute = Some (app_HttpOnlyCookieAttribute a),
          cap_SameSiteCookieAttribute = app_SameSiteCookieAttribute a,
          cap_SkipInterstitial = app_SkipInterstitial a, cap_LogoURL = app_LogoURL a,
          cap_AppLauncherVisible = (case app_AppLauncherVisible a of None \<Rightarrow> False | Some b \<Rightarrow> b),
          cap_CustomDenyMessage = app_CustomDenyMessage a, cap_CustomDenyURL = app_CustomDenyURL a,
          cap_CORSHeaders = map_option cors_params (app_CORSHeaders a),
          cap_OptionsPreflightBypass = app_OptionsPreflightBypass a,
          cap_PathCookieAttribute = app_PathCookieAttribute a,
          cap_ServiceAuth401Redirect = app_ServiceAuth401Redirect a,
          cap_CustomNonIdentityDenyURL = app_CustomNonIdentityDenyURL a,
          cap_ReadServiceTokensFromHeader = app_ReadServiceTokensFromHeader a\<rparr>)"

definition access_ensureApplication ::
  "'w AccessClient \<Rightarrow> string \<Rightarrow> CloudflareAccessPolicy \<Rightarrow> string list \<Rightarrow> ('w, AccessApplication res) io" where
  "access_ensureApplication accessService accountID policy hostnames =
     (let domain = application_domain policy hostnames
      in if domain = ''''
         then ret (Inl (errorf ''no domain configured: set application.domain or target an HTTPRoute with hostnames''))
         else do {
           r \<leftarrow> EnsureApplication accessService accountID (application_params policy domain);
           ret (map_sum id fst r)
         })"

text \<open>The branches for one rule in the order of the code: the first one that applies appends its
  parameters and continues with the next rule.\<close>

definition rule_branches :: "AccessRule \<Rightarrow> AccessRuleParam list option list" where
  "rule_branches r =
     [map_option (\<lambda>ip. map (\<lambda>cidr. zero_AccessRuleParam\<lparr>ar_IPRange := Some cidr\<rparr>) (ipr_Ranges ip)) (rl_IP r),
      Option.bind (rl_IPList r) (\<lambda>l. guarded (ipl_ID l \<noteq> '''') [zero_AccessRuleParam\<lparr>ar_IPListID := Some (ipl_ID l)\<rparr>]),
      map_option (\<lambda>c. map (\<lambda>code. zero_AccessRuleParam\<lparr>ar_Country := Some code\<rparr>) (cr_Codes c)) (rl_Country r),
      Option.bind (rl_Everyone r) (\<lambda>b. guarded b [zero_AccessRuleParam\<lparr>ar_Everyone := Some True\<rparr>]),
      Option.bind (rl_ServiceToken r)
        (\<lambda>t. guarded (str_TokenID t \<noteq> '''') [zero_AccessRuleParam\<lparr>ar_ServiceTokenID := Some (str_TokenID t)\<rparr>]),
      Option.bind (rl_AnyValidServiceToken r)
        (\<lambda>b. guarded b [zero_AccessRuleParam\<lparr>ar_AnyValidServiceToken := Some True\<rparr>]),
      map_option (\<lambda>e. map (\<lambda>addr. zero_AccessRuleParam\<lparr>ar_Email := Some addr\<rparr>) (er_Addresses e)) (rl_Email r),
      Option.bind (rl_EmailList r) (\<lambda>l. guarded (el_ID l \<noteq> '''') [zero_AccessRuleParam\<lparr>ar_EmailListID := Some (el_ID l)\<rparr>]),
      map_option (\<lambda>d. [zero_AccessRuleParam\<lparr>ar_EmailDomain := Some (ed_Domain d)\<rparr>]) (rl_EmailDomain r),
      map_option (\<lambda>c. [zero_AccessRuleParam\<lparr>ar_OIDCClaim := Some
        \<lparr>oi_IdentityProviderID = oc_IdentityProviderID c, oi_ClaimName = oc_ClaimName c,
         oi_ClaimValue = oc_ClaimValue c\<rparr>\<rparr>]) (rl_OIDCClaim r),
      map_option (\<lambda>g. [zero_AccessRuleParam\<lparr>ar_GSuiteGroup := Some
        \<lparr>gs_IdentityProviderID = gg_IdentityProviderID g, gs_Email = gg_Email g\<rparr>\<rparr>]) (rl_GSuiteGroup r)]"

definition convertAccessRule :: "AccessRule \<Rightarrow> AccessRuleParam list" where
  "convertAccessRule r = (case first_match (rule_branches r) of None \<Rightarrow> [] | Some ps \<Rightarrow> ps)"

definition convertAccessRules :: "AccessRule list \<Rightarrow> AccessRuleParam list option" where
  "convertAccessRules crdRules = appended (concat (map convertAccessRule crdRules))"

definition convertApprovalGroups :: "ApprovalGroup list \<Rightarrow> ApprovalGroupParam list option" where
  "convertApprovalGroups groups =
     appended (map (\<lambda>g. \<lparr>ag_EmailAddresses = gr_Emails g, ag_EmailListUUID = '''',
                        ag_ApprovalsNeeded = gr_ApprovalsNeeded g\<rparr>) groups)"

definition policy_params :: "int \<Rightarrow> AccessPolicyRule \<Rightarrow> CreatePolicyParams" where
  "policy_params i rule =
     \<lparr>cpp_Name = apr_Name rule, cpp_Decision = apr_Decision rule,
      cpp_Precedence = (case apr_Precedence rule of None \<Rightarrow> i + 1 | Some p \<Rightarrow> p),
      cpp_Include = convertAccessRules (apr_Include rule), cpp_Exclude = convertAccessRules (apr_Exclude rule),
      cpp_Require = convertAccessRules (apr_Require rule), cpp_SessionDuration = apr_SessionDuration rule,
      cpp_PurposeJustificationRequired = apr_PurposeJustificationRequired rule,
      cpp_PurposeJustificationPrompt = apr_PurposeJustificationPrompt rule,
      cpp_ApprovalRequired = apr_ApprovalRequired rule,
      cpp_ApprovalGroups = convertApprovalGroups (apr_ApprovalGroups rule)\<rparr>"

fun all_policy_params :: "int \<Rightarrow> AccessPolicyRule list \<Rightarrow> CreatePolicyParams list" where
  "all_policy_params i [] = []"
| "all_policy_params i (rule # rules) = policy_params i rule # all_policy_params (i + 1) rules"

definition access_syncPolicies ::
  "'w AccEnv \<Rightarrow> 'w AccessClient \<Rightarrow> string \<Rightarrow> string \<Rightarrow> CloudflareAccessPolicy \<Rightarrow> ('w, string list res) io" where
  "access_syncPolicies env accessService accountID appID policy =
     SyncPolicies accessService (ae_Range env) accountID appID (all_policy_params 0 (as_Policies (acp_Spec policy)))"

section \<open>Service tokens and mTLS\<close>

definition WriteSecret ::
  "'w AccEnv \<Rightarrow> CloudflareAccessPolicy \<Rightarrow> string \<Rightarrow> 'w SecretWriter" where
  "WriteSecret env owner secretRef name data =
     (case ae_SetOwner env owner
             \<lparr>sec_Name = secretRef, sec_Namespace = om_Namespace (acp_Meta owner), sec_UID = '''',
              sec_ResourceVersion = '''', sec_Labels = [], sec_Owner = None, sec_Type = ''Opaque'',
              sec_Data = data, sec_StringData = []\<rparr> of
        Inl err \<Rightarrow> ret (Inl (wrapf ''setting owner reference'' err))
      | Inr secret \<Rightarrow> do {
          r \<leftarrow> ae_GetSecret env \<lparr>nn_Namespace = sec_Namespace secret, nn_Name = sec_Name secret\<rparr>;
          case r of
            Inl err \<Rightarrow> if IsNotFound err then ae_CreateSecret env secret else ret (Inl err)
          | Inr existing \<Rightarrow> ae_UpdateSecret env (existing\<lparr>sec_Data := data\<rparr>)
        })"

abbreviation set_status ::
  "(CloudflareAccessPolicyStatus \<Rightarrow> CloudflareAccessPolicyStatus) \<Rightarrow> CloudflareAccessPolicy \<Rightarrow> CloudflareAccessPolicy" where
  "set_status f p \<equiv> p\<lparr>acp_Status := f (acp_Status p)\<rparr>"

fun ensure_tokens ::
  "'w AccEnv \<Rightarrow> 'w AccessClient \<Rightarrow> string \<Rightarrow> CloudflareAccessPolicy \<Rightarrow> ServiceTokenConfig list \<Rightarrow>
   ('w, CloudflareAccessPolicy \<times> go_error option) io" where
  "ensure_tokens env accessService accountID policy [] = ret (policy, None)"
| "ensure_tokens env accessService accountID policy (tokenConfig # rest) = do {
     r \<leftarrow> EnsureServiceToken accessService (ae_Now env) accountID
            \<lparr>cst_Name = stc_Name tokenConfig, cst_Duration = stc_Duration tokenConfig\<rparr>
            (Some (WriteSecret env policy (stc_SecretRef tokenConfig)));
     case r of
       Inl err \<Rightarrow> ret (policy, Some (wrapf (''failed to ensure service token '' @ stc_Name tokenConfig) err))
     | Inr token \<Rightarrow>
         ensure_tokens env accessService accountID
           (set_status (ast_ServiceTokenIDs_update
              (map_option (map_put (stc_Name tokenConfig) (st_TokenID token)))) policy) rest
   }"

definition ensureServiceTokens ::
  "'w AccEnv \<Rightarrow> 'w AccessClient \<Rightarrow> string \<Rightarrow> CloudflareAccessPolicy \<Rightarrow>
   ('w, CloudflareAccessPolicy \<times> go_error option) io" where
  "ensureServiceTokens env accessService accountID policy =
     ensure_tokens env accessService accountID
       (if ast_ServiceTokenIDs (acp_Status policy) = None
        then set_status (ast_ServiceTokenIDs_update (\<lambda>_. Some [])) policy else policy)
       (as_ServiceTokens (acp_Spec policy))"

definition configureMTLS ::
  "'w AccEnv \<Rightarrow> 'w AccessClient \<Rightarrow> string \<Rightarrow> CloudflareAccessPolicy \<Rightarrow> string list \<Rightarrow>
   ('w, CloudflareAccessPolicy \<times> go_error option) io" where
  "configureMTLS env accessService accountID policy hostnames =
     (case as_MTLS (acp_Spec policy) of
        None \<Rightarrow> ret (policy, None)
      | Some mtls \<Rightarrow>
          if \<not> mt_Enabled mtls then ret (policy, None)
          else (case mt_RootCASecretRef mtls of
            None \<Rightarrow> ret (policy, Some (errorf ''mTLS enabled but rootCaSecretRef not specified''))
          | Some caRef \<Rightarrow> do {
              r \<leftarrow> ae_GetSecret env \<lparr>nn_Namespace = om_Namespace (acp_Meta policy), nn_Name = ca_Name caRef\<rparr>;
              case r of
                Inl err \<Rightarrow> ret (policy, Some (wrapf ''failed to get CA secret'' err))
              | Inr caSecret \<Rightarrow>
                  (let key = (if ca_Key caRef = '''' then ''ca.crt'' else ca_Key caRef)
                   in case map_of (sec_Data caSecret) key of
                        None \<Rightarrow> ret (policy, Some (errorf (''CA certificate key '' @ key @ '' not found in secret'')))
                      | Some caCert \<Rightarrow> do {
                          c \<leftarrow> EnsureMTLSCertificate accessService accountID
                                 \<lparr>ccp_Name = (if mt_RuleName mtls = '''' then om_Name (acp_Meta policy) else mt_RuleName mtls),
                                  ccp_Certificate = caCert, ccp_AssociatedHostnames = []\<rparr>;
                          case c of
                            Inl err \<Rightarrow> ret (policy, Some (wrapf ''failed to ensure mTLS certificate'' err))
                          | Inr (cert, created) \<Rightarrow>
                              (let policy = set_status (ast_MTLSRuleID_update (\<lambda>_. mc_ID cert)) policy;
                                   associated = (if length (mt_AssociatedHostnames mtls) = 0 then hostnames
                                                 else mt_AssociatedHostnames mtls)
                               in if length associated > 0 then do {
                                    u \<leftarrow> UpdateMTLSHostnames accessService accountID associated False;
                                    case u of
                                      Inl err \<Rightarrow> ret (policy, Some (wrapf ''failed to update mTLS hostnames'' err))
                                    | Inr _ \<Rightarrow> ret (policy, None)
                                  }
                                  else ret (policy, None))
                        })
            }))"

section \<open>Status\<close>

text \<open>\<open>reflect.DeepEqual\<close> on the token map: nil differs from empty.\<close>

definition token_ids_equal :: "strmap option \<Rightarrow> strmap option \<Rightarrow> bool" where
  "token_ids_equal a b =
     (case (a, b) of
        (None, None) \<Rightarrow> True
      | (Some x, Some y) \<Rightarrow> length x = length y \<and> list_all (\<lambda>(k, v). map_of y k = Some v) x
      | _ \<Rightarrow> False)"

fun ancestors_equal :: "CrdPolicyAncestorStatus list \<Rightarrow> CrdPolicyAncestorStatus list \<Rightarrow> bool" where
  "ancestors_equal [] [] = True"
| "ancestors_equal (a # as) (b # bs) =
     (if pas_AncestorRef a \<noteq> pas_AncestorRef b \<or> pas_ControllerName a \<noteq> pas_ControllerName b then False
      else if length (pas_Conditions a) \<noteq> length (pas_Conditions b) then False
      else if \<not> conditions_equal (pas_Conditions a) (pas_Conditions b) then False
      else ancestors_equal as bs)"
| "ancestors_equal _ _ = False"

definition accessPolicyStatusEqual ::
  "CloudflareAccessPolicyStatus \<Rightarrow> CloudflareAccessPolicyStatus \<Rightarrow> bool" where
  "accessPolicyStatusEqual a b =
     (if ast_ObservedGeneration a \<noteq> ast_ObservedGeneration b then False
      else if ast_ApplicationID a \<noteq> ast_ApplicationID b then False
      else if ast_ApplicationAUD a \<noteq> ast_ApplicationAUD b then False
      else if ast_MTLSRuleID a \<noteq> ast_MTLSRuleID b then False
      else if ast_AttachedTargets a \<noteq> ast_AttachedTargets b then False
      else if \<not> token_ids_equal (ast_ServiceTokenIDs a) (ast_ServiceTokenIDs b) then False
      else if length (ast_Conditions a) \<noteq> length (ast_Conditions b) then False
      else if \<not> conditions_equal (ast_Conditions a) (ast_Conditions b) then False
      else if length (ast_Ancestors a) \<noteq> length (ast_Ancestors b) then False
      else ancestors_equal (ast_Ancestors a) (ast_Ancestors b))"

definition access_updateStatus :: "'w AccEnv \<Rightarrow> CloudflareAccessPolicy \<Rightarrow> ('w, unit res) io" where
  "access_updateStatus env policy = do {
     r \<leftarrow> ae_Get env (policy_key policy);
     case r of
       Inl err \<Rightarrow> ret (Inl (wrapf ''failed to re-fetch policy'' err))
     | Inr current \<Rightarrow>
         if accessPolicyStatusEqual (acp_Status current) (acp_Status policy) then ret (Inr ())
         else do {
           u \<leftarrow> ae_StatusUpdate env (current\<lparr>acp_Status := acp_Status policy\<rparr>);
           case u of
             Inl err \<Rightarrow> ret (Inl (wrapf ''failed to update status'' err))
           | Inr _ \<Rightarrow> ret (Inr ())
         }
   }"

text \<open>Merging one condition: the constructor and the merge each read the clock.\<close>

definition add_condition ::
  "'w AccEnv \<Rightarrow> (int \<Rightarrow> Condition) \<Rightarrow> CloudflareAccessPolicy \<Rightarrow> ('w, CloudflareAccessPolicy) io" where
  "add_condition env condition policy = do {
     now1 \<leftarrow> ae_Now env;
     now2 \<leftarrow> ae_Now env;
     ret (set_status (ast_Conditions_update (\<lambda>cs. MergeConditions now2 cs [condition now1])) policy)
   }"

definition ancestor_status :: "int \<Rightarrow> int \<Rightarrow> TargetInfo \<Rightarrow> CrdPolicyAncestorStatus" where
  "ancestor_status now generation target =
     \<lparr>pas_AncestorRef = \<lparr>pt_Group = ''gateway.networking.k8s.io'', pt_Kind = ti_Kind target,
        pt_Name = ti_Name target, pt_Namespace = Some (ti_Namespace target), pt_SectionName = None\<rparr>,
      pas_ControllerName = AccessPolicyControllerName,
      pas_Conditions =
        (if ti_Resolved target \<and> ti_Error target = None
         then [NewPolicyAcceptedCondition now True ''Accepted'' ''Policy accepted for target.'' generation]
         else [NewPolicyAcceptedCondition now False ''TargetNotFound''
                 (case ti_Error target of None \<Rightarrow> ''Target not found.'' | Some e \<Rightarrow> err_msg e) generation])\<rparr>"

fun ancestor_statuses :: "'w AccEnv \<Rightarrow> int \<Rightarrow> TargetInfo list \<Rightarrow> ('w, CrdPolicyAncestorStatus list) io" where
  "ancestor_statuses env generation [] = ret []"
| "ancestor_statuses env generation (t # ts) = do {
     now \<leftarrow> ae_Now env;
     as \<leftarrow> ancestor_statuses env generation ts;
     ret (ancestor_status now generation t # as)
   }"

definition updateAncestorStatuses ::
  "'w AccEnv \<Rightarrow> CloudflareAccessPolicy \<Rightarrow> AccessPolicyContext \<Rightarrow> ('w, CloudflareAccessPolicy) io" where
  "updateAncestorStatuses env policy policyCtx = do {
     as \<leftarrow> ancestor_statuses env (om_Generation (acp_Meta policy)) (ResolvedTargets policyCtx);
     ret (set_status (ast_Ancestors_update (\<lambda>_. as)) policy)
   }"

section \<open>Deletion\<close>

definition access_removeFinalizer ::
  "'w AccEnv \<Rightarrow> CloudflareAccessPolicy \<Rightarrow> ('w, Result \<times> go_error option) io" where
  "access_removeFinalizer env policy = do {
     r \<leftarrow> ae_Patch env policy
            (policy\<lparr>acp_Meta := fl_Remove (ae_Finalizers env) (acp_Meta policy) accessPolicyFinalizer\<rparr>);
     case r of
       Inl err \<Rightarrow> ret (no_requeue, Some (wrapf ''failed to remove finalizer'' err))
     | Inr _ \<Rightarrow> ret (no_requeue, None)
   }"

definition revokeServiceToken :: "'w AccessClient \<Rightarrow> string \<Rightarrow> string \<Rightarrow> ('w, unit res) io" where
  "revokeServiceToken accessService accountID tokenID = DeleteServiceToken accessService accountID tokenID"

definition removeMTLSCertificate :: "'w AccessClient \<Rightarrow> string \<Rightarrow> string \<Rightarrow> ('w, unit res) io" where
  "removeMTLSCertificate accessService accountID certID = DeleteMTLSCertificate accessService accountID certID"

fun revoke_tokens :: "'w AccessClient \<Rightarrow> string \<Rightarrow> strmap \<Rightarrow> ('w, unit) io" where
  "revoke_tokens accessService accountID [] = ret ()"
| "revoke_tokens accessService accountID ((name, tokenID) # rest) = do {
     _ \<leftarrow> revokeServiceToken accessService accountID tokenID;
     revoke_tokens accessService accountID rest
   }"

definition delete_application ::
  "'w AccEnv \<Rightarrow> 'w AccessClient \<Rightarrow> string \<Rightarrow> CloudflareAccessPolicy \<Rightarrow> ('w, unit) io" where
  "delete_application env accessService accountID policy =
     (let appID = ast_ApplicationID (acp_Status policy)
      in if appID \<noteq> '''' then do {
           r \<leftarrow> DeleteApplication accessService accountID appID;
           case r of
             Inl err \<Rightarrow> ae_Event env (policy_key policy) ''Warning'' ''CleanupError'' ''Delete''
                          (''Failed to delete Access Application: '' @ err_msg err)
           | Inr _ \<Rightarrow> ae_Event env (policy_key policy) ''Normal'' ''ApplicationDeleted'' ''Delete''
                        (''Access Application '' @ appID @ '' deleted'')
         }
         else ret ())"

text \<open>The cleanup in Cloudflare: application, service tokens, certificate. No error stops it.\<close>

definition access_cleanup ::
  "'w AccEnv \<Rightarrow> 'w AccessClient \<Rightarrow> string \<Rightarrow> CloudflareAccessPolicy \<Rightarrow> ('w, unit) io" where
  "access_cleanup env accessService accountID policy = do {
     _ \<leftarrow> delete_application env accessService accountID policy;
     tokens \<leftarrow> ae_RangeTokens env (case ast_ServiceTokenIDs (acp_Status policy) of None \<Rightarrow> [] | Some m \<Rightarrow> m);
     _ \<leftarrow> revoke_tokens accessService accountID tokens;
     (if ast_MTLSRuleID (acp_Status policy) \<noteq> '''' then do {
        _ \<leftarrow> removeMTLSCertificate accessService accountID (ast_MTLSRuleID (acp_Status policy));
        ret ()
      }
      else ret ())
   }"

definition access_reconcileDelete ::
  "'w AccEnv \<Rightarrow> CloudflareAccessPolicy \<Rightarrow> ('w AccState, Result \<times> go_error option) io" where
  "access_reconcileDelete env policy =
     (if \<not> fl_Contains (ae_Finalizers env) (acp_Meta policy) accessPolicyFinalizer then ret (no_requeue, None)
      else if map_of (om_Annotations (acp_Meta policy)) ''cfgate.io/deletion-policy'' = Some ''orphan''
      then call (access_removeFinalizer env policy)
      else do {
        r \<leftarrow> access_resolveCredentials env policy;
        case r of
          Inl err \<Rightarrow> do {
            _ \<leftarrow> call (ae_Event env (policy_key policy) ''Warning'' ''CleanupSkipped'' ''Delete''
                   (''Could not resolve credentials for cleanup: '' @ err_msg err));
            call (access_removeFinalizer env policy)
          }
        | Inr (accessService, accountID) \<Rightarrow> do {
            _ \<leftarrow> call (access_cleanup env accessService accountID policy);
            call (access_removeFinalizer env policy)
          }
      })"

section \<open>Reconcile\<close>

text \<open>The way every failing phase ends: record the condition, write the status (an error there is
  only logged), optionally emit an event, and retry later.\<close>

definition fail_phase ::
  "'w AccEnv \<Rightarrow> CloudflareAccessPolicy \<Rightarrow> (string \<times> string \<times> string) option \<Rightarrow> ('w, Result \<times> go_error option) io" where
  "fail_phase env policy event = do {
     _ \<leftarrow> access_updateStatus env policy;
     _ \<leftarrow> (case event of
        None \<Rightarrow> ret ()
      | Some (reason, action, note) \<Rightarrow> ae_Event env (policy_key policy) ''Warning'' reason action note);
     ret (requeue_after accessPolicyRequeueAfterError, None)
   }"

text \<open>Phase 9.\<close>

definition finish_phases ::
  "'w AccEnv \<Rightarrow> CloudflareAccessPolicy \<Rightarrow> AccessPolicyContext \<Rightarrow> ('w, Result \<times> go_error option) io" where
  "finish_phases env policy policyCtx = do {
     let generation = om_Generation (acp_Meta policy);
     let policy = set_status (ast_AttachedTargets_update
           (\<lambda>_. to_int32 (int (length (SuccessfullyResolvedTargets policyCtx))))) policy;
     let policy = set_status (ast_ObservedGeneration_update (\<lambda>_. generation)) policy;
     policy \<leftarrow> updateAncestorStatuses env policy policyCtx;
     let hasServiceTokens = length (as_ServiceTokens (acp_Spec policy)) > 0;
     policy \<leftarrow> add_condition env
       (\<lambda>now. NewAccessPolicyReadyCondition now (policy_conditions policy) hasServiceTokens generation) policy;
     u \<leftarrow> access_updateStatus env policy;
     case u of
       Inl err \<Rightarrow> ret (no_requeue, Some err)
     | Inr _ \<Rightarrow> do {
         _ \<leftarrow> ae_Event env (policy_key policy) ''Normal'' ''Reconciled'' ''Reconcile''
                ''Access policy reconciled successfully'';
         ret (requeue_after accessPolicyRequeueAfterSuccess, None)
       }
   }"

text \<open>Phases 7 and 8: an error of a phase becomes a condition.\<close>

definition token_phase ::
  "'w AccEnv \<Rightarrow> 'w AccessClient \<Rightarrow> string \<Rightarrow> AccessPolicyContext \<Rightarrow> CloudflareAccessPolicy \<Rightarrow>
   ('w, CloudflareAccessPolicy) io" where
  "token_phase env accessService accountID policyCtx policy =
     (if RequiresServiceTokens policyCtx then do {
        (policy, err) \<leftarrow> ensureServiceTokens env accessService accountID policy;
        let generation = om_Generation (acp_Meta policy);
        case err of
          Some e \<Rightarrow> add_condition env (\<lambda>now. NewCondition now ''ServiceTokensReady'' StFalse
                      ''ServiceTokenError'' (Error2ConditionMsg (Some e)) generation) policy
        | None \<Rightarrow> add_condition env (\<lambda>now. NewCondition now ''ServiceTokensReady'' StTrue
                    ''ServiceTokensReady'' ''Service tokens ready.'' generation) policy
      }
      else ret policy)"

definition mtls_phase ::
  "'w AccEnv \<Rightarrow> 'w AccessClient \<Rightarrow> string \<Rightarrow> AccessPolicyContext \<Rightarrow> string list \<Rightarrow> CloudflareAccessPolicy \<Rightarrow>
   ('w, CloudflareAccessPolicy) io" where
  "mtls_phase env accessService accountID policyCtx hostnames policy =
     (if RequiresMTLS policyCtx then do {
        (policy, err) \<leftarrow> configureMTLS env accessService accountID policy hostnames;
        let generation = om_Generation (acp_Meta policy);
        case err of
          Some e \<Rightarrow> add_condition env (\<lambda>now. NewCondition now ''MTLSConfigured'' StFalse
                      ''MTLSConfigError'' (Error2ConditionMsg (Some e)) generation) policy
        | None \<Rightarrow> add_condition env (\<lambda>now. NewCondition now ''MTLSConfigured'' StTrue
                    ''MTLSConfigured'' ''mTLS configured.'' generation) policy
      }
      else ret policy)"

text \<open>Phases 5 and 6, then 7 to 9. The hostnames are read from the cluster before the first call to
  Cloudflare; reading them never fails.\<close>

definition cloudflare_phases ::
  "'w AccEnv \<Rightarrow> 'w AccessClient \<Rightarrow> string \<Rightarrow> AccessPolicyContext \<Rightarrow> CloudflareAccessPolicy \<Rightarrow>
   ('w, Result \<times> go_error option) io" where
  "cloudflare_phases env accessService accountID policyCtx policy = do {
     let generation = om_Generation (acp_Meta policy);
     h \<leftarrow> ExtractHostnames (ae_Reader env) policyCtx;
     let hostnames = (case h of Inl _ \<Rightarrow> [] | Inr hs \<Rightarrow> hs);
     a \<leftarrow> access_ensureApplication accessService accountID policy hostnames;
     case a of
       Inl err \<Rightarrow> do {
         policy \<leftarrow> add_condition env (\<lambda>now. NewApplicationCreatedCondition now False ''ApplicationError''
           (Error2ConditionMsg (Some err)) generation) policy;
         fail_phase env policy (Some (''ApplicationError'', ''Create'', err_msg err))
       }
     | Inr app \<Rightarrow> do {
         let policy = set_status (\<lambda>st. st\<lparr>ast_ApplicationID := aa_ID app, ast_ApplicationAUD := aa_AUD app\<rparr>) policy;
         policy \<leftarrow> add_condition env (\<lambda>now. NewApplicationCreatedCondition now True ''ApplicationCreated''
           (''Access Application '' @ aa_ID app @ '' created.'') generation) policy;
         p \<leftarrow> access_syncPolicies env accessService accountID (aa_ID app) policy;
         case p of
           Inl err \<Rightarrow> do {
             policy \<leftarrow> add_condition env (\<lambda>now. NewPoliciesAttachedCondition now False ''PolicyError''
               (Error2ConditionMsg (Some err)) generation) policy;
             fail_phase env policy (Some (''PolicySyncError'', ''Sync'', err_msg err))
           }
         | Inr policyIDs \<Rightarrow> do {
             policy \<leftarrow> add_condition env (\<lambda>now. NewPoliciesAttachedCondition now True ''PoliciesAttached''
               (''Synced '' @ nat_str (length policyIDs) @ '' Access Policy(ies).'') generation) policy;
             policy \<leftarrow> token_phase env accessService accountID policyCtx policy;
             policy \<leftarrow> mtls_phase env accessService accountID policyCtx hostnames policy;
             finish_phases env policy policyCtx
           }
       }
   }"

text \<open>Phases 3 and 4, in the cluster only.\<close>

definition failed_message :: "AccessPolicyContext \<Rightarrow> string" where
  "failed_message policyCtx =
     (let failedTargets = FailedTargets policyCtx
      in ''Failed to resolve '' @ nat_str (length failedTargets) @ '' target(s): '' @
         err_msg (the (ti_Error (failedTargets ! 0))))"

definition targets_condition :: "AccessPolicyContext \<Rightarrow> int \<Rightarrow> int \<Rightarrow> Condition" where
  "targets_condition policyCtx generation now =
     (if HasFailedTargets policyCtx
      then NewTargetsResolvedCondition now False ''TargetNotFound'' (failed_message policyCtx) generation
      else NewTargetsResolvedCondition now True ''TargetsResolved''
             (''Resolved '' @ nat_str (length (SuccessfullyResolvedTargets policyCtx)) @ '' target(s).'') generation)"


definition target_phases ::
  "'w AccEnv \<Rightarrow> 'w AccessClient \<Rightarrow> string \<Rightarrow> CloudflareAccessPolicy \<Rightarrow> ('w, Result \<times> go_error option) io" where
  "target_phases env accessService accountID policy = do {
     let generation = om_Generation (acp_Meta policy);
     policyCtx \<leftarrow> NewAccessPolicyContext (ae_Reader env) policy;
     case validateTargetKinds (ae_Gates env) policy of
       Some err \<Rightarrow> do {
         policy \<leftarrow> add_condition env (\<lambda>now. NewTargetsResolvedCondition now False ''TargetNotFound''
           (Error2ConditionMsg (Some err)) generation) policy;
         fail_phase env policy None
       }
     | None \<Rightarrow> do {
         policy \<leftarrow> add_condition env (targets_condition policyCtx generation) policy;
         if HasFailedTargets policyCtx \<and> length (SuccessfullyResolvedTargets policyCtx) = 0
         then fail_phase env policy (Some (''TargetNotFound'', ''Resolve'', failed_message policyCtx))
         else do {
           g \<leftarrow> (if HasCrossNamespaceTargets policyCtx then checkReferenceGrants env policy policyCtx else ret (Inr ()));
           case g of
             Inl err \<Rightarrow> do {
               policy \<leftarrow> add_condition env (\<lambda>now. NewCondition now ''ReferenceGrantValid'' StFalse
                 ''ReferenceGrantRequired'' (Error2ConditionMsg (Some err)) generation) policy;
               fail_phase env policy None
             }
           | Inr _ \<Rightarrow> cloudflare_phases env accessService accountID policyCtx policy
         }
       }
   }"

definition reconcilePhases ::
  "'w AccEnv \<Rightarrow> CloudflareAccessPolicy \<Rightarrow> ('w AccState, Result \<times> go_error option) io" where
  "reconcilePhases env policy = do {
     let generation = om_Generation (acp_Meta policy);
     r \<leftarrow> access_resolveCredentials env policy;
     case r of
       Inl err \<Rightarrow> call (do {
         policy \<leftarrow> add_condition env (\<lambda>now. NewCondition now ''CredentialsValid'' StFalse
           ''CredentialsInvalid'' (Error2ConditionMsg (Some err)) generation) policy;
         fail_phase env policy (Some (''CredentialsInvalid'', ''Validate'', err_msg err))
       })
     | Inr (accessService, accountID) \<Rightarrow> call (do {
         policy \<leftarrow> add_condition env (\<lambda>now. NewCondition now ''CredentialsValid'' StTrue
           ''CredentialsValid'' ''Credentials validated successfully.'' generation) policy;
         target_phases env accessService accountID policy
       })
   }"

definition access_Reconcile ::
  "'w AccEnv \<Rightarrow> NamespacedName \<Rightarrow> ('w AccState, Result \<times> go_error option) io" where
  "access_Reconcile env req = do {
     r \<leftarrow> call (ae_Get env req);
     case r of
       Inl err \<Rightarrow>
         if IsNotFound err then ret (no_requeue, None)
         else ret (no_requeue, Some (wrapf ''failed to get CloudflareAccessPolicy'' err))
     | Inr policy \<Rightarrow>
         if om_DeletionTimestamp (acp_Meta policy) \<noteq> None then access_reconcileDelete env policy
         else if \<not> fl_Contains (ae_Finalizers env) (acp_Meta policy) accessPolicyFinalizer then do {
           p \<leftarrow> call (ae_Patch env policy
                  (policy\<lparr>acp_Meta := fl_Add (ae_Finalizers env) (acp_Meta policy) accessPolicyFinalizer\<rparr>));
           case p of
             Inl err \<Rightarrow> ret (no_requeue, Some (wrapf ''failed to add finalizer'' err))
           | Inr _ \<Rightarrow> ret (\<lparr>res_Requeue = True, res_RequeueAfter = 0\<rparr>, None)
         }
         else reconcilePhases env policy
   }"

section \<open>Lemmas\<close>

lemma run_call [simp]:
  "run_state (call m) s = (case run_state m (acs_world s) of (a, w) \<Rightarrow> (a, s\<lparr>acs_world := w\<rparr>))"
  by (simp add: call_def)

lemma fst_call: "fst (run_state (call m) s) = fst (run_state m (acs_world s))"
  by (simp split: prod.split)

lemma run_add_condition:
  "\<exists>now1 now2 w'. run_state (add_condition env c policy) w =
     (set_status (ast_Conditions_update (\<lambda>cs. MergeConditions now2 cs [c now1])) policy, w')"
  by (cases "run_state (ae_Now env) w"; cases "run_state (ae_Now env) (snd (run_state (ae_Now env) w))")
    (auto simp: add_condition_def)

lemma fail_phase_result:
  "fst (run_state (fail_phase env policy event) w) = (requeue_after accessPolicyRequeueAfterError, None)"
  by (auto simp: fail_phase_def split: prod.split option.split)

text \<open>The parts of the model that read only the cluster do not depend on the SDK.\<close>

lemma tunnel_credentials_sdk [simp]:
  "tunnel_credentials (env\<lparr>ae_cfNewClient := f\<rparr>) gw = tunnel_credentials env gw"
  by (simp add: tunnel_credentials_def Let_def cong: option.case_cong)

lemma parent_credentials_sdk [simp]:
  "parent_credentials (env\<lparr>ae_cfNewClient := f\<rparr>) route ps = parent_credentials env route ps"
  by (induction ps) (simp_all add: Let_def cong: sum.case_cong if_cong option.case_cong)

lemma refs_credentials_sdk [simp]:
  "refs_credentials (env\<lparr>ae_cfNewClient := f\<rparr>) ns refs = refs_credentials env ns refs"
  by (induction refs) (simp_all add: Let_def cong: sum.case_cong if_cong option.case_cong)

lemma credentials_source_sdk [simp]:
  "credentials_source (env\<lparr>ae_cfNewClient := f\<rparr>) policy = credentials_source env policy"
  by (simp add: credentials_source_def inheritCredentialsFromTunnel_def cong: option.case_cong)

lemma updateStatus_sdk [simp]:
  "access_updateStatus (env\<lparr>ae_cfNewClient := f\<rparr>) policy = access_updateStatus env policy"
  by (simp add: access_updateStatus_def cong: sum.case_cong if_cong)

lemma fail_phase_sdk [simp]: "fail_phase (env\<lparr>ae_cfNewClient := f\<rparr>) policy event = fail_phase env policy event"
  by (simp add: fail_phase_def cong: option.case_cong)

lemma add_condition_sdk [simp]: "add_condition (env\<lparr>ae_cfNewClient := f\<rparr>) c policy = add_condition env c policy"
  by (simp add: add_condition_def)

lemma checkReferenceGrants_sdk [simp]:
  "checkReferenceGrants (env\<lparr>ae_cfNewClient := f\<rparr>) policy ctx = checkReferenceGrants env policy ctx"
  by (simp add: checkReferenceGrants_def)

text \<open>Without a cache, the credentials determine the client up to what the SDK makes of the token.\<close>

lemma getCloudflareClient_sdk:
  assumes "ae_CFClient env = None" "acs_cred t = None"
  shows "\<exists>r s1. \<forall>f. run_state (access_getCloudflareClient (env\<lparr>ae_cfNewClient := f\<rparr>) ns ref) t =
      (map_sum id (\<lambda>token. accessClientImpl (f token)) r, s1)"
proof -
  let ?key = "\<lparr>nn_Namespace = (case csr_Namespace ref of None \<Rightarrow> ns | Some n \<Rightarrow> if n \<noteq> [] then n else ns),
    nn_Name = csr_Name ref\<rparr>"
  obtain x w where x: "run_state (ae_GetSecret env ?key) (acs_world t) = (x, w)" by (rule prod.exhaust)
  show ?thesis
  proof (cases x)
    case (Inl e)
    with x assms(1) show ?thesis
      by (intro exI [of _ "Inl (wrapf ''failed to get credentials secret'' e)"] exI [of _ "t\<lparr>acs_world := w\<rparr>"])
        (simp add: access_getCloudflareClient_def Let_def)
  next
    case (Inr secret)
    define r where "r = (case map_of (sec_Data secret) ''CLOUDFLARE_API_TOKEN'' of
        None \<Rightarrow> Inl (errorf (''API token key '' @ quote ''CLOUDFLARE_API_TOKEN'' @ '' not found in secret''))
      | Some token \<Rightarrow> if token = [] then Inl (errorf ''API token is required'') else Inr token)"
    with x assms Inr show ?thesis
      by (intro exI [of _ r] exI [of _ "t\<lparr>acs_world := w\<rparr>"])
        (simp add: access_getCloudflareClient_def Let_def access_createClientFromSecret_def NewAccessClient_def
          split: option.split)
  qed
qed

lemma resolveCredentials_sdk:
  assumes "ae_CFClient env = None" "acs_cred s = None"
  shows "\<exists>r s1. \<forall>f. run_state (access_resolveCredentials (env\<lparr>ae_cfNewClient := f\<rparr>) policy) s =
    (map_sum id (\<lambda>(token, acct). (accessClientImpl (f token), acct)) r, s1)"
proof -
  obtain c w where c: "run_state (credentials_source env policy) (acs_world s) = (c, w)" by (rule prod.exhaust)
  let ?t = "s\<lparr>acs_world := w\<rparr>"
  consider (err) e where "c = Inl e" | (acct) ref where "c = Inr (ref, [])"
    | (ok) ref acct where "c = Inr (ref, acct)" "acct \<noteq> []" by (cases c) auto
  then show ?thesis
  proof cases
    case err
    with c show ?thesis
      by (intro exI [of _ "Inl e"] exI [of _ ?t]) (simp add: access_resolveCredentials_def)
  next
    case acct
    with c show ?thesis
      by (intro exI [of _ "Inl (errorf ''account ID not specified and could not be resolved'')"] exI [of _ ?t])
        (simp add: access_resolveCredentials_def)
  next
    case ok
    have "acs_cred ?t = None" using assms(2) by simp
    from getCloudflareClient_sdk [OF assms(1) this] obtain r s1 where
      "\<forall>f. run_state (access_getCloudflareClient (env\<lparr>ae_cfNewClient := f\<rparr>) (om_Namespace (acp_Meta policy)) ref) ?t =
        (map_sum id (\<lambda>token. accessClientImpl (f token)) r, s1)" by blast
    with c ok show ?thesis
      by (intro exI [of _ "map_sum (wrapf ''failed to create Cloudflare client'') (\<lambda>t. (t, acct)) r"]
          exI [of _ s1]) (cases r; simp add: access_resolveCredentials_def)
  qed
qed

text \<open>The namespace of a target, and the targets of the context in terms of the references.\<close>

definition target_namespace :: "string \<Rightarrow> PolicyTargetReference \<Rightarrow> string" where
  "target_namespace ns ref = (case pt_Namespace ref of None \<Rightarrow> ns | Some n \<Rightarrow> if n = [] then ns else n)"

lemma resolveTarget_ref_place:
  "ti_Kind (fst (run_state (resolveTarget_ref k ref ns) w)) = pt_Kind ref \<and>
   ti_Namespace (fst (run_state (resolveTarget_ref k ref ns) w)) = target_namespace ns ref"
  by (auto simp: resolveTarget_ref_def Let_def target_namespace_def
      split: prod.split sum.split bool.split option.split)

lemma resolve_refs_places:
  "map (\<lambda>t. (ti_Kind t, ti_Namespace t)) (fst (run_state (resolve_refs k ns refs) w)) =
     map (\<lambda>r. (pt_Kind r, target_namespace ns r)) refs"
proof (induction refs arbitrary: w)
  case (Cons ref refs)
  then show ?case using resolveTarget_ref_place [of k ref ns w] by (simp split: prod.split) (metis fst_conv)
qed simp

lemma grantPermits_granted:
  "list_ex (\<lambda>grant. grantPermitsAccess grant ns kind) gs = granted gs ns kind"
  unfolding grantPermitsAccess_def list_ex_granted [symmetric] by simp

lemma check_targets_blocked:
  assumes "\<And>n v. fst (run_state (kr_ListGrants k n) v) = grants n"
    and "t \<in> List.set ts" "ti_Namespace t \<noteq> ns"
    and "\<And>gs. grants (ti_Namespace t) = Inr gs \<Longrightarrow> \<not> granted gs ns (ti_Kind t)"
  shows "\<exists>e w'. run_state (check_targets k ns ts) w = (Inl e, w')"
  using assms(2)
proof (induction ts arbitrary: w)
  case (Cons u us)
  obtain r w1 where r: "run_state (kr_ListGrants k (ti_Namespace u)) w = (r, w1)" by (rule prod.exhaust)
  then have "r = grants (ti_Namespace u)" using assms(1) [of "ti_Namespace u" w] by simp
  with Cons r assms(3,4) show ?case
    by (cases "grants (ti_Namespace u)") (auto simp: grantPermits_granted)
qed simp

text \<open>A context with a target that no grant covers stops the reconcile before any call to Cloudflare.\<close>

lemma target_phases_blocked:
  assumes "case ae_Gates env of None \<Rightarrow> True | Some g \<Rightarrow> HasReferenceGrantSupport g"
    and "\<And>n v. fst (run_state (kr_ListGrants (ae_Reader env) n) v) = grants n"
    and "ref \<in> List.set (GetTargetRefs policy)"
    and "target_namespace (om_Namespace (acp_Meta policy)) ref = ns" "ns \<noteq> om_Namespace (acp_Meta policy)"
    and "\<And>gs. grants ns = Inr gs \<Longrightarrow> \<not> granted gs (om_Namespace (acp_Meta policy)) (pt_Kind ref)"
  shows "\<exists>p event w1. \<forall>f c a. run_state (target_phases (env\<lparr>ae_cfNewClient := f\<rparr>) c a policy) w =
    run_state (fail_phase env p event) w1"
proof -
  let ?home = "om_Namespace (acp_Meta policy)"
  obtain ctx w1 where ctx: "run_state (NewAccessPolicyContext (ae_Reader env) policy) w = (ctx, w1)"
    by (rule prod.exhaust)
  then have ctx_simps: "apc_Policy ctx = policy"
    "apc_resolvedTargets ctx = fst (run_state (resolve_refs (ae_Reader env) ?home (GetTargetRefs policy)) w)"
    by (auto simp: NewAccessPolicyContext_def resolveTargets_def split: prod.splits)
  have "(pt_Kind ref, ns) \<in> List.set (map (\<lambda>t. (ti_Kind t, ti_Namespace t)) (apc_resolvedTargets ctx))"
    unfolding ctx_simps resolve_refs_places using assms(3,4) by force
  then obtain t where t: "t \<in> List.set (apc_resolvedTargets ctx)" "ti_Kind t = pt_Kind ref" "ti_Namespace t = ns"
    by auto
  then have cross: "HasCrossNamespaceTargets ctx"
    using assms(5) by (auto simp: HasCrossNamespaceTargets_def ctx_simps list_ex_iff)
  have check: "\<exists>e w'. run_state (checkReferenceGrants env p ctx) v = (Inl e, w')" if "acp_Meta p = acp_Meta policy" for p v
    using check_targets_blocked [OF assms(2), where ts = "apc_resolvedTargets ctx" and t = t and w = v and ns = ?home]
      t assms(1,5,6) that
    by (auto simp: checkReferenceGrants_def ResolvedTargets_def split: option.splits)
  show ?thesis
  proof (cases "validateTargetKinds (ae_Gates env) policy")
    case (Some err)
    obtain p w2 where "run_state (add_condition env (\<lambda>now. NewTargetsResolvedCondition now False ''TargetNotFound''
        (Error2ConditionMsg (Some err)) (om_Generation (acp_Meta policy))) policy) w1 = (p, w2)" by (rule prod.exhaust)
    with ctx Some show ?thesis
      by (intro exI [of _ p] exI [of _ None] exI [of _ w2]) (simp add: target_phases_def Let_def)
  next
    case None
    let ?cond = "targets_condition ctx (om_Generation (acp_Meta policy))"
    obtain p w2 where p: "run_state (add_condition env ?cond policy) w1 = (p, w2)" by (rule prod.exhaust)
    have meta: "acp_Meta p = acp_Meta policy" using run_add_condition [of env ?cond policy w1] p by auto
    obtain e w3 where e: "run_state (checkReferenceGrants env p ctx) w2 = (Inl e, w3)" using check [OF meta] by blast
    obtain q w4 where q: "run_state (add_condition env (\<lambda>now. NewCondition now ''ReferenceGrantValid'' StFalse
        ''ReferenceGrantRequired'' (Error2ConditionMsg (Some e)) (om_Generation (acp_Meta policy))) p) w3 = (q, w4)"
      by (rule prod.exhaust)
    show ?thesis
    proof (cases "HasFailedTargets ctx \<and> length (SuccessfullyResolvedTargets ctx) = 0")
      case True
      with ctx None p show ?thesis
        by (intro exI [of _ p] exI [of _ "Some (''TargetNotFound'', ''Resolve'', failed_message ctx)"] exI [of _ w2])
          (simp add: target_phases_def Let_def)
    next
      case False
      with ctx None p cross e q show ?thesis
        by (intro exI [of _ q] exI [of _ None] exI [of _ w4])
          (auto simp: target_phases_def Let_def)
    qed
  qed
qed

section \<open>Properties: reconcile and deletion\<close>

text \<open>C9: A target in another namespace that no ReferenceGrant covers keeps the reconcile away from
  Cloudflare. When the ReferenceGrant kind is installed and one reference of the policy names
  another namespace that has no grant from policies of the policy's namespace to that kind, the run
  is the same whatever the Cloudflare SDK does, for the granted targets of the same policy too; it
  ends with a retry after 30 seconds.\<close>

theorem ungranted_target_blocks:
  assumes "ae_CFClient env = None" "acs_cred s = None"
    and "case ae_Gates env of None \<Rightarrow> True | Some g \<Rightarrow> HasReferenceGrantSupport g"
    and "\<And>n v. fst (run_state (kr_ListGrants (ae_Reader env) n) v) = grants n"
    and "ref \<in> List.set (GetTargetRefs policy)"
    and "target_namespace (om_Namespace (acp_Meta policy)) ref = ns" "ns \<noteq> om_Namespace (acp_Meta policy)"
    and "\<And>gs. grants ns = Inr gs \<Longrightarrow> \<not> granted gs (om_Namespace (acp_Meta policy)) (pt_Kind ref)"
  shows "run_state (reconcilePhases (env\<lparr>ae_cfNewClient := f\<rparr>) policy) s =
      run_state (reconcilePhases (env\<lparr>ae_cfNewClient := g\<rparr>) policy) s \<and>
    fst (run_state (reconcilePhases env policy) s) = (requeue_after accessPolicyRequeueAfterError, None)"
proof -
  obtain r s1 where r: "\<And>f. run_state (access_resolveCredentials (env\<lparr>ae_cfNewClient := f\<rparr>) policy) s =
    (map_sum id (\<lambda>(token, acct). (accessClientImpl (f token), acct)) r, s1)"
    using resolveCredentials_sdk [OF assms(1,2)] by blast
  have "\<exists>p event w1 s2. \<forall>f. run_state (reconcilePhases (env\<lparr>ae_cfNewClient := f\<rparr>) policy) s =
      run_state (call (fail_phase env p event)) (s2\<lparr>acs_world := w1\<rparr>)"
  proof (cases r)
    case (Inl e)
    obtain p w1 where p: "run_state (add_condition env (\<lambda>now. NewCondition now ''CredentialsValid'' StFalse
        ''CredentialsInvalid'' (Error2ConditionMsg (Some e)) (om_Generation (acp_Meta policy))) policy)
        (acs_world s1) = (p, w1)" by (rule prod.exhaust)
    with r Inl show ?thesis
      by (intro exI [of _ p] exI [of _ "Some (''CredentialsInvalid'', ''Validate'', err_msg e)"] exI [of _ w1]
          exI [of _ s1]) (simp add: reconcilePhases_def Let_def split: prod.split)
  next
    case (Inr creds)
    obtain token acct where creds: "creds = (token, acct)" by (rule prod.exhaust)
    let ?cond = "\<lambda>now. NewCondition now ''CredentialsValid'' StTrue ''CredentialsValid''
      ''Credentials validated successfully.'' (om_Generation (acp_Meta policy))"
    obtain p w1 where p: "run_state (add_condition env ?cond policy) (acs_world s1) = (p, w1)" by (rule prod.exhaust)
    then have same: "acp_Meta p = acp_Meta policy" "GetTargetRefs p = GetTargetRefs policy"
      using run_add_condition [of env ?cond policy "acs_world s1"] by (auto simp: GetTargetRefs_def)
    obtain q event w2 where q: "\<forall>f c a. run_state (target_phases (env\<lparr>ae_cfNewClient := f\<rparr>) c a p) w1 =
        run_state (fail_phase env q event) w2"
      using target_phases_blocked [OF assms(3,4), of ref p ns w1] assms(5-8) same by auto
    with p creds Inr r show ?thesis
      by (intro exI [of _ q] exI [of _ event] exI [of _ w2] exI [of _ s1])
        (simp add: reconcilePhases_def Let_def split: prod.split)
  qed
  then obtain p event w1 s2 where run: "\<And>f. run_state (reconcilePhases (env\<lparr>ae_cfNewClient := f\<rparr>) policy) s =
      run_state (call (fail_phase env p event)) (s2\<lparr>acs_world := w1\<rparr>)" by blast
  have "env\<lparr>ae_cfNewClient := ae_cfNewClient env\<rparr> = env" by simp
  with run [of "ae_cfNewClient env"] fail_phase_result [of env p event w1] run show ?thesis
    by (simp split: prod.splits)
qed

text \<open>A cluster for the witnesses: one policy, whose target is in another namespace, and no secret.\<close>

definition wit_aenv :: "'w AccEnv" where
  "wit_aenv = \<lparr>ae_Get = (\<lambda>n. ret (Inr wit_target_policy)), ae_Patch = (\<lambda>a b. ret (Inr ())),
     ae_StatusUpdate = (\<lambda>p. ret (Inr ())), ae_Reader = wit_reader, ae_GetClass = (\<lambda>n. ret (Inl down)),
     ae_GetSecret = (\<lambda>n. ret (Inl down)), ae_CreateSecret = (\<lambda>s. ret (Inr ())),
     ae_UpdateSecret = (\<lambda>s. ret (Inr ())), ae_ListPolicies = ret (Inr [wit_target_policy]),
     ae_ListByTarget = (\<lambda>k. ret (Inr (filter (\<lambda>p. k \<in> List.set (accessPolicyTargetIndexFunc (Some p)))
       [wit_target_policy]))),
     ae_Event = (\<lambda>n t r a m. ret ()), ae_Now = ret 0, ae_CFClient = None, ae_cfNewClient = (\<lambda>t. down_access_sdk),
     ae_Gates = None, ae_Finalizers = std_finalizers, ae_SetOwner = (\<lambda>p s. Inr s), ae_Range = wit_rng,
     ae_RangeTokens = ret\<rparr>"

definition wit_astate :: "int AccState" where
  "wit_astate = \<lparr>acs_cred = None, acs_world = 0\<rparr>"

theorem ungranted_target_blocks_witness:
  "fst (run_state (reconcilePhases (wit_aenv\<lparr>ae_Reader := wit_reader\<lparr>kr_ListGrants := \<lambda>n. ret (Inr [])\<rparr>\<rparr>)
     wit_target_policy) wit_astate) = (requeue_after accessPolicyRequeueAfterError, None)"
proof -
  obtain ref where "GetTargetRefs wit_target_policy = [ref]" "pt_Namespace ref = Some ''apps''"
    by (simp add: GetTargetRefs_def wit_target_policy_def wit_policy_def)
  then show ?thesis
    using ungranted_target_blocks [of "wit_aenv\<lparr>ae_Reader := wit_reader\<lparr>kr_ListGrants := \<lambda>n. ret (Inr [])\<rparr>\<rparr>"
        wit_astate "\<lambda>n. Inr []" ref wit_target_policy "''apps''"]
    by (simp add: wit_aenv_def wit_astate_def target_namespace_def granted_def wit_target_policy_def wit_policy_def
        wit_meta_def)
qed



text \<open>C36: A failure of the credentials leaves the Ready condition alone. When the credentials cannot be
  resolved, the status that is written reports them invalid, but has the Ready condition (and the
  observed generation, the application and the ancestors) of the last reconcile: a policy that was
  ready once still says so. (Only the last phase computes Ready.)\<close>

theorem credentials_failure_keeps_ready:
  assumes "run_state (access_resolveCredentials env policy) s = (Inl err, s1)"
  shows "\<exists>policy' w. run_state (reconcilePhases env policy) s =
      run_state (call (fail_phase env policy' (Some (''CredentialsInvalid'', ''Validate'', err_msg err))))
        (s1\<lparr>acs_world := w\<rparr>) \<and>
    ConditionFalse (policy_conditions policy') ''CredentialsValid'' \<and>
    FindCondition (policy_conditions policy') ''Ready'' = FindCondition (policy_conditions policy) ''Ready'' \<and>
    acp_Status policy' = (acp_Status policy)\<lparr>ast_Conditions := policy_conditions policy'\<rparr>"
proof -
  let ?c = "\<lambda>now. NewCondition now ''CredentialsValid'' StFalse ''CredentialsInvalid''
    (Error2ConditionMsg (Some err)) (om_Generation (acp_Meta policy))"
  obtain now1 now2 w where p: "run_state (add_condition env ?c policy) (acs_world s1) =
      (set_status (ast_Conditions_update (\<lambda>cs. MergeConditions now2 cs [?c now1])) policy, w)"
    using run_add_condition [of env ?c policy "acs_world s1"] by blast
  let ?p = "set_status (ast_Conditions_update (\<lambda>cs. MergeConditions now2 cs [?c now1])) policy"
  have "policy_conditions ?p = SetCondition now2 (policy_conditions policy) (?c now1)"
    by (simp add: SetCondition_def)
  then have "ConditionFalse (policy_conditions ?p) ''CredentialsValid''"
    "FindCondition (policy_conditions ?p) ''Ready'' = FindCondition (policy_conditions policy) ''Ready''"
    by (simp_all add: status_conds.ConditionFalse_set status_conds.find_set_other NewCondition_def)
  moreover have "run_state (reconcilePhases env policy) s =
      run_state (call (fail_phase env ?p (Some (''CredentialsInvalid'', ''Validate'', err_msg err))))
        (s1\<lparr>acs_world := w\<rparr>)"
    using assms p by (simp add: reconcilePhases_def Let_def split: prod.split)
  ultimately show ?thesis by (intro exI [of _ ?p] exI [of _ w]) simp
qed

theorem credentials_failure_keeps_ready_witness:
  "fst (run_state (reconcilePhases wit_aenv wit_policy) wit_astate) =
     (requeue_after accessPolicyRequeueAfterError, None)"
proof -
  have "run_state (access_resolveCredentials wit_aenv wit_policy) wit_astate =
    (Inl (errorf ''no credentials configured: set cloudflareRef or ensure targets reference a tunnel''), wit_astate)"
    by (simp add: access_resolveCredentials_def credentials_source_def inheritCredentialsFromTunnel_def
        GetTargetRefs_def wit_policy_def wit_astate_def)
  from credentials_failure_keeps_ready [OF this] obtain p event w where
    "run_state (reconcilePhases wit_aenv wit_policy) wit_astate =
      run_state (call (fail_phase wit_aenv p event)) (wit_astate\<lparr>acs_world := w\<rparr>)" by blast
  then show ?thesis by (simp only: fst_call fail_phase_result)
qed

section \<open>Properties: rules, policies and the application\<close>

text \<open>Whom a rule selects, stated for the custom resource and for the parameters of the API alike.\<close>

datatype Selected = SelIP string | SelIPList string | SelCountry string | SelEveryone | SelToken string
  | SelAnyToken | SelEmail string | SelEmailList string | SelDomain string | SelClaim string string string
  | SelGroup string string

definition rule_selectors :: "AccessRule \<Rightarrow> Selected list" where
  "rule_selectors r =
     (case rl_IP r of None \<Rightarrow> [] | Some i \<Rightarrow> map SelIP (ipr_Ranges i)) @
     (case rl_IPList r of None \<Rightarrow> [] | Some l \<Rightarrow> if ipl_ID l = [] then [] else [SelIPList (ipl_ID l)]) @
     (case rl_Country r of None \<Rightarrow> [] | Some c \<Rightarrow> map SelCountry (cr_Codes c)) @
     (if rl_Everyone r = Some True then [SelEveryone] else []) @
     (case rl_ServiceToken r of None \<Rightarrow> [] | Some t \<Rightarrow> if str_TokenID t = [] then [] else [SelToken (str_TokenID t)]) @
     (if rl_AnyValidServiceToken r = Some True then [SelAnyToken] else []) @
     (case rl_Email r of None \<Rightarrow> [] | Some e \<Rightarrow> map SelEmail (er_Addresses e)) @
     (case rl_EmailList r of None \<Rightarrow> [] | Some l \<Rightarrow> if el_ID l = [] then [] else [SelEmailList (el_ID l)]) @
     (case rl_EmailDomain r of None \<Rightarrow> [] | Some d \<Rightarrow> [SelDomain (ed_Domain d)]) @
     (case rl_OIDCClaim r of None \<Rightarrow> []
      | Some c \<Rightarrow> [SelClaim (oc_IdentityProviderID c) (oc_ClaimName c) (oc_ClaimValue c)]) @
     (case rl_GSuiteGroup r of None \<Rightarrow> [] | Some g \<Rightarrow> [SelGroup (gg_IdentityProviderID g) (gg_Email g)])"

definition param_selectors :: "AccessRuleParam \<Rightarrow> Selected list" where
  "param_selectors p =
     (case ar_IPRange p of None \<Rightarrow> [] | Some x \<Rightarrow> [SelIP x]) @
     (case ar_IPListID p of None \<Rightarrow> [] | Some x \<Rightarrow> [SelIPList x]) @
     (case ar_Country p of None \<Rightarrow> [] | Some x \<Rightarrow> [SelCountry x]) @
     (if ar_Everyone p = Some True then [SelEveryone] else []) @
     (case ar_ServiceTokenID p of None \<Rightarrow> [] | Some x \<Rightarrow> [SelToken x]) @
     (if ar_AnyValidServiceToken p = Some True then [SelAnyToken] else []) @
     (case ar_Email p of None \<Rightarrow> [] | Some x \<Rightarrow> [SelEmail x]) @
     (case ar_EmailListID p of None \<Rightarrow> [] | Some x \<Rightarrow> [SelEmailList x]) @
     (case ar_EmailDomain p of None \<Rightarrow> [] | Some x \<Rightarrow> [SelDomain x]) @
     (case ar_OIDCClaim p of None \<Rightarrow> []
      | Some c \<Rightarrow> [SelClaim (oi_IdentityProviderID c) (oi_ClaimName c) (oi_ClaimValue c)]) @
     (case ar_GSuiteGroup p of None \<Rightarrow> [] | Some g \<Rightarrow> [SelGroup (gs_IdentityProviderID g) (gs_Email g)])"

text \<open>The number of criteria a rule has set.\<close>

definition criteria :: "AccessRule \<Rightarrow> nat" where
  "criteria r = length (filter id [rl_IP r \<noteq> None, rl_IPList r \<noteq> None, rl_Country r \<noteq> None, rl_Everyone r \<noteq> None,
     rl_ServiceToken r \<noteq> None, rl_AnyValidServiceToken r \<noteq> None, rl_Email r \<noteq> None, rl_EmailList r \<noteq> None,
     rl_EmailDomain r \<noteq> None, rl_OIDCClaim r \<noteq> None, rl_GSuiteGroup r \<noteq> None])"

definition params_select :: "AccessRuleParam list option \<Rightarrow> Selected list" where
  "params_select ps = concat (map param_selectors (case ps of None \<Rightarrow> [] | Some xs \<Rightarrow> xs))"

lemma concat_map_mono:
  "(\<And>x. List.set (f x) \<subseteq> List.set (g x)) \<Longrightarrow> List.set (concat (map f xs)) \<subseteq> List.set (concat (map g xs))"
  by fastforce

lemma concat_map_single: "(\<And>x. f x = [g x]) \<Longrightarrow> concat (map f xs) = map g xs"
  by (induction xs) auto

lemma param_selectors_one [simp]:
  "param_selectors (zero_AccessRuleParam\<lparr>ar_IPRange := Some x\<rparr>) = [SelIP x]"
  "param_selectors (zero_AccessRuleParam\<lparr>ar_IPListID := Some x\<rparr>) = [SelIPList x]"
  "param_selectors (zero_AccessRuleParam\<lparr>ar_Country := Some x\<rparr>) = [SelCountry x]"
  "param_selectors (zero_AccessRuleParam\<lparr>ar_Everyone := Some True\<rparr>) = [SelEveryone]"
  "param_selectors (zero_AccessRuleParam\<lparr>ar_ServiceTokenID := Some x\<rparr>) = [SelToken x]"
  "param_selectors (zero_AccessRuleParam\<lparr>ar_AnyValidServiceToken := Some True\<rparr>) = [SelAnyToken]"
  "param_selectors (zero_AccessRuleParam\<lparr>ar_Email := Some x\<rparr>) = [SelEmail x]"
  "param_selectors (zero_AccessRuleParam\<lparr>ar_EmailListID := Some x\<rparr>) = [SelEmailList x]"
  "param_selectors (zero_AccessRuleParam\<lparr>ar_EmailDomain := Some x\<rparr>) = [SelDomain x]"
  "param_selectors (zero_AccessRuleParam\<lparr>ar_OIDCClaim := Some
      \<lparr>oi_IdentityProviderID = a, oi_ClaimName = b, oi_ClaimValue = c\<rparr>\<rparr>) = [SelClaim a b c]"
  "param_selectors (zero_AccessRuleParam\<lparr>ar_GSuiteGroup := Some
      \<lparr>gs_IdentityProviderID = a, gs_Email = b\<rparr>\<rparr>) = [SelGroup a b]"
  by (simp_all add: param_selectors_def zero_AccessRuleParam_def)

definition branch_selectors :: "AccessRuleParam list option \<Rightarrow> Selected list" where
  "branch_selectors b = (case b of None \<Rightarrow> [] | Some ps \<Rightarrow> concat (map param_selectors ps))"

lemma branch_selectors_simps [simp]:
  "branch_selectors None = []"
  "branch_selectors (map_option f x) = (case x of None \<Rightarrow> [] | Some y \<Rightarrow> concat (map param_selectors (f y)))"
  "branch_selectors (Option.bind x (\<lambda>y. guarded (b y) (ps y))) =
     (case x of None \<Rightarrow> [] | Some y \<Rightarrow> if b y then concat (map param_selectors (ps y)) else [])"
  by (auto simp: branch_selectors_def guarded_def split: option.split)

lemma rule_selectors_branches: "rule_selectors r = concat (map branch_selectors (rule_branches r))"
  unfolding rule_selectors_def rule_branches_def list.map concat.simps append_Nil2 branch_selectors_simps
  by (intro arg_cong2 [where f = append]; simp add: concat_map_single comp_def split: option.split)

lemma first_match_select:
  "List.set (case first_match bs of None \<Rightarrow> [] | Some ps \<Rightarrow> concat (map param_selectors ps)) \<subseteq>
     List.set (concat (map branch_selectors bs))"
  by (induction bs rule: first_match.induct) (auto simp: branch_selectors_def)

lemma first_match_only:
  "length (filter (\<lambda>b. b \<noteq> None) bs) \<le> 1 \<Longrightarrow>
     (case first_match bs of None \<Rightarrow> [] | Some ps \<Rightarrow> concat (map param_selectors ps)) = concat (map branch_selectors bs)"
proof (induction bs rule: first_match.induct)
  case (2 ps bs)
  then have "filter (\<lambda>b. b \<noteq> None) bs = []" by simp
  then have "concat (map branch_selectors bs) = []" by (auto simp: filter_empty_conv)
  then show ?case by (simp add: branch_selectors_def)
qed simp_all

lemma branches_criteria: "length (filter (\<lambda>b. b \<noteq> None) (rule_branches r)) \<le> criteria r"
proof -
  have mono: "length (filter (\<lambda>b. b \<noteq> None) bs) \<le> length (filter id cs)" if "list_all2 (\<lambda>b c. b \<noteq> None \<longrightarrow> c) bs cs"
    for bs :: "'a option list" and cs
    using that by (induction rule: list_all2_induct) auto
  show ?thesis unfolding criteria_def by (rule mono) (auto simp: rule_branches_def bind_eq_Some_conv)
qed

lemma convertAccessRule_select:
  "concat (map param_selectors (convertAccessRule r)) =
     (case first_match (rule_branches r) of None \<Rightarrow> [] | Some ps \<Rightarrow> concat (map param_selectors ps))"
  by (simp add: convertAccessRule_def split: option.split)

lemma params_select_convert:
  "params_select (convertAccessRules rs) = concat (map (\<lambda>r. concat (map param_selectors (convertAccessRule r))) rs)"
proof -
  have "params_select (appended xs) = concat (map param_selectors xs)" for xs
    by (simp add: params_select_def appended_def)
  then show ?thesis by (simp add: convertAccessRules_def) (induction rs; simp)
qed


definition no_criteria :: AccessRule where
  "no_criteria = \<lparr>rl_IP = None, rl_IPList = None, rl_Country = None, rl_Everyone = None, rl_ServiceToken = None,
     rl_AnyValidServiceToken = None, rl_Email = None, rl_EmailList = None, rl_EmailDomain = None,
     rl_OIDCClaim = None, rl_GSuiteGroup = None\<rparr>"


text \<open>Access policies do not keep applications apart by namespace. What a policy ensures in Cloudflare
  does not depend on the namespace of the policy: two policies of the same name in different
  namespaces, neither of which names its application, ensure the same application, and each
  overwrites the settings of the other.\<close>

theorem application_ignores_namespace:
  "access_ensureApplication client accountID
     (policy\<lparr>acp_Meta := (acp_Meta policy)\<lparr>om_Namespace := ns, om_Annotations := as, om_Generation := g\<rparr>\<rparr>) hostnames =
   access_ensureApplication client accountID policy hostnames"
  by (simp add: access_ensureApplication_def application_domain_def application_params_def Let_def)

text \<open>Only one hostname of a policy is protected. When a policy gives no domain, the application it
  ensures has the least of the hostnames of its resolved targets as its domain; the other hostnames
  of these targets are not part of any application. With no hostname at all the phase fails without
  a call to Cloudflare.\<close>

theorem least_hostname_protected:
  assumes "app_Domain (as_Application (acp_Spec policy)) = []" "sorted hostnames" "distinct hostnames"
    and "[] \<notin> List.set hostnames"
  shows "run_state (access_ensureApplication client accountID policy hostnames) w =
    (if hostnames = []
     then (Inl (errorf ''no domain configured: set application.domain or target an HTTPRoute with hostnames''), w)
     else (case run_state (EnsureApplication client accountID (application_params policy (Min (List.set hostnames)))) w of
       (r, w') \<Rightarrow> (map_sum id fst r, w')))"
proof (cases hostnames)
  case (Cons h hs)
  have "Min (List.set hostnames) = h" using assms(2) unfolding Cons by (auto intro!: Min_eqI)
  then show ?thesis using assms(1,4) Cons
    by (auto simp: access_ensureApplication_def application_domain_def Let_def split: prod.split)
qed (simp add: access_ensureApplication_def application_domain_def Let_def assms(1))

theorem least_hostname_protected_witness:
  "fst (run_state (access_ensureApplication (down_access :: int AccessClient) ''acc'' wit_policy
      [''api.example.com'', ''web.example.com'']) 0) =
   map_sum id fst (fst (run_state (EnsureApplication (down_access :: int AccessClient) ''acc''
      (application_params wit_policy ''api.example.com'')) 0))"
proof -
  have s: "sorted [''api.example.com'', ''web.example.com'']" by (simp add: less_eq_list_code)
  have m: "Min (List.set [''api.example.com'', ''web.example.com'']) = ''api.example.com''"
    using s by (auto intro!: Min_eqI)
  show ?thesis
    using least_hostname_protected [of wit_policy "[''api.example.com'', ''web.example.com'']"
        "down_access :: int AccessClient" "''acc''" 0] s
    unfolding m by (simp add: wit_policy_def zero_CrdAccessApplication_def split: prod.splits)
qed

lemma all_policy_params_names: "map cpp_Name (all_policy_params i rules) = map apr_Name rules"
  by (induction rules arbitrary: i) (simp_all add: policy_params_def)

lemma all_policy_params_nth:
  "j < length rules \<Longrightarrow> all_policy_params i rules ! j = policy_params (i + int j) (rules ! j)"
proof (induction rules arbitrary: i j)
  case (Cons r rules)
  then show ?case by (cases j) (auto simp: algebra_simps)
qed simp

lemma length_all_policy_params [simp]: "length (all_policy_params i rules) = length rules"
  by (induction rules arbitrary: i) simp_all

lemma desired_by_name_distinct:
  assumes "distinct (map cpp_Name ds)" "d \<in> List.set ds"
  shows "map_of (desired_by_name ds) (cpp_Name d) = Some d"
proof -
  have "mset (desired_by_name ds) = mset (map (\<lambda>p. (cpp_Name p, p)) ds)"
    unfolding desired_by_name_def using assms(1) by (subst map_puts_distinct) (simp_all add: comp_def)
  then have "List.set (desired_by_name ds) = List.set (map (\<lambda>p. (cpp_Name p, p)) ds)" by (rule mset_eq_setD)
  moreover have "distinct (map fst (desired_by_name ds))" by (rule desired_by_name_keys)
  ultimately show ?thesis using assms(2) by (auto intro!: map_of_is_SomeI)
qed


definition wit_rule :: AccessPolicyRule where
  "wit_rule = \<lparr>apr_Name = ''staff'', apr_Decision = ''allow'', apr_Precedence = None,
     apr_Include = [no_criteria\<lparr>rl_EmailDomain := Some \<lparr>ed_Domain = ''example.com''\<rparr>\<rparr>], apr_Exclude = [],
     apr_Require = [], apr_SessionDuration = [], apr_PurposeJustificationRequired = False,
     apr_PurposeJustificationPrompt = [], apr_ApprovalRequired = False, apr_ApprovalGroups = []\<rparr>"

lemma wit_rule_params: "policy_params 0 wit_rule = wit_policy_params"
  by (simp add: policy_params_def wit_rule_def wit_policy_params_def convertAccessRules_def convertApprovalGroups_def
      appended_def convertAccessRule_def rule_branches_def no_criteria_def)

definition wit_ruled_policy :: CloudflareAccessPolicy where
  "wit_ruled_policy = wit_policy\<lparr>acp_Spec := (acp_Spec wit_policy)\<lparr>as_Policies := [wit_rule]\<rparr>\<rparr>"


section \<open>Properties: watches and status\<close>

definition plain :: "string \<Rightarrow> bool" where
  "plain s \<longleftrightarrow> CHR ''/'' \<notin> List.set s"

lemma slash_split:
  assumes "CHR ''/'' \<notin> List.set a" "CHR ''/'' \<notin> List.set a'" "a @ ''/'' @ b = a' @ ''/'' @ b'"
  shows "a = a' \<and> b = b'"
proof -
  have "SplitN2 (a @ ''/'' @ b) CHR ''/'' = [a, b]" "SplitN2 (a' @ ''/'' @ b') CHR ''/'' = [a', b']"
    using SplitN2_append assms(1,2) by (metis append_Cons append_Nil)+
  then show ?thesis unfolding assms(3) by (metis list.inject)
qed

lemma unsupported_kind_None:
  "unsupported_kind gates refs = None \<longleftrightarrow>
     (\<forall>ref \<in> List.set refs. pt_Kind ref \<in> {''Gateway'', ''HTTPRoute''} \<or>
        (pt_Kind ref = ''GRPCRoute'' \<and> (\<forall>g. gates = Some g \<longrightarrow> HasGRPCRouteSupport g)) \<or>
        (pt_Kind ref = ''TCPRoute'' \<and> (\<forall>g. gates = Some g \<longrightarrow> HasTCPRouteSupport g)) \<or>
        (pt_Kind ref = ''UDPRoute'' \<and> (\<forall>g. gates = Some g \<longrightarrow> HasUDPRouteSupport g)))"
  by (induction refs) (auto simp: Let_def split: option.splits)

lemma key_eq_iff:
  assumes "plain a" "plain a'" "plain b" "plain b'"
  shows "accessPolicyTargetKey a b c = accessPolicyTargetKey a' b' c' \<longleftrightarrow> a' = a \<and> b' = b \<and> c' = c"
  using assms slash_split [of a a' "b @ ''/'' @ c" "b' @ ''/'' @ c'"] slash_split [of b b' c c']
  unfolding accessPolicyTargetKey_def plain_def by blast

definition targets_object :: "CloudflareAccessPolicy \<Rightarrow> string \<Rightarrow> string \<Rightarrow> string \<Rightarrow> bool" where
  "targets_object p kind ns n = list_ex (\<lambda>ref. pt_Kind ref = kind \<and>
     ref_namespace (om_Namespace (acp_Meta p)) ref = ns \<and> pt_Name ref = n) (GetTargetRefs p)"

definition plain_targets :: "CloudflareAccessPolicy \<Rightarrow> bool" where
  "plain_targets p \<longleftrightarrow> list_all (\<lambda>ref. plain (pt_Kind ref) \<and> plain (ref_namespace (om_Namespace (acp_Meta p)) ref))
     (GetTargetRefs p)"

lemma index_targets_object:
  assumes "plain_targets p" "plain kind" "plain ns"
  shows "accessPolicyTargetKey kind ns n \<in> List.set (accessPolicyTargetIndexFunc (Some p)) \<longleftrightarrow> targets_object p kind ns n"
proof -
  have "accessPolicyTargetKey kind ns n = accessPolicyTargetKey (pt_Kind ref)
      (ref_namespace (om_Namespace (acp_Meta p)) ref) (pt_Name ref) \<longleftrightarrow>
      pt_Kind ref = kind \<and> ref_namespace (om_Namespace (acp_Meta p)) ref = ns \<and> pt_Name ref = n"
    if "ref \<in> List.set (GetTargetRefs p)" for ref
    using key_eq_iff assms that unfolding plain_targets_def list_all_iff by metis
  then show ?thesis
    by (auto simp: accessPolicyTargetIndexFunc_def targets_object_def list_ex_iff image_iff)
qed

lemma access_watches_map:
  "(kind, watch) \<in> List.set (access_watches env) \<Longrightarrow> watch = findPoliciesForTarget env kind \<and> plain kind"
  by (auto simp: access_watches_def findPoliciesForHTTPRoute_def findPoliciesForGRPCRoute_def plain_def
      findPoliciesForTCPRoute_def findPoliciesForUDPRoute_def split: option.splits if_splits)



text \<open>What the comparison of two statuses looks at.\<close>

definition condition_view :: "Condition \<Rightarrow> string \<times> ConditionStatus \<times> string \<times> string" where
  "condition_view c = (c_Type c, c_Status c, c_Reason c, c_Message c)"

definition status_view where
  "status_view st = (ast_ObservedGeneration st, ast_ApplicationID st, ast_ApplicationAUD st, ast_MTLSRuleID st,
     ast_AttachedTargets st, map_option map_of (ast_ServiceTokenIDs st), map condition_view (ast_Conditions st),
     map (\<lambda>a. (pas_AncestorRef a, pas_ControllerName a, map condition_view (pas_Conditions a))) (ast_Ancestors st))"

definition token_ids_wf :: "CloudflareAccessPolicyStatus \<Rightarrow> bool" where
  "token_ids_wf st = (case ast_ServiceTokenIDs st of None \<Rightarrow> True | Some m \<Rightarrow> distinct (map fst m))"

lemma maps_equal_iff:
  assumes "distinct (map fst x)" "distinct (map fst y)"
  shows "length x = length y \<and> list_all (\<lambda>(k, v). map_of y k = Some v) x \<longleftrightarrow> map_of x = map_of y"
proof
  assume r: "length x = length y \<and> list_all (\<lambda>(k, v). map_of y k = Some v) x"
  then have "List.set x \<subseteq> List.set y" by (auto simp: list_all_iff dest: map_of_SomeD)
  moreover have "card (List.set x) = card (List.set y)"
    using r distinct_map [of fst x] distinct_map [of fst y] assms by (simp add: distinct_card)
  ultimately have "List.set x = List.set y" by (simp add: card_subset_eq)
  then show "map_of x = map_of y" using assms map_of_inject_set by blast
next
  assume m: "map_of x = map_of y"
  then have "List.set x = List.set y" using assms map_of_inject_set by blast
  moreover from this have "length x = length y" using assms distinct_map [of fst x] distinct_map [of fst y] by (metis distinct_card)
  ultimately show "length x = length y \<and> list_all (\<lambda>(k, v). map_of y k = Some v) x"
    using assms by (auto simp: list_all_iff)
qed

lemma ancestors_equal_iff:
  "ancestors_equal as bs \<longleftrightarrow>
     map (\<lambda>a. (pas_AncestorRef a, pas_ControllerName a, map condition_view (pas_Conditions a))) as =
     map (\<lambda>a. (pas_AncestorRef a, pas_ControllerName a, map condition_view (pas_Conditions a))) bs"
  by (induction as bs rule: ancestors_equal.induct)
    (auto simp: conditions_equal_iff condition_view_def [abs_def] dest: map_eq_imp_length_eq)

text \<open>The status is written exactly when something a reader can see has changed. The comparison agrees
  with equality of everything in the status except the transition times and observed generations
  of the conditions; the token identifiers are compared as a map, and no map differs from an empty
  one.\<close>

theorem access_status_equal_iff:
  assumes "token_ids_wf a" "token_ids_wf b"
  shows "accessPolicyStatusEqual a b \<longleftrightarrow> status_view a = status_view b"
proof -
  have tokens: "token_ids_equal (ast_ServiceTokenIDs a) (ast_ServiceTokenIDs b) \<longleftrightarrow>
      map_option map_of (ast_ServiceTokenIDs a) = map_option map_of (ast_ServiceTokenIDs b)"
    using assms unfolding token_ids_equal_def token_ids_wf_def
    by (cases "ast_ServiceTokenIDs a"; cases "ast_ServiceTokenIDs b")
      (simp_all only: prod.case option.case option.map option.inject option.distinct simp_thms maps_equal_iff)
  have conds: "conditions_equal cs ds \<longleftrightarrow> map condition_view cs = map condition_view ds" for cs ds
    by (simp add: conditions_equal_iff condition_view_def [abs_def])
  show ?thesis
    unfolding accessPolicyStatusEqual_def status_view_def tokens conds ancestors_equal_iff
    by (auto dest: map_eq_imp_length_eq)
qed

theorem access_status_equal_iff_witness:
  "\<not> accessPolicyStatusEqual (acp_Status wit_policy) ((acp_Status wit_policy)\<lparr>ast_ServiceTokenIDs := Some []\<rparr>)"
  using access_status_equal_iff [of "acp_Status wit_policy" "(acp_Status wit_policy)\<lparr>ast_ServiceTokenIDs := Some []\<rparr>"]
  by (simp add: wit_policy_def token_ids_wf_def status_view_def)

text \<open>One merged condition: only the truth of its own type changes.\<close>

lemma add_condition_step:
  assumes "run_state (add_condition env c p) w = (q, w')"
    and "\<And>now. c_Type (c now) = T" "\<And>now. (c_Status (c now) = StTrue) = S"
  shows "acp_Spec q = acp_Spec p \<and> acp_Meta q = acp_Meta p \<and>
    ast_ObservedGeneration (acp_Status q) = ast_ObservedGeneration (acp_Status p) \<and>
    ast_AttachedTargets (acp_Status q) = ast_AttachedTargets (acp_Status p) \<and>
    ast_Ancestors (acp_Status q) = ast_Ancestors (acp_Status p) \<and>
    (\<forall>t. ConditionTrue (policy_conditions q) t = (if t = T then S else ConditionTrue (policy_conditions p) t))"
proof -
  obtain now1 now2 where "q = set_status (ast_Conditions_update (\<lambda>cs. MergeConditions now2 cs [c now1])) p"
    using run_add_condition [of env c p w] assms(1) by auto
  then have q: "q = set_status (ast_Conditions_update (\<lambda>cs. SetCondition now2 cs (c now1))) p"
    by (simp add: SetCondition_def)
  show ?thesis unfolding q by (simp add: status_conds.ConditionTrue_set assms(2,3))
qed

lemma NewCondition_simps [simp]:
  "c_Type (NewCondition now t st r m g) = t" "c_Status (NewCondition now t st r m g) = st"
  by (simp_all add: NewCondition_def)

lemma add_condition_other:
  assumes "run_state (add_condition env (\<lambda>now. NewCondition now T st r m g) p) w = (q, w')"
  shows "acp_Spec q = acp_Spec p \<and> acp_Meta q = acp_Meta p \<and>
    (\<forall>t. t \<noteq> T \<longrightarrow> ConditionTrue (policy_conditions q) t = ConditionTrue (policy_conditions p) t)"
  using add_condition_step [OF assms, where T = T and S = "st = StTrue"] by simp

lemma ensure_tokens_keeps:
  "run_state (ensure_tokens env client acct p cs) w = ((q, e), w') \<Longrightarrow>
     acp_Spec q = acp_Spec p \<and> acp_Meta q = acp_Meta p \<and> policy_conditions q = policy_conditions p"
  by (induction cs arbitrary: p w) (fastforce split: prod.splits sum.splits)+

lemma token_phase_keeps:
  assumes "run_state (token_phase env client acct ctx p) w = (q, w')"
  shows "acp_Spec q = acp_Spec p \<and> acp_Meta q = acp_Meta p \<and>
    (\<forall>t. t \<noteq> ''ServiceTokensReady'' \<longrightarrow> ConditionTrue (policy_conditions q) t = ConditionTrue (policy_conditions p) t)"
proof (cases "RequiresServiceTokens ctx")
  case True
  obtain p1 e w1 where p1: "run_state (ensureServiceTokens env client acct p) w = ((p1, e), w1)"
    by (metis prod.exhaust)
  then have keep: "acp_Spec p1 = acp_Spec p \<and> acp_Meta p1 = acp_Meta p \<and> policy_conditions p1 = policy_conditions p"
    using ensure_tokens_keeps unfolding ensureServiceTokens_def by (fastforce split: if_splits)
  from assms True p1 keep show ?thesis
    by (cases e) (simp_all add: token_phase_def Let_def, (drule add_condition_other, simp)+)
qed (use assms in \<open>simp add: token_phase_def\<close>)

lemma configureMTLS_keeps:
  assumes "run_state (configureMTLS env client acct p hs) w = ((q, e), w')"
  shows "acp_Spec q = acp_Spec p \<and> acp_Meta q = acp_Meta p \<and> policy_conditions q = policy_conditions p"
  using assms by (auto simp: configureMTLS_def Let_def split: option.splits if_splits prod.splits sum.splits)

lemma mtls_phase_keeps:
  assumes "run_state (mtls_phase env client acct ctx hs p) w = (q, w')"
  shows "acp_Spec q = acp_Spec p \<and> acp_Meta q = acp_Meta p \<and>
    (\<forall>t. t \<noteq> ''MTLSConfigured'' \<longrightarrow> ConditionTrue (policy_conditions q) t = ConditionTrue (policy_conditions p) t)"
proof (cases "RequiresMTLS ctx")
  case True
  obtain p1 e w1 where p1: "run_state (configureMTLS env client acct p hs) w = ((p1, e), w1)"
    by (metis prod.exhaust)
  from assms True p1 configureMTLS_keeps [OF p1] show ?thesis
    by (cases e) (simp_all add: mtls_phase_def Let_def, (drule add_condition_other, simp)+)
qed (use assms in \<open>simp add: mtls_phase_def\<close>)

lemma NewAccessPolicyReadyCondition_status:
  "c_Type (NewAccessPolicyReadyCondition now cs tokens g) = ''Ready''"
  "c_Status (NewAccessPolicyReadyCondition now cs tokens g) = StTrue \<longleftrightarrow>
     ConditionTrue cs ''CredentialsValid'' \<and> ConditionTrue cs ''TargetsResolved'' \<and>
     ConditionTrue cs ''ApplicationCreated'' \<and> ConditionTrue cs ''PoliciesAttached'' \<and>
     (tokens \<longrightarrow> ConditionTrue cs ''ServiceTokensReady'')"
  by (auto simp: NewAccessPolicyReadyCondition_def Let_def split: option.split)

lemma ancestor_statuses_run:
  assumes "run_state (ancestor_statuses env g ts) w = (as, w')"
  shows "map pas_AncestorRef as = map (\<lambda>t. \<lparr>pt_Group = ''gateway.networking.k8s.io'', pt_Kind = ti_Kind t,
      pt_Name = ti_Name t, pt_Namespace = Some (ti_Namespace t), pt_SectionName = None\<rparr>) ts \<and>
    map (\<lambda>a. ConditionTrue (pas_Conditions a) ''Accepted'') as = map target_ok ts"
  using assms
  by (induction ts arbitrary: w as)
    (fastforce simp: ancestor_status_def NewPolicyAcceptedCondition_def ConditionTrue_def target_ok_def
      split: prod.splits)+

lemma finish_phases_success:
  assumes "run_state (finish_phases env p ctx) w = ((requeue_after accessPolicyRequeueAfterSuccess, None), w')"
  shows "\<exists>q v v'. run_state (access_updateStatus env q) v = (Inr (), v') \<and> acp_Spec q = acp_Spec p \<and>
    (ConditionTrue (policy_conditions q) ''Ready'' \<longleftrightarrow>
       ConditionTrue (policy_conditions p) ''CredentialsValid'' \<and> ConditionTrue (policy_conditions p) ''TargetsResolved'' \<and>
       ConditionTrue (policy_conditions p) ''ApplicationCreated'' \<and> ConditionTrue (policy_conditions p) ''PoliciesAttached'' \<and>
       (as_ServiceTokens (acp_Spec p) \<noteq> [] \<longrightarrow> ConditionTrue (policy_conditions p) ''ServiceTokensReady'')) \<and>
    (\<forall>t. t \<noteq> ''Ready'' \<longrightarrow> ConditionTrue (policy_conditions q) t = ConditionTrue (policy_conditions p) t) \<and>
    ast_ObservedGeneration (acp_Status q) = om_Generation (acp_Meta p) \<and>
    ast_AttachedTargets (acp_Status q) = to_int32 (int (length (SuccessfullyResolvedTargets ctx))) \<and>
    map (\<lambda>a. ConditionTrue (pas_Conditions a) ''Accepted'') (ast_Ancestors (acp_Status q)) =
      map target_ok (ResolvedTargets ctx)"
proof -
  let ?g = "om_Generation (acp_Meta p)" and ?tok = "length (as_ServiceTokens (acp_Spec p)) > 0"
  obtain as w1 where as: "run_state (ancestor_statuses env ?g (ResolvedTargets ctx)) w = (as, w1)" by (rule prod.exhaust)
  define p1 where "p1 = set_status (\<lambda>st. st\<lparr>ast_AttachedTargets :=
    to_int32 (int (length (SuccessfullyResolvedTargets ctx))), ast_ObservedGeneration := ?g, ast_Ancestors := as\<rparr>) p"
  let ?c = "\<lambda>now. NewAccessPolicyReadyCondition now (policy_conditions p1) ?tok ?g"
  obtain q w2 where q: "run_state (add_condition env ?c p1) w1 = (q, w2)" by (rule prod.exhaust)
  obtain u w3 where u: "run_state (access_updateStatus env q) w2 = (u, w3)" by (rule prod.exhaust)
  have "run_state (finish_phases env p ctx) w = run_state (case u of
      Inl err \<Rightarrow> ret (no_requeue, Some err)
    | Inr _ \<Rightarrow> do {
        _ \<leftarrow> ae_Event env (policy_key q) ''Normal'' ''Reconciled'' ''Reconcile'' ''Access policy reconciled successfully'';
        ret (requeue_after accessPolicyRequeueAfterSuccess, None)
      }) w3"
    using as q u by (simp add: finish_phases_def updateAncestorStatuses_def Let_def p1_def)
  with assms have ok: "u = Inr ()" by (cases u) auto
  note cond = add_condition_step [OF q, of "''Ready''"
      "c_Status (NewAccessPolicyReadyCondition 0 (policy_conditions p1) ?tok ?g) = StTrue"]
  show ?thesis
    by (rule exI [of _ q], rule exI [of _ w2], rule exI [of _ w3])
      (use ok cond u ancestor_statuses_run [OF as] in \<open>simp add: NewAccessPolicyReadyCondition_status p1_def\<close>)
qed


definition wit_app_client :: "int AccessClient" where
  "wit_app_client = down_access\<lparr>GetAccessApplicationByName := \<lambda>a n. ret (Inr None),
     CreateAccessApplication := \<lambda>a p. ret (Inr wit_app), ListAccessPolicies := \<lambda>a i. ret (Inr [])\<rparr>"

definition wit_domain_policy :: CloudflareAccessPolicy where
  "wit_domain_policy = wit_policy\<lparr>
     acp_Spec := (acp_Spec wit_policy)\<lparr>as_Application := zero_CrdAccessApplication\<lparr>app_Domain := ''web.example.com''\<rparr>\<rparr>,
     acp_Status := (acp_Status wit_policy)\<lparr>ast_Conditions :=
       [NewCondition 0 ''CredentialsValid'' StTrue [] [] 1, NewCondition 0 ''TargetsResolved'' StTrue [] [] 1]\<rparr>\<rparr>"

lemma wit_domain_run:
  "run_state (cloudflare_phases wit_aenv wit_app_client ''acc'' \<lparr>apc_Policy = wit_domain_policy, apc_resolvedTargets = []\<rparr>
     wit_domain_policy) 0 = ((requeue_after accessPolicyRequeueAfterSuccess, None), 0)"
proof -
  have cond: "run_state (add_condition wit_aenv c p) w =
      (set_status (ast_Conditions_update (\<lambda>cs. MergeConditions 0 cs [c 0])) p, w)" for c p and w :: int
    by (simp add: add_condition_def wit_aenv_def)
  have status: "run_state (access_updateStatus wit_aenv p) w = (Inr (), w)" for p and w :: int
    by (simp add: access_updateStatus_def wit_aenv_def)
  have app: "run_state (access_ensureApplication wit_app_client ''acc'' wit_domain_policy []) w = (Inr wit_app, w)" for w
    by (simp add: access_ensureApplication_def application_domain_def wit_domain_policy_def Let_def
        EnsureApplication_def wit_app_client_def)
  have sync: "run_state (access_syncPolicies wit_aenv wit_app_client ''acc'' i p) w = (Inr [], w)"
    if "as_Policies (acp_Spec p) = []" for i p w
    using that by (simp add: access_syncPolicies_def SyncPolicies_def wit_app_client_def existing_by_name_def
        desired_by_name_def Let_def wit_rng_def wit_aenv_def)
  have spec: "as_Policies (acp_Spec wit_domain_policy) = []" "as_ServiceTokens (acp_Spec wit_domain_policy) = []"
    "as_MTLS (acp_Spec wit_domain_policy) = None"
    by (simp_all add: wit_domain_policy_def wit_policy_def)
  have events: "ae_Event wit_aenv n t r a m = ret ()" for n t r a m by (simp add: wit_aenv_def)
  show ?thesis
    by (simp add: cloudflare_phases_def Let_def ExtractHostnames_def SuccessfullyResolvedTargets_def app cond
        status sync token_phase_def mtls_phase_def RequiresServiceTokens_def RequiresMTLS_def finish_phases_def
        updateAncestorStatuses_def ResolvedTargets_def events spec)
qed


end
