(* ===== verification/Cleanup_Tool.thy ===== *)
theory Cleanup_Tool
  imports Client_Impl
begin

text \<open>
  The cleanup tool: cmd/cleanup/main.go. It lists the tunnels, DNS records, Access applications and
  service tokens of an account, picks those whose names mark them as left over from tests, deletes
  them and exits with a failure when a deletion failed. The cloudflare-go SDK is the parameter
  \<open>CleanupSdk\<close>; a listing yields the items read until the end or until an error. Printing is left
  out.
\<close>

section \<open>The SDK calls and the environment\<close>

record item =
  it_ID :: string
  it_Name :: string

record 'w CleanupSdk =
  cs_ListTunnels :: "string \<Rightarrow> ('w, item list \<times> go_error option) io"
  cs_ListRecords :: "string \<Rightarrow> ('w, item list \<times> go_error option) io"
  cs_ListApplications :: "string \<Rightarrow> ('w, item list \<times> go_error option) io"
  cs_ListTokens :: "string \<Rightarrow> ('w, item list \<times> go_error option) io"
  cs_ListZones :: "string \<Rightarrow> ('w, item list res) io"
  cs_DeleteConnections :: "string \<Rightarrow> string \<Rightarrow> ('w, unit res) io"
  cs_DeleteTunnel :: "string \<Rightarrow> string \<Rightarrow> ('w, unit res) io"
  cs_DeleteRecord :: "string \<Rightarrow> string \<Rightarrow> ('w, unit res) io"
  cs_DeleteApplication :: "string \<Rightarrow> string \<Rightarrow> ('w, unit res) io"
  cs_DeleteToken :: "string \<Rightarrow> string \<Rightarrow> ('w, unit res) io"

definition e2ePrefix :: string where "e2ePrefix = ''e2e-''"

definition recoveryPrefix :: string where "recoveryPrefix = ''recovery-''"

definition ownershipPrefix :: string where "ownershipPrefix = ''_cfgate.e2e-''"

record resource =
  rs_ID :: string
  rs_Name :: string
  rs_Type :: string

section \<open>Listing\<close>

definition resources :: "string \<Rightarrow> (string \<Rightarrow> bool) \<Rightarrow> item list \<Rightarrow> resource list" where
  "resources kind marked items =
     map (\<lambda>i. \<lparr>rs_ID = it_ID i, rs_Name = it_Name i, rs_Type = kind\<rparr>) (filter (\<lambda>i. marked (it_Name i)) items)"

definition listOrphanedTunnels :: "'w CleanupSdk \<Rightarrow> string \<Rightarrow> ('w, resource list) io" where
  "listOrphanedTunnels client accountID = do {
     (items, err) \<leftarrow> cs_ListTunnels client accountID;
     ret (resources ''tunnel'' (\<lambda>n. HasPrefix n e2ePrefix \<or> HasPrefix n recoveryPrefix) items)
   }"

definition getZoneID :: "'w CleanupSdk \<Rightarrow> string \<Rightarrow> ('w, string) io" where
  "getZoneID client zoneName = do {
     r \<leftarrow> cs_ListZones client zoneName;
     case r of Inl err \<Rightarrow> ret '''' | Inr [] \<Rightarrow> ret '''' | Inr (z # zs) \<Rightarrow> ret (it_ID z)
   }"

definition listOrphanedDNSRecords :: "'w CleanupSdk \<Rightarrow> string \<Rightarrow> ('w, resource list) io" where
  "listOrphanedDNSRecords client zoneName = do {
     zoneID \<leftarrow> getZoneID client zoneName;
     if zoneID = '''' then ret []
     else do {
       (items, err) \<leftarrow> cs_ListRecords client zoneID;
       ret (resources ''dns'' (\<lambda>n. Contains n e2ePrefix \<or> HasPrefix n ownershipPrefix) items)
     }
   }"

definition listOrphanedAccessApplications :: "'w CleanupSdk \<Rightarrow> string \<Rightarrow> ('w, resource list) io" where
  "listOrphanedAccessApplications client accountID = do {
     (items, err) \<leftarrow> cs_ListApplications client accountID;
     ret (resources ''access_app'' (\<lambda>n. HasPrefix n e2ePrefix) items)
   }"

definition listOrphanedServiceTokens :: "'w CleanupSdk \<Rightarrow> string \<Rightarrow> ('w, resource list) io" where
  "listOrphanedServiceTokens client accountID = do {
     (items, err) \<leftarrow> cs_ListTokens client accountID;
     ret (resources ''service_token'' (\<lambda>n. HasPrefix n e2ePrefix) items)
   }"

section \<open>Deleting\<close>

definition ignore_not_found :: "unit res \<Rightarrow> go_error option" where
  "ignore_not_found r =
     (case r of Inl err \<Rightarrow> if Contains (err_msg err) ''not found'' then None else Some err | Inr _ \<Rightarrow> None)"

definition deleteTunnel :: "'w CleanupSdk \<Rightarrow> string \<Rightarrow> string \<Rightarrow> ('w, go_error option) io" where
  "deleteTunnel client accountID tunnelID = do {
     _ \<leftarrow> cs_DeleteConnections client accountID tunnelID;
     r \<leftarrow> cs_DeleteTunnel client accountID tunnelID;
     ret (ignore_not_found r)
   }"

definition deleteDNSRecord :: "'w CleanupSdk \<Rightarrow> string \<Rightarrow> string \<Rightarrow> ('w, go_error option) io" where
  "deleteDNSRecord client zoneID recordID = do {
     r \<leftarrow> cs_DeleteRecord client zoneID recordID;
     ret (ignore_not_found r)
   }"

definition deleteAccessApplication :: "'w CleanupSdk \<Rightarrow> string \<Rightarrow> string \<Rightarrow> ('w, go_error option) io" where
  "deleteAccessApplication client accountID appID = do {
     r \<leftarrow> cs_DeleteApplication client accountID appID;
     ret (ignore_not_found r)
   }"

definition deleteServiceToken :: "'w CleanupSdk \<Rightarrow> string \<Rightarrow> string \<Rightarrow> ('w, go_error option) io" where
  "deleteServiceToken client accountID tokenID = do {
     r \<leftarrow> cs_DeleteToken client accountID tokenID;
     ret (ignore_not_found r)
   }"

text \<open>The four loops of \<open>main\<close> have the same body: the resources deleted and failed so far.\<close>

fun delete_each ::
  "(string \<Rightarrow> ('w, go_error option) io) \<Rightarrow> resource list \<Rightarrow> resource list \<times> resource list \<Rightarrow>
   ('w, resource list \<times> resource list) io" where
  "delete_each del [] acc = ret acc"
| "delete_each del (r # rs) (deleted, failed) = do {
     err \<leftarrow> del (rs_ID r);
     (case err of
        Some e \<Rightarrow> delete_each del rs (deleted, failed @ [r])
      | None \<Rightarrow> delete_each del rs (deleted @ [r], failed))
   }"

definition delete_records ::
  "'w CleanupSdk \<Rightarrow> string \<Rightarrow> resource list \<times> resource list \<Rightarrow> ('w, resource list \<times> resource list) io" where
  "delete_records client zoneName acc =
     (if zoneName \<noteq> '''' then do {
        zoneID \<leftarrow> getZoneID client zoneName;
        (if zoneID \<noteq> '''' then do {
           rs \<leftarrow> listOrphanedDNSRecords client zoneName;
           delete_each (deleteDNSRecord client zoneID) rs acc
         }
         else ret acc)
      }
      else ret acc)"

text \<open>The second half of \<open>main\<close>: the exit status, what was deleted and what failed.\<close>

definition delete_all ::
  "'w CleanupSdk \<Rightarrow> string \<Rightarrow> string \<Rightarrow> resource list \<Rightarrow> resource list \<Rightarrow> resource list \<Rightarrow>
   ('w, nat \<times> resource list \<times> resource list) io" where
  "delete_all client accountID zoneName tunnels apps tokens = do {
     acc \<leftarrow> delete_each (deleteTunnel client accountID) tunnels ([], []);
     acc \<leftarrow> delete_records client zoneName acc;
     acc \<leftarrow> delete_each (deleteAccessApplication client accountID) apps acc;
     (deleted, failed) \<leftarrow> delete_each (deleteServiceToken client accountID) tokens acc;
     ret (if length failed > 0 then 1 else 0, deleted, failed)
   }"

definition cleanup_main ::
  "(string \<Rightarrow> 'w CleanupSdk) \<Rightarrow> string \<Rightarrow> string \<Rightarrow> string \<Rightarrow> ('w, nat \<times> resource list \<times> resource list) io" where
  "cleanup_main newClient apiToken accountID zoneName =
     (if apiToken = '''' \<or> accountID = '''' then ret (1, [], [])
      else
        (let client = newClient apiToken
         in do {
           tunnels \<leftarrow> listOrphanedTunnels client accountID;
           records \<leftarrow> (if zoneName \<noteq> '''' then listOrphanedDNSRecords client zoneName else ret []);
           apps \<leftarrow> listOrphanedAccessApplications client accountID;
           tokens \<leftarrow> listOrphanedServiceTokens client accountID;
           if length (tunnels @ records @ apps @ tokens) = 0 then ret (0, [], [])
           else delete_all client accountID zoneName tunnels apps tokens
         }))"

section \<open>What the API promises\<close>

text \<open>The resources of an account as triples of type, identifier and name. Listing changes nothing and
  yields what is there; a deletion removes at most what it names; an identifier has one name.\<close>

locale cleanup_api =
  fixes sdk :: "'w CleanupSdk"
    and accountID :: string
    and store :: "'w \<Rightarrow> (string \<times> string \<times> string) set"
  assumes one_name: "(k, i, n) \<in> store w \<Longrightarrow> (k, i, m) \<in> store w \<Longrightarrow> n = m"
    and list_zones: "run_state (cs_ListZones sdk z) w = (zs, w') \<Longrightarrow> store w' = store w"
    and list_tunnels: "run_state (cs_ListTunnels sdk accountID) w = ((items, err), w') \<Longrightarrow>
      store w' = store w \<and> (\<forall>i \<in> List.set items. (''tunnel'', it_ID i, it_Name i) \<in> store w)"
    and list_records: "run_state (cs_ListRecords sdk z) w = ((items, err), w') \<Longrightarrow>
      store w' = store w \<and> (\<forall>i \<in> List.set items. (''dns'', it_ID i, it_Name i) \<in> store w)"
    and list_applications: "run_state (cs_ListApplications sdk accountID) w = ((items, err), w') \<Longrightarrow>
      store w' = store w \<and> (\<forall>i \<in> List.set items. (''access_app'', it_ID i, it_Name i) \<in> store w)"
    and list_tokens: "run_state (cs_ListTokens sdk accountID) w = ((items, err), w') \<Longrightarrow>
      store w' = store w \<and> (\<forall>i \<in> List.set items. (''service_token'', it_ID i, it_Name i) \<in> store w)"
    and delete_connections: "run_state (cs_DeleteConnections sdk accountID i) w = (r, w') \<Longrightarrow> store w' = store w"
    and delete_tunnel: "run_state (cs_DeleteTunnel sdk accountID i) w = (r, w') \<Longrightarrow>
      store w - {''tunnel''} \<times> {i} \<times> UNIV \<subseteq> store w'"
    and delete_record: "run_state (cs_DeleteRecord sdk z i) w = (r, w') \<Longrightarrow>
      store w - {''dns''} \<times> {i} \<times> UNIV \<subseteq> store w'"
    and delete_application: "run_state (cs_DeleteApplication sdk accountID i) w = (r, w') \<Longrightarrow>
      store w - {''access_app''} \<times> {i} \<times> UNIV \<subseteq> store w'"
    and delete_token: "run_state (cs_DeleteToken sdk accountID i) w = (r, w') \<Longrightarrow>
      store w - {''service_token''} \<times> {i} \<times> UNIV \<subseteq> store w'"

text \<open>The names that mark a leftover of the tests.\<close>

definition marked :: "string \<Rightarrow> string \<Rightarrow> bool" where
  "marked kind n =
     (if kind = ''tunnel'' then HasPrefix n e2ePrefix \<or> HasPrefix n recoveryPrefix
      else if kind = ''dns'' then Contains n e2ePrefix \<or> HasPrefix n ownershipPrefix
      else HasPrefix n e2ePrefix)"

definition spared :: "(string \<times> string \<times> string) set \<Rightarrow> (string \<times> string \<times> string) set" where
  "spared S = {(k, i, n) \<in> S. \<not> marked k n}"

text \<open>Resources that were there, of a kind and with a marked name.\<close>

definition leftovers :: "string \<Rightarrow> (string \<times> string \<times> string) set \<Rightarrow> resource list \<Rightarrow> bool" where
  "leftovers kind S rs \<longleftrightarrow> (\<forall>r \<in> List.set rs. (kind, rs_ID r, rs_Name r) \<in> S \<and> marked kind (rs_Name r))"

lemma leftovers_resources:
  assumes "\<forall>i \<in> List.set items. (kind, it_ID i, it_Name i) \<in> S" "\<And>n. p n \<Longrightarrow> marked kind n"
  shows "leftovers kind S (resources kind p items)"
  using assms by (auto simp: leftovers_def resources_def)

context cleanup_api
begin

lemma zone_store: "run_state (getZoneID sdk z) w = (i, w') \<Longrightarrow> store w' = store w"
  by (auto simp: getZoneID_def split: prod.splits sum.splits list.splits dest: list_zones)

lemma listed:
  "run_state (listOrphanedTunnels sdk accountID) w = (rs, w') \<Longrightarrow> store w' = store w \<and> leftovers ''tunnel'' (store w) rs"
  "run_state (listOrphanedAccessApplications sdk accountID) w = (rs, w') \<Longrightarrow>
     store w' = store w \<and> leftovers ''access_app'' (store w) rs"
  "run_state (listOrphanedServiceTokens sdk accountID) w = (rs, w') \<Longrightarrow>
     store w' = store w \<and> leftovers ''service_token'' (store w) rs"
  by (auto simp: listOrphanedTunnels_def listOrphanedAccessApplications_def listOrphanedServiceTokens_def
      marked_def split: prod.splits intro!: leftovers_resources
      dest: list_tunnels list_applications list_tokens)

lemma listed_records:
  assumes "run_state (listOrphanedDNSRecords sdk z) w = (rs, w')"
  shows "store w' = store w \<and> leftovers ''dns'' (store w) rs"
proof -
  obtain i w1 where i: "run_state (getZoneID sdk z) w = (i, w1)" by (rule prod.exhaust)
  with assms zone_store [OF i] show ?thesis
    by (auto simp: listOrphanedDNSRecords_def leftovers_def [of _ _ "[]"] marked_def
        split: prod.splits if_splits intro!: leftovers_resources dest: list_records)
qed

text \<open>A loop over leftovers spares everything else.\<close>

definition deletes_only :: "string \<Rightarrow> (string \<Rightarrow> ('w, go_error option) io) \<Rightarrow> bool" where
  "deletes_only kind del \<longleftrightarrow>
     (\<forall>i w r w'. run_state (del i) w = (r, w') \<longrightarrow> store w - {kind} \<times> {i} \<times> UNIV \<subseteq> store w')"

lemma delete_each_spares:
  assumes "deletes_only kind del"
    and "leftovers kind (store v) rs" "P \<subseteq> spared (store v)" "P \<subseteq> store w"
    and "run_state (delete_each del rs acc) w = (out, w')"
  shows "P \<subseteq> store w'"
  using assms(2,4,5)
proof (induction rs arbitrary: acc w)
  case (Cons r rs)
  obtain d f where acc: "acc = (d, f)" by (rule prod.exhaust)
  obtain e w1 where e: "run_state (del (rs_ID r)) w = (e, w1)" by (rule prod.exhaust)
  have "(kind, rs_ID r, n) \<notin> P" for n
  proof
    assume n: "(kind, rs_ID r, n) \<in> P"
    have r: "(kind, rs_ID r, rs_Name r) \<in> store v" "marked kind (rs_Name r)"
      using Cons.prems(1) by (simp_all add: leftovers_def)
    from n assms(3) have "(kind, rs_ID r, n) \<in> store v" "\<not> marked kind n" by (auto simp: spared_def)
    with r one_name [OF r(1)] show False by blast
  qed
  then have "P \<inter> {kind} \<times> {rs_ID r} \<times> UNIV = {}" by blast
  with assms(1) e Cons.prems(2) have P: "P \<subseteq> store w1"
    unfolding deletes_only_def by blast
  have rest: "leftovers kind (store v) rs" using Cons.prems(1) by (simp add: leftovers_def)
  have "run_state (delete_each del rs (case e of None \<Rightarrow> (d @ [r], f) | Some x \<Rightarrow> (d, f @ [r]))) w1 = (out, w')"
    using Cons.prems(3) acc e by (simp split: option.splits)
  from Cons.IH [OF rest P this] show ?case .
qed simp

lemma deletes:
  "deletes_only ''tunnel'' (deleteTunnel sdk accountID)"
  "deletes_only ''dns'' (deleteDNSRecord sdk z)"
  "deletes_only ''access_app'' (deleteAccessApplication sdk accountID)"
  "deletes_only ''service_token'' (deleteServiceToken sdk accountID)"
  unfolding deletes_only_def
  by (fastforce simp: deleteTunnel_def deleteDNSRecord_def deleteAccessApplication_def deleteServiceToken_def
      split: prod.splits dest: delete_connections delete_tunnel delete_record delete_application delete_token)+

lemmas spare = delete_each_spares [OF deletes(1)] delete_each_spares [OF deletes(2)]
  delete_each_spares [OF deletes(3)] delete_each_spares [OF deletes(4)]

lemma delete_records_spares:
  assumes "run_state (delete_records sdk zoneName acc) w = (out, w')"
    and "P \<subseteq> store w" "P \<subseteq> spared (store v)"
  shows "P \<subseteq> store w'"
proof (cases "zoneName = []")
  case False
  obtain i w1 where i: "run_state (getZoneID sdk zoneName) w = (i, w1)" by (rule prod.exhaust)
  obtain rs w2 where rs: "run_state (listOrphanedDNSRecords sdk zoneName) w1 = (rs, w2)" by (rule prod.exhaust)
  have st: "store w1 = store w" "store w2 = store w" "leftovers ''dns'' (store w) rs"
    using zone_store [OF i] listed_records [OF rs] by auto
  show ?thesis
  proof (cases "i = []")
    case False
    with assms(1) i rs \<open>zoneName \<noteq> []\<close>
    have "run_state (delete_each (deleteDNSRecord sdk i) rs acc) w2 = (out, w')" by (simp add: delete_records_def)
    moreover have "P \<subseteq> spared (store w)" using assms(2,3) by (auto simp: spared_def)
    ultimately show ?thesis using spare(2) [OF st(3)] assms(2) st(2) by blast
  next
    case True
    with assms(1) i False have "w' = w1" by (simp add: delete_records_def)
    with assms(2) st(1) show ?thesis by simp
  qed
qed (use assms(1,2) in \<open>simp add: delete_records_def\<close>)

lemma delete_all_spares:
  assumes "run_state (delete_all sdk accountID zoneName ts as ss) w = (out, w')"
    and "leftovers ''tunnel'' (store w) ts" "leftovers ''access_app'' (store w) as"
    and "leftovers ''service_token'' (store w) ss"
  shows "spared (store w) \<subseteq> store w'"
proof -
  let ?P = "spared (store w)"
  have P: "?P \<subseteq> store w" by (auto simp: spared_def)
  obtain a1 w5 where a1: "run_state (delete_each (deleteTunnel sdk accountID) ts ([], [])) w = (a1, w5)"
    by (rule prod.exhaust)
  obtain a2 w6 where a2: "run_state (delete_records sdk zoneName a1) w5 = (a2, w6)" by (rule prod.exhaust)
  obtain a3 w7 where a3: "run_state (delete_each (deleteAccessApplication sdk accountID) as a2) w6 = (a3, w7)"
    by (rule prod.exhaust)
  obtain a4 w8 where a4: "run_state (delete_each (deleteServiceToken sdk accountID) ss a3) w7 = (a4, w8)"
    by (rule prod.exhaust)
  have end_world: "w' = w8" using assms(1) a1 a2 a3 a4 by (simp add: delete_all_def split: prod.splits)
  have "?P \<subseteq> store w5" by (rule spare(1) [OF assms(2) order_refl P a1])
  then have "?P \<subseteq> store w6" by (rule delete_records_spares [OF a2 _ order_refl])
  then have "?P \<subseteq> store w7" by (rule spare(3) [OF assms(3) order_refl _ a3])
  then have "?P \<subseteq> store w8" by (rule spare(4) [OF assms(4) order_refl _ a4])
  with end_world show ?thesis by simp
qed

lemma cleanup_main_spares:
  assumes "run_state (cleanup_main (\<lambda>_. sdk) apiToken accountID zoneName) w = (out, w')"
  shows "spared (store w) \<subseteq> store w'"
proof (cases "apiToken = [] \<or> accountID = []")
  case False
  obtain ts w1 where ts: "run_state (listOrphanedTunnels sdk accountID) w = (ts, w1)" by (rule prod.exhaust)
  obtain rs w2 where rs: "run_state (if zoneName \<noteq> [] then listOrphanedDNSRecords sdk zoneName else ret []) w1 = (rs, w2)"
    by (rule prod.exhaust)
  obtain as w3 where as: "run_state (listOrphanedAccessApplications sdk accountID) w2 = (as, w3)" by (rule prod.exhaust)
  obtain ss w4 where ss: "run_state (listOrphanedServiceTokens sdk accountID) w3 = (ss, w4)" by (rule prod.exhaust)
  have "store w2 = store w1" using rs listed_records by (cases "zoneName = []") auto
  then have st: "store w4 = store w" "leftovers ''tunnel'' (store w4) ts" "leftovers ''access_app'' (store w4) as"
    "leftovers ''service_token'' (store w4) ss"
    using listed(1) [OF ts] listed(2) [OF as] listed(3) [OF ss] by auto
  have run: "run_state (cleanup_main (\<lambda>_. sdk) apiToken accountID zoneName) w =
      run_state (if length (ts @ rs @ as @ ss) = 0 then ret (0, [], [])
                 else delete_all sdk accountID zoneName ts as ss) w4"
    using False ts rs as ss by (simp add: cleanup_main_def Let_def)
  show ?thesis
  proof (cases "length (ts @ rs @ as @ ss) = 0")
    case True
    with assms run st(1) show ?thesis by (auto simp: spared_def)
  next
    case nonempty: False
    with assms run have "run_state (delete_all sdk accountID zoneName ts as ss) w4 = (out, w')" by presburger
    from delete_all_spares [OF this st(2-4)] st(1) show ?thesis by simp
  qed
qed (use assms in \<open>auto simp: cleanup_main_def spared_def\<close>)

end
section \<open>An account in memory\<close>

type_synonym account = "((string \<times> string) \<times> string) list"

definition mem_store :: "account \<Rightarrow> (string \<times> string \<times> string) set" where
  "mem_store w = {(k, i, n). map_of w (k, i) = Some n}"

definition mem_list :: "string \<Rightarrow> (account, item list \<times> go_error option) io" where
  "mem_list kind = State (\<lambda>w. ((map (\<lambda>((k, i), n). \<lparr>it_ID = i, it_Name = the (map_of w (k, i))\<rparr>)
     (filter (\<lambda>((k, i), n). k = kind) w), None), w))"

definition mem_delete :: "string \<Rightarrow> string \<Rightarrow> (account, unit res) io" where
  "mem_delete kind i = State (\<lambda>w. (Inr (), filter (\<lambda>(key, n). key \<noteq> (kind, i)) w))"

definition mem_cleanup_sdk :: "account CleanupSdk" where
  "mem_cleanup_sdk = \<lparr>cs_ListTunnels = (\<lambda>a. mem_list ''tunnel''), cs_ListRecords = (\<lambda>z. mem_list ''dns''),
     cs_ListApplications = (\<lambda>a. mem_list ''access_app''), cs_ListTokens = (\<lambda>a. mem_list ''service_token''),
     cs_ListZones = (\<lambda>z. ret (Inr [\<lparr>it_ID = ''z1'', it_Name = z\<rparr>])), cs_DeleteConnections = (\<lambda>a i. ret (Inr ())),
     cs_DeleteTunnel = (\<lambda>a. mem_delete ''tunnel''), cs_DeleteRecord = (\<lambda>z. mem_delete ''dns''),
     cs_DeleteApplication = (\<lambda>a. mem_delete ''access_app''), cs_DeleteToken = (\<lambda>a. mem_delete ''service_token'')\<rparr>"

lemma mem_list_store:
  "run_state (mem_list kind) w = ((items, err), w') \<Longrightarrow>
     mem_store w' = mem_store w \<and> (\<forall>i \<in> List.set items. (kind, it_ID i, it_Name i) \<in> mem_store w)"
  using weak_map_of_SomeI [of "(kind, _)" _ w] by (fastforce simp: mem_list_def mem_store_def)

lemma mem_delete_store:
  assumes "run_state (mem_delete kind i) w = (r, w')"
  shows "mem_store w - {kind} \<times> {i} \<times> UNIV \<subseteq> mem_store w'"
proof -
  have "map_of (filter (\<lambda>(key, n). key \<noteq> (kind, i)) w) key = map_of w key" if "key \<noteq> (kind, i)" for key
    using that by (induction w) auto
  note keep = this
  show ?thesis
  proof
    fix x
    assume x: "x \<in> mem_store w - {kind} \<times> {i} \<times> UNIV"
    obtain k j n where "x = (k, j, n)" by (metis prod.exhaust)
    with x assms keep [of "(k, j)"] show "x \<in> mem_store w'" by (auto simp: mem_delete_def mem_store_def)
  qed
qed

interpretation mem_account: cleanup_api mem_cleanup_sdk acct mem_store
  by unfold_locales
    (auto simp: mem_cleanup_sdk_def simp del: Diff_subset_conv dest!: mem_list_store mem_delete_store,
     auto simp: mem_store_def)

section \<open>Properties\<close>

lemma delete_all_status:
  "run_state (delete_all sdk a z ts as ss) w = ((c, d, f), w') \<Longrightarrow> c = 0 \<longleftrightarrow> f = []"
  by (auto simp: delete_all_def split: prod.splits if_splits)

text \<open>C31: The cleanup tool spares what is not marked. Every tunnel, DNS record, application and service
  token whose name has no mark of the tests is still there afterwards, and the exit status is zero
  exactly when the credentials were given and no deletion failed. For a DNS record the mark is
  e2e- anywhere in the name, not only as a prefix as documented.\<close>

theorem cleanup_spares_others:
  assumes "cleanup_api sdk accountID store"
    and "run_state (cleanup_main (\<lambda>_. sdk) apiToken accountID zoneName) w = ((status, deleted, failed), w')"
  shows "(\<forall>k i n. (k, i, n) \<in> store w \<and> \<not> marked k n \<longrightarrow> (k, i, n) \<in> store w') \<and>
    (status = 0 \<longleftrightarrow> apiToken \<noteq> [] \<and> accountID \<noteq> [] \<and> failed = [])"
proof -
  have "status = 0 \<longleftrightarrow> apiToken \<noteq> [] \<and> accountID \<noteq> [] \<and> failed = []"
    using assms(2) by (auto simp: cleanup_main_def Let_def split: prod.splits if_splits dest!: delete_all_status)
  then show ?thesis
    using cleanup_api.cleanup_main_spares [OF assms] by (auto simp: spared_def)
qed

definition wit_account :: account where
  "wit_account = [((''tunnel'', ''t1''), ''e2e-edge''), ((''dns'', ''r1''), ''www.example.com''),
     ((''dns'', ''r2''), ''code2e-docs.example.com'')]"

lemma wit_cleanup:
  "run_state (cleanup_main (\<lambda>_. mem_cleanup_sdk) ''tok'' ''acc'' ''example.com'') wit_account =
     ((0, [\<lparr>rs_ID = ''t1'', rs_Name = ''e2e-edge'', rs_Type = ''tunnel''\<rparr>,
           \<lparr>rs_ID = ''r2'', rs_Name = ''code2e-docs.example.com'', rs_Type = ''dns''\<rparr>], []),
      [((''dns'', ''r1''), ''www.example.com'')])"
  by (simp add: cleanup_main_def mem_cleanup_sdk_def Let_def wit_account_def delete_all_def delete_records_def
      listOrphanedTunnels_def listOrphanedDNSRecords_def listOrphanedAccessApplications_def
      listOrphanedServiceTokens_def getZoneID_def mem_list_def mem_delete_def resources_def deleteTunnel_def
      deleteDNSRecord_def ignore_not_found_def HasPrefix_def Contains_def e2ePrefix_def recoveryPrefix_def
      ownershipPrefix_def)

theorem cleanup_spares_others_witness:
  "(''dns'', ''r1'', ''www.example.com'') \<in> mem_store [((''dns'', ''r1''), ''www.example.com'')]"
proof -
  have "(''dns'', ''r1'', ''www.example.com'') \<in> mem_store wit_account" "\<not> marked ''dns'' ''www.example.com''"
    by (simp_all add: mem_store_def wit_account_def marked_def Contains_def HasPrefix_def e2ePrefix_def
        ownershipPrefix_def)
  then show ?thesis
    using cleanup_spares_others [OF mem_account.cleanup_api_axioms wit_cleanup] by blast
qed

end
