(* ===== verification/Manager.thy ===== *)
theory Manager
  imports Dns_Controller Predicates Features
begin

text \<open>
  The manager: cmd/manager/main.go, the \<open>SetupWithManager\<close> methods of every controller, and the
  placeholders for TCPRoute and UDPRoute (internal/controller/tcproute_controller.go,
  udproute_controller.go). A controller registers field indexes and a list of watches; a watch has
  the kind it observes, the handler that turns an event into requests and the filters an event must
  pass. controller-runtime's manager and builder are the parameter \<open>Manager\<close>.
\<close>

section \<open>Registration\<close>

datatype handler = ForObject | ForOwner | FromMapFunc string

record Watch =
  wa_Kind :: string
  wa_Handler :: handler
  wa_Predicates :: "predicate list"

definition For :: "string \<Rightarrow> predicate list \<Rightarrow> Watch" where
  "For kind ps = \<lparr>wa_Kind = kind, wa_Handler = ForObject, wa_Predicates = ps\<rparr>"

definition Owns :: "string \<Rightarrow> Watch" where
  "Owns kind = \<lparr>wa_Kind = kind, wa_Handler = ForOwner, wa_Predicates = []\<rparr>"

definition Watches :: "string \<Rightarrow> string \<Rightarrow> predicate list \<Rightarrow> Watch" where
  "Watches kind f ps = \<lparr>wa_Kind = kind, wa_Handler = FromMapFunc f, wa_Predicates = ps\<rparr>"

lemmas watch_defs = For_def Owns_def Watches_def

record 'w Manager =
  mg_IndexField :: "string \<Rightarrow> string \<Rightarrow> ('w, unit res) io"
  mg_Complete :: "string \<Rightarrow> Watch list \<Rightarrow> ('w, unit res) io"
  mg_AddHealthzCheck :: "string \<Rightarrow> ('w, unit res) io"
  mg_AddReadyzCheck :: "string \<Rightarrow> ('w, unit res) io"
  mg_Start :: "('w, unit res) io"

section \<open>The watches of the controllers\<close>

definition tunnel_watches :: "PredicateLib \<Rightarrow> Watch list" where
  "tunnel_watches lib =
     [For ''CloudflareTunnel'' [GenerationOrDeletionPredicate lib],
      Owns ''Deployment'',
      Owns ''Secret'',
      Watches ''Gateway'' ''findTunnelsForGateway'' [pl_GenerationChanged lib],
      Watches ''HTTPRoute'' ''findTunnelsForHTTPRoute'' [pl_GenerationChanged lib]]"

definition tunnel_SetupWithManager :: "PredicateLib \<Rightarrow> 'w Manager \<Rightarrow> ('w, unit res) io" where
  "tunnel_SetupWithManager lib mgr = mg_Complete mgr ''CloudflareTunnel'' (tunnel_watches lib)"

definition dns_watches :: "PredicateLib \<Rightarrow> Watch list" where
  "dns_watches lib =
     [For ''CloudflareDNS'' [GenerationOrDeletionPredicate lib],
      Watches ''CloudflareTunnel'' ''findAffectedDNSByTunnel'' [pl_GenerationChanged lib],
      Watches ''HTTPRoute'' ''findAffectedDNSByRoute'' [CfgateAnnotationOrGenerationPredicate lib],
      Watches ''Gateway'' ''findAffectedDNSByGateway''
        [CfgateAnnotationOrGenerationPredicate lib, GatewayCreateAnnotationFilter lib]]"

definition dns_SetupWithManager :: "PredicateLib \<Rightarrow> 'w Manager \<Rightarrow> ('w, unit res) io" where
  "dns_SetupWithManager lib mgr = do {
     r \<leftarrow> mg_IndexField mgr ''CloudflareDNS'' dnsTunnelRefNameIndex;
     case r of
       Inl err \<Rightarrow> ret (Inl (wrapf ''failed to create tunnelRef.name index'' err))
     | Inr _ \<Rightarrow> do {
         r \<leftarrow> mg_IndexField mgr ''CloudflareDNS'' dnsGatewayRoutesEnabledIndex;
         case r of
           Inl err \<Rightarrow> ret (Inl (wrapf ''failed to create gatewayRoutes.enabled index'' err))
         | Inr _ \<Rightarrow> mg_Complete mgr ''CloudflareDNS'' (dns_watches lib)
       }
   }"

definition gateway_watches :: "PredicateLib \<Rightarrow> Watch list" where
  "gateway_watches lib =
     [For ''Gateway'' [pl_GenerationChanged lib],
      Watches ''CloudflareTunnel'' ''findGatewaysForTunnel'' [TunnelIDChangedPredicate lib]]"

definition gateway_SetupWithManager :: "PredicateLib \<Rightarrow> 'w Manager \<Rightarrow> ('w, unit res) io" where
  "gateway_SetupWithManager lib mgr = mg_Complete mgr ''Gateway'' (gateway_watches lib)"

definition gatewayclass_watches :: "PredicateLib \<Rightarrow> Watch list" where
  "gatewayclass_watches lib = [For ''GatewayClass'' [pl_GenerationChanged lib]]"

definition gatewayclass_SetupWithManager :: "PredicateLib \<Rightarrow> 'w Manager \<Rightarrow> ('w, unit res) io" where
  "gatewayclass_SetupWithManager lib mgr = mg_Complete mgr ''GatewayClass'' (gatewayclass_watches lib)"

definition httproute_watches :: "PredicateLib \<Rightarrow> Watch list" where
  "httproute_watches lib =
     [For ''HTTPRoute'' [pl_GenerationChanged lib],
      Watches ''Gateway'' ''findRoutesForGateway''
        [CfgateAnnotationOrGenerationPredicate lib, GatewayCreateAnnotationFilter lib],
      Watches ''Service'' ''findRoutesForService'' [],
      Watches ''CloudflareAccessPolicy'' ''findRoutesForAccessPolicy'' [pl_GenerationChanged lib]]"

definition httproute_SetupWithManager :: "PredicateLib \<Rightarrow> 'w Manager \<Rightarrow> ('w, unit res) io" where
  "httproute_SetupWithManager lib mgr = mg_Complete mgr ''HTTPRoute'' (httproute_watches lib)"

definition accessPolicyTargetIndex :: string where
  "accessPolicyTargetIndex = ''.spec.targetRefs''"

definition policy_watches :: "PredicateLib \<Rightarrow> FeatureGates option \<Rightarrow> Watch list" where
  "policy_watches lib gates =
     (let watch_if = (\<lambda>enabled kind f.
            if gates \<noteq> None \<and> enabled (the gates) then [Watches kind f [pl_GenerationChanged lib]] else [])
      in [For ''CloudflareAccessPolicy'' [GenerationOrDeletionPredicate lib],
          Owns ''Secret'',
          Watches ''HTTPRoute'' ''findPoliciesForHTTPRoute'' [pl_GenerationChanged lib]] @
         watch_if HasGRPCRouteSupport ''GRPCRoute'' ''findPoliciesForGRPCRoute'' @
         watch_if HasTCPRouteSupport ''TCPRoute'' ''findPoliciesForTCPRoute'' @
         watch_if HasUDPRouteSupport ''UDPRoute'' ''findPoliciesForUDPRoute'' @
         watch_if HasReferenceGrantSupport ''ReferenceGrant'' ''findPoliciesForReferenceGrant'')"

definition access_SetupWithManager ::
  "PredicateLib \<Rightarrow> FeatureGates option \<Rightarrow> 'w Manager \<Rightarrow> ('w, unit res) io" where
  "access_SetupWithManager lib gates mgr = do {
     r \<leftarrow> mg_IndexField mgr ''CloudflareAccessPolicy'' accessPolicyTargetIndex;
     case r of
       Inl err \<Rightarrow> ret (Inl (wrapf ''failed to create target index'' err))
     | Inr _ \<Rightarrow> mg_Complete mgr ''CloudflareAccessPolicy'' (policy_watches lib gates)
   }"

section \<open>TCPRoute and UDPRoute\<close>

text \<open>Placeholders: nothing is read or written.\<close>

definition tcproute_Reconcile :: "NamespacedName \<Rightarrow> ('w, Result \<times> go_error option) io" where
  "tcproute_Reconcile req = ret (no_requeue, None)"

definition tcproute_SetupWithManager :: "FeatureGates option \<Rightarrow> 'w Manager \<Rightarrow> ('w, unit res) io" where
  "tcproute_SetupWithManager gates mgr =
     (if gates \<noteq> None \<and> \<not> HasTCPRouteSupport (the gates) then ret (Inr ())
      else mg_Complete mgr ''TCPRoute'' [For ''TCPRoute'' []])"

definition udproute_Reconcile :: "NamespacedName \<Rightarrow> ('w, Result \<times> go_error option) io" where
  "udproute_Reconcile req = ret (no_requeue, None)"

definition udproute_SetupWithManager :: "FeatureGates option \<Rightarrow> 'w Manager \<Rightarrow> ('w, unit res) io" where
  "udproute_SetupWithManager gates mgr =
     (if gates \<noteq> None \<and> \<not> HasUDPRouteSupport (the gates) then ret (Inr ())
      else ret (Inr ()))"

section \<open>Start-up\<close>

record Flags =
  fl_metricsAddr :: string
  fl_probeAddr :: string
  fl_enableLeaderElection :: bool
  fl_secureMetrics :: bool
  fl_enableHTTP2 :: bool

record Options =
  op_MetricsBindAddress :: string
  op_MetricsSecureServing :: bool
  op_HealthProbeBindAddress :: string
  op_LeaderElection :: bool
  op_LeaderElectionID :: string

definition manager_options :: "Flags \<Rightarrow> Options" where
  "manager_options f =
     \<lparr>op_MetricsBindAddress = fl_metricsAddr f, op_MetricsSecureServing = fl_secureMetrics f,
      op_HealthProbeBindAddress = fl_probeAddr f, op_LeaderElection = fl_enableLeaderElection f,
      op_LeaderElectionID = ''cfgate.io''\<rparr>"

text \<open>\<open>if err := step; err != nil { os.Exit(1) }\<close> and the rest.\<close>

definition or_exit :: "('w, unit res) io \<Rightarrow> ('w, nat) io \<Rightarrow> ('w, nat) io" where
  "or_exit step rest = do {
     r \<leftarrow> step;
     case r of Inl err \<Rightarrow> ret 1 | Inr _ \<Rightarrow> rest
   }"

text \<open>The reconcilers are created without feature gates.\<close>

definition manager_main ::
  "PredicateLib \<Rightarrow> (Options \<Rightarrow> ('w, 'w Manager res) io) \<Rightarrow> Flags \<Rightarrow> ('w, nat) io" where
  "manager_main lib newManager flags = do {
     m \<leftarrow> newManager (manager_options flags);
     case m of
       Inl err \<Rightarrow> ret 1
     | Inr mgr \<Rightarrow>
         or_exit (tunnel_SetupWithManager lib mgr) (
         or_exit (dns_SetupWithManager lib mgr) (
         or_exit (gateway_SetupWithManager lib mgr) (
         or_exit (gatewayclass_SetupWithManager lib mgr) (
         or_exit (httproute_SetupWithManager lib mgr) (
         or_exit (access_SetupWithManager lib None mgr) (
         or_exit (mg_AddHealthzCheck mgr ''healthz'') (
         or_exit (mg_AddReadyzCheck mgr ''readyz'') (
         or_exit (mg_Start mgr) (ret 0)))))))))
   }"


section \<open>What controller-runtime promises\<close>

text \<open>The controllers registered so far with their watches, and whether the manager was started.\<close>

locale manager_api =
  fixes mgr :: "'w Manager"
    and registered :: "'w \<Rightarrow> (string \<times> Watch list) list"
    and started :: "'w \<Rightarrow> bool"
  assumes index_field: "run_state (mg_IndexField mgr kind f) w = (r, w') \<Longrightarrow>
      registered w' = registered w \<and> started w' = started w"
    and complete: "run_state (mg_Complete mgr n ws) w = (r, w') \<Longrightarrow> started w' = started w \<and>
      registered w' = (case r of Inl _ \<Rightarrow> registered w | Inr _ \<Rightarrow> registered w @ [(n, ws)])"
    and healthz: "run_state (mg_AddHealthzCheck mgr name) w = (r, w') \<Longrightarrow>
      registered w' = registered w \<and> started w' = started w"
    and readyz: "run_state (mg_AddReadyzCheck mgr name) w = (r, w') \<Longrightarrow>
      registered w' = registered w \<and> started w' = started w"
    and start: "run_state (mg_Start mgr) w = (r, w') \<Longrightarrow> registered w' = registered w \<and> started w'"

text \<open>The controllers of the operator in the order of registration.\<close>

definition operator_controllers :: "PredicateLib \<Rightarrow> (string \<times> Watch list) list" where
  "operator_controllers lib =
     [(''CloudflareTunnel'', tunnel_watches lib), (''CloudflareDNS'', dns_watches lib),
      (''Gateway'', gateway_watches lib), (''GatewayClass'', gatewayclass_watches lib),
      (''HTTPRoute'', httproute_watches lib), (''CloudflareAccessPolicy'', policy_watches lib None)]"

lemma length_operator_controllers: "length (operator_controllers lib) = 6"
  by (simp add: operator_controllers_def)

context manager_api
begin

text \<open>A step that leads from the first \<open>n\<close> controllers registered to the first \<open>k\<close>, or fails and
  leaves things as they are; and a program that ends well from there.\<close>

definition sets_up :: "PredicateLib \<Rightarrow> nat \<Rightarrow> nat \<Rightarrow> ('w, unit res) io \<Rightarrow> bool" where
  "sets_up lib n k m \<longleftrightarrow>
     (\<forall>w r w'. run_state m w = (r, w') \<and> registered w = take n (operator_controllers lib) \<and> \<not> started w \<longrightarrow>
        \<not> started w' \<and> registered w' = take (case r of Inl _ \<Rightarrow> n | Inr _ \<Rightarrow> k) (operator_controllers lib))"

definition outcome :: "PredicateLib \<Rightarrow> nat \<Rightarrow> 'w \<Rightarrow> bool" where
  "outcome lib status w \<longleftrightarrow>
     (\<exists>n. registered w = take n (operator_controllers lib)) \<and>
     (started w \<longrightarrow> registered w = operator_controllers lib) \<and> (status = 0 \<longrightarrow> started w)"

definition finishes :: "PredicateLib \<Rightarrow> nat \<Rightarrow> ('w, nat) io \<Rightarrow> bool" where
  "finishes lib n m \<longleftrightarrow>
     (\<forall>w status w'. run_state m w = (status, w') \<and> registered w = take n (operator_controllers lib) \<and>
        \<not> started w \<longrightarrow> outcome lib status w')"

lemma finishes_or_exit:
  assumes "sets_up lib n k step" "finishes lib k rest"
  shows "finishes lib n (or_exit step rest)"
  unfolding finishes_def
proof (intro allI impI)
  fix w status w'
  assume run: "run_state (or_exit step rest) w = (status, w') \<and>
    registered w = take n (operator_controllers lib) \<and> \<not> started w"
  obtain r w1 where r: "run_state step w = (r, w1)" by (rule prod.exhaust)
  with assms(1) run have w1: "\<not> started w1"
    "registered w1 = take (case r of Inl _ \<Rightarrow> n | Inr _ \<Rightarrow> k) (operator_controllers lib)"
    unfolding sets_up_def by blast+
  show "outcome lib status w'"
  proof (cases r)
    case (Inl err)
    with run r w1 show ?thesis by (auto simp: or_exit_def outcome_def)
  next
    case (Inr u)
    with run r w1 assms(2) show ?thesis by (auto simp: or_exit_def finishes_def)
  qed
qed

lemma sets_up_complete:
  assumes "k = Suc n" "n < 6" "operator_controllers lib ! n = (name, ws)"
  shows "sets_up lib n k (mg_Complete mgr name ws)"
proof -
  have "take k (operator_controllers lib) = take n (operator_controllers lib) @ [(name, ws)]"
    using assms by (simp add: take_Suc_conv_app_nth length_operator_controllers)
  then show ?thesis unfolding sets_up_def by (auto dest!: complete split: sum.splits)
qed

lemma sets_up_same: "sets_up lib n n (mg_AddHealthzCheck mgr c)" "sets_up lib n n (mg_AddReadyzCheck mgr c)"
  by (auto simp: sets_up_def dest!: healthz readyz split: sum.splits)

lemma sets_up_indexed:
  assumes "sets_up lib n k m"
  shows "sets_up lib n k (do { r \<leftarrow> mg_IndexField mgr kind f; case r of Inl err \<Rightarrow> ret (Inl (g err)) | Inr _ \<Rightarrow> m })"
  unfolding sets_up_def
proof (intro allI impI)
  fix w r w'
  assume run: "run_state (do { r \<leftarrow> mg_IndexField mgr kind f;
      case r of Inl err \<Rightarrow> ret (Inl (g err)) | Inr _ \<Rightarrow> m }) w = (r, w') \<and>
    registered w = take n (operator_controllers lib) \<and> \<not> started w"
  obtain i w1 where i: "run_state (mg_IndexField mgr kind f) w = (i, w1)" by (rule prod.exhaust)
  with run index_field [OF i] have w1: "registered w1 = take n (operator_controllers lib)" "\<not> started w1"
    by simp_all
  show "\<not> started w' \<and> registered w' = take (case r of Inl _ \<Rightarrow> n | Inr _ \<Rightarrow> k) (operator_controllers lib)"
  proof (cases i)
    case (Inl err)
    with run i have "r = Inl (g err)" "w' = w1" by simp_all
    with w1 show ?thesis by simp
  next
    case (Inr u)
    with run i have "run_state m w1 = (r, w')" by simp
    with w1 assms show ?thesis unfolding sets_up_def by blast
  qed
qed

lemma finishes_start: "finishes lib 6 (or_exit (mg_Start mgr) (ret 0))"
  unfolding finishes_def
proof (intro allI impI)
  fix w status w'
  assume run: "run_state (or_exit (mg_Start mgr) (ret 0)) w = (status, w') \<and>
    registered w = take 6 (operator_controllers lib) \<and> \<not> started w"
  obtain r w1 where r: "run_state (mg_Start mgr) w = (r, w1)" by (rule prod.exhaust)
  from run r have w: "w' = w1" by (cases r) (auto simp: or_exit_def)
  have "registered w1 = operator_controllers lib" "started w1"
    using start [OF r] run by (simp_all add: operator_controllers_def)
  moreover have "registered w1 = take 6 (operator_controllers lib)" using start [OF r] run by simp
  ultimately show "outcome lib status w'" using w unfolding outcome_def by blast
qed

lemma finishes_steps:
  "finishes lib 1 rest \<Longrightarrow> finishes lib 0 (or_exit (tunnel_SetupWithManager lib mgr) rest)"
  "finishes lib 2 rest \<Longrightarrow> finishes lib 1 (or_exit (dns_SetupWithManager lib mgr) rest)"
  "finishes lib 3 rest \<Longrightarrow> finishes lib 2 (or_exit (gateway_SetupWithManager lib mgr) rest)"
  "finishes lib 4 rest \<Longrightarrow> finishes lib 3 (or_exit (gatewayclass_SetupWithManager lib mgr) rest)"
  "finishes lib 5 rest \<Longrightarrow> finishes lib 4 (or_exit (httproute_SetupWithManager lib mgr) rest)"
  "finishes lib 6 rest \<Longrightarrow> finishes lib 5 (or_exit (access_SetupWithManager lib None mgr) rest)"
  unfolding tunnel_SetupWithManager_def dns_SetupWithManager_def gateway_SetupWithManager_def
    gatewayclass_SetupWithManager_def httproute_SetupWithManager_def access_SetupWithManager_def
  by (rule finishes_or_exit; (intro sets_up_indexed sets_up_complete)?; simp add: operator_controllers_def)+

lemma manager_outcome:
  assumes "run_state (manager_main lib (\<lambda>_. ret (Inr mgr)) flags) w = (status, w')"
    and "registered w = []" "\<not> started w"
  shows "outcome lib status w'"
proof -
  have "finishes lib 6 (or_exit (mg_AddHealthzCheck mgr ''healthz'') (or_exit (mg_AddReadyzCheck mgr ''readyz'') (
      or_exit (mg_Start mgr) (ret 0))))"
    by (rule finishes_or_exit [OF sets_up_same(1) finishes_or_exit [OF sets_up_same(2) finishes_start]])
  note this [THEN finishes_steps(6), THEN finishes_steps(5), THEN finishes_steps(4), THEN finishes_steps(3),
      THEN finishes_steps(2), THEN finishes_steps(1)]
  with assms show ?thesis by (auto simp: finishes_def manager_main_def)
qed

end

section \<open>A manager in memory\<close>

text \<open>A manager that refuses the controllers named in a list.\<close>

record ManagerState =
  ms_registered :: "(string \<times> Watch list) list"
  ms_started :: bool

definition mem_manager :: "string list \<Rightarrow> ManagerState Manager" where
  "mem_manager refused =
     \<lparr>mg_IndexField = (\<lambda>kind f. ret (Inr ())),
      mg_Complete = (\<lambda>n ws. State (\<lambda>s. if n \<in> List.set refused then (Inl (errorf ''refused''), s)
        else (Inr (), s\<lparr>ms_registered := ms_registered s @ [(n, ws)]\<rparr>))),
      mg_AddHealthzCheck = (\<lambda>c. ret (Inr ())), mg_AddReadyzCheck = (\<lambda>c. ret (Inr ())),
      mg_Start = State (\<lambda>s. (Inr (), s\<lparr>ms_started := True\<rparr>))\<rparr>"

interpretation mem_mgr: manager_api "mem_manager refused" ms_registered ms_started
  by unfold_locales (auto simp: mem_manager_def split: if_splits)

section \<open>Properties\<close>

text \<open>The controllers that are asked to reconcile after an event on an object of a kind: those with a
  watch for the kind all of whose filters pass. Watches for owned objects are left out.\<close>

definition wakes :: "event \<Rightarrow> string \<Rightarrow> Watch \<Rightarrow> bool" where
  "wakes e kind w \<longleftrightarrow> wa_Kind w = kind \<and> wa_Handler w \<noteq> ForOwner \<and> list_all (\<lambda>p. p e = Done True) (wa_Predicates w)"

definition woken :: "PredicateLib \<Rightarrow> string \<Rightarrow> event \<Rightarrow> string list" where
  "woken lib kind e = map fst (filter (\<lambda>(name, ws). list_ex (wakes e kind) ws) (operator_controllers lib))"

text \<open>C32: The manager starts only when every controller is registered. The controllers registered are
  always a prefix of the six of the operator, in this order, with the watches they ask for; when the
  manager was started it is all of them; and a zero exit status means that it was started.\<close>

theorem manager_starts_complete:
  assumes "manager_api mgr registered started" "registered w = []" "\<not> started w"
    and "run_state (manager_main lib (\<lambda>_. ret (Inr mgr)) flags) w = (status, w')"
  shows "(\<exists>n. registered w' = take n (operator_controllers lib)) \<and>
    (started w' \<longrightarrow> registered w' = operator_controllers lib) \<and> (status = 0 \<longrightarrow> started w')"
  using manager_api.manager_outcome [OF assms(1,4,2,3)] manager_api.outcome_def [OF assms(1)] by blast

definition wit_flags :: Flags where
  "wit_flags = \<lparr>fl_metricsAddr = '':8080'', fl_probeAddr = '':8081'', fl_enableLeaderElection = False,
     fl_secureMetrics = False, fl_enableHTTP2 = False\<rparr>"

theorem manager_starts_complete_witness:
  "ms_registered (snd (run_state (manager_main std_predicates (\<lambda>_. ret (Inr (mem_manager []))) wit_flags)
     \<lparr>ms_registered = [], ms_started = False\<rparr>)) = operator_controllers std_predicates"
proof -
  let ?run = "run_state (manager_main std_predicates (\<lambda>_. ret (Inr (mem_manager []))) wit_flags)
     \<lparr>ms_registered = [], ms_started = False\<rparr>"
  have "ms_started (snd ?run)"
    by (simp add: manager_main_def or_exit_def mem_manager_def tunnel_SetupWithManager_def
        dns_SetupWithManager_def gateway_SetupWithManager_def gatewayclass_SetupWithManager_def
        httproute_SetupWithManager_def access_SetupWithManager_def)
  with manager_starts_complete [OF mem_mgr.manager_api_axioms, of "\<lparr>ms_registered = [], ms_started = False\<rparr>"
      std_predicates "[]" wit_flags "fst ?run" "snd ?run"]
  show ?thesis by simp
qed

lemmas watch_lists = operator_controllers_def tunnel_watches_def dns_watches_def gateway_watches_def
  gatewayclass_watches_def httproute_watches_def policy_watches_def watch_defs

definition watched_kinds :: "string list" where
  "watched_kinds = [''CloudflareTunnel'', ''CloudflareDNS'', ''Gateway'', ''GatewayClass'', ''HTTPRoute'',
     ''Service'', ''CloudflareAccessPolicy'']"

lemma woken_unwatched: "kind \<notin> List.set watched_kinds \<Longrightarrow> woken lib kind e = []"
  by (auto simp: woken_def wakes_def watch_lists watched_kinds_def)



end
