(* ===== verification/Durations.thy ===== *)
theory Durations
  imports Annotations
begin

text \<open>
  Durations and origin settings in annotations: GetAnnotationDuration, OriginConfig and
  ParseOriginConfig of internal/controller/annotations/annotations.go, over a model of Go's
  \<open>time.ParseDuration\<close>. A duration is a 64-bit count of nanoseconds. The parser adds up parts, each
  a decimal number with a unit; its loop is not structural, and its arithmetic on \<open>uint64\<close> is
  written out modulo \<open>2 ^ 64\<close>.
\<close>

section \<open>Arithmetic on float64\<close>

text \<open>A non-negative \<open>float64\<close> as mantissa and binary exponent. Results are rounded to 53 bits, ties
  to even. The exponent is not bounded: the only values outside the range of \<open>float64\<close> come from
  fractions with hundreds of digits, whose contribution is zero nanoseconds either way.\<close>

type_synonym float64 = "nat \<times> int"

fun bit_len :: "nat \<Rightarrow> nat" where
  "bit_len n = (if n = 0 then 0 else Suc (bit_len (n div 2)))"

declare bit_len.simps [simp del]

definition round_div :: "nat \<Rightarrow> nat \<Rightarrow> nat" where
  "round_div n d =
     (let q = n div d; r = 2 * (n mod d) in if r < d \<or> r = d \<and> even q then q else q + 1)"

definition scaled :: "nat \<Rightarrow> nat \<Rightarrow> int \<Rightarrow> nat \<times> nat" where
  "scaled n d e = (if e \<ge> 0 then (n, d * 2 ^ nat e) else (n * 2 ^ nat (- e), d))"

text \<open>The quotient of two numbers, times a power of two.\<close>

definition round64 :: "nat \<Rightarrow> nat \<Rightarrow> int \<Rightarrow> float64" where
  "round64 n d k =
     (let e = int (bit_len n) - int (bit_len d) - 53
      in case scaled n d e of (a, b) \<Rightarrow>
           if a < 2 ^ 53 * b then (round_div a b, e + k)
           else (case scaled n d (e + 1) of (a, b) \<Rightarrow> (round_div a b, e + 1 + k)))"

definition float_of :: "nat \<Rightarrow> float64" where
  "float_of n = round64 n 1 0"

definition float_mul :: "float64 \<Rightarrow> float64 \<Rightarrow> float64" where
  "float_mul x y = round64 (fst x * fst y) 1 (snd x + snd y)"

definition float_div :: "float64 \<Rightarrow> float64 \<Rightarrow> float64" where
  "float_div x y = round64 (fst x) (fst y) (snd x - snd y)"

definition uint_of_float :: "float64 \<Rightarrow> nat" where
  "uint_of_float x = (case scaled (fst x) 1 (- snd x) of (a, b) \<Rightarrow> a div b)"

lemmas float_defs = float_of_def float_mul_def float_div_def uint_of_float_def round64_def round_div_def
  scaled_def Let_def bit_len.simps

section \<open>time.ParseDuration\<close>

fun leadingInt :: "nat \<Rightarrow> string \<Rightarrow> (nat \<times> string) option" where
  "leadingInt x [] = Some (x, [])"
| "leadingInt x (c # s) =
     (if \<not> is_digit c then Some (x, c # s)
      else if x > 2 ^ 63 div 10 then None
      else if x * 10 + digit_val c > 2 ^ 63 then None
      else leadingInt (x * 10 + digit_val c) s)"

text \<open>The digits after the point, ten to their number, and the rest; digits that no longer fit are
  skipped.\<close>

fun leadingFraction :: "nat \<Rightarrow> float64 \<Rightarrow> bool \<Rightarrow> string \<Rightarrow> nat \<times> float64 \<times> string" where
  "leadingFraction x scale overflow [] = (x, scale, [])"
| "leadingFraction x scale overflow (c # s) =
     (if \<not> is_digit c then (x, scale, c # s)
      else if overflow then leadingFraction x scale True s
      else if x > (2 ^ 63 - 1) div 10 then leadingFraction x scale True s
      else if x * 10 + digit_val c > 2 ^ 63 then leadingFraction x scale True s
      else leadingFraction (x * 10 + digit_val c) (float_mul scale (float_of 10)) False s)"

text \<open>The sign of micro as a code point of its own (U+00B5) and as a Greek letter (U+03BC), in UTF-8.\<close>

definition unitMap :: "string \<rightharpoonup> nat" where
  "unitMap = map_of [(''ns'', 1), (''us'', 1000),
     ([CHR 0xC2, CHR 0xB5, CHR ''s''], 1000),
     ([CHR 0xCE, CHR 0xBC, CHR ''s''], 1000),
     (''ms'', 1000000), (''s'', 1000000000), (''m'', 60000000000), (''h'', 3600000000000)]"

definition unit_char :: "char \<Rightarrow> bool" where
  "unit_char c \<longleftrightarrow> \<not> (c = CHR ''.'' \<or> is_digit c)"

text \<open>The value of a part: \<open>v\<close> and the fraction \<open>f / scale\<close> of a unit.\<close>

definition part_value :: "nat \<Rightarrow> nat \<Rightarrow> float64 \<Rightarrow> nat \<Rightarrow> nat option" where
  "part_value v f scale unit =
     (if v > 2 ^ 63 div unit then None
      else if f > 0 then
        (let v = (v * unit + uint_of_float (float_mul (float_of f) (float_div (float_of unit) scale))) mod 2 ^ 64
         in if v > 2 ^ 63 then None else Some v)
      else Some (v * unit))"

text \<open>One iteration of the loop: the value of the first part and the rest of the string.\<close>

definition next_part :: "string \<Rightarrow> (nat \<times> string) option" where
  "next_part s =
     (if s = [] \<or> unit_char (hd s) then None
      else case leadingInt 0 s of
        None \<Rightarrow> None
      | Some (v, s1) \<Rightarrow>
          (let pre = (length s \<noteq> length s1);
               (f, scale, s2, post) =
                 (if s1 \<noteq> [] \<and> hd s1 = CHR ''.'' then
                    (case leadingFraction 0 (float_of 1) False (tl s1) of
                       (f, scale, r) \<Rightarrow> (f, scale, r, length (tl s1) \<noteq> length r))
                  else (0, float_of 1, s1, False));
               u = takeWhile unit_char s2;
               r = dropWhile unit_char s2
           in if \<not> pre \<and> \<not> post then None
              else if u = [] then None
              else case unitMap u of
                     None \<Rightarrow> None
                   | Some unit \<Rightarrow> map_option (\<lambda>v. (v, r)) (part_value v f scale unit)))"

lemma leadingInt_suffix: "leadingInt x s = Some (v, r) \<Longrightarrow> length r \<le> length s"
  by (induction x s rule: leadingInt.induct) (auto split: if_splits)

lemma leadingFraction_suffix: "leadingFraction x sc ov s = (f, scale, r) \<Longrightarrow> length r \<le> length s"
  by (induction x sc ov s rule: leadingFraction.induct) (auto split: if_splits dest: le_SucI)

lemma next_part_consumes:
  assumes "next_part s = Some (v, r)"
  shows "length r + 2 \<le> length s"
proof -
  obtain v1 s1 where i: "leadingInt 0 s = Some (v1, s1)"
    using assms by (auto simp: next_part_def split: if_splits option.splits)
  define fs where "fs = (if s1 \<noteq> [] \<and> hd s1 = CHR ''.'' then
      (case leadingFraction 0 (float_of 1) False (tl s1) of
         (f, scale, r) \<Rightarrow> (f, scale, r, length (tl s1) \<noteq> length r))
    else (0, float_of 1, s1, False))"
  obtain f scale s2 post where fs2: "fs = (f, scale, s2, post)" by (metis prod.exhaust)
  have s1: "length s1 \<le> length s" by (rule leadingInt_suffix [OF i])
  have r: "length s \<noteq> length s1 \<or> post" "0 < length (takeWhile unit_char s2)" "r = dropWhile unit_char s2"
    using assms i fs2 [unfolded fs_def] by (auto simp: next_part_def Let_def split: if_splits option.splits)
  have "length s2 < length s"
  proof (cases "s1 \<noteq> [] \<and> hd s1 = CHR ''.''")
    case True
    with fs2 leadingFraction_suffix [of 0 "float_of 1" False "tl s1"] have "length s2 \<le> length (tl s1)"
      by (auto simp: fs_def split: prod.splits)
    also have "\<dots> < length s1" using True by simp
    finally show ?thesis using s1 by simp
  qed (use fs2 r(1) s1 in \<open>auto simp: fs_def\<close>)
  moreover have "length s2 = length (takeWhile unit_char s2) + length r"
    unfolding r(3) by (metis length_append takeWhile_dropWhile_id)
  ultimately show ?thesis using r(2) by linarith
qed

function parse_parts :: "nat \<Rightarrow> string \<Rightarrow> nat option" where
  "parse_parts d s =
     (if s = [] then Some d
      else case next_part s of
        None \<Rightarrow> None
      | Some (v, r) \<Rightarrow>
          (let d = (d + v) mod 2 ^ 64 in if d > 2 ^ 63 then None else parse_parts d r))"
  by pat_completeness auto

termination
  by (relation "measure (\<lambda>(d, s). length s)") (auto dest!: next_part_consumes)

declare parse_parts.simps [simp del]

text \<open>None is a syntax or range error; \<open>parse\<close> is the loop over the parts. The negation of the least
  duration wraps around to itself.\<close>

definition duration_with :: "(string \<Rightarrow> nat option) \<Rightarrow> string \<Rightarrow> int option" where
  "duration_with parse s =
     (let (neg, t) = (case s of [] \<Rightarrow> (False, [])
                      | c # t \<Rightarrow> if c = CHR ''-'' \<or> c = CHR ''+'' then (c = CHR ''-'', t) else (False, s))
      in if t = ''0'' then Some 0
         else if t = '''' then None
         else case parse t of
                None \<Rightarrow> None
              | Some d \<Rightarrow> if neg then Some (- int d)
                         else if d > 2 ^ 63 - 1 then None else Some (int d))"

definition ParseDuration :: "string \<Rightarrow> int option" where
  "ParseDuration = duration_with (parse_parts 0)"

lemmas duration_defs = ParseDuration_def duration_with_def parse_parts.simps next_part_def part_value_def
  unit_char_def unitMap_def is_digit_def digit_val_def

section \<open>Annotations\<close>

definition AnnotationOriginConnectTimeout :: string where
  "AnnotationOriginConnectTimeout = AnnotationPrefix @ ''origin-connect-timeout''"

definition AnnotationOriginHTTPHostHeader :: string where
  "AnnotationOriginHTTPHostHeader = AnnotationPrefix @ ''origin-http-host-header''"

definition AnnotationOriginServerName :: string where
  "AnnotationOriginServerName = AnnotationPrefix @ ''origin-server-name''"

definition AnnotationOriginCAPool :: string where
  "AnnotationOriginCAPool = AnnotationPrefix @ ''origin-ca-pool''"

definition AnnotationOriginHTTP2 :: string where
  "AnnotationOriginHTTP2 = AnnotationPrefix @ ''origin-http2''"

lemmas origin_keys = annotation_keys AnnotationOriginConnectTimeout_def AnnotationOriginHTTPHostHeader_def
  AnnotationOriginServerName_def AnnotationOriginCAPool_def AnnotationOriginHTTP2_def

definition GetAnnotationDuration :: "strmap \<Rightarrow> string \<Rightarrow> int \<Rightarrow> int" where
  "GetAnnotationDuration obj key defaultValue =
     (let value = GetAnnotation obj key
      in if value = '''' then defaultValue
         else case ParseDuration value of None \<Rightarrow> defaultValue | Some parsed \<Rightarrow> parsed)"

record OriginConfig =
  oc_Protocol :: string
  oc_SSLVerify :: bool
  oc_ConnectTimeout :: int
  oc_HTTPHostHeader :: string
  oc_ServerName :: string
  oc_CAPool :: string
  oc_HTTP2 :: bool

definition ParseOriginConfig :: "strmap \<Rightarrow> string \<Rightarrow> OriginConfig" where
  "ParseOriginConfig obj defaultProtocol =
     (let config = \<lparr>oc_Protocol = GetAnnotation obj AnnotationOriginProtocol,
            oc_SSLVerify = GetAnnotationBool obj AnnotationOriginSSLVerify True,
            oc_ConnectTimeout = GetAnnotationDuration obj AnnotationOriginConnectTimeout (30 * 1000000000),
            oc_HTTPHostHeader = GetAnnotation obj AnnotationOriginHTTPHostHeader,
            oc_ServerName = GetAnnotation obj AnnotationOriginServerName,
            oc_CAPool = GetAnnotation obj AnnotationOriginCAPool,
            oc_HTTP2 = GetAnnotationBool obj AnnotationOriginHTTP2 False\<rparr>
      in if oc_Protocol config = '''' then config\<lparr>oc_Protocol := defaultProtocol\<rparr> else config)"

section \<open>Lemmas\<close>

lemma digits_val_ge: "digits_val x s = Some n \<Longrightarrow> x \<le> n"
proof (induction s arbitrary: x)
  case (Cons c s)
  then have "10 * x + digit_val c \<le> n" by (auto split: if_splits)
  then show ?case by simp
qed simp

lemma leadingInt_digits:
  assumes "digits_val x ds = Some n" "n \<le> 2 ^ 63" "r = [] \<or> \<not> is_digit (hd r)"
  shows "leadingInt x (ds @ r) = Some (n, r)"
  using assms(1)
proof (induction ds arbitrary: x)
  case Nil
  with assms(3) show ?case by (cases r) auto
next
  case (Cons c ds)
  then have d: "is_digit c" "digits_val (10 * x + digit_val c) ds = Some n" by (auto split: if_splits)
  then have "10 * x + digit_val c \<le> 2 ^ 63" using digits_val_ge assms(2) le_trans by blast
  moreover from this have "x \<le> 2 ^ 63 div 10" by simp
  ultimately show ?case using d Cons.IH [OF d(2)] by (simp add: mult.commute [of x])
qed

lemma unitMap_unit:
  assumes "unitMap u = Some k"
  shows "u \<noteq> []" "list_all unit_char u" "0 < k"
  using assms by (auto simp: unitMap_def unit_char_def is_digit_def split: if_splits)

lemma next_part_rendered:
  assumes "unitMap u = Some k" "n * k \<le> 2 ^ 63" "r = [] \<or> \<not> unit_char (hd r)"
  shows "next_part (nat_str n @ u @ r) = Some (n * k, r)"
proof -
  note u = unitMap_unit [OF assms(1)]
  obtain c t where ct: "nat_str n = c # t" by (cases "nat_str n") auto
  then have c: "is_digit c" using nat_str_digits [of c n] by simp
  have hu: "unit_char (hd (u @ r))" "u @ r \<noteq> []" using u(1,2) by (cases u; simp)+
  have "n \<le> 2 ^ 63" using u(3) by (intro le_trans [OF _ assms(2)]) simp
  then have "leadingInt 0 (nat_str n @ u @ r) = Some (n, u @ r)"
    using hu by (intro leadingInt_digits) (auto simp: digits_val_nat_str unit_char_def)
  moreover have "takeWhile unit_char (u @ r) = u" "dropWhile unit_char (u @ r) = r"
    using u(2) assms(3) by (cases r; auto simp: list_all_iff takeWhile_append dropWhile_append)+
  moreover have "n \<le> 2 ^ 63 div k" using assms(2) u(3) by (simp add: less_eq_div_iff_mult_less_eq)
  ultimately show ?thesis
    using u(1) assms(1) c ct hu(1)
    by (auto simp: next_part_def Let_def unit_char_def part_value_def)
qed

text \<open>A duration written as a list of whole numbers with units, and the nanoseconds it stands for.\<close>

definition render_duration :: "(nat \<times> string) list \<Rightarrow> string" where
  "render_duration parts = concat (map (\<lambda>(n, u). nat_str n @ u) parts)"

definition duration_total :: "(nat \<times> string) list \<Rightarrow> nat" where
  "duration_total parts = sum_list (map (\<lambda>(n, u). n * the (unitMap u)) parts)"

lemma render_head:
  assumes "parts \<noteq> []"
  obtains c t where "render_duration parts = c # t" "is_digit c"
proof -
  obtain n u ps where p: "parts = (n, u) # ps" using assms by (cases parts) auto
  obtain c t where ct: "nat_str n = c # t" by (cases "nat_str n") auto
  then have "is_digit c" using nat_str_digits [of c n] by simp
  with p ct that show thesis by (simp add: render_duration_def)
qed

lemma parse_rendered:
  assumes "\<forall>(n, u) \<in> List.set parts. unitMap u \<noteq> None" "d + duration_total parts \<le> 2 ^ 63"
  shows "parse_parts d (render_duration parts) = Some (d + duration_total parts)"
  using assms
proof (induction parts arbitrary: d)
  case Nil
  then show ?case by (simp add: render_duration_def duration_total_def parse_parts.simps)
next
  case (Cons p parts)
  obtain n u where p: "p = (n, u)" by (rule prod.exhaust)
  then obtain k where k: "unitMap u = Some k" using Cons.prems(1) by auto
  let ?r = "render_duration parts"
  have sum: "d + n * k + duration_total parts \<le> 2 ^ 63" "duration_total (p # parts) = n * k + duration_total parts"
    using Cons.prems(2) p k by (simp_all add: duration_total_def)
  have split: "render_duration (p # parts) = nat_str n @ u @ ?r" using p by (simp add: render_duration_def)
  have "?r = [] \<or> \<not> unit_char (hd ?r)"
    by (cases "parts = []") (auto simp: render_duration_def [of "[]"] unit_char_def elim!: render_head)
  then have "next_part (render_duration (p # parts)) = Some (n * k, ?r)"
    using next_part_rendered [OF k] sum(1) unfolding split by simp
  then have "parse_parts d (render_duration (p # parts)) = parse_parts (d + n * k) ?r"
    using sum(1) split by (simp add: parse_parts.simps [of d])
  with Cons.IH [of "d + n * k"] Cons.prems(1) sum show ?case by (simp add: add.assoc)
qed

lemma rendered_not_zero:
  assumes "parts \<noteq> []" "\<forall>(n, u) \<in> List.set parts. unitMap u \<noteq> None"
  shows "render_duration parts \<noteq> ''0''"
proof -
  obtain n u ps where p: "parts = (n, u) # ps" using assms(1) by (cases parts) auto
  then obtain k where "unitMap u = Some k" using assms(2) by auto
  then have "u \<noteq> []" by (rule unitMap_unit)
  then have "nat_str n @ u @ t \<noteq> [c]" for t c by (simp add: append_eq_Cons_conv)
  with p show ?thesis by (simp add: render_duration_def)
qed


section \<open>Properties\<close>

lemma parse_parts_bound: "parse_parts d s = Some n \<Longrightarrow> d \<le> 2 ^ 63 \<Longrightarrow> n \<le> 2 ^ 63"
proof (induction d s rule: parse_parts.induct)
  case (1 d s)
  show ?case
  proof (cases "s = [] \<or> next_part s = None")
    case False
    then obtain v r where v: "s \<noteq> []" "next_part s = Some (v, r)" by auto
    with 1 show ?thesis by (auto simp: parse_parts.simps [of d] Let_def split: if_splits)
  qed (use 1 in \<open>auto simp: parse_parts.simps [of d] split: if_splits\<close>)
qed

text \<open>The same loop with at most \<open>fuel\<close> iterations; running out of fuel counts as no answer.\<close>

fun parse_fuel :: "nat \<Rightarrow> nat \<Rightarrow> string \<Rightarrow> nat option" where
  "parse_fuel fuel d [] = Some d"
| "parse_fuel 0 d (c # s) = None"
| "parse_fuel (Suc fuel) d (c # s) =
     (case next_part (c # s) of
        None \<Rightarrow> None
      | Some (v, r) \<Rightarrow>
          (let d = (d + v) mod 2 ^ 64 in if d > 2 ^ 63 then None else parse_fuel fuel d r))"

lemma parse_fuel_enough: "length s \<le> 2 * fuel + 1 \<Longrightarrow> parse_fuel fuel d s = parse_parts d s"
proof (induction fuel d s rule: parse_fuel.induct)
  case (2 d c s)
  then have "next_part (c # s) = None"
    using next_part_consumes [of "c # s"] by (cases "next_part (c # s)") fastforce+
  then show ?case by (simp add: parse_parts.simps [of d])
next
  case (3 fuel d c s)
  show ?case
  proof (cases "next_part (c # s)")
    case (Some p)
    obtain v r where p: "p = (v, r)" by (rule prod.exhaust)
    then have "length r \<le> 2 * fuel + 1" using next_part_consumes [of "c # s" v r] Some 3(2) by simp
    with 3(1) [OF Some p [symmetric] refl] Some p show ?thesis by (simp add: parse_parts.simps [of d] Let_def)
  qed (simp add: parse_parts.simps [of d])
qed (simp add: parse_parts.simps)

lemma duration_with_cong: "f v = g v \<Longrightarrow> f (tl v) = g (tl v) \<Longrightarrow> duration_with f v = duration_with g v"
  by (cases v) (auto simp: duration_with_def Let_def)

lemma ParseDuration_range: "ParseDuration s = Some d \<Longrightarrow> - (2 ^ 63) \<le> d \<and> d < 2 ^ 63"
  by (auto simp: ParseDuration_def duration_with_def Let_def dest!: parse_parts_bound
      split: list.splits if_splits option.splits)

text \<open>C38: A duration annotation reads as the time it writes: any number of whole numbers with units, such
  as 1h30m, with or without a minus sign, gives the sum of the parts in nanoseconds, as long as the
  sum fits into 63 bits.\<close>

theorem annotation_duration_exact:
  assumes "GetAnnotation obj key = (if neg then ''-'' else []) @ render_duration parts"
    and "parts \<noteq> []" "\<forall>(n, u) \<in> List.set parts. unitMap u \<noteq> None" "duration_total parts < 2 ^ 63"
  shows "GetAnnotationDuration obj key dflt =
    (if neg then - int (duration_total parts) else int (duration_total parts))"
proof -
  obtain c t where ct: "render_duration parts = c # t" "is_digit c" by (rule render_head [OF assms(2)])
  then have "c \<noteq> CHR ''-''" "c \<noteq> CHR ''+''" using not_digit_sign by auto
  moreover have "parse_parts 0 (render_duration parts) = Some (duration_total parts)"
    using parse_rendered [OF assms(3), of 0] assms(4) by simp
  ultimately show ?thesis
    using assms(1,4) ct rendered_not_zero [OF assms(2,3)]
    by (auto simp: GetAnnotationDuration_def ParseDuration_def duration_with_def Let_def)
qed

theorem annotation_duration_exact_witness:
  "GetAnnotationDuration [(AnnotationOriginConnectTimeout, ''-1h30m'')] AnnotationOriginConnectTimeout 0 =
     - 5400000000000"
  using annotation_duration_exact [of "[(AnnotationOriginConnectTimeout, ''-1h30m'')]"
      AnnotationOriginConnectTimeout True "[(1, ''h''), (30, ''m'')]" 0]
  by (simp add: GetAnnotation_def render_duration_def duration_total_def unitMap_def nat_str.simps
      digit_char_def char_of_def bit_0)




text \<open>Two halves of the range add up to nothing: the sum wraps around before it is tested.\<close>

lemma duration_sum_wraps: "ParseDuration ''9223372036854775808ns9223372036854775808ns'' = Some 0"
  by (simp add: duration_defs)

lemma duration_fractions:
  "ParseDuration ''-1.5s'' = Some (- 1500000000)" "ParseDuration ''0.3h'' = Some 1080000000000"
  "ParseDuration ''.s'' = None"
  by (simp_all add: duration_defs float_defs)

end
