(* ===== verification/Route_Context.thy ===== *)
theory Route_Context
  imports Context_Wrappers Durations
begin

text \<open>
  RouteContext of internal/controller/context/wrappers.go: a route of any kind with its kind, its
  origin settings and its hostnames, and how it is built from the cluster. Three parts of the
  sources read the origin annotations (this one, package annotations and package cloudflared); the
  last section compares what they read.
\<close>

section \<open>Routes\<close>

text \<open>An object behind \<open>client.Object\<close>: its concrete type, and the kind in its \<open>TypeMeta\<close>, which is
  empty for objects read through a typed client.\<close>

datatype route_object =
    HTTPRouteObj HTTPRoute
  | GRPCRouteObj GRPCRoute
  | TCPRouteObj ObjectMeta
  | UDPRouteObj ObjectMeta
  | OtherObj ObjectMeta

record client_route =
  cr_Kind :: string
  cr_Object :: route_object

fun object_meta :: "route_object \<Rightarrow> ObjectMeta" where
  "object_meta (HTTPRouteObj r) = hr_Meta r"
| "object_meta (GRPCRouteObj r) = grpc_Meta r"
| "object_meta (TCPRouteObj m) = m"
| "object_meta (UDPRouteObj m) = m"
| "object_meta (OtherObj m) = m"

definition cr_Annotations :: "client_route \<Rightarrow> strmap" where
  "cr_Annotations r = om_Annotations (object_meta (cr_Object r))"

text \<open>Typed reads of the Kubernetes client.\<close>

record 'w RouteReader =
  rd_GetHTTPRoute :: "NamespacedName \<Rightarrow> ('w, (string \<times> HTTPRoute) res) io"
  rd_GetTCPRoute :: "NamespacedName \<Rightarrow> ('w, (string \<times> ObjectMeta) res) io"
  rd_GetUDPRoute :: "NamespacedName \<Rightarrow> ('w, (string \<times> ObjectMeta) res) io"
  rd_GetGRPCRoute :: "NamespacedName \<Rightarrow> ('w, (string \<times> GRPCRoute) res) io"

record PolicyRef =
  pref_Namespace :: string
  pref_Name :: string
  pref_Kind :: string

record RouteOriginConfig =
  roc_Protocol :: string
  roc_SSLVerify :: bool
  roc_Timeout :: int
  roc_Hostname :: string

record RouteContext =
  rx_Kind :: string
  rx_Route :: client_route
  rx_Namespace :: string
  rx_Name :: string
  rx_attachedPolicies :: "PolicyRef list"
  rx_originConfig :: RouteOriginConfig

section \<open>Construction\<close>

definition inferRouteKind :: "client_route \<Rightarrow> string" where
  "inferRouteKind route =
     (case cr_Object route of
        HTTPRouteObj _ \<Rightarrow> ''HTTPRoute''
      | TCPRouteObj _ \<Rightarrow> ''TCPRoute''
      | UDPRouteObj _ \<Rightarrow> ''UDPRoute''
      | GRPCRouteObj _ \<Rightarrow> ''GRPCRoute''
      | OtherObj _ \<Rightarrow> ''Unknown'')"

definition parseOriginConfig :: "strmap \<Rightarrow> RouteOriginConfig" where
  "parseOriginConfig annotations =
     (let ann = map_of annotations;
          c0 = \<lparr>roc_Protocol = ''http'', roc_SSLVerify = True, roc_Timeout = 30 * 1000000000, roc_Hostname = ''''\<rparr>;
          c1 = override (\<lambda>v c. c\<lparr>roc_Protocol := v\<rparr>) (ann ''cfgate.io/origin-protocol'') c0;
          c2 = override (\<lambda>v c. c\<lparr>roc_SSLVerify := (v = ''true'')\<rparr>) (ann ''cfgate.io/origin-ssl-verify'') c1;
          c3 = override (\<lambda>v c. override (\<lambda>d c. c\<lparr>roc_Timeout := d\<rparr>) (ParseDuration v) c)
                 (ann ''cfgate.io/origin-timeout'') c2
      in override (\<lambda>v c. c\<lparr>roc_Hostname := v\<rparr>) (ann ''cfgate.io/hostname'') c3)"

definition NewRouteContext :: "client_route \<Rightarrow> RouteContext" where
  "NewRouteContext route =
     (let kind = (if cr_Kind route = '''' then inferRouteKind route else cr_Kind route)
      in \<lparr>rx_Kind = kind, rx_Route = route,
          rx_Namespace = om_Namespace (object_meta (cr_Object route)),
          rx_Name = om_Name (object_meta (cr_Object route)),
          rx_attachedPolicies = [], rx_originConfig = parseOriginConfig (cr_Annotations route)\<rparr>)"

definition AddAttachedPolicy :: "RouteContext \<Rightarrow> PolicyRef \<Rightarrow> RouteContext" where
  "AddAttachedPolicy rc ref = rc\<lparr>rx_attachedPolicies := rx_attachedPolicies rc @ [ref]\<rparr>"

definition GetHostnames :: "RouteContext \<Rightarrow> string list" where
  "GetHostnames rc =
     (if rx_Kind rc = ''TCPRoute'' \<or> rx_Kind rc = ''UDPRoute'' then
        (if roc_Hostname (rx_originConfig rc) \<noteq> '''' then [roc_Hostname (rx_originConfig rc)] else [])
      else if rx_Kind rc = ''HTTPRoute'' then
        (case cr_Object (rx_Route rc) of HTTPRouteObj hr \<Rightarrow> hr_Hostnames hr | _ \<Rightarrow> [])
      else if rx_Kind rc = ''GRPCRoute'' then
        (case cr_Object (rx_Route rc) of GRPCRouteObj gr \<Rightarrow> grpc_Hostnames gr | _ \<Rightarrow> [])
      else [])"

definition HasAccessPolicyAnnotation :: "RouteContext \<Rightarrow> bool" where
  "HasAccessPolicyAnnotation rc \<longleftrightarrow> map_of (cr_Annotations (rx_Route rc)) ''cfgate.io/access-policy'' \<noteq> None"

definition GetAccessPolicyAnnotation :: "RouteContext \<Rightarrow> string" where
  "GetAccessPolicyAnnotation rc =
     (case map_of (cr_Annotations (rx_Route rc)) ''cfgate.io/access-policy'' of None \<Rightarrow> '''' | Some v \<Rightarrow> v)"

text \<open>A read of a concrete type as a read of a \<open>client.Object\<close>.\<close>

definition read_as :: "('a \<Rightarrow> route_object) \<Rightarrow> ('w, (string \<times> 'a) res) io \<Rightarrow> ('w, client_route res) io" where
  "read_as con get = do {
     r \<leftarrow> get;
     ret (map_sum id (\<lambda>(kind, x). \<lparr>cr_Kind = kind, cr_Object = con x\<rparr>) r)
   }"

definition BuildRouteContext ::
  "'w RouteReader \<Rightarrow> string \<Rightarrow> NamespacedName \<Rightarrow> ('w, RouteContext option res) io" where
  "BuildRouteContext k kind ref =
     (let finish = (\<lambda>get. do {
            r \<leftarrow> get;
            case r of
              Inl err \<Rightarrow> if IsNotFound err then ret (Inr None) else ret (Inl (wrapf ''fetching route'' err))
            | Inr route \<Rightarrow> ret (Inr (Some (NewRouteContext route)))
          })
      in if kind = ''HTTPRoute'' then finish (read_as HTTPRouteObj (rd_GetHTTPRoute k ref))
         else if kind = ''TCPRoute'' then finish (read_as TCPRouteObj (rd_GetTCPRoute k ref))
         else if kind = ''UDPRoute'' then finish (read_as UDPRouteObj (rd_GetUDPRoute k ref))
         else if kind = ''GRPCRoute'' then finish (read_as GRPCRouteObj (rd_GetGRPCRoute k ref))
         else ret (Inl (errorf (''unsupported route kind: '' @ kind))))"

section \<open>Properties\<close>

lemma parseOriginConfig_hostname:
  "roc_Hostname (parseOriginConfig a) = (case map_of a ''cfgate.io/hostname'' of None \<Rightarrow> [] | Some h \<Rightarrow> h)"
  by (cases "map_of a ''cfgate.io/origin-protocol''"; cases "map_of a ''cfgate.io/origin-ssl-verify''";
      cases "map_of a ''cfgate.io/origin-timeout''"; cases "map_of a ''cfgate.io/hostname''";
      cases "ParseDuration (the (map_of a ''cfgate.io/origin-timeout''))")
    (simp_all add: parseOriginConfig_def Let_def)

text \<open>The route read for a kind, as the context sees it.\<close>

definition typed_read :: "'w RouteReader \<Rightarrow> string \<Rightarrow> NamespacedName \<Rightarrow> ('w, client_route res) io" where
  "typed_read k kind ref =
     (if kind = ''HTTPRoute'' then read_as HTTPRouteObj (rd_GetHTTPRoute k ref)
      else if kind = ''TCPRoute'' then read_as TCPRouteObj (rd_GetTCPRoute k ref)
      else if kind = ''UDPRoute'' then read_as UDPRouteObj (rd_GetUDPRoute k ref)
      else read_as GRPCRouteObj (rd_GetGRPCRoute k ref))"

definition route_kinds :: "string list" where
  "route_kinds = [''HTTPRoute'', ''TCPRoute'', ''UDPRoute'', ''GRPCRoute'']"

text \<open>The hostnames a route asks for: those of its spec, and the annotation where the spec has none.\<close>

definition wanted_hostnames :: "client_route \<Rightarrow> string list" where
  "wanted_hostnames r =
     (case cr_Object r of
        HTTPRouteObj hr \<Rightarrow> hr_Hostnames hr
      | GRPCRouteObj gr \<Rightarrow> grpc_Hostnames gr
      | _ \<Rightarrow> (case map_of (cr_Annotations r) ''cfgate.io/hostname'' of
               None \<Rightarrow> [] | Some h \<Rightarrow> if h = [] then [] else [h]))"

lemma read_as_object: "run_state (read_as con get) w = (Inr route, w') \<Longrightarrow> \<exists>x. cr_Object route = con x"
  by (cases "fst (run_state get w)") (auto simp: read_as_def split: prod.splits)

lemma typed_read_kind:
  "run_state (typed_read k kind ref) w = (Inr route, w') \<Longrightarrow> kind \<in> List.set route_kinds \<Longrightarrow>
     inferRouteKind route = kind"
  by (auto simp: typed_read_def route_kinds_def inferRouteKind_def dest!: read_as_object)

lemma build_typed:
  "kind \<in> List.set route_kinds \<Longrightarrow> run_state (BuildRouteContext k kind ref) w =
     (case run_state (typed_read k kind ref) w of
        (Inl err, w') \<Rightarrow> (if IsNotFound err then Inr None else Inl (wrapf ''fetching route'' err), w')
      | (Inr route, w') \<Rightarrow> (Inr (Some (NewRouteContext route)), w'))"
  by (auto simp: BuildRouteContext_def typed_read_def Let_def route_kinds_def split: prod.splits sum.splits)

lemma context_of_route:
  assumes "inferRouteKind route = kind" "cr_Kind route = [] \<or> cr_Kind route = kind" "kind \<in> List.set route_kinds"
  shows "rx_Kind (NewRouteContext route) = kind" "GetHostnames (NewRouteContext route) = wanted_hostnames route"
proof -
  show kind: "rx_Kind (NewRouteContext route) = kind" using assms by (auto simp: NewRouteContext_def Let_def)
  have "rx_Route (NewRouteContext route) = route"
    "rx_originConfig (NewRouteContext route) = parseOriginConfig (cr_Annotations route)"
    by (simp_all add: NewRouteContext_def Let_def)
  with kind assms(1,3) show "GetHostnames (NewRouteContext route) = wanted_hostnames route"
    by (auto simp: GetHostnames_def wanted_hostnames_def inferRouteKind_def route_kinds_def
        parseOriginConfig_hostname split: route_object.splits option.splits)
qed

lemma parseOriginConfig_ssl:
  "roc_SSLVerify (parseOriginConfig a) =
     (case map_of a ''cfgate.io/origin-ssl-verify'' of None \<Rightarrow> True | Some v \<Rightarrow> v = ''true'')"
  by (cases "map_of a ''cfgate.io/origin-protocol''"; cases "map_of a ''cfgate.io/origin-ssl-verify''";
      cases "map_of a ''cfgate.io/origin-timeout''"; cases "map_of a ''cfgate.io/hostname''";
      cases "ParseDuration (the (map_of a ''cfgate.io/origin-timeout''))")
    (simp_all add: parseOriginConfig_def Let_def)

lemma override_NoTLSVerify:
  "(\<And>v c. co_NoTLSVerify (f v c) = co_NoTLSVerify c) \<Longrightarrow> co_NoTLSVerify (override f x c) = co_NoTLSVerify c"
  by (cases x) simp_all

lemma BuildOriginConfig_ssl:
  "(case BuildOriginConfig None a of None \<Rightarrow> True | Some c \<Rightarrow> \<not> co_NoTLSVerify c) \<longleftrightarrow>
     map_of a ''cfgate.io/origin-ssl-verify'' \<noteq> Some ''false''"
  by (simp add: BuildOriginConfig_def Let_def override_NoTLSVerify zero_CdOriginRequestConfig_def)

text \<open>A route context reflects the route that was read. For a supported kind it is built from the
  object read with the typed client (whose \<open>TypeMeta\<close> is empty or right): kind and name are the
  route's and its hostnames are those of the spec or, for TCP and UDP, the annotation; a missing
  route gives no context and no error, any other failure an error. For other kinds nothing is read.\<close>

theorem route_context_reflects_route:
  assumes "run_state (typed_read k kind ref) w = (r, w')"
    and "\<And>route. r = Inr route \<Longrightarrow> cr_Kind route = [] \<or> cr_Kind route = kind"
  shows "(kind \<in> List.set route_kinds \<longrightarrow>
      (case r of
         Inl err \<Rightarrow> run_state (BuildRouteContext k kind ref) w =
           (if IsNotFound err then Inr None else Inl (wrapf ''fetching route'' err), w')
       | Inr route \<Rightarrow> \<exists>rc. run_state (BuildRouteContext k kind ref) w = (Inr (Some rc), w') \<and>
           rx_Kind rc = kind \<and> rx_Route rc = route \<and> rx_Name rc = om_Name (object_meta (cr_Object route)) \<and>
           GetHostnames rc = wanted_hostnames route)) \<and>
    (kind \<notin> List.set route_kinds \<longrightarrow> (\<exists>e. run_state (BuildRouteContext k kind ref) w = (Inl e, w)))"
proof (cases "kind \<in> List.set route_kinds")
  case True
  show ?thesis
  proof (cases r)
    case (Inr route)
    with assms(1) True have "inferRouteKind route = kind" by (auto dest: typed_read_kind)
    with assms(2) Inr True have "rx_Kind (NewRouteContext route) = kind"
      "GetHostnames (NewRouteContext route) = wanted_hostnames route" by (auto intro: context_of_route)
    moreover have "rx_Route (NewRouteContext route) = route"
      "rx_Name (NewRouteContext route) = om_Name (object_meta (cr_Object route))"
      by (simp_all add: NewRouteContext_def)
    ultimately show ?thesis using True Inr assms(1) by (auto simp: build_typed)
  qed (use True assms(1) in \<open>simp add: build_typed\<close>)
qed (simp add: route_kinds_def BuildRouteContext_def Let_def)

definition wit_route_reader :: "unit RouteReader" where
  "wit_route_reader = \<lparr>rd_GetHTTPRoute = (\<lambda>ref. ret (Inl (errorf ''x''))),
     rd_GetTCPRoute = (\<lambda>ref. ret (Inr ([], \<lparr>om_Namespace = ''ns'', om_Name = ''db'', om_Generation = 1,
       om_DeletionTimestamp = None, om_Finalizers = [],
       om_Annotations = [(''cfgate.io/hostname'', ''db.example.com'')]\<rparr>))),
     rd_GetUDPRoute = (\<lambda>ref. ret (Inl (errorf ''x''))), rd_GetGRPCRoute = (\<lambda>ref. ret (Inl (errorf ''x'')))\<rparr>"

theorem route_context_reflects_route_witness:
  "\<exists>rc. run_state (BuildRouteContext wit_route_reader ''TCPRoute'' \<lparr>nn_Namespace = ''ns'', nn_Name = ''db''\<rparr>) () =
     (Inr (Some rc), ()) \<and> GetHostnames rc = [''db.example.com'']"
proof -
  let ?ref = "\<lparr>nn_Namespace = ''ns'', nn_Name = ''db''\<rparr>"
  let ?route = "\<lparr>cr_Kind = [], cr_Object = TCPRouteObj (snd (projr (fst (run_state (rd_GetTCPRoute wit_route_reader ?ref) ()))))\<rparr>"
  have read: "run_state (typed_read wit_route_reader ''TCPRoute'' ?ref) () = (Inr ?route, ())"
    by (simp add: typed_read_def read_as_def wit_route_reader_def)
  have "wanted_hostnames ?route = [''db.example.com'']"
    by (simp add: wit_route_reader_def wanted_hostnames_def cr_Annotations_def)
  with route_context_reflects_route [OF read] show ?thesis by (auto simp: route_kinds_def)
qed

text \<open>The three readers of the annotation origin-ssl-verify agree on the documented values: when it
  is missing, true or false, the route context, the package annotations and the configuration for
  cloudflared (without defaults) decide alike whether the origin's certificate is verified. On any
  other value the route context stops verifying and cloudflared goes on, whatever the
  package annotations makes of it.\<close>

theorem ssl_verify_readers:
  fixes a p
  defines "v \<equiv> map_of a AnnotationOriginSSLVerify"
  defines "cloudflared_verifies \<equiv>
    (case BuildOriginConfig None a of None \<Rightarrow> True | Some c \<Rightarrow> \<not> co_NoTLSVerify c)"
  shows "(v \<in> {None, Some ''true'', Some ''false''} \<longrightarrow>
      roc_SSLVerify (parseOriginConfig a) = oc_SSLVerify (ParseOriginConfig a p) \<and>
      cloudflared_verifies = oc_SSLVerify (ParseOriginConfig a p)) \<and>
    (v \<notin> {None, Some ''true'', Some ''false''} \<longrightarrow>
      \<not> roc_SSLVerify (parseOriginConfig a) \<and> cloudflared_verifies)"
proof -
  have route: "roc_SSLVerify (parseOriginConfig a) \<longleftrightarrow> v = None \<or> v = Some ''true''"
    by (auto simp: parseOriginConfig_ssl v_def annotation_keys split: option.splits)
  have cloudflared: "cloudflared_verifies \<longleftrightarrow> v \<noteq> Some ''false''"
    unfolding cloudflared_verifies_def v_def by (simp add: BuildOriginConfig_ssl annotation_keys)
  have package: "oc_SSLVerify (ParseOriginConfig a p) = GetAnnotationBool a AnnotationOriginSSLVerify True"
    by (simp add: ParseOriginConfig_def Let_def)
  have "GetAnnotationBool a AnnotationOriginSSLVerify True \<longleftrightarrow> v \<noteq> Some ''false''"
    if "v \<in> {None, Some ''true'', Some ''false''}"
    using that by (auto simp: GetAnnotationBool_def GetAnnotation_def v_def Let_def lower_char_def)
  with route cloudflared package show ?thesis by auto
qed

theorem ssl_verify_readers_witness:
  "\<not> roc_SSLVerify (parseOriginConfig [(''cfgate.io/origin-ssl-verify'', ''yes'')])"
  using ssl_verify_readers [of "[(''cfgate.io/origin-ssl-verify'', ''yes'')]" "[]"] by (simp add: annotation_keys)

lemma yes_is_verified_by_one_reader:
  "oc_SSLVerify (ParseOriginConfig [(''cfgate.io/origin-ssl-verify'', ''yes'')] p)"
  by (simp add: ParseOriginConfig_def GetAnnotationBool_def GetAnnotation_def annotation_keys lower_char_def Let_def)

end
