(* ===== verification/Zone_Sync.thy ===== *)
theory Zone_Sync
  imports Dns_Controller
begin

text \<open>
  The record sync and the cleanup of the DNS controller (syncRecords and cleanupRecordsWithFallback in
  internal/controller/cloudflaredns_controller.go) as effects on the zones, over the contract
  \<open>dns_zone_api\<close> of the Cloudflare client: what the loop over the hostnames leaves behind, and what a
  deleted resource takes with it. Two facts carry the first: the record cache never answers for a
  hostname that was not synced yet, and syncing one hostname leaves the records of the others alone.
  The second adds the lookup of zones by name (\<open>zone_lookup\<close>, \<open>sdk_zones\<close>).
\<close>

section \<open>The record cache\<close>

lemma cache_key_inj:
  assumes "CHR '':'' \<notin> List.set z" "CHR '':'' \<notin> List.set z'" "cache_key z n t = cache_key z' n' t"
  shows "z = z' \<and> n = n'"
proof -
  have "takeWhile (\<lambda>x. x \<noteq> CHR '':'') (cache_key z n t) = z" "takeWhile (\<lambda>x. x \<noteq> CHR '':'') (cache_key z' n' t) = z'"
    using assms(1,2) by (auto simp: cache_key_def takeWhile_append)
  then have "z = z'" using assms(3) by simp
  with assms(3) show ?thesis by (simp add: cache_key_def)
qed

lemma cache_key_type: "t \<noteq> [] \<Longrightarrow> t' \<noteq> [] \<Longrightarrow> last t \<noteq> last t' \<Longrightarrow> cache_key z n t \<noteq> cache_key z' n' t'"
  unfolding cache_key_def by (metis last_append append_is_Nil_conv)

text \<open>An operation whose lookups all use one key leaves the answers for other keys as they are.\<close>

definition caches_only :: "string \<Rightarrow> ('w DNSService, 'a) io \<Rightarrow> bool" where
  "caches_only key m \<longleftrightarrow>
     (\<forall>s r s' z n t. run_state m s = (r, s') \<and> cache_key z n t \<noteq> key \<longrightarrow> cached s' z n t = cached s z n t)"

lemma caches_only_ret: "caches_only key (ret x)"
  by (simp add: caches_only_def)

lemma caches_only_api: "caches_only key (api m)"
  by (auto simp: caches_only_def api_def cached_def split: prod.splits)

lemma caches_only_bind:
  assumes "caches_only key m" "\<And>x. caches_only key (f x)"
  shows "caches_only key (do { x \<leftarrow> m; f x })"
  unfolding caches_only_def
proof (intro allI impI)
  fix s r s' z n t
  assume run: "run_state (do { x \<leftarrow> m; f x }) s = (r, s') \<and> cache_key z n t \<noteq> key"
  obtain x s1 where x: "run_state m s = (x, s1)" by (rule prod.exhaust)
  with run have "run_state (f x) s1 = (r, s')" by simp
  with x run assms show "cached s' z n t = cached s z n t" unfolding caches_only_def by metis
qed

lemma caches_only_find: "caches_only (cache_key z n t) (FindRecordByName c z n t)"
  unfolding caches_only_def
proof (intro allI impI)
  fix s r s' z' n' t'
  assume run: "run_state (FindRecordByName c z n t) s = (r, s') \<and> cache_key z' n' t' \<noteq> cache_key z n t"
  show "cached s' z' n' t' = cached s z' n' t'"
  proof (cases "cached s z n t")
    case None
    with run show ?thesis
      by (auto simp: FindRecordByName_miss Let_def cached_def cache_Get_def cache_Set_def
          split: prod.splits sum.splits option.splits)
  qed (use run in \<open>simp add: FindRecordByName_hit\<close>)
qed

lemma caches_only_cases:
  "(\<And>e. caches_only key (f e)) \<Longrightarrow> (\<And>x. caches_only key (g x)) \<Longrightarrow> caches_only key (case_sum f g r)"
  "caches_only key m \<Longrightarrow> (\<And>x. caches_only key (g x)) \<Longrightarrow> caches_only key (case_option m g opt)"
  "caches_only key m \<Longrightarrow> caches_only key m' \<Longrightarrow> caches_only key (if b then m else m')"
  by (cases r; cases opt; simp)+

lemmas caches_only_intros = caches_only_cases caches_only_bind caches_only_ret caches_only_api caches_only_find

lemma caches_only_create: "caches_only (cache_key z (dr_Name d) (dr_Type d)) (createRecord c z d)"
  unfolding createRecord_def by (intro caches_only_intros)

lemma caches_only_sync:
  "caches_only (cache_key z (dr_Name d) (dr_Type d)) (SyncRecordWithPolicy c z d ownerID policy)"
  unfolding SyncRecordWithPolicy_def updateRecord_def Let_def by (intro caches_only_intros caches_only_create)

lemma caches_only_ownership:
  "caches_only (cache_key z (op_Prefix p @ ''.'' @ op_Hostname p) ''TXT'') (CreateOwnershipRecord c z p)"
proof -
  let ?d = "BuildOwnershipTXTRecord (op_Hostname p) (op_OwnerID p) (op_Resource p) (op_Prefix p)"
  have "caches_only (cache_key z (dr_Name ?d) (dr_Type ?d)) (CreateOwnershipRecord c z p)"
    unfolding CreateOwnershipRecord_def Let_def by (intro caches_only_intros)
  then show ?thesis by (simp add: BuildOwnershipTXTRecord_def)
qed

section \<open>Zones\<close>

abbreviation find_record :: "string \<Rightarrow> string \<Rightarrow> DNSRecord list \<Rightarrow> DNSRecord option" where
  "find_record n t \<equiv> find (\<lambda>r. dr_Name r = n \<and> dr_Type r = t)"

lemma find_append_other: "\<not> P y \<Longrightarrow> find P (xs @ [y]) = find P xs"
  by (induction xs) auto

lemma find_replaced_other:
  assumes "distinct (map dr_ID rs)" "e \<in> List.set rs" "\<not> P e" "\<not> P y"
  shows "find P (map (\<lambda>q. if dr_ID q = dr_ID e then y else q) rs) = find P rs"
proof -
  have "q = e" if "q \<in> List.set rs" "dr_ID q = dr_ID e" for q
    using assms(1,2) that by (meson distinct_map inj_onD)
  then have "map (\<lambda>q. if dr_ID q = dr_ID e then y else q) rs = map (\<lambda>q. if q = e then y else q) rs"
    by (intro map_cong [OF refl]) auto
  moreover have "find P (map (\<lambda>q. if q = e then y else q) qs) = find P qs" for qs
    using assms(3,4) by (induction qs) auto
  ultimately show ?thesis by (simp only:)
qed

text \<open>A change of a zone that concerns the records of one name and type only.\<close>

definition local_change :: "string \<Rightarrow> string \<Rightarrow> DNSRecord list \<Rightarrow> DNSRecord list \<Rightarrow> bool" where
  "local_change n t rs rs' \<longleftrightarrow> (distinct (map dr_ID rs) \<longrightarrow> distinct (map dr_ID rs') \<and>
     (\<forall>n' t'. (n', t') \<noteq> (n, t) \<longrightarrow> find_record n' t' rs' = find_record n' t' rs))"

lemma local_change_refl [simp]: "local_change n t rs rs"
  by (simp add: local_change_def)

lemma local_change_append:
  "dr_Name y = n \<Longrightarrow> dr_Type y = t \<Longrightarrow> dr_ID y \<notin> dr_ID ` List.set rs \<Longrightarrow> local_change n t rs (rs @ [y])"
  by (auto simp: local_change_def intro!: find_append_other)

lemma local_change_replace:
  assumes "find_record n t rs = Some e" "dr_Name y = n" "dr_Type y = t" "dr_ID y = dr_ID e"
  shows "local_change n t rs (map (\<lambda>q. if dr_ID q = dr_ID e then y else q) rs)"
proof -
  have e: "e \<in> List.set rs" "dr_Name e = n" "dr_Type e = t"
    using assms(1) by (auto simp: find_Some_iff)
  have "map dr_ID (map (\<lambda>q. if dr_ID q = dr_ID e then y else q) rs) = map dr_ID rs"
    using assms(4) by simp
  with e assms(2,3) show ?thesis
    unfolding local_change_def by (auto intro!: find_replaced_other simp del: map_map)
qed

lemma sync_zone_local:
  assumes "sync_zone policy ownerID d rs x m rs'"
  shows "local_change (dr_Name d) (dr_Type d) rs rs'"
proof (cases "find_record (dr_Name d) (dr_Type d) rs")
  case None
  with assms show ?thesis by (auto simp: sync_zone_def same_data_def intro!: local_change_append)
next
  case (Some e)
  with assms show ?thesis
    by (auto simp: sync_zone_def same_data_def split: if_splits intro!: local_change_replace)
qed

text \<open>The reported record is the one in the zone, and needs no further change.\<close>

lemma sync_zone_reports:
  assumes "sync_zone policy ownerID d rs (Some x) m rs'"
  shows "find_record (dr_Name d) (dr_Type d) rs' = Some x \<and> \<not> sync_needed policy ownerID d x"
proof (cases "find_record (dr_Name d) (dr_Type d) rs")
  case None
  with assms show ?thesis by (auto simp: sync_zone_def same_data_def find_append_None sync_needed_def)
next
  case (Some e)
  with assms find_replaced [OF Some, of x] show ?thesis
    by (auto simp: sync_zone_def same_data_def sync_needed_def split: if_splits)
qed


section \<open>One hostname\<close>

text \<open>Events and the order of a range leave the zones alone.\<close>

locale zone_env = dns_zone_api c zone
  for c :: "'w Client" and zone +
  fixes env :: "'w DnsEnv"
  assumes event_zone: "run_state (de_Event env k a b x y) w = (u, w') \<Longrightarrow> zone w' = zone w"
    and range_zone: "run_state (de_Range env m) w = (m', w') \<Longrightarrow> zone w' = zone w \<and> mset m' = mset m"

text \<open>The state of the service inside the process, and its cached answers.\<close>

definition service :: "'w ProcState \<Rightarrow> 'w DNSService" where
  "service s = \<lparr>svc_cache = ps_svc s, svc_world = ps_world s\<rparr>"

lemma svc_service:
  "run_state (svc m) s = (r, s') \<Longrightarrow>
     \<exists>t. run_state m (service s) = (r, t) \<and> service s' = t"
  by (cases "run_state m (service s)") (auto simp: svc_def service_def)

lemma service_k8s: "run_state (k8s m) s = (r, s') \<Longrightarrow> run_state m (ps_world s) = (r, ps_world s') \<and> ps_svc s' = ps_svc s"
  by (auto simp: k8s_def split: prod.splits)

definition zone_of :: "'w DnsEnv \<Rightarrow> strmap \<Rightarrow> string \<rightharpoonup> string" where
  "zone_of env zones h = map_of zones (ExtractZoneFromHostname (de_etld1 env) h)"

definition unseen :: "'w DnsEnv \<Rightarrow> strmap \<Rightarrow> string \<Rightarrow> 'w ProcState \<Rightarrow> string \<Rightarrow> bool" where
  "unseen env zones pre s h \<longleftrightarrow>
     (\<forall>z. zone_of env zones h = Some z \<longrightarrow> cached (service s) z h ''CNAME'' = None \<and>
        cached (service s) z (pre @ ''.'' @ h) ''TXT'' = None)"

text \<open>What a status entry says of the zone: the record it describes is there and needs no change.\<close>

definition settled ::
  "'w DnsEnv \<Rightarrow> CloudflareDNS \<Rightarrow> string \<Rightarrow> strmap \<Rightarrow> (string \<Rightarrow> DNSRecord list) \<Rightarrow> string \<Rightarrow> HostnameConfig \<Rightarrow>
   DNSRecordSyncStatus \<Rightarrow> bool" where
  "settled env dns target zones Z h cfg st \<longleftrightarrow>
     (\<exists>z e. zone_of env zones h = Some z \<and> find_record h ''CNAME'' (Z z) = Some e \<and> st = synced_status h z e \<and>
        \<not> sync_needed (sync_policy dns) (owner_id dns) (desired_record dns target h cfg) e)"

lemma desired_record_key [simp]:
  "dr_Name (desired_record dns target h cfg) = h" "dr_Type (desired_record dns target h cfg) = ''CNAME''"
  "sendable (desired_record dns target h cfg)"
  by (simp_all add: desired_record_def BuildCNAMERecord_def sendable_def Let_def split: prod.split)

context zone_env
begin

lemma ownership_zone:
  assumes "cached s z (op_Prefix p @ ''.'' @ op_Hostname p) ''TXT'' = None"
    and "run_state (CreateOwnershipRecord c z p) s = (r, s')"
  shows "(\<forall>z'. z' \<noteq> z \<longrightarrow> zone (svc_world s') z' = zone (svc_world s) z') \<and>
    local_change (op_Prefix p @ ''.'' @ op_Hostname p) ''TXT'' (zone (svc_world s) z) (zone (svc_world s') z)"
proof -
  let ?d = "BuildOwnershipTXTRecord (op_Hostname p) (op_OwnerID p) (op_Resource p) (op_Prefix p)"
  have d: "dr_Name ?d = op_Prefix p @ ''.'' @ op_Hostname p" "dr_Type ?d = ''TXT''" "sendable ?d"
    by (simp_all add: BuildOwnershipTXTRecord_def sendable_def)
  obtain f s1 where f: "run_state (FindRecordByName c z (dr_Name ?d) (dr_Type ?d)) s = (f, s1)"
    by (rule prod.exhaust)
  have z1: "zone (svc_world s1) = zone (svc_world s)"
    "\<And>x. f = Inr x \<Longrightarrow> x = find_record (dr_Name ?d) ''TXT'' (zone (svc_world s) z)"
    using FindRecordByName_fresh [OF _ f] assms(1) d by (auto simp: lookup_zone_def)
  note run = assms(2) f
  show ?thesis
  proof (cases f)
    case (Inl e)
    with run z1 show ?thesis by (simp add: CreateOwnershipRecord_def Let_def)
  next
    case (Inr x)
    show ?thesis
    proof (cases x)
      case None
      obtain q w where q: "run_state (CreateDNSRecord c z ?d) (svc_world s1) = (q, w)" by (rule prod.exhaust)
      have "zone (svc_world s') = zone w"
        using run q Inr None
        by (cases q) (auto simp: CreateOwnershipRecord_def Let_def api_def split: if_splits)
      with create [OF d(3) q] z1 d show ?thesis
        by (cases q) (auto simp: same_data_def intro!: local_change_append)
    next
      case (Some e)
      obtain q w where q: "run_state (UpdateDNSRecord c z (dr_ID e) ?d) (svc_world s1) = (q, w)" by (rule prod.exhaust)
      have "zone (svc_world s') = zone w \<or> zone (svc_world s') = zone (svc_world s1)"
        using run q Inr Some
        by (cases q) (auto simp: CreateOwnershipRecord_def Let_def api_def split: if_splits)
      with update [OF d(3) q] z1 d Inr Some show ?thesis
        by (cases q) (auto simp: same_data_def intro!: local_change_replace)
    qed
  qed
qed

text \<open>A step that looks up and changes records of one name and type in one zone.\<close>

definition touches :: "string \<Rightarrow> string \<Rightarrow> string \<Rightarrow> 'w ProcState \<Rightarrow> 'w ProcState \<Rightarrow> bool" where
  "touches z n t s s' \<longleftrightarrow>
     (\<forall>z' n' t'. cache_key z' n' t' \<noteq> cache_key z n t \<longrightarrow>
        cached (service s') z' n' t' = cached (service s) z' n' t') \<and>
     (\<forall>z'. z' \<noteq> z \<longrightarrow> zone (ps_world s') z' = zone (ps_world s) z') \<and>
     local_change n t (zone (ps_world s) z) (zone (ps_world s') z)"

lemma touches_quiet:
  "ps_svc s' = ps_svc s \<Longrightarrow> zone (ps_world s') = zone (ps_world s) \<Longrightarrow> touches z n t s s'"
  by (simp add: touches_def service_def cached_def)

lemma touches_sync:
  assumes "run_state (svc (SyncRecordWithPolicy c z d ownerID policy)) s = (r, s')" "sendable d"
    and "cached (service s) z (dr_Name d) (dr_Type d) = None"
  shows "touches z (dr_Name d) (dr_Type d) s s' \<and>
    (\<forall>x m. r = Inr (Some x, m) \<longrightarrow> find_record (dr_Name d) (dr_Type d) (zone (ps_world s') z) = Some x \<and>
       \<not> sync_needed policy ownerID d x)"
proof -
  obtain t where t: "run_state (SyncRecordWithPolicy c z d ownerID policy) (service s) = (r, t)" "service s' = t"
    using svc_service [OF assms(1)] by blast
  have w: "svc_world (service s) = ps_world s" "svc_world t = ps_world s'"
    using t(2) by (auto simp: service_def)
  note zone = SyncRecordWithPolicy_zone [OF assms(3,2) t(1), unfolded w]
  have "local_change (dr_Name d) (dr_Type d) (zone (ps_world s) z) (zone (ps_world s') z)"
    using zone by (auto split: sum.splits dest: sync_zone_local)
  moreover have "\<forall>z' n' t'. cache_key z' n' t' \<noteq> cache_key z (dr_Name d) (dr_Type d) \<longrightarrow>
      cached (service s') z' n' t' = cached (service s) z' n' t'"
    using caches_only_sync t unfolding caches_only_def by blast
  ultimately show ?thesis using zone by (auto simp: touches_def dest: sync_zone_reports)
qed

lemma touches_ownership:
  assumes "run_state (svc (CreateOwnershipRecord c z p)) s = (r, s')"
    and "cached (service s) z (op_Prefix p @ ''.'' @ op_Hostname p) ''TXT'' = None"
  shows "touches z (op_Prefix p @ ''.'' @ op_Hostname p) ''TXT'' s s'"
proof -
  obtain t where t: "run_state (CreateOwnershipRecord c z p) (service s) = (r, t)" "service s' = t"
    using svc_service [OF assms(1)] by blast
  have w: "svc_world (service s) = ps_world s" "svc_world t = ps_world s'"
    using t(2) by (auto simp: service_def)
  have "\<forall>z' n' t'. cache_key z' n' t' \<noteq> cache_key z (op_Prefix p @ ''.'' @ op_Hostname p) ''TXT'' \<longrightarrow>
      cached (service s') z' n' t' = cached (service s) z' n' t'"
    using caches_only_ownership t unfolding caches_only_def by blast
  with ownership_zone [OF assms(2) t(1), unfolded w] show ?thesis by (simp add: touches_def)
qed

text \<open>The records of other names survive both steps of a hostname.\<close>

definition spares_others :: "string \<Rightarrow> 'w ProcState \<Rightarrow> 'w ProcState \<Rightarrow> bool" where
  "spares_others h s s' \<longleftrightarrow>
     (\<forall>z. distinct (map dr_ID (zone (ps_world s) z)) \<longrightarrow> distinct (map dr_ID (zone (ps_world s') z)) \<and>
        (\<forall>n. n \<noteq> h \<longrightarrow> find_record n ''CNAME'' (zone (ps_world s') z) = find_record n ''CNAME'' (zone (ps_world s) z)))"

lemma touches_spares:
  assumes "touches z n t s s'" "n = h \<or> t = ''TXT''"
  shows "spares_others h s s'"
  unfolding spares_others_def
proof (intro allI impI)
  fix z'
  assume d: "distinct (map dr_ID (zone (ps_world s) z'))"
  show "distinct (map dr_ID (zone (ps_world s') z')) \<and>
    (\<forall>n. n \<noteq> h \<longrightarrow> find_record n ''CNAME'' (zone (ps_world s') z') = find_record n ''CNAME'' (zone (ps_world s) z'))"
  proof (cases "z' = z")
    case True
    with assms(1) d have "distinct (map dr_ID (zone (ps_world s') z'))"
      and "\<And>n' t'. (n', t') \<noteq> (n, t) \<Longrightarrow>
        find_record n' t' (zone (ps_world s') z') = find_record n' t' (zone (ps_world s) z')"
      by (simp_all add: touches_def local_change_def)
    moreover have "(n', ''CNAME'') \<noteq> (n, t)" if "n' \<noteq> h" for n' using assms(2) that by auto
    ultimately show ?thesis by blast
  next
    case False
    with assms(1) d show ?thesis by (simp add: touches_def)
  qed
qed

lemma spares_trans: "spares_others h s s1 \<Longrightarrow> spares_others h s1 s2 \<Longrightarrow> spares_others h s s2"
  unfolding spares_others_def by simp

text \<open>Answers cached for other names and types survive as well.\<close>

definition keeps_cache :: "string \<Rightarrow> string \<Rightarrow> string \<Rightarrow> 'w ProcState \<Rightarrow> 'w ProcState \<Rightarrow> bool" where
  "keeps_cache z pre h s s' \<longleftrightarrow>
     (\<forall>z' n t. cache_key z' n t \<notin> {cache_key z h ''CNAME'', cache_key z (pre @ ''.'' @ h) ''TXT''} \<longrightarrow>
        cached (service s') z' n t = cached (service s) z' n t)"

lemma touches_keeps_cache:
  "touches z n t s s' \<Longrightarrow> (n, t) \<in> {(h, ''CNAME''), (pre @ ''.'' @ h, ''TXT'')} \<Longrightarrow> keeps_cache z pre h s s'"
  by (auto simp: touches_def keeps_cache_def)

lemma keeps_cache_trans: "keeps_cache z pre h s s1 \<Longrightarrow> keeps_cache z pre h s1 s2 \<Longrightarrow> keeps_cache z pre h s s2"
  by (simp add: keeps_cache_def)

text \<open>The ownership record and the event after a record was synced.\<close>

lemma ownership_step:
  assumes "run_state (if shouldCreateTXTRecords dns then svc (CreateOwnershipRecord c z p) else ret (Inr ())) s = (r, s')"
    and "cached (service s) z (op_Prefix p @ ''.'' @ op_Hostname p) ''TXT'' = None"
  shows "touches z (op_Prefix p @ ''.'' @ op_Hostname p) ''TXT'' s s'"
proof (cases "shouldCreateTXTRecords dns")
  case True
  with assms(1) have "run_state (svc (CreateOwnershipRecord c z p)) s = (r, s')" by (simp only: if_True)
  then show ?thesis by (rule touches_ownership [OF _ assms(2)])
qed (use assms(1) in \<open>simp add: touches_quiet\<close>)

lemma event_step:
  assumes "run_state (if m then k8s (de_Event env k a b x y) else ret ()) s = (u, s')"
  shows "ps_svc s' = ps_svc s \<and> zone (ps_world s') = zone (ps_world s)"
  using assms by (auto split: if_splits prod.splits dest: event_zone)

lemma sync_hostname_effect:
  assumes run: "run_state (sync_hostname env c dns target zones h cfg) s = (Done (st, ok), s')"
    and z: "zone_of env zones h = Some z" and unseen: "unseen env zones (ownership_prefix dns) s h"
  shows "spares_others h s s' \<and> keeps_cache z (ownership_prefix dns) h s s' \<and>
    (ok \<and> (\<forall>z. distinct (map dr_ID (zone (ps_world s) z))) \<longrightarrow>
      settled env dns target zones (zone (ps_world s')) h cfg st)"
proof -
  let ?d = "desired_record dns target h cfg"
  let ?p = "\<lparr>op_Hostname = h, op_OwnerID = owner_id dns,
    op_Resource = ''CloudflareDNS/'' @ dns_ns dns @ ''/'' @ dns_name dns, op_Prefix = ownership_prefix dns\<rparr>"
  let ?txt = "ownership_prefix dns @ ''.'' @ h"
  have fresh: "cached (service s) z h ''CNAME'' = None" "cached (service s) z ?txt ''TXT'' = None"
    using unseen z by (auto simp: unseen_def)
  obtain r s1 where r: "run_state (svc (SyncRecordWithPolicy c z ?d (owner_id dns) (sync_policy dns))) s = (r, s1)"
    by (rule prod.exhaust)
  have t1: "touches z h ''CNAME'' s s1"
    and found: "\<And>x m. r = Inr (Some x, m) \<Longrightarrow> find_record h ''CNAME'' (zone (ps_world s1) z) = Some x \<and>
      \<not> sync_needed (sync_policy dns) (owner_id dns) ?d x"
    using touches_sync [OF r] fresh(1) by auto
  have 1: "spares_others h s s1" "keeps_cache z (ownership_prefix dns) h s s1"
    using touches_spares [OF t1] touches_keeps_cache [OF t1] by simp_all
  have z': "map_of zones (ExtractZoneFromHostname (de_etld1 env) h) = Some z" using z by (simp add: zone_of_def)
  show ?thesis
  proof (cases r)
    case (Inl err)
    with run r z' have "s' = s1" "\<not> ok" by (auto simp: sync_hostname_def)
    with 1 show ?thesis by simp
  next
    case (Inr p)
    obtain rcd m where p: "p = (rcd, m)" by (rule prod.exhaust)
    obtain o2 s2 where o: "run_state (if shouldCreateTXTRecords dns then svc (CreateOwnershipRecord c z ?p)
        else ret (Inr ())) s1 = (o2, s2)" by (rule prod.exhaust)
    have "cached (service s1) z ?txt ''TXT'' = None"
      using t1 fresh(2) cache_key_type [of "''TXT''" "''CNAME''" z ?txt z h] by (simp add: touches_def)
    then have t2: "touches z ?txt ''TXT'' s1 s2" using ownership_step [OF o] by simp
    have 2: "spares_others h s1 s2" "keeps_cache z (ownership_prefix dns) h s1 s2"
      using touches_spares [OF t2] touches_keeps_cache [OF t2] by simp_all
    obtain x where x: "rcd = Some x" using run r z' Inr p o by (cases rcd) (auto simp: sync_hostname_def)
    obtain u s3 where e: "run_state (if m then k8s (de_Event env (dns_key dns) ''Normal'' ''RecordSynced'' ''Sync''
        (''DNS record synced: '' @ h)) else ret ()) s2 = (u, s3)" by (rule prod.exhaust)
    have s': "s' = s3" "st = synced_status h z x" using run r z' Inr p o x e by (auto simp: sync_hostname_def)
    note ev = event_step [OF e]
    have t3: "touches z h ''CNAME'' s2 s'" using ev s'(1) by (simp add: touches_quiet)
    have 3: "spares_others h s2 s'" "keeps_cache z (ownership_prefix dns) h s2 s'"
      using touches_spares [OF t3] touches_keeps_cache [OF t3] by simp_all
    have "settled env dns target zones (zone (ps_world s')) h cfg st" if "\<forall>z. distinct (map dr_ID (zone (ps_world s) z))"
    proof -
      have "find_record h ''CNAME'' (zone (ps_world s2) z) = find_record h ''CNAME'' (zone (ps_world s1) z)"
        using t2 t1 that by (simp add: touches_def local_change_def)
      with found [of x m] Inr p x ev s' z show ?thesis by (auto simp: settled_def)
    qed
    with 1 2 3 show ?thesis using spares_trans keeps_cache_trans by blast
  qed
qed

lemma sync_hostname_no_zone:
  "run_state (sync_hostname env c dns target zones h cfg) s = (Done (st, ok), s') \<Longrightarrow>
     zone_of env zones h = None \<Longrightarrow> s' = s \<and> \<not> ok"
  by (auto simp: sync_hostname_def zone_of_def Let_def)

section \<open>The loop\<close>

lemma unseen_kept:
  assumes "keeps_cache z pre h s s'" "zone_of env zones h = Some z" "h' \<noteq> h" "unseen env zones pre s h'"
    and "\<forall>z \<in> snd ` List.set zones. CHR '':'' \<notin> List.set z"
  shows "unseen env zones pre s' h'"
  unfolding unseen_def
proof (intro allI impI)
  fix z'
  assume z': "zone_of env zones h' = Some z'"
  have plain: "CHR '':'' \<notin> List.set z" "CHR '':'' \<notin> List.set z'"
    using assms(2,5) z' by (force simp: zone_of_def dest: map_of_SomeD)+
  have "cache_key z' h' ''CNAME'' \<noteq> cache_key z h ''CNAME''"
    "cache_key z' (pre @ ''.'' @ h') ''TXT'' \<noteq> cache_key z (pre @ ''.'' @ h) ''TXT''"
    using cache_key_inj [OF plain(2,1)] assms(3) by blast+
  moreover have "cache_key z' h' ''CNAME'' \<noteq> cache_key z (pre @ ''.'' @ h) ''TXT''"
    "cache_key z' (pre @ ''.'' @ h') ''TXT'' \<noteq> cache_key z h ''CNAME''"
    by (simp_all add: cache_key_type)
  ultimately show "cached (service s') z' h' ''CNAME'' = None \<and> cached (service s') z' (pre @ ''.'' @ h') ''TXT'' = None"
    using assms(1,4) z' by (simp add: keeps_cache_def unseen_def)
qed

text \<open>One iteration: the zones keep distinct identifiers and the records of other names, the rest of
  the hostnames stays unseen, and a synced hostname is settled.\<close>

lemma sync_hostname_step:
  assumes run: "run_state (sync_hostname env c dns target zones h cfg) s = (Done (st, ok), s')"
    and "\<forall>h \<in> H. unseen env zones (ownership_prefix dns) s h" "h \<in> H"
    and ids: "\<forall>z. distinct (map dr_ID (zone (ps_world s) z))"
    and plain: "\<forall>z \<in> snd ` List.set zones. CHR '':'' \<notin> List.set z"
  shows "(\<forall>z. distinct (map dr_ID (zone (ps_world s') z))) \<and>
    (\<forall>z n. n \<noteq> h \<longrightarrow> find_record n ''CNAME'' (zone (ps_world s') z) = find_record n ''CNAME'' (zone (ps_world s) z)) \<and>
    (\<forall>h' \<in> H - {h}. unseen env zones (ownership_prefix dns) s' h') \<and>
    (ok \<longrightarrow> settled env dns target zones (zone (ps_world s')) h cfg st)"
proof (cases "zone_of env zones h")
  case None
  with sync_hostname_no_zone [OF run] assms(2) ids show ?thesis by simp
next
  case (Some z)
  have "unseen env zones (ownership_prefix dns) s h" using assms(2,3) by blast
  note effect = sync_hostname_effect [OF run Some this]
  then have "\<forall>h' \<in> H - {h}. unseen env zones (ownership_prefix dns) s' h'"
    using unseen_kept [OF _ Some _ _ plain] assms(2) by blast
  moreover have "(\<forall>z. distinct (map dr_ID (zone (ps_world s') z))) \<and>
    (\<forall>z n. n \<noteq> h \<longrightarrow> find_record n ''CNAME'' (zone (ps_world s') z) = find_record n ''CNAME'' (zone (ps_world s) z))"
    using effect ids by (simp add: spares_others_def)
  ultimately show ?thesis using effect ids by blast
qed

lemma settled_cong:
  "settled env dns target zones Z h cfg st \<Longrightarrow>
     (\<And>z. find_record h ''CNAME'' (Z' z) = find_record h ''CNAME'' (Z z)) \<Longrightarrow> settled env dns target zones Z' h cfg st"
  by (simp add: settled_def)

lemma sync_loop_settles:
  assumes "run_state (sync_loop env c dns target zones hs sts sy fl) s = (Done (sts', sy', fl'), s')"
    and "distinct (map fst hs)" "\<forall>h \<in> fst ` List.set hs. unseen env zones (ownership_prefix dns) s h"
    and "\<forall>z. distinct (map dr_ID (zone (ps_world s) z))"
    and plain: "\<forall>z \<in> snd ` List.set zones. CHR '':'' \<notin> List.set z"
  shows "\<exists>new. sts' = sts @ new \<and>
    (\<forall>z n. n \<notin> fst ` List.set hs \<longrightarrow>
       find_record n ''CNAME'' (zone (ps_world s') z) = find_record n ''CNAME'' (zone (ps_world s) z)) \<and>
    list_all2 (\<lambda>(h, cfg) st. rs_Hostname st = h \<and>
       (rs_Status st = ''Synced'' \<longrightarrow> settled env dns target zones (zone (ps_world s')) h cfg st)) hs new"
  using assms(1-4)
proof (induction hs arbitrary: sts sy fl s)
  case Nil
  then show ?case by auto
next
  case (Cons p rest)
  obtain h cfg where p: "p = (h, cfg)" by (rule prod.exhaust)
  obtain x s1 where x: "run_state (sync_hostname env c dns target zones h cfg) s = (x, s1)" by (rule prod.exhaust)
  with Cons.prems(1) p obtain st ok where d: "x = Done (st, ok)" by (cases x) auto
  have run: "run_state (sync_loop env c dns target zones rest (sts @ [st])
      (if ok then sy + 1 else sy) (if ok then fl else fl + 1)) s1 = (Done (sts', sy', fl'), s')"
    using Cons.prems(1) p x d by simp
  have h: "h \<notin> fst ` List.set rest" "distinct (map fst rest)" using Cons.prems(2) p by auto
  have step: "\<forall>z. distinct (map dr_ID (zone (ps_world s1) z))"
    "\<forall>z n. n \<noteq> h \<longrightarrow> find_record n ''CNAME'' (zone (ps_world s1) z) = find_record n ''CNAME'' (zone (ps_world s) z)"
    "\<forall>h' \<in> insert h (fst ` List.set rest) - {h}. unseen env zones (ownership_prefix dns) s1 h'"
    "ok \<longrightarrow> settled env dns target zones (zone (ps_world s1)) h cfg st"
    using sync_hostname_step [OF x [unfolded d] _ insertI1, of "fst ` List.set rest"] Cons.prems(3,4) plain p by simp_all
  then have "\<forall>h' \<in> fst ` List.set rest. unseen env zones (ownership_prefix dns) s1 h'" using h(1) by blast
  from Cons.IH [OF run h(2) this step(1)] obtain new where new: "sts' = (sts @ [st]) @ new"
    "\<forall>z n. n \<notin> fst ` List.set rest \<longrightarrow>
       find_record n ''CNAME'' (zone (ps_world s') z) = find_record n ''CNAME'' (zone (ps_world s1) z)"
    "list_all2 (\<lambda>(h, cfg) st. rs_Hostname st = h \<and>
       (rs_Status st = ''Synced'' \<longrightarrow> settled env dns target zones (zone (ps_world s')) h cfg st)) rest new"
    by blast
  have "rs_Hostname st = h" "rs_Status st = ''Synced'' \<longrightarrow> ok"
    using sync_hostname_status [OF x [unfolded d]] by auto
  moreover have "ok \<longrightarrow> settled env dns target zones (zone (ps_world s')) h cfg st"
    using step(4) new(2) h(1) by (auto intro: settled_cong)
  ultimately show ?case
    using new step(2) p by (intro exI [of _ "st # new"]) simp
qed

lemma no_orphans:
  "\<forall>prev \<in> List.set prevs. rs_Hostname prev \<in> List.set keys \<Longrightarrow>
     run_state (deleteOrphaned_loop env c dns keys zones own pre prevs) s = ((), s)"
  by (induction prevs) auto

lemma syncRecords_settles:
  assumes "ps_svc s = Some NewDNSRecordCache" "distinct (map fst hs)"
    and ids: "\<forall>z. distinct (map dr_ID (zone (ps_world s) z))"
    and plain: "\<forall>z \<in> snd ` List.set zones. CHR '':'' \<notin> List.set z"
    and wanted: "\<forall>prev \<in> List.set (dst_Records (cdns_Status dns)). rs_Hostname prev \<in> fst ` List.set hs"
    and run: "run_state (syncRecords env c dns target hs zones) s = (Done r, s')"
  shows "\<exists>dns' order. r = Inr dns' \<and> mset order = mset hs \<and>
    list_all2 (\<lambda>(h, cfg) st. rs_Hostname st = h \<and>
       (rs_Status st = ''Synced'' \<longrightarrow> settled env dns target zones (zone (ps_world s')) h cfg st))
      order (dst_Records (cdns_Status dns'))"
proof -
  obtain order s1 where o: "run_state (k8s (de_Range env hs)) s = (order, s1)" by (rule prod.exhaust)
  have s1: "zone (ps_world s1) = zone (ps_world s)" "ps_svc s1 = ps_svc s" "mset order = mset hs"
    using service_k8s [OF o] range_zone by auto
  then have names: "fst ` List.set order = fst ` List.set hs" "distinct (map fst order)"
    using assms(2) by (metis mset_eq_setD, metis mset_map mset_eq_imp_distinct_iff)
  obtain x s2 where x: "run_state (sync_loop env c dns target zones order [] 0 0) s1 = (x, s2)" by (rule prod.exhaust)
  with o run obtain sts sy fl where d: "x = Done (sts, sy, fl)"
    by (cases x) (auto simp: syncRecords_def simp del: run_k8s)
  have "cached (service s1) z n t = None" for z n t
    using s1(2) assms(1) by (simp add: cached_def service_def NewDNSRecordCache_def cache_Get_def)
  then have "\<forall>h \<in> fst ` List.set order. unseen env zones (ownership_prefix dns) s1 h" by (simp add: unseen_def)
  from sync_loop_settles [OF x [unfolded d] names(2) this _ plain] s1(1) ids
  have settled: "list_all2 (\<lambda>(h, cfg) st. rs_Hostname st = h \<and>
      (rs_Status st = ''Synced'' \<longrightarrow> settled env dns target zones (zone (ps_world s2)) h cfg st)) order sts" by simp
  obtain keys s3 where k: "run_state (hostnameKeys env hs) s2 = (keys, s3)" by (rule prod.exhaust)
  then have s3: "zone (ps_world s3) = zone (ps_world s2)" "List.set keys = fst ` List.set hs"
    using range_zone by (auto simp: hostnameKeys_def split: prod.splits dest!: mset_eq_setD)
      (metis image_eqI fst_conv mset_eq_setD)+
  have "run_state (deleteOrphanedRecords env c dns keys zones (owner_id dns) (ownership_prefix dns)) s3 = (Inr (), s3)"
    using no_orphans [of "dst_Records (cdns_Status dns)" keys] wanted s3(2) by (simp add: deleteOrphanedRecords_def)
  then have "zone (ps_world s') = zone (ps_world s2) \<and> (\<exists>dns'. r = Inr dns' \<and> dst_Records (cdns_Status dns') = sts)"
    using run o x d k s3(1) by (auto simp: syncRecords_def simp del: run_k8s split: if_splits)
  with settled s1(3) show ?thesis by auto
qed

end

section \<open>Cleaning up\<close>

text \<open>The records owned by a resource are deleted when it goes. \<open>reliable\<close>: finding a zone and listing its
  records never fail, nor does the deletion of a record that is there.\<close>

definition reliable :: "'w Client \<Rightarrow> ('w \<Rightarrow> string \<Rightarrow> DNSRecord list) \<Rightarrow> bool" where
  "reliable c Z \<longleftrightarrow> (\<forall>n w. \<exists>z w'. run_state (GetZoneByName c n) w = (Inr z, w')) \<and>
     (\<forall>z w. \<exists>rs w'. run_state (ListDNSRecords c z) w = (Inr rs, w')) \<and>
     (\<forall>z i w. i \<in> dr_ID ` List.set (Z w z) \<longrightarrow> (\<exists>w'. run_state (DeleteDNSRecord c z i) w = (Inr (), w')))"

text \<open>The records with identifiers of a set are gone from one zone.\<close>

definition deleted :: "string \<Rightarrow> string set \<Rightarrow> (string \<Rightarrow> DNSRecord list) \<Rightarrow> (string \<Rightarrow> DNSRecord list) \<Rightarrow> bool" where
  "deleted z I Z Z' \<longleftrightarrow> Z' = Z(z := filter (\<lambda>y. dr_ID y \<notin> I) (Z z))"

lemma deleted_none [simp]: "deleted z {} Z Z"
  by (simp add: deleted_def)

lemma deleted_trans: "deleted z I Z Z1 \<Longrightarrow> deleted z J Z1 Z' \<Longrightarrow> deleted z (I \<union> J) Z Z'"
  by (simp add: deleted_def conj_commute)

context dns_zone_api
begin

lemma delete_step:
  assumes "run_state (svc (DeleteRecord c z i)) s = (r, s')"
  shows "\<exists>I \<subseteq> {i}. deleted z I (zone (ps_world s)) (zone (ps_world s')) \<and> (reliable c zone \<longrightarrow> I = {i})"
proof -
  obtain q w where q: "run_state (DeleteDNSRecord c z i) (ps_world s) = (q, w)" by (rule prod.exhaust)
  have w: "ps_world s' = w"
    using assms q by (auto simp: DeleteRecord_def split: sum.splits if_splits)
  show ?thesis
  proof (cases q)
    case (Inl e)
    then have same: "zone (ps_world s') = zone (ps_world s)" using delete [OF q] w by simp
    show ?thesis
    proof (cases "i \<in> dr_ID ` List.set (zone (ps_world s) z)")
      case True
      with Inl q have "\<not> reliable c zone" by (fastforce simp: reliable_def)
      with same show ?thesis by (intro exI [of _ "{}"]) simp
    next
      case False
      then have "filter (\<lambda>y. dr_ID y \<notin> {i}) (zone (ps_world s) z) = zone (ps_world s) z"
        by (auto intro!: filter_True)
      with same show ?thesis by (intro exI [of _ "{i}"]) (simp add: deleted_def)
    qed
  next
    case (Inr u)
    with delete [OF q] w show ?thesis by (intro exI [of _ "{i}"]) (simp add: deleted_def)
  qed
qed

lemma cleanup_records_deleted:
  assumes "run_state (cleanup_records c dns ownerID z rs) s = (u, s')" "\<forall>r \<in> List.set rs. IsOwnedByCfgate (Some r) ownerID"
  shows "\<exists>I \<subseteq> dr_ID ` List.set rs. deleted z I (zone (ps_world s)) (zone (ps_world s')) \<and>
    (reliable c zone \<longrightarrow> I = dr_ID ` List.set rs)"
  using assms
proof (induction rs arbitrary: s)
  case Nil
  then show ?case by simp
next
  case (Cons r rs)
  obtain x s1 where x: "run_state (svc (DeleteRecord c z (dr_ID r))) s = (x, s1)" by (rule prod.exhaust)
  have run: "run_state (cleanup_records c dns ownerID z rs) s1 = (u, s')"
    using Cons.prems x by (simp add: Let_def del: run_svc)
  obtain I where I: "I \<subseteq> {dr_ID r}" "deleted z I (zone (ps_world s)) (zone (ps_world s1))" "reliable c zone \<longrightarrow> I = {dr_ID r}"
    using delete_step [OF x] by blast
  obtain J where J: "J \<subseteq> dr_ID ` List.set rs" "deleted z J (zone (ps_world s1)) (zone (ps_world s'))"
    "reliable c zone \<longrightarrow> J = dr_ID ` List.set rs" using Cons.IH [OF run] Cons.prems(2) by auto
  have "I \<union> J \<subseteq> dr_ID ` List.set (r # rs)" "reliable c zone \<longrightarrow> I \<union> J = dr_ID ` List.set (r # rs)" using I J by auto
  with deleted_trans [OF I(2) J(2)] show ?case by blast
qed

text \<open>Cleaning a zone with distinct identifiers keeps what is not owned and, with a reliable API,
  nothing else.\<close>

definition cleaned :: "string \<Rightarrow> string \<Rightarrow> 'w \<Rightarrow> 'w \<Rightarrow> bool" where
  "cleaned ownerID z w w' \<longleftrightarrow>
     (\<forall>z'. z' \<noteq> z \<longrightarrow> zone w' z' = zone w z') \<and> distinct (map dr_ID (zone w' z)) \<and>
     filter (\<lambda>r. \<not> IsOwnedByCfgate (Some r) ownerID) (zone w' z) =
       filter (\<lambda>r. \<not> IsOwnedByCfgate (Some r) ownerID) (zone w z) \<and>
     (reliable c zone \<longrightarrow> zone w' z = filter (\<lambda>r. \<not> IsOwnedByCfgate (Some r) ownerID) (zone w z))"

lemma deleted_cleaned:
  assumes "deleted z I (zone w) (zone w')" "distinct (map dr_ID (zone w z))"
    and "I \<subseteq> dr_ID ` {r \<in> List.set (zone w z). IsOwnedByCfgate (Some r) ownerID}"
    and "reliable c zone \<longrightarrow> I = dr_ID ` {r \<in> List.set (zone w z). IsOwnedByCfgate (Some r) ownerID}"
  shows "cleaned ownerID z w w'"
proof -
  have owned: "IsOwnedByCfgate (Some r) ownerID" if r: "r \<in> List.set (zone w z)" "dr_ID r \<in> I" for r
  proof -
    obtain q where "q \<in> List.set (zone w z)" "IsOwnedByCfgate (Some q) ownerID" "dr_ID q = dr_ID r"
      using assms(3) r(2) by auto
    with assms(2) r(1) show ?thesis by (metis distinct_map inj_onD)
  qed
  have z: "zone w' z = filter (\<lambda>y. dr_ID y \<notin> I) (zone w z)" "\<forall>z'. z' \<noteq> z \<longrightarrow> zone w' z' = zone w z'"
    using assms(1) by (simp_all add: deleted_def)
  have "filter (\<lambda>r. \<not> IsOwnedByCfgate (Some r) ownerID) (zone w' z) =
      filter (\<lambda>r. \<not> IsOwnedByCfgate (Some r) ownerID) (zone w z)"
    unfolding z(1) filter_filter using owned by (intro filter_cong) auto
  moreover have "zone w' z = filter (\<lambda>r. \<not> IsOwnedByCfgate (Some r) ownerID) (zone w z)" if "reliable c zone"
    unfolding z(1) using owned assms(4) that by (intro filter_cong) auto
  ultimately show ?thesis
    using z assms(2) by (auto simp: cleaned_def intro: distinct_map_filter)
qed

lemma cleanup_zone_deleted:
  assumes "run_state (cleanup_zone c dns ownerID z) s = (u, s')"
  shows "\<exists>I \<subseteq> dr_ID ` {r \<in> List.set (zone (ps_world s) z). IsOwnedByCfgate (Some r) ownerID}.
    deleted z I (zone (ps_world s)) (zone (ps_world s')) \<and>
    (reliable c zone \<longrightarrow> I = dr_ID ` {r \<in> List.set (zone (ps_world s) z). IsOwnedByCfgate (Some r) ownerID})"
proof -
  obtain q w where q: "run_state (ListDNSRecords c z) (ps_world s) = (q, w)" by (rule prod.exhaust)
  have zw: "zone w = zone (ps_world s)" using list_all [OF q] by simp
  show ?thesis
  proof (cases q)
    case (Inl e)
    then have "\<not> reliable c zone" using q by (auto simp: reliable_def) (metis Inl_Inr_False prod.inject)
    moreover have "ps_world s' = w" using assms q Inl by (auto simp: cleanup_zone_def ListManagedRecords_def)
    ultimately show ?thesis using zw by (intro exI [of _ "{}"]) simp
  next
    case (Inr rs)
    let ?own = "filter (\<lambda>r. IsOwnedByCfgate (Some r) ownerID) (zone (ps_world s) z)"
    have "rs = zone (ps_world s) z" using list_all [OF q] Inr by simp
    then obtain s1 where "run_state (cleanup_records c dns ownerID z ?own) s1 = (u, s')" "ps_world s1 = w"
      using assms q Inr by (auto simp: cleanup_zone_def ListManagedRecords_def)
    from cleanup_records_deleted [OF this(1)] this(2) zw show ?thesis by simp
  qed
qed

lemma cleanup_zone_cleaned:
  assumes "run_state (cleanup_zone c dns ownerID z) s = (u, s')" "distinct (map dr_ID (zone (ps_world s) z))"
  shows "cleaned ownerID z (ps_world s) (ps_world s')"
  using cleanup_zone_deleted [OF assms(1)] deleted_cleaned [OF _ assms(2)] by blast

end

definition cleans_up :: "bool \<Rightarrow> string \<Rightarrow> string set \<Rightarrow> (string \<Rightarrow> DNSRecord list) \<Rightarrow> (string \<Rightarrow> DNSRecord list) \<Rightarrow> bool" where
  "cleans_up rel ownerID zs Z Z' \<longleftrightarrow>
     (\<forall>z. z \<notin> zs \<longrightarrow> Z' z = Z z) \<and>
     (\<forall>z. filter (\<lambda>r. \<not> IsOwnedByCfgate (Some r) ownerID) (Z' z) =
          filter (\<lambda>r. \<not> IsOwnedByCfgate (Some r) ownerID) (Z z)) \<and>
     (rel \<longrightarrow> (\<forall>z \<in> zs. \<forall>r \<in> List.set (Z' z). \<not> IsOwnedByCfgate (Some r) ownerID))"

lemma cleans_up_Cons:
  assumes "dns_zone_api.cleaned c zone ownerID z w w1" "dns_zone_api c zone"
    and "cleans_up (reliable c zone) ownerID zs (zone w1) (zone w')"
  shows "cleans_up (reliable c zone) ownerID (insert z zs) (zone w) (zone w')"
proof -
  let ?keep = "filter (\<lambda>r. \<not> IsOwnedByCfgate (Some r) ownerID)"
  note c1 = assms(1) [unfolded dns_zone_api.cleaned_def [OF assms(2)]]
  have keep: "?keep (zone w' x) = ?keep (zone w x)" for x
    using c1 assms(3) by (cases "x = z") (simp_all add: cleans_up_def)
  have none: "\<not> IsOwnedByCfgate (Some r) ownerID" if "reliable c zone" "r \<in> List.set (zone w' z)" for r
  proof (cases "z \<in> zs")
    case False
    then have "zone w' z = ?keep (zone w z)" using c1 assms(3) that(1) by (simp add: cleans_up_def)
    with that(2) show ?thesis by simp
  qed (use assms(3) that in \<open>simp add: cleans_up_def\<close>)
  have "zone w' x = zone w x" if "x \<notin> insert z zs" for x
    using c1 assms(3) that by (simp add: cleans_up_def)
  with keep none assms(3) show ?thesis by (auto simp: cleans_up_def)
qed

text \<open>A zone is configured by its identifier or by its name. The lookup by name changes no zone; what it
  answers is given by \<open>zid\<close>.\<close>

locale zone_lookup = dns_zone_api c zone
  for c :: "'w Client" and zone +
  fixes zid :: "string \<rightharpoonup> string"
  assumes find_zone: "run_state (GetZoneByName c n) w = (r, w') \<Longrightarrow>
    zone w' = zone w \<and> (\<forall>z. r = Inr z \<longrightarrow> map_option zn_ID z = zid n)"

definition configured_zones :: "(string \<rightharpoonup> string) \<Rightarrow> DNSZoneConfig list \<Rightarrow> string set" where
  "configured_zones zid zs = {i. \<exists>z \<in> List.set zs. (if zc_ID z = [] then zid (zc_Name z) else Some (zc_ID z)) = Some i}"

lemma configured_zones_Cons: "configured_zones zid (z # zs) =
    set_option (if zc_ID z = [] then zid (zc_Name z) else Some (zc_ID z)) \<union> configured_zones zid zs"
  by (auto simp: configured_zones_def)

context zone_lookup
begin

text \<open>One step of the loop over the zones cleans at most one zone, and with a reliable API the one that is
  configured.\<close>

lemma cleanup_zones_step:
  assumes "run_state (cleanup_zones c dns ownerID (z # zs)) s = (u, s')"
  shows "\<exists>s1. run_state (cleanup_zones c dns ownerID zs) s1 = (u, s') \<and>
    (\<not> reliable c zone \<and> zone (ps_world s1) = zone (ps_world s) \<or>
     (case if zc_ID z = [] then zid (zc_Name z) else Some (zc_ID z) of
        None \<Rightarrow> zone (ps_world s1) = zone (ps_world s)
      | Some i \<Rightarrow> \<exists>v s0. run_state (cleanup_zone c dns ownerID i) s0 = (v, s1) \<and> zone (ps_world s0) = zone (ps_world s)))"
proof (cases "zc_ID z = []")
  case False
  obtain v s1 where "run_state (cleanup_zone c dns ownerID (zc_ID z)) s = (v, s1)" by (rule prod.exhaust)
  with assms False show ?thesis by auto
next
  case True
  obtain q w where q: "run_state (GetZoneByName c (zc_Name z)) (ps_world s) = (q, w)" by (rule prod.exhaust)
  have w: "zone w = zone (ps_world s)" using find_zone [OF q] by simp
  show ?thesis
  proof (cases q)
    case (Inl e)
    with q have "\<not> reliable c zone" unfolding reliable_def by (metis Inl_Inr_False prod.inject)
    with assms True q w Inl show ?thesis
      by (intro exI [of _ "s\<lparr>ps_world := w\<rparr>"]) (simp add: ResolveZone_def)
  next
    case (Inr x)
    then have x: "zid (zc_Name z) = map_option zn_ID x" using find_zone [OF q] by simp
    show ?thesis
    proof (cases x)
      case None
      with assms True q w Inr x show ?thesis
        by (intro exI [of _ "s\<lparr>ps_world := w\<rparr>"]) (auto simp: ResolveZone_def)
    next
      case (Some y)
      obtain v s1 where "run_state (cleanup_zone c dns ownerID (zn_ID y)) (s\<lparr>ps_world := w\<rparr>) = (v, s1)" by (rule prod.exhaust)
      with assms True q w Inr x Some show ?thesis
        by (intro exI [of _ s1]) (auto simp: ResolveZone_def intro!: exI [of _ "s\<lparr>ps_world := w\<rparr>"])
    qed
  qed
qed

lemma cleanup_zones_clean:
  assumes "run_state (cleanup_zones c dns ownerID zs) s = (u, s')" "\<forall>z. distinct (map dr_ID (zone (ps_world s) z))"
  shows "cleans_up (reliable c zone) ownerID (configured_zones zid zs) (zone (ps_world s)) (zone (ps_world s'))"
  using assms
proof (induction zs arbitrary: s)
  case Nil
  then show ?case by (simp add: cleans_up_def configured_zones_def)
next
  case (Cons z zs)
  let ?i = "if zc_ID z = [] then zid (zc_Name z) else Some (zc_ID z)"
  obtain s1 where run: "run_state (cleanup_zones c dns ownerID zs) s1 = (u, s')" and
    step: "\<not> reliable c zone \<and> zone (ps_world s1) = zone (ps_world s) \<or>
     (case ?i of None \<Rightarrow> zone (ps_world s1) = zone (ps_world s)
      | Some i \<Rightarrow> \<exists>v s0. run_state (cleanup_zone c dns ownerID i) s0 = (v, s1) \<and> zone (ps_world s0) = zone (ps_world s))"
    using cleanup_zones_step [OF Cons.prems(1)] by blast
  show ?case
  proof (cases "\<exists>i v s0. ?i = Some i \<and> run_state (cleanup_zone c dns ownerID i) s0 = (v, s1) \<and> zone (ps_world s0) = zone (ps_world s)")
    case True
    then obtain i v s0 where i: "?i = Some i" "zone (ps_world s0) = zone (ps_world s)"
      and v: "run_state (cleanup_zone c dns ownerID i) s0 = (v, s1)" by blast
    from cleanup_zone_cleaned [OF v] i(2) Cons.prems(2) have z: "cleaned ownerID i (ps_world s0) (ps_world s1)" by simp
    then have "distinct (map dr_ID (zone (ps_world s1) y))" for y
      using i(2) Cons.prems(2) by (cases "y = i") (simp_all add: cleaned_def)
    from cleans_up_Cons [OF z dns_zone_api_axioms Cons.IH [OF run]] this i show ?thesis
      by (simp add: configured_zones_Cons)
  next
    case False
    then have same: "zone (ps_world s1) = zone (ps_world s)" and "\<not> reliable c zone \<or> ?i = None"
      using step by (auto split: option.splits)
    with Cons.IH [OF run] Cons.prems(2) show ?thesis
      by (auto simp: cleans_up_def configured_zones_Cons)
  qed
qed

end

text \<open>The SDK keeps a list of zones and answers a query by name from it.\<close>

locale sdk_zones = sdk_dns sdk store
  for sdk :: "'w Sdk" and store +
  fixes zl :: "SdkZone list"
  assumes sdk_find_zone: "run_state (ZonesList sdk n) w = (r, w') \<Longrightarrow>
    store w' = store w \<and> (\<forall>zs. r = Inr zs \<longrightarrow> zs = filter (\<lambda>z. sz_Name z = n) zl)"

definition zone_named :: "SdkZone list \<Rightarrow> string \<rightharpoonup> string" where
  "zone_named zl n = map_option sz_ID (find (\<lambda>z. sz_Name z = n) zl)"

sublocale sdk_zones \<subseteq> client: zone_lookup "clientImpl sdk" "client_zone store" "zone_named zl"
proof (intro zone_lookup.intro zone_lookup_axioms.intro client_provides)
  fix n w r w'
  assume run: "run_state (GetZoneByName (clientImpl sdk) n) w = (r, w')"
  obtain q w1 where q: "run_state (ZonesList sdk n) w = (q, w1)" by (rule prod.exhaust)
  have "find (\<lambda>z. sz_Name z = n) (filter (\<lambda>z. sz_Name z = n) zl) = find (\<lambda>z. sz_Name z = n) zl"
    by (induction zl) auto
  with run sdk_find_zone [OF q] q
  show "client_zone store w' = client_zone store w \<and> (\<forall>z. r = Inr z \<longrightarrow> map_option zn_ID z = zone_named zl n)"
    by (cases q) (auto simp: clientImpl_def ci_GetZoneByName_def zone_named_def zoneFromAPI_def client_zone_def fun_eq_iff
        option.map_comp comp_def)
qed

context sdk_zones
begin

lemmas client_finds_zones = client.zone_lookup_axioms

end

text \<open>The in-memory server with a list of named zones keeps these promises.\<close>

definition named_sdk :: "SdkZone list \<Rightarrow> (string \<Rightarrow> SdkRecord list) Sdk" where
  "named_sdk zl = mem_sdk\<lparr>ZonesList := (\<lambda>n. ret (Inr (filter (\<lambda>z. sz_Name z = n) zl)))\<rparr>"

interpretation named: sdk_zones "named_sdk zl" "\<lambda>w. w" zl
  for zl
proof (intro sdk_zones.intro sdk_zones_axioms.intro)
  show "sdk_dns (named_sdk zl) (\<lambda>w. w)" using mem.sdk_dns_axioms by (simp add: sdk_dns_def named_sdk_def)
qed (auto simp: named_sdk_def)

section \<open>Properties\<close>

interpretation mem_env: zone_env "clientImpl mem_sdk" "client_zone (\<lambda>w. w)" wit_mem_env
  by (intro zone_env.intro zone_env_axioms.intro mem.client_provides) (auto simp: wit_mem_env_def)

lemma synced_in_zone:
  assumes "sdk_dns sdk store" "zone_env_axioms (client_zone store) env"
    and "ps_svc s = Some NewDNSRecordCache" "distinct (map fst hs)"
    and "\<forall>z. distinct (map dr_ID (client_zone store (ps_world s) z))"
    and "\<forall>z \<in> snd ` List.set zones. CHR '':'' \<notin> List.set z"
    and "\<forall>prev \<in> List.set (dst_Records (cdns_Status dns)). rs_Hostname prev \<in> fst ` List.set hs"
    and "run_state (syncRecords env (clientImpl sdk) dns target hs zones) s = (Done r, s')"
  shows "\<exists>dns'. r = Inr dns' \<and> (\<forall>(h, cfg) \<in> List.set hs.
    \<exists>st \<in> List.set (dst_Records (cdns_Status dns')). rs_Hostname st = h \<and> (rs_Status st = ''Synced'' \<longrightarrow>
      (\<exists>z e. map_of zones (ExtractZoneFromHostname (de_etld1 env) h) = Some z \<and>
         find_record h ''CNAME'' (client_zone store (ps_world s') z) = Some e \<and> st = synced_status h z e \<and>
         (IsOwnedByCfgate (Some e) (owner_id dns) \<and> sync_policy dns \<noteq> PolicyCreateOnly \<longrightarrow>
            recordsMatch e (desired_record dns target h cfg)))))"
proof -
  have "zone_env (clientImpl sdk) (client_zone store) env"
    using sdk_dns.client_provides [OF assms(1)] assms(2) by (rule zone_env.intro)
  from zone_env.syncRecords_settles [OF this assms(3-8)] obtain dns' order where r: "r = Inr dns'"
    "mset order = mset hs" and all: "list_all2 (\<lambda>(h, cfg) st. rs_Hostname st = h \<and>
       (rs_Status st = ''Synced'' \<longrightarrow> settled env dns target zones (client_zone store (ps_world s')) h cfg st))
      order (dst_Records (cdns_Status dns'))" by blast
  have "\<exists>st \<in> List.set (dst_Records (cdns_Status dns')). rs_Hostname st = h \<and>
      (rs_Status st = ''Synced'' \<longrightarrow> settled env dns target zones (client_zone store (ps_world s')) h cfg st)"
    if "(h, cfg) \<in> List.set hs" for h cfg
  proof -
    have "(h, cfg) \<in> List.set order" using that r(2) by (metis mset_eq_setD)
    then obtain i where i: "i < length order" "order ! i = (h, cfg)" by (auto simp: in_set_conv_nth)
    have "dst_Records (cdns_Status dns') ! i \<in> List.set (dst_Records (cdns_Status dns'))"
      using i(1) list_all2_lengthD [OF all] by simp
    with list_all2_nthD [OF all i(1)] i(2) show ?thesis by auto
  qed
  then show ?thesis
    using r(1) by (fastforce simp: settled_def zone_of_def sync_needed_def)
qed

text \<open>C4: What a sync reports is in the zone. Against an API that keeps its promises, starting with an
  empty record cache and nothing to delete, the status has an entry for every hostname; where it
  says Synced, the zone of the hostname holds a CNAME of that name with exactly the identifier,
  target and settings of the entry, and this record is the desired one unless it is not owned by the
  resource or the policy is create-only. In particular no later hostname of the same sync undoes an
  earlier one.\<close>

theorem synced_records_in_zone:
  assumes "sdk_dns sdk store" "zone_env_axioms (client_zone store) env"
    and "ps_svc s = Some NewDNSRecordCache" "distinct (map fst hs)"
    and "\<forall>z. distinct (map dr_ID (client_zone store (ps_world s) z))"
    and "\<forall>z \<in> snd ` List.set zones. CHR '':'' \<notin> List.set z"
    and "\<forall>prev \<in> List.set (dst_Records (cdns_Status dns)). rs_Hostname prev \<in> fst ` List.set hs"
    and "run_state (syncRecords env (clientImpl sdk) dns target hs zones) s = (Done r, s')"
  shows "\<exists>dns'. r = Inr dns' \<and> (\<forall>(h, cfg) \<in> List.set hs.
    \<exists>st \<in> List.set (dst_Records (cdns_Status dns')). rs_Hostname st = h \<and> (rs_Status st = ''Synced'' \<longrightarrow>
      (\<exists>z e. map_of zones (ExtractZoneFromHostname (de_etld1 env) h) = Some z \<and>
         find_record h ''CNAME'' (client_zone store (ps_world s') z) = Some e \<and> st = synced_status h z e \<and>
         (IsOwnedByCfgate (Some e) (owner_id dns) \<and> sync_policy dns \<noteq> PolicyCreateOnly \<longrightarrow>
            recordsMatch e (desired_record dns target h cfg)))))"
  by (rule synced_in_zone [OF assms])

definition wit_plain_dns :: CloudflareDNS where
  "wit_plain_dns = wit_dns\<lparr>cdns_Spec := (cdns_Spec wit_dns)\<lparr>ds_Policy := ''upsert-only'', ds_Ownership :=
     (ds_Ownership (cdns_Spec wit_dns))\<lparr>oc_TXTRecord := \<lparr>to_Enabled = Some False, to_Prefix = ''''\<rparr>\<rparr>\<rparr>\<rparr>"

definition wit_zone_state :: "(string \<Rightarrow> SdkRecord list) ProcState" where
  "wit_zone_state = \<lparr>ps_cred = None, ps_svc = Some NewDNSRecordCache, ps_world = (\<lambda>z. [])\<rparr>"

definition wit_app_record :: DNSRecord where
  "wit_app_record = \<lparr>dr_ID = ''r'', dr_Type = ''CNAME'', dr_Name = ''app.example.com'',
     dr_Content = ''t.cfargotunnel.com'', dr_TTL = 600, dr_Proxied = True,
     dr_Comment = ''managed by cfgate, dns=infra/gw'', dr_ZoneID = ''z1'', dr_ZoneName = ''''\<rparr>"

lemma wit_zone_sync:
  "\<exists>s'. run_state (syncRecords wit_mem_env (clientImpl mem_sdk) wit_plain_dns ''t.cfargotunnel.com'' wit_hostnames
      [(''example.com'', ''z1'')]) wit_zone_state =
     (Done (Inr (wit_plain_dns\<lparr>cdns_Status := (cdns_Status wit_plain_dns)\<lparr>dst_Records :=
       [synced_status ''app.example.com'' ''z1'' wit_app_record], dst_SyncedRecords := 1, dst_PendingRecords := 0,
       dst_FailedRecords := 0\<rparr>\<rparr>)), s')"
proof -
  have d: "desired_record wit_plain_dns ''t.cfargotunnel.com'' ''app.example.com'' \<lparr>hc_TTL = 0, hc_Proxied = None\<rparr> =
      BuildCNAMERecord ''app.example.com'' ''t.cfargotunnel.com'' True 600 ''managed by cfgate, dns=infra/gw''"
    by (simp add: desired_record_def wit_plain_dns_def wit_dns_def wit_meta_def Let_def)
  have p: "sync_policy wit_plain_dns = ''upsert-only''" "\<not> shouldCreateTXTRecords wit_plain_dns"
    by (simp_all add: sync_policy_def wit_plain_dns_def shouldCreateTXTRecords_def)
  show ?thesis
    by (simp add: syncRecords_def sync_hostname_def wit_hostnames_def wit_mem_env_def ExtractZoneFromHostname_def
        d p PolicySync_def BuildCNAMERecord_def SyncRecordWithPolicy_def FindRecordByName_def createRecord_def
        AllowsCreate_def ci_ListDNSRecordsByNameType_def mem_List_def Let_def ci_CreateDNSRecord_def
        record_body_def mem_New_def mem_fresh_def mem_conflict_def wit_zone_state_def cache_lookup_def
        cache_store_def NewDNSRecordCache_def cache_Get_def cache_Set_def wit_app_record_def recordFromAPI_def)
qed

theorem synced_records_in_zone_witness:
  "\<exists>r s' e. run_state (syncRecords wit_mem_env (clientImpl mem_sdk) wit_plain_dns ''t.cfargotunnel.com'' wit_hostnames
      [(''example.com'', ''z1'')]) wit_zone_state = (Done r, s') \<and>
     find_record ''app.example.com'' ''CNAME'' (client_zone (\<lambda>w. w) (ps_world s') ''z1'') = Some e \<and>
     synced_status ''app.example.com'' ''z1'' e = synced_status ''app.example.com'' ''z1'' wit_app_record"
proof -
  obtain s' where s': "run_state (syncRecords wit_mem_env (clientImpl mem_sdk) wit_plain_dns ''t.cfargotunnel.com''
      wit_hostnames [(''example.com'', ''z1'')]) wit_zone_state =
     (Done (Inr (wit_plain_dns\<lparr>cdns_Status := (cdns_Status wit_plain_dns)\<lparr>dst_Records :=
       [synced_status ''app.example.com'' ''z1'' wit_app_record], dst_SyncedRecords := 1, dst_PendingRecords := 0,
       dst_FailedRecords := 0\<rparr>\<rparr>)), s')" using wit_zone_sync by blast
  have axioms: "zone_env_axioms (client_zone (\<lambda>w. w)) wit_mem_env"
    using mem_env.zone_env_axioms by (simp add: zone_env_def)
  have "\<forall>prev \<in> List.set (dst_Records (cdns_Status wit_plain_dns)). rs_Hostname prev \<in> fst ` List.set wit_hostnames"
    by (simp add: wit_plain_dns_def wit_dns_def)
  note zone = synced_records_in_zone [OF mem.sdk_dns_axioms axioms _ _ _ _ this s']
  have status: "rs_Status (synced_status h z e) = ''Synced''" "rs_Hostname (synced_status h z e) = h" for h z e
    by (simp_all add: synced_status_def)
  have "ExtractZoneFromHostname (de_etld1 wit_mem_env) ''app.example.com'' = ''example.com''"
    by (simp add: ExtractZoneFromHostname_def wit_mem_env_def)
  with zone obtain e where "find_record ''app.example.com'' ''CNAME'' (client_zone (\<lambda>w. w) (ps_world s') ''z1'') = Some e \<and>
      synced_status ''app.example.com'' ''z1'' wit_app_record = synced_status ''app.example.com'' ''z1'' e"
    by (auto simp: wit_zone_state_def wit_hostnames_def status client_zone_def [of _ "\<lambda>z. []"])
  with s' show ?thesis by (intro exI conjI) (rule s', simp_all)
qed

text \<open>C5: Deleting a resource cleans its zones. Once a client is found, the cleanup succeeds whatever the
  single calls do. It changes only the zones configured by identifier or by name and keeps, in order,
  every record that is not owned; and when the API finds and lists zones and deletes the records that
  are there, no record that counts as owned is left in a configured zone.\<close>

theorem cleanup_removes_owned:
  assumes "sdk_zones sdk store zl" "run_state (getCloudflareClientWithFallback env dns) s = (Inr (clientImpl sdk), s1)"
    and "\<forall>z. distinct (map dr_ID (client_zone store (ps_world s1) z))"
    and "run_state (cleanupRecordsWithFallback env dns) s = (r, s')"
  shows "r = Inr () \<and> cleans_up (reliable (clientImpl sdk) (client_zone store)) (owner_id dns)
    (configured_zones (zone_named zl) (ds_Zones (cdns_Spec dns))) (client_zone store (ps_world s1)) (client_zone store (ps_world s'))"
proof -
  obtain u s2 where u: "run_state (cleanup_zones (clientImpl sdk) dns (owner_id dns) (ds_Zones (cdns_Spec dns)))
      (s1\<lparr>ps_svc := None\<rparr>) = (u, s2)" by (rule prod.exhaust)
  then have "r = Inr ()" "s' = s2"
    using assms(2,4) by (simp_all add: cleanupRecordsWithFallback_def)
  with zone_lookup.cleanup_zones_clean [OF sdk_zones.client_finds_zones [OF assms(1)] u] assms(3) show ?thesis by simp
qed

lemma named_sdk_reliable: "reliable (clientImpl (named_sdk zl)) (client_zone (\<lambda>w. w))"
  by (auto simp: reliable_def named_sdk_def ci_ListDNSRecords_def mem_List_def ci_DeleteDNSRecord_def mem_Delete_def
      client_zone_def clientImpl_def ci_GetZoneByName_def)

definition wit_cleanup_zone :: "string \<Rightarrow> SdkRecord list" where
  "wit_cleanup_zone z = (if z = ''z1'' then
     [mem_record ''a'' (CNAMERecordParam ''app.example.com'' ''t.cfargotunnel.com'' 1 True ''managed by cfgate, dns=infra/gw''),
      mem_record ''b'' (CNAMERecordParam ''www.example.com'' ''lb.example.net'' 1 True ''by hand'')] else [])"

lemma wit_cleanup_kept:
  "filter (\<lambda>r. \<not> IsOwnedByCfgate (Some r) ownerID) (client_zone (\<lambda>w. w) wit_cleanup_zone ''z1'') =
     [recordFromAPI ''z1'' (mem_record ''b'' (CNAMERecordParam ''www.example.com'' ''lb.example.net'' 1 True ''by hand''))]"
proof -
  have "Contains ''managed by cfgate, dns=infra/gw'' ''managed by cfgate''" "\<not> Contains ''by hand'' ''managed by cfgate''"
    "\<not> HasPrefix ''t.cfargotunnel.com'' ''heritage=cfgate''" "\<not> HasPrefix ''lb.example.net'' ''heritage=cfgate''"
    by (simp_all add: Contains_def HasPrefix_def)
  then show ?thesis by (simp add: client_zone_def wit_cleanup_zone_def IsOwnedByCfgate_def)
qed

definition wit_sdk_zone :: SdkZone where
  "wit_sdk_zone = \<lparr>sz_ID = ''z1'', sz_Name = ''example.com'', sz_Status = ''active'', sz_AccountID = ''acc''\<rparr>"

definition wit_cleanup_dns :: CloudflareDNS where
  "wit_cleanup_dns = wit_dns\<lparr>cdns_Spec := (cdns_Spec wit_dns)\<lparr>
     ds_Zones := [\<lparr>zc_Name = ''example.com'', zc_ID = [], zc_Proxied = None\<rparr>],
     ds_Cloudflare := Some \<lparr>cc_AccountID = [], cc_AccountName = [],
       cc_SecretRef = \<lparr>sr_Name = ''cf'', sr_Namespace = []\<rparr>, cc_APIToken = []\<rparr>\<rparr>\<rparr>"

definition wit_cleanup_env :: "(string \<Rightarrow> SdkRecord list) DnsEnv" where
  "wit_cleanup_env = wit_mem_env\<lparr>de_CFClient := Some (clientImpl (named_sdk [wit_sdk_zone]))\<rparr>"

theorem cleanup_removes_owned_witness:
  "\<exists>s'. run_state (cleanupRecordsWithFallback wit_cleanup_env wit_cleanup_dns) (wit_zone_state\<lparr>ps_world := wit_cleanup_zone\<rparr>) =
      (Inr (), s') \<and> map dr_Name (client_zone (\<lambda>w. w) (ps_world s') ''z1'') = [''www.example.com'']"
proof -
  let ?s = "wit_zone_state\<lparr>ps_world := wit_cleanup_zone\<rparr>" and ?Z = "client_zone (\<lambda>w. w)"
  let ?unowned = "\<lambda>r. \<not> IsOwnedByCfgate (Some r) (owner_id wit_cleanup_dns)"
  obtain r s' where run: "run_state (cleanupRecordsWithFallback wit_cleanup_env wit_cleanup_dns) ?s = (r, s')"
    by (rule prod.exhaust)
  have c: "run_state (getCloudflareClientWithFallback wit_cleanup_env wit_cleanup_dns) ?s =
      (Inr (clientImpl (named_sdk [wit_sdk_zone])), ?s)"
    by (simp add: getCloudflareClientWithFallback_def wit_cleanup_dns_def wit_dns_def ownClient_def
        dns_getCloudflareClient_def wit_cleanup_env_def)
  have zones: "configured_zones (zone_named [wit_sdk_zone]) (ds_Zones (cdns_Spec wit_cleanup_dns)) = {''z1''}"
    by (auto simp: configured_zones_def zone_named_def wit_cleanup_dns_def wit_sdk_zone_def)
  have "\<forall>z. distinct (map dr_ID (?Z (ps_world ?s) z))" by (simp add: client_zone_def wit_cleanup_zone_def)
  from cleanup_removes_owned [OF named.sdk_zones_axioms c this run]
  have ok: "r = Inr ()" and up: "cleans_up True (owner_id wit_cleanup_dns) {''z1''} (?Z wit_cleanup_zone) (?Z (ps_world s'))"
    by (simp_all add: zones named_sdk_reliable)
  have "?Z (ps_world s') ''z1'' = filter ?unowned (?Z (ps_world s') ''z1'')"
    using up by (intro filter_True [symmetric]) (simp add: cleans_up_def)
  moreover have "filter ?unowned (?Z (ps_world s') ''z1'') = filter ?unowned (?Z wit_cleanup_zone ''z1'')"
    using up by (simp add: cleans_up_def)
  ultimately have "?Z (ps_world s') ''z1'' = filter ?unowned (?Z wit_cleanup_zone ''z1'')" by (rule trans)
  then have "map dr_Name (?Z (ps_world s') ''z1'') = [''www.example.com'']" unfolding wit_cleanup_kept by simp
  with run [unfolded ok] show ?thesis by (intro exI conjI)
qed

end
