(* ===== verification/State_Triples.thy ===== *)
theory State_Triples
  imports Cfgate_Prelude
begin

text \<open>
  Triples for programs in the state monad. A precondition on the state, a program, and a
  postcondition on its result and the state it ends in; a predicate is kept when it is both. The
  rules in \<open>keeps\<close> follow the program text, so that \<open>intro keeps\<close> reduces a whole handler to the
  calls it makes.
\<close>

definition triple :: "('s \<Rightarrow> bool) \<Rightarrow> ('s, 'a) io \<Rightarrow> ('a \<Rightarrow> 's \<Rightarrow> bool) \<Rightarrow> bool" where
  "triple P m Q \<longleftrightarrow> (\<forall>s r s'. P s \<longrightarrow> run_state m s = (r, s') \<longrightarrow> Q r s')"

abbreviation keeps :: "('s \<Rightarrow> bool) \<Rightarrow> ('s, 'a) io \<Rightarrow> bool" where
  "keeps P m \<equiv> triple P m (\<lambda>_. P)"

text \<open>The result is an error or satisfies \<open>F\<close>, and \<open>P\<close> is kept.\<close>

abbreviation yields :: "('s \<Rightarrow> bool) \<Rightarrow> ('s, 'a res) io \<Rightarrow> ('a \<Rightarrow> bool) \<Rightarrow> bool" where
  "yields P m F \<equiv> triple P m (\<lambda>r s. P s \<and> (\<forall>x. r = Inr x \<longrightarrow> F x))"

named_theorems keeps

lemma tripleI: "(\<And>s r s'. P s \<Longrightarrow> run_state m s = (r, s') \<Longrightarrow> Q r s') \<Longrightarrow> triple P m Q"
  by (simp add: triple_def)

lemma tripleD: "triple P m Q \<Longrightarrow> run_state m s = (r, s') \<Longrightarrow> P s \<Longrightarrow> Q r s'"
  by (simp add: triple_def)

lemma keeps_iff: "keeps P m \<longleftrightarrow> (\<forall>s. P s \<longrightarrow> P (snd (run_state m s)))"
  by (auto simp: triple_def) (metis prod.collapse)

lemma keeps_ret [keeps]: "keeps P (ret x)"
  by (simp add: triple_def)

lemma triple_bind:
  assumes "triple P m Q" "\<And>x. triple (Q x) (f x) R"
  shows "triple P (State_Monad.bind m f) R"
proof (rule tripleI)
  fix s r s'
  assume "P s" and run: "run_state (State_Monad.bind m f) s = (r, s')"
  obtain x s1 where x: "run_state m s = (x, s1)" by (rule prod.exhaust)
  have "run_state (f x) s1 = (r, s')" using run x by simp
  with assms(2) show "R r s'" by (rule tripleD) (rule tripleD [OF assms(1) x \<open>P s\<close>])
qed

lemma keeps_bind [keeps]: "keeps P m \<Longrightarrow> (\<And>x. keeps P (f x)) \<Longrightarrow> keeps P (State_Monad.bind m f)"
  by (rule triple_bind)

lemma triple_pre: "(b \<Longrightarrow> triple P m Q) \<Longrightarrow> triple (\<lambda>s. P s \<and> b) m Q"
  by (auto simp: triple_def)

text \<open>A program that does not panic goes on with its result.\<close>

abbreviation safe :: "('s \<Rightarrow> bool) \<Rightarrow> ('s, 'a go_exn) io \<Rightarrow> bool" where
  "safe P m \<equiv> triple P m (\<lambda>r s. P s \<and> r \<noteq> Panic)"

lemma safe_bind:
  assumes "safe P m" "\<And>a. triple P (f (Done a)) Q"
  shows "triple P (State_Monad.bind m f) Q"
proof (rule triple_bind [OF assms(1)], rule tripleI)
  fix x s r s'
  assume "P s \<and> x \<noteq> Panic" "run_state (f x) s = (r, s')"
  then show "Q r s'" using tripleD [OF assms(2)] by (cases x) auto
qed

lemma safe_ret: "safe P (ret (Done x))"
  by (simp add: triple_def)

text \<open>A result that satisfies \<open>F\<close> is passed on to the rest of the program.\<close>

lemma keeps_bind_yields:
  assumes "yields P m F" "\<And>e. keeps P (f (Inl e))" "\<And>x. F x \<Longrightarrow> keeps P (f (Inr x))"
  shows "keeps P (State_Monad.bind m f)"
proof (rule triple_bind [OF assms(1)], rule tripleI)
  fix x s r s'
  assume "P s \<and> (\<forall>y. x = Inr y \<longrightarrow> F y)" "run_state (f x) s = (r, s')"
  then show "P s'" using tripleD [OF assms(2)] tripleD [OF assms(3)] by (cases x) auto
qed

lemma yields_bind:
  assumes "keeps P m" "\<And>x. yields P (f x) F"
  shows "yields P (State_Monad.bind m f) F"
  using assms by (rule triple_bind)

lemma yields_bind_yields:
  assumes "yields P m F" "\<And>e. yields P (f (Inl e)) G" "\<And>x. F x \<Longrightarrow> yields P (f (Inr x)) G"
  shows "yields P (State_Monad.bind m f) G"
proof (rule triple_bind [OF assms(1)], rule tripleI)
  fix x s r s'
  assume *: "P s \<and> (\<forall>y. x = Inr y \<longrightarrow> F y)" "run_state (f x) s = (r, s')"
  show "P s' \<and> (\<forall>y. r = Inr y \<longrightarrow> G y)"
  proof (cases x)
    case (Inl e)
    with * show ?thesis using tripleD [OF assms(2) [of e], of s r s'] by simp
  next
    case (Inr y)
    with * show ?thesis using tripleD [OF assms(3) [of y], of s r s'] by simp
  qed
qed

lemma yields_ret: "(\<And>x. r = Inr x \<Longrightarrow> F x) \<Longrightarrow> yields P (ret r) F"
  by (simp add: triple_def)

lemma triple_if [keeps]: "(b \<Longrightarrow> triple P m Q) \<Longrightarrow> (\<not> b \<Longrightarrow> triple P n Q) \<Longrightarrow> triple P (if b then m else n) Q"
  by simp

lemma triple_Let [keeps]: "(\<And>x. x = a \<Longrightarrow> triple P (f x) Q) \<Longrightarrow> triple P (Let a f) Q"
  by simp

lemma triple_case_sum [keeps]:
  "(\<And>a. x = Inl a \<Longrightarrow> triple P (f a) Q) \<Longrightarrow> (\<And>b. x = Inr b \<Longrightarrow> triple P (g b) Q) \<Longrightarrow>
   triple P (case x of Inl a \<Rightarrow> f a | Inr b \<Rightarrow> g b) Q"
  by (cases x) auto

lemma triple_case_option [keeps]:
  "(x = None \<Longrightarrow> triple P m Q) \<Longrightarrow> (\<And>a. x = Some a \<Longrightarrow> triple P (f a) Q) \<Longrightarrow>
   triple P (case x of None \<Rightarrow> m | Some a \<Rightarrow> f a) Q"
  by (cases x) auto

lemma triple_case_prod [keeps]:
  "(\<And>a b. x = (a, b) \<Longrightarrow> triple P (f a b) Q) \<Longrightarrow> triple P (case x of (a, b) \<Rightarrow> f a b) Q"
  by (cases x) auto

lemma triple_case_bool [keeps]:
  "(b \<Longrightarrow> triple P m Q) \<Longrightarrow> (\<not> b \<Longrightarrow> triple P n Q) \<Longrightarrow> triple P (case b of True \<Rightarrow> m | False \<Rightarrow> n) Q"
  by (cases b) auto

lemma triple_case_exn [keeps]:
  "(x = Panic \<Longrightarrow> triple P m Q) \<Longrightarrow> (\<And>a. x = Done a \<Longrightarrow> triple P (f a) Q) \<Longrightarrow>
   triple P (case x of Done a \<Rightarrow> f a | Panic \<Rightarrow> m) Q"
  by (cases x) auto

end
