(* ===== verification/Dns_Lifecycle.thy ===== *)
theory Dns_Lifecycle
  imports Zone_Sync State_Triples
begin

text \<open>
  The life of a CloudflareDNS resource, over the whole reconcile of the DNS controller
  (internal/controller/cloudflaredns_controller.go). Reconciles, restarts of the process and
  actions of others follow each other in any order; what is shown of every such history rests on the
  finalizer: it is set before the first record is written and released after the last one is deleted.

  The first half shows which calls keep a predicate of the world, for every handler of the
  controller; the second adds the contract \<open>dns_cluster\<close> of the cluster and of Cloudflare, the
  step relation and the invariant.
\<close>

section \<open>Predicates that every call keeps\<close>

text \<open>A predicate of the world, lifted to the state of the DNS service and of the process. Clients in
  the credential cache satisfy \<open>F\<close>.\<close>

definition in_service :: "('w \<Rightarrow> bool) \<Rightarrow> 'w DNSService \<Rightarrow> bool" where
  "in_service W t \<longleftrightarrow> W (svc_world t)"

definition cached_clients :: "('w Client \<Rightarrow> bool) \<Rightarrow> 'w Client CredentialCache option \<Rightarrow> bool" where
  "cached_clients F cc \<longleftrightarrow> (\<forall>c k e cl. cc = Some c \<longrightarrow> map_of (crc_entries c) k = Some e \<longrightarrow> ce_client e = Some cl \<longrightarrow> F cl)"

definition in_process :: "('w \<Rightarrow> bool) \<Rightarrow> ('w Client \<Rightarrow> bool) \<Rightarrow> 'w ProcState \<Rightarrow> bool" where
  "in_process W F s \<longleftrightarrow> W (ps_world s) \<and> cached_clients F (ps_cred s)"

lemma keeps_api [keeps]: "keeps W m \<Longrightarrow> keeps (in_service W) (api m)"
  by (simp add: keeps_iff in_service_def split_beta)

lemma keeps_k8s [keeps]: "keeps W m \<Longrightarrow> keeps (in_process W F) (k8s m)"
  by (simp add: keeps_iff in_process_def split_beta)

lemma keeps_svc [keeps]: "keeps (in_service W) m \<Longrightarrow> keeps (in_process W F) (svc m)"
  by (simp add: keeps_iff in_process_def in_service_def split_beta)

lemma keeps_service_parts [keeps]:
  "keeps (in_service W) (cache_lookup z n t)" "keeps (in_service W) (cache_store z n t r)"
  "keeps (in_process W F) (new_service c)"
  by (simp_all add: triple_def in_service_def in_process_def)

text \<open>What the DNS service and the controller call of a client and of the cluster.\<close>

definition client_keeps :: "('w \<Rightarrow> bool) \<Rightarrow> 'w Client \<Rightarrow> bool" where
  "client_keeps W c \<longleftrightarrow>
     (\<forall>z n t. keeps W (ListDNSRecordsByNameType c z n t)) \<and> (\<forall>z. keeps W (ListDNSRecords c z)) \<and>
     (\<forall>z d. keeps W (CreateDNSRecord c z d)) \<and> (\<forall>z i d. keeps W (UpdateDNSRecord c z i d)) \<and>
     (\<forall>z i. keeps W (DeleteDNSRecord c z i)) \<and> (\<forall>n. keeps W (GetZoneByName c n))"

lemma client_keepsD [keeps]:
  assumes "client_keeps W c"
  shows "keeps W (ListDNSRecordsByNameType c z n t)" "keeps W (ListDNSRecords c z)" "keeps W (CreateDNSRecord c z d)"
    "keeps W (UpdateDNSRecord c z i d)" "keeps W (DeleteDNSRecord c z i)" "keeps W (GetZoneByName c n)"
  using assms by (simp_all add: client_keeps_def)

definition env_keeps :: "('w \<Rightarrow> bool) \<Rightarrow> 'w DnsEnv \<Rightarrow> bool" where
  "env_keeps W env \<longleftrightarrow>
     (\<forall>n. keeps W (de_Get env n)) \<and> (\<forall>n. keeps W (de_GetTunnel env n)) \<and> (\<forall>n. keeps W (de_GetSecret env n)) \<and>
     (\<forall>d. keeps W (de_StatusUpdate env d)) \<and> keeps W (de_ListGateways env) \<and> keeps W (de_ListRoutes env) \<and>
     (\<forall>k a b x y. keeps W (de_Event env k a b x y)) \<and> keeps W (de_Now env) \<and> (\<forall>m. keeps W (de_Range env m))"

lemma env_keepsD [keeps]:
  assumes "env_keeps W env"
  shows "keeps W (de_Get env n)" "keeps W (de_GetTunnel env n)" "keeps W (de_GetSecret env n)"
    "keeps W (de_StatusUpdate env d)" "keeps W (de_ListGateways env)" "keeps W (de_ListRoutes env)"
    "keeps W (de_Event env k a b x y)" "keeps W (de_Now env)" "keeps W (de_Range env m)"
  using assms by (simp_all add: env_keeps_def)

section \<open>The DNS service\<close>

lemma FindRecordByName_keeps [keeps]: "client_keeps W c \<Longrightarrow> keeps (in_service W) (FindRecordByName c z n t)"
  unfolding FindRecordByName_def by (intro keeps)

lemma createRecord_keeps [keeps]: "client_keeps W c \<Longrightarrow> keeps (in_service W) (createRecord c z d)"
  unfolding createRecord_def by (intro keeps)

lemma updateRecord_keeps [keeps]: "client_keeps W c \<Longrightarrow> keeps (in_service W) (updateRecord c z i d)"
  unfolding updateRecord_def by (intro keeps)

lemma SyncRecordWithPolicy_keeps [keeps]:
  "client_keeps W c \<Longrightarrow> keeps (in_service W) (SyncRecordWithPolicy c z d ownerID policy)"
  unfolding SyncRecordWithPolicy_def by (intro keeps)

lemma DeleteRecord_keeps [keeps]: "client_keeps W c \<Longrightarrow> keeps (in_service W) (DeleteRecord c z i)"
  unfolding DeleteRecord_def by (intro keeps)

lemma ListManagedRecords_keeps [keeps]: "client_keeps W c \<Longrightarrow> keeps (in_service W) (ListManagedRecords c z ownerID)"
  unfolding ListManagedRecords_def by (intro keeps)

lemma CreateOwnershipRecord_keeps [keeps]: "client_keeps W c \<Longrightarrow> keeps (in_service W) (CreateOwnershipRecord c z params)"
  unfolding CreateOwnershipRecord_def by (intro keeps)

lemma DeleteOwnershipRecord_keeps [keeps]: "client_keeps W c \<Longrightarrow> keeps (in_service W) (DeleteOwnershipRecord c z h pre)"
  unfolding DeleteOwnershipRecord_def by (intro keeps)

lemma ResolveZone_keeps [keeps]: "client_keeps W c \<Longrightarrow> keeps (in_service W) (ResolveZone c n)"
  unfolding ResolveZone_def by (intro keeps)

section \<open>The handlers\<close>

lemma dns_setCondition_keeps [keeps]:
  "env_keeps W env \<Longrightarrow> keeps (in_process W F) (dns_setCondition env dns t st r m)"
  unfolding dns_setCondition_def by (intro keeps)

lemma dns_updateStatus_keeps [keeps]: "env_keeps W env \<Longrightarrow> keeps (in_process W F) (dns_updateStatus env dns)"
  unfolding dns_updateStatus_def by (intro keeps)

lemma resolveTunnel_keeps [keeps]: "env_keeps W env \<Longrightarrow> keeps (in_process W F) (resolveTunnel env dns ref)"
  unfolding resolveTunnel_def by (intro keeps)

lemma resolveTarget_keeps [keeps]: "env_keeps W env \<Longrightarrow> keeps (in_process W F) (resolveTarget env dns)"
  unfolding resolveTarget_def by (intro keeps)

lemma hostnameKeys_keeps [keeps]: "env_keeps W env \<Longrightarrow> keeps (in_process W F) (hostnameKeys env m)"
  unfolding hostnameKeys_def by (intro keeps)

lemma collect_gateways_keeps [keeps]:
  "env_keeps W env \<Longrightarrow> keeps (in_process W F) (collect_gateways env flt gws m)"
proof (induction gws arbitrary: m)
  case Nil
  then show ?case unfolding collect_gateways.simps by (intro keeps)
next
  case (Cons gw gws)
  from Cons.IH [OF Cons.prems] show ?case
    unfolding collect_gateways.simps by (intro keeps Cons.prems)
qed

lemma collectHostnames_keeps [keeps]:
  "env_keeps W env \<Longrightarrow> keeps (in_process W F) (collectHostnames env dns tunnel)"
  unfolding collectHostnames_def collectHostnamesFromRoutes_def by (intro keeps)

lemma resolveZones_loop_keeps [keeps]:
  "client_keeps W c \<Longrightarrow> keeps (in_process W F) (resolveZones_loop c zs m)"
proof (induction zs arbitrary: m)
  case Nil
  then show ?case unfolding resolveZones_loop.simps by (intro keeps)
next
  case (Cons z zs)
  from Cons.IH [OF Cons.prems] show ?case
    unfolding resolveZones_loop.simps by (intro keeps Cons.prems)
qed

lemma resolveZones_keeps [keeps]: "client_keeps W c \<Longrightarrow> keeps (in_process W F) (resolveZones c dns)"
  unfolding resolveZones_def by (intro keeps)

lemma sync_hostname_keeps [keeps]:
  "env_keeps W env \<Longrightarrow> client_keeps W c \<Longrightarrow> keeps (in_process W F) (sync_hostname env c dns target zones h cfg)"
  unfolding sync_hostname_def by (intro keeps)

lemma sync_loop_keeps [keeps]:
  "env_keeps W env \<Longrightarrow> client_keeps W c \<Longrightarrow> keeps (in_process W F) (sync_loop env c dns target zones hs sts sy fl)"
proof (induction hs arbitrary: sts sy fl)
  case Nil
  then show ?case unfolding sync_loop.simps by (intro keeps)
next
  case (Cons h hs)
  obtain n cfg where h: "h = (n, cfg)" by (rule prod.exhaust)
  from Cons.IH [OF Cons.prems] show ?case
    unfolding h sync_loop.simps by (intro keeps Cons.prems)
qed

lemma delete_orphan_keeps [keeps]:
  "env_keeps W env \<Longrightarrow> client_keeps W c \<Longrightarrow> keeps (in_process W F) (delete_orphan env c dns zones ownerID pre prev)"
  unfolding delete_orphan_def by (intro keeps)

lemma deleteOrphaned_loop_keeps [keeps]:
  "env_keeps W env \<Longrightarrow> client_keeps W c \<Longrightarrow>
   keeps (in_process W F) (deleteOrphaned_loop env c dns hostnames zones ownerID pre recs)"
proof (induction recs)
  case Nil
  then show ?case unfolding deleteOrphaned_loop.simps by (intro keeps)
next
  case (Cons r recs)
  from Cons.IH [OF Cons.prems] show ?case
    unfolding deleteOrphaned_loop.simps by (intro keeps Cons.prems)
qed

lemma syncRecords_keeps [keeps]:
  "env_keeps W env \<Longrightarrow> client_keeps W c \<Longrightarrow> keeps (in_process W F) (syncRecords env c dns target hs zones)"
  unfolding syncRecords_def deleteOrphanedRecords_def by (intro keeps)

lemma verify_loop_keeps [keeps]:
  "client_keeps W c \<Longrightarrow> keeps (in_process W F) (verify_loop env c dns zones hs)"
proof (induction hs)
  case Nil
  then show ?case unfolding verify_loop.simps by (intro keeps)
next
  case (Cons h hs)
  from Cons.IH [OF Cons.prems] show ?case
    unfolding verify_loop.simps by (intro keeps Cons.prems)
qed

lemma verifyOwnership_keeps [keeps]:
  "client_keeps W c \<Longrightarrow> keeps (in_process W F) (verifyOwnership env c dns zones hs)"
  unfolding verifyOwnership_def by (intro keeps)

lemma reconcile_records_keeps [keeps]:
  "env_keeps W env \<Longrightarrow> client_keeps W c \<Longrightarrow> keeps (in_process W F) (reconcile_records env c dns target hs zones)"
  unfolding reconcile_records_def by (intro keeps)

lemma fail_with_keeps [keeps]: "env_keeps W env \<Longrightarrow> keeps (in_process W F) (fail_with env dns t r err)"
  unfolding fail_with_def by (intro keeps)

lemma cleanup_records_keeps [keeps]:
  "client_keeps W c \<Longrightarrow> keeps (in_process W F) (cleanup_records c dns ownerID z rs)"
proof (induction rs)
  case Nil
  then show ?case unfolding cleanup_records.simps by (intro keeps)
next
  case (Cons r rs)
  from Cons.IH [OF Cons.prems] show ?case
    unfolding cleanup_records.simps by (intro keeps Cons.prems)
qed

lemma cleanup_zone_keeps [keeps]: "client_keeps W c \<Longrightarrow> keeps (in_process W F) (cleanup_zone c dns ownerID z)"
  unfolding cleanup_zone_def by (intro keeps)

lemma cleanup_zones_keeps [keeps]: "client_keeps W c \<Longrightarrow> keeps (in_process W F) (cleanup_zones c dns ownerID zs)"
proof (induction zs)
  case Nil
  then show ?case unfolding cleanup_zones.simps by (intro keeps)
next
  case (Cons z zs)
  from Cons.IH [OF Cons.prems] show ?case
    unfolding cleanup_zones.simps by (intro keeps Cons.prems)
qed

section \<open>Clients\<close>

lemma cached_clients_delete: "cached_clients F (Some c) \<Longrightarrow> cached_clients F (Some (entry_delete c secret))"
  by (auto simp: cached_clients_def entry_delete_def split: if_splits)

lemma cached_clients_write:
  "cached_clients F (Some c) \<Longrightarrow> (\<And>cl. ce_client e = Some cl \<Longrightarrow> F cl) \<Longrightarrow> cached_clients F (Some (entry_write c secret e))"
  by (auto simp: cached_clients_def entry_write_def split: if_splits)

lemma GetOrCreate_clients:
  assumes "crc_GetOrCreate now1 now2 c secret (map_sum id Some created) = (r, c')" "cached_clients F (Some c)"
    and "\<And>cl. created = Inr cl \<Longrightarrow> F cl"
  shows "cached_clients F (Some c') \<and> (\<forall>cl. map_sum id the r = Inr cl \<longrightarrow> F cl) \<and>
    (\<forall>e. map_sum id the r = Inl e \<longrightarrow> created = Inl e)"
proof -
  obtain h c1 where h: "crc_Get now1 c secret = (h, c1)" by (rule prod.exhaust)
  then have c1: "cached_clients F (Some c1)" "\<And>cl. h = Some cl \<Longrightarrow> F cl"
    using assms(2) cached_clients_delete [OF assms(2), of secret]
    by (auto simp: crc_Get_def entry_read_def cached_clients_def split: option.splits if_splits)
  show ?thesis
  proof (cases h)
    case None
    show ?thesis
    proof (cases created)
      case (Inl e)
      then show ?thesis using assms(1) h None c1 by (auto simp: crc_GetOrCreate_def)
    next
      case (Inr cl)
      then have "cached_clients F (Some (crc_Set now2 c1 secret (Some cl)))"
        unfolding crc_Set_def using c1(1) assms(3) by (intro cached_clients_write) auto
      with Inr show ?thesis using assms(1,3) h None by (auto simp: crc_GetOrCreate_def)
    qed
  qed (use assms(1) h c1 in \<open>auto simp: crc_GetOrCreate_def\<close>)
qed

lemma cachedClient_yields:
  assumes "keeps W now" "\<And>cl. created = Inr cl \<Longrightarrow> F cl"
  shows "yields (in_process W F) (cachedClient now secret created) F"
proof (rule tripleI)
  fix s r s'
  assume s: "in_process W F s" and run: "run_state (cachedClient now secret created) s = (r, s')"
  show "in_process W F s' \<and> (\<forall>x. r = Inr x \<longrightarrow> F x)"
  proof (cases "ps_cred s")
    case None
    with run s assms(2) show ?thesis by (auto simp: cachedClient_def)
  next
    case (Some c)
    obtain n1 w1 where n1: "run_state now (ps_world s) = (n1, w1)" by (rule prod.exhaust)
    obtain n2 w2 where n2: "run_state now w1 = (n2, w2)" by (rule prod.exhaust)
    obtain q c' where q: "crc_GetOrCreate n1 n2 c secret (map_sum id Some created) = (q, c')" by (rule prod.exhaust)
    have "W w2" using tripleD [OF assms(1) n2] tripleD [OF assms(1) n1] s by (simp add: in_process_def)
    moreover have "cached_clients F (Some c')" "\<forall>cl. map_sum id the q = Inr cl \<longrightarrow> F cl"
      using GetOrCreate_clients [where F = F, OF q _ assms(2)] s Some by (simp_all add: in_process_def)
    moreover have "r = map_sum id the q" "s' = s\<lparr>ps_world := w2, ps_cred := Some c'\<rparr>"
      using run Some n1 n2 q by (simp_all add: cachedClient_def)
    ultimately show ?thesis by (simp add: in_process_def)
  qed
qed

text \<open>The clients the controller can get: the injected one, or one made from a token.\<close>

definition clients_are :: "('w Client \<Rightarrow> bool) \<Rightarrow> 'w DnsEnv \<Rightarrow> bool" where
  "clients_are F env \<longleftrightarrow> (\<forall>c. de_CFClient env = Some c \<longrightarrow> F c) \<and> (\<forall>token. F (clientImpl (de_cfNewClient env token)))"

lemma createClientFromSecret_is:
  "clients_are F env \<Longrightarrow> createClientFromSecret (de_cfNewClient env) secret k = Inr c \<Longrightarrow> F c"
  by (auto simp: createClientFromSecret_def NewClient_def clients_are_def Let_def split: option.splits if_splits)

lemma injected_client_is: "clients_are F env \<Longrightarrow> de_CFClient env = Some c \<Longrightarrow> F c"
  by (simp add: clients_are_def)

lemmas client_rules = yields_ret yields_bind triple_if triple_Let triple_case_sum triple_case_option
  keeps_k8s env_keepsD resolveTunnel_keeps cachedClient_yields

lemma getClientFromTunnel_yields:
  "env_keeps W env \<Longrightarrow> clients_are F env \<Longrightarrow> yields (in_process W F) (getClientFromTunnel env tunnel) F"
  unfolding getClientFromTunnel_def by (intro client_rules) (simp_all add: createClientFromSecret_is)

lemma dns_getCloudflareClient_yields:
  assumes "env_keeps W env" "clients_are F env"
  shows "yields (in_process W F) (dns_getCloudflareClient env dns tunnel) F"
  unfolding dns_getCloudflareClient_def using assms
  by (intro client_rules getClientFromTunnel_yields) (auto intro: createClientFromSecret_is injected_client_is)

lemma fallbackClient_yields:
  assumes "env_keeps W env" "clients_are F env"
  shows "yields (in_process W F) (fallbackClient env dns) F"
  unfolding fallbackClient_def using assms
  by (intro client_rules) (auto simp: NewClient_def clients_are_def split: if_splits)

lemma ownClient_yields:
  assumes "env_keeps W env" "clients_are F env"
  shows "yields (in_process W F) (ownClient env dns) F"
proof -
  note own = yields_bind_yields [OF dns_getCloudflareClient_yields [OF assms, of dns None]]
  show ?thesis
    unfolding ownClient_def by (intro triple_if triple_case_option own) (auto intro: fallbackClient_yields assms yields_ret)
qed

lemma getCloudflareClientWithFallback_yields:
  assumes "env_keeps W env" "clients_are F env"
  shows "yields (in_process W F) (getCloudflareClientWithFallback env dns) F"
proof -
  note tunnel = yields_bind_yields [OF getClientFromTunnel_yields [OF assms]]
  have own: "yields (in_process W F) (ownClient env dns) F" using assms by (rule ownClient_yields)
  show ?thesis
    unfolding getCloudflareClientWithFallback_def
    by (intro triple_case_option triple_case_sum own yields_bind [OF resolveTunnel_keeps [OF assms(1)]] tunnel)
       (auto intro: own yields_ret)
qed

lemma reconcile_active_keeps:
  assumes "env_keeps W env" "clients_are F env" "\<And>c. F c \<Longrightarrow> client_keeps W c"
  shows "keeps (in_process W F) (reconcile_active env dns target tunnel)"
proof -
  note client = keeps_bind_yields [OF dns_getCloudflareClient_yields [OF assms(1,2)]]
  show ?thesis
    unfolding reconcile_active_def
    by (rule keeps_bind, intro keeps assms(1), intro triple_case_sum triple_if client)
       (simp_all, (intro keeps assms | assumption)+)
qed

section \<open>Credentials that are there\<close>

text \<open>The operation never fails.\<close>

abbreviation succeeds :: "('s, 'a res) io \<Rightarrow> bool" where
  "succeeds m \<equiv> triple (\<lambda>_. True) m (\<lambda>r _. \<exists>x. r = Inr x)"

lemma succeeds_iff: "succeeds m \<longleftrightarrow> (\<forall>s. \<exists>x s'. run_state m s = (Inr x, s'))"
  unfolding triple_def by (metis prod.exhaust prod.inject)

lemma succeeds_ret: "succeeds (ret (Inr x))"
  by (simp add: triple_def)

lemma succeeds_bind: "(\<And>x. succeeds (f x)) \<Longrightarrow> succeeds (State_Monad.bind m f)"
  by (rule triple_bind [of _ _ "\<lambda>_ _. True"]) (simp_all add: triple_def)

lemma succeeds_bind_Inr: "succeeds m \<Longrightarrow> (\<And>x. succeeds (f (Inr x))) \<Longrightarrow> succeeds (State_Monad.bind m f)"
  by (erule triple_bind) (fastforce simp: triple_def)

text \<open>The Secret that the client of a resource is finally made from, and that it can be read and holds a
  token.\<close>

definition credential_secret :: "NamespacedName \<Rightarrow> CloudflareDNSSpec \<Rightarrow> NamespacedName option" where
  "credential_secret key spec =
     (case ds_FallbackCredentialsRef spec of
        Some ref \<Rightarrow> Some \<lparr>nn_Namespace = (if sref_Namespace ref = [] then nn_Namespace key else sref_Namespace ref),
                         nn_Name = sref_Name ref\<rparr>
      | None \<Rightarrow>
          (case ds_Cloudflare spec of
             None \<Rightarrow> None
           | Some cf \<Rightarrow>
               if sr_Name (cc_SecretRef cf) = [] \<or> cc_APIToken cf \<notin> {[], ''CLOUDFLARE_API_TOKEN''} then None
               else Some \<lparr>nn_Namespace = (if sr_Namespace (cc_SecretRef cf) = [] then nn_Namespace key
                                         else sr_Namespace (cc_SecretRef cf)),
                          nn_Name = sr_Name (cc_SecretRef cf)\<rparr>))"

definition secret_there :: "'w DnsEnv \<Rightarrow> NamespacedName \<Rightarrow> bool" where
  "secret_there env n \<longleftrightarrow> (\<forall>w. \<exists>sec w' tok. run_state (de_GetSecret env n) w = (Inr sec, w') \<and>
     map_of (sec_Data sec) ''CLOUDFLARE_API_TOKEN'' = Some tok \<and> tok \<noteq> [])"

lemma cachedClient_succeeds: "created = Inr c \<Longrightarrow> succeeds (cachedClient now secret created)"
  unfolding succeeds_iff
proof
  fix s
  assume c: "created = Inr c"
  obtain r s' where run: "run_state (cachedClient now secret created) s = (r, s')" by (rule prod.exhaust)
  have "\<exists>x. map_sum id the (fst (crc_GetOrCreate n1 n2 cc secret (map_sum id Some created))) = Inr x" for n1 n2 cc
    using c by (auto simp: crc_GetOrCreate_def split: prod.split option.split)
  then have "\<exists>x. r = Inr x"
    using run c by (cases "ps_cred s") (auto simp: cachedClient_def split_beta)
  with run show "\<exists>x s'. run_state (cachedClient now secret created) s = (Inr x, s')" by blast
qed

lemma credentials_found:
  fixes env :: "'a DnsEnv"
  assumes "credential_secret (dns_key dns) (cdns_Spec dns) = Some n" "secret_there env n"
  shows "succeeds (getCloudflareClientWithFallback env dns)"
proof -
  have created: "createClientFromSecret f sec k = Inr (clientImpl (f tok))"
    if "map_of (sec_Data sec) ''CLOUDFLARE_API_TOKEN'' = Some tok" "tok \<noteq> []" "k \<in> {[], ''CLOUDFLARE_API_TOKEN''}"
    for f :: "string \<Rightarrow> 'a Sdk" and sec tok k
    using that by (auto simp: createClientFromSecret_def NewClient_def)
  have own: "succeeds (ownClient env dns)"
  proof (cases "ds_FallbackCredentialsRef (cdns_Spec dns)")
    case (Some ref)
    have "succeeds (fallbackClient env dns)"
      unfolding succeeds_iff
    proof
      fix s :: "'a ProcState"
      obtain sec w tok where "run_state (de_GetSecret env n) (ps_world s) = (Inr sec, w)"
        "map_of (sec_Data sec) ''CLOUDFLARE_API_TOKEN'' = Some tok" "tok \<noteq> []"
        using assms(2) unfolding secret_there_def by blast
      with Some assms(1) show "\<exists>x s'. run_state (fallbackClient env dns) s = (Inr x, s')"
        by (auto simp: fallbackClient_def credential_secret_def NewClient_def Let_def)
    qed
    then show ?thesis unfolding ownClient_def
      by (intro triple_if triple_case_option triple_case_sum succeeds_bind succeeds_ret)
  next
    case None
    then obtain cf where cf: "ds_Cloudflare (cdns_Spec dns) = Some cf" "sr_Name (cc_SecretRef cf) \<noteq> []"
      "cc_APIToken cf \<in> {[], ''CLOUDFLARE_API_TOKEN''}"
      "n = \<lparr>nn_Namespace = (if sr_Namespace (cc_SecretRef cf) = [] then dns_ns dns else sr_Namespace (cc_SecretRef cf)),
            nn_Name = sr_Name (cc_SecretRef cf)\<rparr>"
      using assms(1) by (auto simp: credential_secret_def split: option.splits if_splits)
    have "succeeds (dns_getCloudflareClient env dns None)"
    proof (cases "de_CFClient env")
      case None
      show ?thesis unfolding succeeds_iff
      proof
        fix s :: "'a ProcState"
        obtain sec w tok where sec: "run_state (de_GetSecret env n) (ps_world s) = (Inr sec, w)"
          "map_of (sec_Data sec) ''CLOUDFLARE_API_TOKEN'' = Some tok" "tok \<noteq> []"
          using assms(2) unfolding secret_there_def by blast
        have "succeeds (cachedClient (de_Now env) sec (createClientFromSecret (de_cfNewClient env) sec
            (if cc_APIToken cf \<noteq> [] then cc_APIToken cf else ''CLOUDFLARE_API_TOKEN'')))"
          by (rule cachedClient_succeeds, rule created [OF sec(2,3)]) (use cf(3) in auto)
        then show "\<exists>x s'. run_state (dns_getCloudflareClient env dns None) s = (Inr x, s')"
          using None cf sec(1) by (simp add: dns_getCloudflareClient_def succeeds_iff Let_def)
      qed
    qed (simp add: dns_getCloudflareClient_def succeeds_iff)
    then show ?thesis
      using cf(1,2) by (simp add: ownClient_def succeeds_bind_Inr succeeds_ret)
  qed
  then show ?thesis
    unfolding getCloudflareClientWithFallback_def
    by (intro triple_case_option triple_case_sum succeeds_bind succeeds_ret)
qed

section \<open>Sweeping a zone\<close>

text \<open>What a cleanup leaves, without any assumption on identifiers.\<close>

definition swept :: "bool \<Rightarrow> string \<Rightarrow> string set \<Rightarrow> (string \<Rightarrow> DNSRecord list) \<Rightarrow> (string \<Rightarrow> DNSRecord list) \<Rightarrow> bool" where
  "swept rel ownerID zs Z Z' \<longleftrightarrow> (\<forall>z. List.set (Z' z) \<subseteq> List.set (Z z)) \<and>
     (rel \<longrightarrow> (\<forall>z \<in> zs. \<forall>r \<in> List.set (Z' z). \<not> IsOwnedByCfgate (Some r) ownerID))"

lemma swept_trans: "swept rel ownerID xs Z Z1 \<Longrightarrow> swept rel ownerID ys Z1 Z' \<Longrightarrow> swept rel ownerID (xs \<union> ys) Z Z'"
  unfolding swept_def by blast

context zone_lookup
begin

lemma cleanup_zone_sweeps:
  assumes "run_state (cleanup_zone c dns ownerID z) s = (u, s')"
  shows "swept (reliable c zone) ownerID {z} (zone (ps_world s)) (zone (ps_world s'))"
  using cleanup_zone_deleted [OF assms] by (fastforce simp: swept_def deleted_def)

lemma cleanup_zones_sweep:
  "run_state (cleanup_zones c dns ownerID zs) s = (u, s') \<Longrightarrow>
   swept (reliable c zone) ownerID (configured_zones zid zs) (zone (ps_world s)) (zone (ps_world s'))"
proof (induction zs arbitrary: s)
  case Nil
  then show ?case by (simp add: swept_def configured_zones_def)
next
  case (Cons z zs)
  let ?i = "if zc_ID z = [] then zid (zc_Name z) else Some (zc_ID z)"
  obtain s1 where run: "run_state (cleanup_zones c dns ownerID zs) s1 = (u, s')" and
    step: "\<not> reliable c zone \<and> zone (ps_world s1) = zone (ps_world s) \<or>
     (case ?i of None \<Rightarrow> zone (ps_world s1) = zone (ps_world s)
      | Some i \<Rightarrow> \<exists>v s0. run_state (cleanup_zone c dns ownerID i) s0 = (v, s1) \<and> zone (ps_world s0) = zone (ps_world s))"
    using cleanup_zones_step [OF Cons.prems] by blast
  have "swept (reliable c zone) ownerID (set_option ?i) (zone (ps_world s)) (zone (ps_world s1))"
    using step cleanup_zone_sweeps by (cases ?i) (fastforce simp: swept_def)+
  from swept_trans [OF this Cons.IH [OF run]] show ?case by (simp add: configured_zones_Cons)
qed

end

section \<open>The contract of the cluster\<close>

text \<open>The stored object is the resource with this key and specification, if it is there; and it carries
  the finalizer. No owned record is in a zone.\<close>

definition same_resource :: "NamespacedName \<Rightarrow> CloudflareDNSSpec \<Rightarrow> CloudflareDNS option \<Rightarrow> bool" where
  "same_resource key spec x \<longleftrightarrow> (\<forall>d. x = Some d \<longrightarrow> dns_key d = key \<and> cdns_Spec d = spec)"

definition held :: "FinalizerLib \<Rightarrow> CloudflareDNS option \<Rightarrow> bool" where
  "held lib x \<longleftrightarrow> (\<exists>d. x = Some d \<and> fl_Contains lib (cdns_Meta d) dnsFinalizer)"

definition free_of :: "string \<Rightarrow> string set \<Rightarrow> (string \<Rightarrow> DNSRecord list) \<Rightarrow> bool" where
  "free_of ownerID zs Z \<longleftrightarrow> (\<forall>z \<in> zs. \<forall>r \<in> List.set (Z z). \<not> IsOwnedByCfgate (Some r) ownerID)"

definition owner_of :: "NamespacedName \<Rightarrow> CloudflareDNSSpec \<Rightarrow> string" where
  "owner_of key spec = (let o' = oc_OwnerID (ds_Ownership spec)
     in if o' = [] then nn_Namespace key @ ''/'' @ nn_Name key else o')"

lemma owner_id_same: "dns_key d = key \<Longrightarrow> cdns_Spec d = spec \<Longrightarrow> owner_id d = owner_of key spec"
  by (auto simp: owner_id_def owner_of_def Let_def)

text \<open>A client of Cloudflare leaves the object in the cluster alone and is reliable.\<close>

definition cf_client :: "('w \<Rightarrow> string \<Rightarrow> SdkRecord list) \<Rightarrow> SdkZone list \<Rightarrow> ('w \<Rightarrow> bool) \<Rightarrow> ('w \<Rightarrow> bool) \<Rightarrow> 'w Client \<Rightarrow> bool" where
  "cf_client store zl A B c \<longleftrightarrow> (\<exists>sdk. c = clientImpl sdk \<and> sdk_zones sdk store zl) \<and>
     client_keeps A c \<and> client_keeps B c \<and> reliable c (client_zone store)"

text \<open>
  The contract. Reads of the cluster, events and status writes change no zone, do not change what
  resource the object is and do not take the finalizer away; others may act meanwhile under the same
  condition. A read of the resource answers with the stored object. A patch that keeps the finalizer
  does not take it away. Every client of Cloudflare is reliable, and the Secret with the credentials
  is there.
\<close>

locale dns_cluster = finalizer_lib "de_Finalizers env"
  for env :: "'w DnsEnv" +
  fixes store :: "'w \<Rightarrow> string \<Rightarrow> SdkRecord list"
    and zl :: "SdkZone list"
    and obj :: "'w \<Rightarrow> CloudflareDNS option"
    and key :: NamespacedName
    and spec :: CloudflareDNSSpec
  assumes reads_same: "env_keeps (\<lambda>w. same_resource key spec (obj w)) env"
    and reads_held: "env_keeps (\<lambda>w. held (de_Finalizers env) (obj w)) env"
    and reads_store: "env_keeps (\<lambda>w. store w = Z) env"
    and get_current: "run_state (de_Get env key) w = (Inr d, w') \<Longrightarrow> obj w = Some d"
    and patch_same: "cdns_Spec new = cdns_Spec old \<Longrightarrow>
      keeps (\<lambda>w. same_resource key spec (obj w)) (de_Patch env old new)"
    and patch_held: "fl_Contains (de_Finalizers env) (cdns_Meta new) dnsFinalizer \<Longrightarrow>
      keeps (\<lambda>w. held (de_Finalizers env) (obj w)) (de_Patch env old new)"
    and patch_store: "keeps (\<lambda>w. store w = Z) (de_Patch env old new)"
    and clients: "clients_are (cf_client store zl (\<lambda>w. same_resource key spec (obj w))
      (\<lambda>w. held (de_Finalizers env) (obj w))) env"
    and credentials: "\<exists>n. credential_secret key spec = Some n \<and> secret_there env n"

text \<open>The invariant: the resource carries the finalizer or its zones are free of its records.\<close>

definition dns_inv ::
  "'w DnsEnv \<Rightarrow> ('w \<Rightarrow> string \<Rightarrow> SdkRecord list) \<Rightarrow> SdkZone list \<Rightarrow> ('w \<Rightarrow> CloudflareDNS option) \<Rightarrow>
     NamespacedName \<Rightarrow> CloudflareDNSSpec \<Rightarrow> 'w ProcState \<Rightarrow> bool" where
  "dns_inv env store zl obj key spec s \<longleftrightarrow>
     same_resource key spec (obj (ps_world s)) \<and>
     (held (de_Finalizers env) (obj (ps_world s)) \<or>
      free_of (owner_of key spec) (configured_zones (zone_named zl) (ds_Zones spec)) (client_zone store (ps_world s))) \<and>
     cached_clients (cf_client store zl (\<lambda>w. same_resource key spec (obj w))
       (\<lambda>w. held (de_Finalizers env) (obj w))) (ps_cred s)"

definition cleans_on_delete :: "CloudflareDNSSpec \<Rightarrow> bool" where
  "cleans_on_delete spec \<longleftrightarrow> ds_Policy spec = DNSPolicySync \<and>
     (case cp_DeleteOnResourceRemoval (ds_CleanupPolicy spec) of None \<Rightarrow> True | Some b \<Rightarrow> b)"

lemma keeps_conj: "keeps P m \<Longrightarrow> keeps Q m \<Longrightarrow> keeps (\<lambda>s. P s \<and> Q s) m"
  by (simp add: keeps_iff)

lemma env_keeps_conj: "env_keeps P env \<Longrightarrow> env_keeps Q env \<Longrightarrow> env_keeps (\<lambda>w. P w \<and> Q w) env"
  by (simp add: env_keeps_def keeps_conj)

lemma client_keeps_conj: "client_keeps P c \<Longrightarrow> client_keeps Q c \<Longrightarrow> client_keeps (\<lambda>w. P w \<and> Q w) c"
  by (simp add: client_keeps_def keeps_conj)

context dns_cluster
begin

abbreviation fin :: FinalizerLib where
  "fin \<equiv> de_Finalizers env"

abbreviation same :: "'w \<Rightarrow> bool" where
  "same w \<equiv> same_resource key spec (obj w)"

abbreviation has_finalizer :: "'w \<Rightarrow> bool" where
  "has_finalizer w \<equiv> held fin (obj w)"

abbreviation client_ok :: "'w Client \<Rightarrow> bool" where
  "client_ok \<equiv> cf_client store zl same has_finalizer"

abbreviation active :: "'w ProcState \<Rightarrow> bool" where
  "active \<equiv> in_process (\<lambda>w. same w \<and> has_finalizer w) client_ok"

abbreviation inv :: "'w ProcState \<Rightarrow> bool" where
  "inv \<equiv> dns_inv env store zl obj key spec"

abbreviation zones_free :: "'w \<Rightarrow> bool" where
  "zones_free w \<equiv> free_of (owner_of key spec) (configured_zones (zone_named zl) (ds_Zones spec)) (client_zone store w)"

lemma active_inv: "active s \<Longrightarrow> inv s"
  by (simp add: in_process_def dns_inv_def)

lemma inv_active: "inv s \<Longrightarrow> has_finalizer (ps_world s) \<Longrightarrow> active s"
  by (simp add: in_process_def dns_inv_def)

lemma client_ok_keeps: "client_ok c \<Longrightarrow> client_keeps (\<lambda>w. same w \<and> has_finalizer w) c"
  by (simp add: cf_client_def client_keeps_conj)

lemmas reads_active = env_keeps_conj [OF reads_same reads_held]

text \<open>A call that changes no zone and leaves the finalizer keeps the invariant.\<close>

lemma inv_k8s:
  assumes "keeps same m" "keeps has_finalizer m" "\<And>Z. keeps (\<lambda>w. store w = Z) m"
  shows "keeps inv (k8s m)"
  unfolding keeps_iff
proof (intro allI impI)
  fix s assume s: "inv s"
  obtain r w where r: "run_state m (ps_world s) = (r, w)" by (rule prod.exhaust)
  have "same w" using tripleD [OF assms(1) r] s by (simp add: dns_inv_def)
  moreover have "has_finalizer (ps_world s) \<Longrightarrow> has_finalizer w" using tripleD [OF assms(2) r] by simp
  moreover have "client_zone store w = client_zone store (ps_world s)"
    using tripleD [OF assms(3) r refl] by (simp add: client_zone_def fun_eq_iff)
  ultimately show "inv (snd (run_state (k8s m) s))" using s r by (auto simp: dns_inv_def)
qed

lemma inv_reads: "keeps inv (k8s (de_Get env n))"
  by (intro inv_k8s env_keepsD reads_same reads_held reads_store)

text \<open>Releasing the finalizer when the zones are free.\<close>

lemma inv_patch_free:
  assumes "cdns_Spec new = cdns_Spec old" "inv s" "zones_free (ps_world s)" "run_state (k8s (de_Patch env old new)) s = (r, s')"
  shows "inv s'"
proof -
  obtain q w where q: "run_state (de_Patch env old new) (ps_world s) = (q, w)" by (rule prod.exhaust)
  have "same w" using tripleD [OF patch_same [OF assms(1)] q] assms(2) by (simp add: dns_inv_def)
  moreover have "client_zone store w = client_zone store (ps_world s)"
    using tripleD [OF patch_store q refl] by (simp add: client_zone_def fun_eq_iff)
  ultimately show ?thesis using assms(2,3,4) q by (auto simp: dns_inv_def)
qed

end

section \<open>The invariant\<close>

context dns_cluster
begin

lemma inv_cleanup:
  assumes "active s" "dns_key dns = key" "cdns_Spec dns = spec" "run_state (cleanupRecordsWithFallback env dns) s = (r, s')"
  shows "r = Inr () \<and> active s' \<and> zones_free (ps_world s')"
proof -
  obtain n where n: "credential_secret (dns_key dns) (cdns_Spec dns) = Some n" "secret_there env n"
    using credentials assms(2,3) by auto
  obtain c s1 where c: "run_state (getCloudflareClientWithFallback env dns) s = (Inr c, s1)"
    using credentials_found [OF n] unfolding succeeds_iff by blast
  from tripleD [OF getCloudflareClientWithFallback_yields [OF reads_active clients] c assms(1)]
  have s1: "active s1" and ok: "client_ok c" by simp_all
  obtain u s2 where u: "run_state (cleanup_zones c dns (owner_id dns) (ds_Zones spec)) (s1\<lparr>ps_svc := None\<rparr>) = (u, s2)"
    by (rule prod.exhaust)
  then have r: "r = Inr ()" "s' = s2"
    using assms(3,4) c by (simp_all add: cleanupRecordsWithFallback_def)
  have "active (s1\<lparr>ps_svc := None\<rparr>)" using s1 by (simp add: in_process_def)
  with tripleD [OF cleanup_zones_keeps [OF client_ok_keeps [OF ok]] u] have "active s2" by simp
  moreover obtain sdk where sdk: "c = clientImpl sdk" "sdk_zones sdk store zl" and rel: "reliable c (client_zone store)"
    using ok by (auto simp: cf_client_def)
  have "zones_free (ps_world s2)"
    using zone_lookup.cleanup_zones_sweep [OF sdk_zones.client_finds_zones [OF sdk(2)] u [unfolded sdk(1)]] rel sdk(1)
      owner_id_same [OF assms(2,3)] by (simp add: swept_def free_of_def)
  ultimately show ?thesis using r by simp
qed

lemma inv_delete:
  assumes "inv s" "has_finalizer (ps_world s)" "dns_key dns = key" "cdns_Spec dns = spec" "cleans_on_delete spec"
    and "run_state (dns_reconcileDelete env dns) s = (r, s')"
  shows "inv s'"
proof (cases "fl_Contains fin (cdns_Meta dns) dnsFinalizer")
  case True
  let ?new = "dns\<lparr>cdns_Meta := fl_Remove fin (cdns_Meta dns) dnsFinalizer\<rparr>"
  obtain q s1 where q: "run_state (cleanupRecordsWithFallback env dns) s = (q, s1)" by (rule prod.exhaust)
  from inv_cleanup [OF inv_active [OF assms(1,2)] assms(3,4) q]
  have "q = Inr ()" and s1: "active s1" "zones_free (ps_world s1)" by simp_all
  obtain x s2 where x: "run_state (k8s (de_Patch env dns ?new)) s1 = (x, s2)" by (rule prod.exhaust)
  then have "s' = s2"
    using assms(4-6) True q \<open>q = Inr ()\<close>
    by (auto simp: dns_reconcileDelete_def cleans_on_delete_def simp del: run_k8s split: sum.splits option.splits)
  with inv_patch_free [OF _ active_inv [OF s1(1)] s1(2) x] show ?thesis by simp
next
  case False
  with assms(1,6) show ?thesis by (simp add: dns_reconcileDelete_def)
qed

lemma inv_reconcile:
  assumes "cleans_on_delete spec"
  shows "keeps inv (dns_Reconcile env key)"
proof (rule tripleI)
  fix s r s'
  assume s: "inv s" and run: "run_state (dns_Reconcile env key) s = (r, s')"
  obtain g s1 where g: "run_state (k8s (de_Get env key)) s = (g, s1)" by (rule prod.exhaust)
  have s1: "inv s1" using tripleD [OF inv_reads g s] .
  show "inv s'"
  proof (cases g)
    case (Inl e)
    with run g s1 show ?thesis by (auto simp: dns_Reconcile_def simp del: run_k8s split: if_splits)
  next
    case (Inr dns)
    then have cur: "obj (ps_world s) = Some dns" using g get_current by (auto split: prod.splits)
    then have dns: "dns_key dns = key" "cdns_Spec dns = spec" using s by (auto simp: dns_inv_def same_resource_def)
    show ?thesis
    proof (cases "fl_Contains fin (cdns_Meta dns) dnsFinalizer")
      case True
      then have "has_finalizer (ps_world s)" using cur by (simp add: held_def)
      then have act: "active s1"
        using tripleD [OF keeps_k8s [OF env_keepsD(1) [OF reads_active]] g inv_active [OF s]] by simp
      show ?thesis
      proof (cases "om_DeletionTimestamp (cdns_Meta dns)")
        case None
        have "keeps active (do {
            t \<leftarrow> resolveTarget env dns;
            case t of
              Inl err \<Rightarrow> fail_with env dns ''Ready'' ''TargetResolutionFailed'' err
            | Inr (target, tunnel) \<Rightarrow>
                reconcile_active env (dns\<lparr>cdns_Status := (cdns_Status dns)\<lparr>dst_ResolvedTarget := target\<rparr>\<rparr>) target tunnel
          })"
          by (intro keeps reads_active reconcile_active_keeps clients client_ok_keeps)
        from active_inv [OF tripleD [OF this _ act]] run g Inr True None show ?thesis
          by (simp add: dns_Reconcile_def del: run_k8s)
      next
        case (Some t)
        obtain q s2 where q: "run_state (dns_reconcileDelete env dns) s1 = (q, s2)" by (rule prod.exhaust)
        have "inv s2" using act by (intro inv_delete [OF s1 _ dns assms q]) (simp add: in_process_def)
        with run g q Inr Some show ?thesis by (simp add: dns_Reconcile_def del: run_k8s)
      qed
    next
      case False
      let ?new = "dns\<lparr>cdns_Meta := fl_Add fin (cdns_Meta dns) dnsFinalizer\<rparr>"
      have patch: "keeps inv (k8s (de_Patch env dns ?new))"
        by (intro inv_k8s patch_same patch_held patch_store) (simp_all add: contains_add)
      obtain q s2 where q: "run_state (k8s (de_Patch env dns ?new)) s1 = (q, s2)" by (rule prod.exhaust)
      have "s' = s1 \<or> s' = s2"
        using run g Inr False q
        by (auto simp: dns_Reconcile_def dns_reconcileDelete_def simp del: run_k8s split: if_splits sum.splits)
      with s1 tripleD [OF patch q s1] show ?thesis by auto
    qed
  qed
qed

end

section \<open>Histories\<close>

text \<open>A step is a reconcile of the resource, a restart of the process, which loses its caches, or an action
  of others: users, the API server, other controllers, other owners of the zones.\<close>

inductive dns_step :: "'w DnsEnv \<Rightarrow> NamespacedName \<Rightarrow> ('w \<Rightarrow> 'w \<Rightarrow> bool) \<Rightarrow> 'w ProcState \<Rightarrow> 'w ProcState \<Rightarrow> bool"
  for env key others where
  reconcile: "run_state (dns_Reconcile env key) s = (r, s') \<Longrightarrow> dns_step env key others s s'"
| restart: "dns_step env key others s \<lparr>ps_cred = Some (NewCredentialCache ttl), ps_svc = None, ps_world = ps_world s\<rparr>"
| other: "others (ps_world s) w \<Longrightarrow> dns_step env key others s (s\<lparr>ps_world := w\<rparr>)"

inductive_cases dns_stepE: "dns_step env key others s s'"

text \<open>Others may create the resource, change its status and mark it for deletion, remove it when it has
  no finalizer, and change the zones; they do not take the finalizer away, edit the specification or
  write records that count as owned by the resource.\<close>

definition by_others ::
  "FinalizerLib \<Rightarrow> ('w \<Rightarrow> CloudflareDNS option) \<Rightarrow> NamespacedName \<Rightarrow> CloudflareDNSSpec \<Rightarrow> ('w \<Rightarrow> string \<Rightarrow> DNSRecord list) \<Rightarrow>
     string set \<Rightarrow> 'w \<Rightarrow> 'w \<Rightarrow> bool" where
  "by_others lib obj key spec Z zs w w' \<longleftrightarrow>
     (same_resource key spec (obj w) \<longrightarrow> same_resource key spec (obj w')) \<and>
     (held lib (obj w) \<longrightarrow> held lib (obj w')) \<and>
     (\<forall>z \<in> zs. \<forall>r \<in> List.set (Z w' z). IsOwnedByCfgate (Some r) (owner_of key spec) \<longrightarrow> r \<in> List.set (Z w z))"

context dns_cluster
begin

abbreviation step :: "'w ProcState \<Rightarrow> 'w ProcState \<Rightarrow> bool" where
  "step \<equiv> dns_step env key (by_others fin obj key spec (client_zone store)
     (configured_zones (zone_named zl) (ds_Zones spec)))"

lemma inv_step: "step s s' \<Longrightarrow> cleans_on_delete spec \<Longrightarrow> inv s \<Longrightarrow> inv s'"
proof (induction rule: dns_step.induct)
  case (reconcile s r s')
  then show ?case using tripleD [OF inv_reconcile] by blast
next
  case (restart s ttl)
  then show ?case by (simp add: dns_inv_def cached_clients_def NewCredentialCache_def)
next
  case (other s w)
  then show ?case by (fastforce simp: dns_inv_def by_others_def free_of_def)
qed

lemma inv_history: "rtranclp step s s' \<Longrightarrow> cleans_on_delete spec \<Longrightarrow> inv s \<Longrightarrow> inv s'"
  by (induction rule: rtranclp_induct) (auto intro: inv_step)

end

section \<open>An in-memory cluster\<close>

text \<open>A cluster with one object and an in-memory Cloudflare. A patch writes the finalizers; an object that
  is marked for deletion goes with its last finalizer.\<close>

record MemCluster =
  mc_obj :: "CloudflareDNS option"
  mc_zones :: "string \<Rightarrow> SdkRecord list"

definition on_zones :: "(string \<Rightarrow> SdkRecord list, 'a) io \<Rightarrow> (MemCluster, 'a) io" where
  "on_zones m = State (\<lambda>w. case run_state m (mc_zones w) of (a, z) \<Rightarrow> (a, w\<lparr>mc_zones := z\<rparr>))"

definition cluster_sdk :: "(string \<Rightarrow> SdkRecord list) Sdk \<Rightarrow> MemCluster Sdk" where
  "cluster_sdk sdk =
     \<lparr>TunnelsGet = (\<lambda>t a. on_zones (TunnelsGet sdk t a)), TunnelsList = (\<lambda>a n. on_zones (TunnelsList sdk a n)),
      TunnelsNew = (\<lambda>a n s c. on_zones (TunnelsNew sdk a n s c)), TunnelsDelete = (\<lambda>t a. on_zones (TunnelsDelete sdk t a)),
      ConnectionsDelete = (\<lambda>t a. on_zones (ConnectionsDelete sdk t a)), TokenGet = (\<lambda>t a. on_zones (TokenGet sdk t a)),
      ConfigurationsUpdate = (\<lambda>t a c. on_zones (ConfigurationsUpdate sdk t a c)),
      RecordsList = (\<lambda>z q. on_zones (RecordsList sdk z q)), RecordsNew = (\<lambda>z b. on_zones (RecordsNew sdk z b)),
      RecordsUpdate = (\<lambda>i z b. on_zones (RecordsUpdate sdk i z b)), RecordsDelete = (\<lambda>i z. on_zones (RecordsDelete sdk i z)),
      ZonesListAutoPaging = on_zones (ZonesListAutoPaging sdk), ZonesList = (\<lambda>n. on_zones (ZonesList sdk n)),
      AccountsList = on_zones (AccountsList sdk)\<rparr>"

definition finish_delete :: "CloudflareDNS \<Rightarrow> CloudflareDNS option" where
  "finish_delete d = (if om_DeletionTimestamp (cdns_Meta d) \<noteq> None \<and> om_Finalizers (cdns_Meta d) = [] then None else Some d)"

definition cluster_patch :: "CloudflareDNS \<Rightarrow> CloudflareDNS \<Rightarrow> (MemCluster, CloudflareDNS res) io" where
  "cluster_patch old new = State (\<lambda>w. case mc_obj w of
     None \<Rightarrow> (Inl down, w)
   | Some d \<Rightarrow> (let d' = d\<lparr>cdns_Meta := (cdns_Meta d)\<lparr>om_Finalizers := om_Finalizers (cdns_Meta new)\<rparr>\<rparr>
               in (Inr d', w\<lparr>mc_obj := finish_delete d'\<rparr>)))"

definition cluster_env :: "SdkZone list \<Rightarrow> MemCluster DnsEnv" where
  "cluster_env zl =
     \<lparr>de_Get = (\<lambda>n. State (\<lambda>w. (case mc_obj w of None \<Rightarrow> Inl down | Some d \<Rightarrow> Inr d, w))),
      de_GetTunnel = (\<lambda>n. ret (Inl down)),
      de_GetSecret = (\<lambda>n. ret (Inr (zero_Secret\<lparr>sec_Name := nn_Name n, sec_Data := [(''CLOUDFLARE_API_TOKEN'', ''t'')]\<rparr>))),
      de_Patch = cluster_patch,
      de_StatusUpdate = (\<lambda>x. State (\<lambda>w. (Inr (), w\<lparr>mc_obj := map_option (\<lambda>d. d\<lparr>cdns_Status := cdns_Status x\<rparr>) (mc_obj w)\<rparr>))),
      de_ListByField = (\<lambda>k v. ret (Inr [])), de_ListGateways = ret (Inr []), de_ListRoutes = ret (Inr []),
      de_Event = (\<lambda>n t r a m. ret ()), de_Now = ret 5, de_Range = ret,
      de_CFClient = None, de_cfNewClient = (\<lambda>t. cluster_sdk (named_sdk zl)),
      de_Finalizers = std_finalizers, de_etld1 = (\<lambda>h. Inr ''example.com'')\<rparr>"

lemma on_zones_keeps: "keeps (\<lambda>w. P (mc_obj w)) (on_zones m)"
  by (simp add: keeps_iff on_zones_def split_beta)

lemma run_on_zones:
  "run_state (on_zones m) w = (r, w') \<Longrightarrow> run_state m (mc_zones w) = (r, mc_zones w')"
  by (auto simp: on_zones_def split: prod.splits)

lemma cluster_sdk_zones: "sdk_zones (cluster_sdk (named_sdk zl)) mc_zones zl"
proof -
  have "sdk_dns (cluster_sdk (named_sdk zl)) mc_zones"
    by unfold_locales (simp_all add: cluster_sdk_def, (drule run_on_zones, drule named.sdk_list named.sdk_new named.sdk_update named.sdk_delete, simp)+)
  then show ?thesis
    by (rule sdk_zones.intro) (unfold_locales, simp add: cluster_sdk_def, drule run_on_zones, drule named.sdk_find_zone, simp)
qed

lemma cluster_sdk_keeps:
  "keeps (\<lambda>w. P (mc_obj w)) (RecordsList (cluster_sdk sdk) z q)" "keeps (\<lambda>w. P (mc_obj w)) (RecordsNew (cluster_sdk sdk) z b)"
  "keeps (\<lambda>w. P (mc_obj w)) (RecordsUpdate (cluster_sdk sdk) i z b)" "keeps (\<lambda>w. P (mc_obj w)) (RecordsDelete (cluster_sdk sdk) i z)"
  "keeps (\<lambda>w. P (mc_obj w)) (ZonesList (cluster_sdk sdk) n)"
  by (simp_all add: cluster_sdk_def on_zones_keeps)

lemma cluster_client_keeps: "client_keeps (\<lambda>w. P (mc_obj w)) (clientImpl (cluster_sdk sdk))"
  unfolding client_keeps_def
  by (simp add: clientImpl_def ci_ListDNSRecordsByNameType_def ci_ListDNSRecords_def ci_CreateDNSRecord_def ci_UpdateDNSRecord_def
      ci_DeleteDNSRecord_def ci_GetZoneByName_def, intro conjI allI keeps cluster_sdk_keeps)

lemma cluster_reliable: "reliable (clientImpl (cluster_sdk (named_sdk zl))) (client_zone mc_zones)"
  by (auto simp: reliable_def named_sdk_def cluster_sdk_def on_zones_def ci_ListDNSRecords_def mem_List_def ci_DeleteDNSRecord_def
      mem_Delete_def client_zone_def clientImpl_def ci_GetZoneByName_def)

lemma cluster_env_keeps:
  assumes "\<And>d st. P (Some d) \<Longrightarrow> P (Some (d\<lparr>cdns_Status := st\<rparr>))"
  shows "env_keeps (\<lambda>w. P (mc_obj w)) (cluster_env zl)"
proof -
  have "P (map_option (\<lambda>d. d\<lparr>cdns_Status := st\<rparr>) x)" if "P x" for x st
    using that assms by (cases x) auto
  then show ?thesis by (simp add: env_keeps_def keeps_iff cluster_env_def)
qed

lemma status_update_same:
  "same_resource key spec (Some d) \<Longrightarrow> same_resource key spec (Some (d\<lparr>cdns_Status := st\<rparr>))"
  "held lib (Some d) \<Longrightarrow> held lib (Some (d\<lparr>cdns_Status := st\<rparr>))"
  by (simp_all add: same_resource_def held_def)

lemma cluster_patch_same: "keeps (\<lambda>w. same_resource key spec (mc_obj w)) (cluster_patch old new)"
  by (auto simp: keeps_iff cluster_patch_def same_resource_def finish_delete_def Let_def split: option.splits)

lemma cluster_patch_held:
  "fl_Contains std_finalizers (cdns_Meta new) dnsFinalizer \<Longrightarrow>
   keeps (\<lambda>w. held std_finalizers (mc_obj w)) (cluster_patch old new)"
  by (auto simp: keeps_iff cluster_patch_def held_def finish_delete_def std_finalizers_def Let_def split: option.splits)

lemma cluster_env_simps [simp]:
  "de_Patch (cluster_env zl) = cluster_patch" "de_Finalizers (cluster_env zl) = std_finalizers"
  by (simp_all add: cluster_env_def)

interpretation mem_cluster: dns_cluster "cluster_env [wit_sdk_zone]" mc_zones "[wit_sdk_zone]" mc_obj
  "dns_key wit_cleanup_dns" "cdns_Spec wit_cleanup_dns"
proof (intro dns_cluster.intro dns_cluster_axioms.intro)
  let ?env = "cluster_env [wit_sdk_zone]" and ?key = "dns_key wit_cleanup_dns" and ?spec = "cdns_Spec wit_cleanup_dns"
  show "finalizer_lib (de_Finalizers ?env)" by (simp add: std_fin.finalizer_lib_axioms)
  show "env_keeps (\<lambda>w. same_resource ?key ?spec (mc_obj w)) ?env"
    by (intro cluster_env_keeps status_update_same)
  show "env_keeps (\<lambda>w. held (de_Finalizers ?env) (mc_obj w)) ?env"
    by (intro cluster_env_keeps status_update_same)
  show "env_keeps (\<lambda>w. mc_zones w = Z) ?env" for Z
    by (simp add: env_keeps_def keeps_iff cluster_env_def)
  show "mc_obj w = Some d" if "run_state (de_Get ?env ?key) w = (Inr d, w')" for w d w'
    using that by (simp add: cluster_env_def split: option.splits)
  show "keeps (\<lambda>w. same_resource ?key ?spec (mc_obj w)) (de_Patch ?env old new)" for old new
    by (simp only: cluster_env_simps cluster_patch_same)
  show "keeps (\<lambda>w. held (de_Finalizers ?env) (mc_obj w)) (de_Patch ?env old new)"
    if "fl_Contains (de_Finalizers ?env) (cdns_Meta new) dnsFinalizer" for old new
    using that by (simp only: cluster_env_simps cluster_patch_held)
  show "keeps (\<lambda>w. mc_zones w = Z) (de_Patch ?env old new)" for Z old new
    by (simp add: keeps_iff cluster_patch_def Let_def split: option.split)
  have cl: "de_CFClient ?env = None" "de_cfNewClient ?env token = cluster_sdk (named_sdk [wit_sdk_zone])" for token
    by (simp_all add: cluster_env_def)
  show "clients_are (cf_client mc_zones [wit_sdk_zone] (\<lambda>w. same_resource ?key ?spec (mc_obj w))
      (\<lambda>w. held (de_Finalizers ?env) (mc_obj w))) ?env"
    unfolding clients_are_def cf_client_def cl using cluster_sdk_zones cluster_reliable cluster_client_keeps by blast
  show "\<exists>n. credential_secret ?key ?spec = Some n \<and> secret_there ?env n"
    by (simp add: credential_secret_def secret_there_def cluster_env_def wit_cleanup_dns_def wit_dns_def)
qed

section \<open>Properties\<close>

text \<open>C3: No record is orphaned. In every history of reconciles, restarts and actions of others that starts
  with a resource that carries the finalizer or with zones free of its records, and with clients in
  the credential cache that were made from a token: whenever the resource is gone, or is there
  without its finalizer, no record that counts as owned by it is left in the zones it configures.
  This is for resources with the policy sync that do not switch off the cleanup, against an API that
  is reliable and credentials that can be read, and for a specification that is not edited.\<close>

theorem no_orphaned_records:
  assumes "dns_cluster env store zl obj key spec" "cleans_on_delete spec" "dns_inv env store zl obj key spec s"
    and "rtranclp (dns_step env key (by_others (de_Finalizers env) obj key spec (client_zone store)
      (configured_zones (zone_named zl) (ds_Zones spec)))) s s'"
    and "\<not> held (de_Finalizers env) (obj (ps_world s'))"
  shows "free_of (owner_of key spec) (configured_zones (zone_named zl) (ds_Zones spec)) (client_zone store (ps_world s'))"
  using dns_cluster.inv_history [OF assms(1,4,2,3)] assms(5) by (simp add: dns_inv_def)

definition wit_deleted_dns :: CloudflareDNS where
  "wit_deleted_dns = wit_cleanup_dns\<lparr>cdns_Meta := (cdns_Meta wit_cleanup_dns)\<lparr>om_DeletionTimestamp := Some 7\<rparr>\<rparr>"

definition wit_deleted_state :: "MemCluster ProcState" where
  "wit_deleted_state = \<lparr>ps_cred = None, ps_svc = None,
     ps_world = \<lparr>mc_obj = Some wit_deleted_dns, mc_zones = wit_cleanup_zone\<rparr>\<rparr>"

lemma wit_deleted_fields:
  "dns_key wit_deleted_dns = dns_key wit_cleanup_dns" "cdns_Spec wit_deleted_dns = cdns_Spec wit_cleanup_dns"
  "om_Finalizers (cdns_Meta wit_deleted_dns) = [dnsFinalizer]" "om_DeletionTimestamp (cdns_Meta wit_deleted_dns) = Some 7"
  by (simp_all add: wit_deleted_dns_def wit_cleanup_dns_def wit_dns_def wit_meta_def)

lemma wit_cleanup_cleans: "cleans_on_delete (cdns_Spec wit_cleanup_dns)"
  by (simp add: cleans_on_delete_def wit_cleanup_dns_def wit_dns_def DNSPolicySync_def)

lemma wit_deleted_inv:
  "dns_inv (cluster_env [wit_sdk_zone]) mc_zones [wit_sdk_zone] mc_obj (dns_key wit_cleanup_dns)
     (cdns_Spec wit_cleanup_dns) wit_deleted_state"
  by (simp add: dns_inv_def wit_deleted_state_def same_resource_def held_def cached_clients_def wit_deleted_fields std_finalizers_def)

lemma wit_owned_before:
  "\<not> free_of ownerID (configured_zones (zone_named [wit_sdk_zone]) (ds_Zones (cdns_Spec wit_cleanup_dns)))
     (client_zone mc_zones (ps_world wit_deleted_state))"
proof -
  have "Contains ''managed by cfgate, dns=infra/gw'' ''managed by cfgate''" "\<not> HasPrefix ''t.cfargotunnel.com'' ''heritage=cfgate''"
    by (simp_all add: Contains_def HasPrefix_def)
  then show ?thesis
    by (auto simp: free_of_def configured_zones_def zone_named_def wit_cleanup_dns_def wit_sdk_zone_def wit_deleted_state_def
        client_zone_def wit_cleanup_zone_def IsOwnedByCfgate_def)
qed

lemma cluster_patch_releases:
  "om_Finalizers (cdns_Meta new) = [] \<Longrightarrow> run_state (cluster_patch old new) w = (r, w') \<Longrightarrow> \<not> held std_finalizers (mc_obj w')"
  by (auto simp: cluster_patch_def held_def finish_delete_def std_finalizers_def Let_def split: option.splits if_splits)

lemma wit_delete_releases:
  assumes "run_state (dns_Reconcile (cluster_env [wit_sdk_zone]) (dns_key wit_cleanup_dns)) wit_deleted_state = (r, s')"
  shows "\<not> held std_finalizers (mc_obj (ps_world s'))"
proof -
  let ?env = "cluster_env [wit_sdk_zone]"
  let ?new = "wit_deleted_dns\<lparr>cdns_Meta := fl_Remove std_finalizers (cdns_Meta wit_deleted_dns) dnsFinalizer\<rparr>"
  have get: "run_state (de_Get ?env n) (ps_world wit_deleted_state) = (Inr wit_deleted_dns, ps_world wit_deleted_state)" for n
    by (simp add: cluster_env_def wit_deleted_state_def)
  have has: "fl_Contains std_finalizers (cdns_Meta wit_deleted_dns) dnsFinalizer"
    by (simp add: std_finalizers_def wit_deleted_fields)
  from assms get has obtain s1 q w where "run_state (cluster_patch wit_deleted_dns ?new) (ps_world s1) = (q, w)" "s' = s1\<lparr>ps_world := w\<rparr>"
    by (auto simp: dns_Reconcile_def dns_reconcileDelete_def wit_deleted_fields Let_def split: prod.splits sum.splits)
  with cluster_patch_releases [OF _ this(1)] show ?thesis by (simp add: std_finalizers_def wit_deleted_fields)
qed

theorem no_orphaned_records_witness:
  "\<exists>r s'. run_state (dns_Reconcile (cluster_env [wit_sdk_zone]) (dns_key wit_cleanup_dns)) wit_deleted_state = (r, s') \<and>
     \<not> free_of ''infra/gw'' {''z1''} (client_zone mc_zones (ps_world wit_deleted_state)) \<and>
     free_of ''infra/gw'' {''z1''} (client_zone mc_zones (ps_world s'))"
proof -
  let ?env = "cluster_env [wit_sdk_zone]" and ?key = "dns_key wit_cleanup_dns" and ?spec = "cdns_Spec wit_cleanup_dns"
  obtain r s' where run: "run_state (dns_Reconcile ?env ?key) wit_deleted_state = (r, s')" by (rule prod.exhaust)
  have zones: "configured_zones (zone_named [wit_sdk_zone]) (ds_Zones ?spec) = {''z1''}" "owner_of ?key ?spec = ''infra/gw''"
    by (auto simp: configured_zones_def zone_named_def wit_cleanup_dns_def wit_dns_def wit_sdk_zone_def owner_of_def wit_meta_def)
  have released: "\<not> held (de_Finalizers ?env) (mc_obj (ps_world s'))" using wit_delete_releases [OF run] by simp
  note step = r_into_rtranclp [where r = "dns_step _ _ _", OF dns_step.reconcile [OF run]]
  from no_orphaned_records [OF mem_cluster.dns_cluster_axioms wit_cleanup_cleans wit_deleted_inv step released]
  have "free_of ''infra/gw'' {''z1''} (client_zone mc_zones (ps_world s'))" unfolding zones .
  with wit_owned_before [of "''infra/gw''", unfolded zones] run show ?thesis by (intro exI conjI)
qed

end
