(* ===== verification/Sync_Stable.thy ===== *)
theory Sync_Stable
  imports Zone_Sync State_Triples
begin

text \<open>
  A settled zone is a fixed point of the record sync (syncRecords in
  internal/controller/cloudflaredns_controller.go, SyncRecordWithPolicy and CreateOwnershipRecord in
  internal/cloudflare/dns.go). \<open>Zone_Sync\<close> shows that a sync leaves the zones settled; here a sync of
  settled zones changes nothing, so that reconciles that find nothing new write nothing.
\<close>

section \<open>The cache agrees with the zones\<close>

definition agrees_with :: "string set \<Rightarrow> (string \<Rightarrow> DNSRecord list) \<Rightarrow> 'w DNSService \<Rightarrow> bool" where
  "agrees_with ids Z t \<longleftrightarrow> (\<forall>z \<in> ids. \<forall>n. \<forall>ty \<in> {''CNAME'', ''TXT''}.
     cached t z n ty = None \<or> cached t z n ty = Some (find_record n ty (Z z)))"

definition still :: "('w \<Rightarrow> string \<Rightarrow> DNSRecord list) \<Rightarrow> string set \<Rightarrow> (string \<Rightarrow> DNSRecord list) \<Rightarrow> 'w DNSService \<Rightarrow> bool" where
  "still zone ids Z t \<longleftrightarrow> zone (svc_world t) = Z \<and> agrees_with ids Z t"

definition proc_still :: "('w \<Rightarrow> string \<Rightarrow> DNSRecord list) \<Rightarrow> string set \<Rightarrow> (string \<Rightarrow> DNSRecord list) \<Rightarrow> 'w ProcState \<Rightarrow> bool" where
  "proc_still zone ids Z s \<longleftrightarrow> still zone ids Z (service s)"

lemma agrees_withD:
  assumes "agrees_with ids Z t" "z \<in> ids" "ty \<in> {''CNAME'', ''TXT''}" "cached t z n ty = Some x"
  shows "x = find_record n ty (Z z)"
proof -
  have "cached t z n ty = None \<or> cached t z n ty = Some (find_record n ty (Z z))"
    using assms(1) [unfolded agrees_with_def, THEN bspec, OF assms(2), THEN spec, THEN bspec, OF assms(3)] .
  with assms(4) show ?thesis by simp
qed

lemma cache_key_eq:
  assumes "CHR '':'' \<notin> List.set z" "CHR '':'' \<notin> List.set z'" "t \<in> {''CNAME'', ''TXT''}" "t' \<in> {''CNAME'', ''TXT''}"
    and "cache_key z n t = cache_key z' n' t'"
  shows "z = z' \<and> n = n' \<and> t = t'"
proof -
  have "t = t'" using cache_key_type [of t t' z n z' n'] assms(3-5) by auto
  with cache_key_inj [OF assms(1,2)] assms(5) show ?thesis by auto
qed

lemma yields_svc: "yields (still zone ids Z) m F \<Longrightarrow> yields (proc_still zone ids Z) (svc m) F"
proof (rule tripleI)
  fix s r s'
  assume m: "yields (still zone ids Z) m F" and s: "proc_still zone ids Z s" and run: "run_state (svc m) s = (r, s')"
  from svc_service [OF run] have "run_state m (service s) = (r, service s')" by auto
  from tripleD [OF m this] s show "proc_still zone ids Z s' \<and> (\<forall>x. r = Inr x \<longrightarrow> F x)" by (simp add: proc_still_def)
qed

context dns_zone_api
begin

lemma find_still:
  assumes "z \<in> ids" "t \<in> {''CNAME'', ''TXT''}" "\<forall>z \<in> ids. CHR '':'' \<notin> List.set z"
  shows "yields (still zone ids Z) (FindRecordByName c z n t) (\<lambda>x. x = find_record n t (Z z))"
proof (rule tripleI)
  fix s r s'
  assume s: "still zone ids Z s" and run: "run_state (FindRecordByName c z n t) s = (r, s')"
  show "still zone ids Z s' \<and> (\<forall>x. r = Inr x \<longrightarrow> x = find_record n t (Z z))"
  proof (cases "cached s z n t")
    case None
    from FindRecordByName_fresh [OF None run] s
    have zs: "zone (svc_world s') = Z" and r: "\<forall>x. r = Inr x \<longrightarrow> x = find_record n t (Z z)"
      by (simp_all add: still_def lookup_zone_def)
    have "cached s' z' n' t' = None \<or> cached s' z' n' t' = Some (find_record n' t' (Z z'))"
      if q: "z' \<in> ids" "t' \<in> {''CNAME'', ''TXT''}" for z' n' t'
    proof (cases "cache_key z' n' t' = cache_key z n t")
      case True
      then have "z' = z \<and> n' = n \<and> t' = t" using cache_key_eq [of z' z t' t n' n] assms q by auto
      with None run r show ?thesis
        by (cases "svc_cache s") (auto simp: FindRecordByName_miss Let_def cached_def cache_Get_def cache_Set_def
            split: prod.splits sum.splits)
    next
      case False
      then have "cached s' z' n' t' = cached s z' n' t'" using caches_only_find run unfolding caches_only_def by blast
      with s q show ?thesis by (auto simp: still_def agrees_with_def)
    qed
    with zs r show ?thesis by (simp add: still_def agrees_with_def)
  next
    case (Some x)
    then have "x = find_record n t (Z z)" using s assms(1,2) by (intro agrees_withD) (simp_all add: still_def)
    with run Some s show ?thesis by (auto simp: FindRecordByName_hit)
  qed
qed

lemma sync_still:
  assumes "z \<in> ids" "\<forall>z \<in> ids. CHR '':'' \<notin> List.set z" "dr_Type d = ''CNAME''"
    and "find_record (dr_Name d) ''CNAME'' (Z z) = Some e" "\<not> sync_needed policy ownerID d e"
  shows "yields (still zone ids Z) (SyncRecordWithPolicy c z d ownerID policy) (\<lambda>x. x = (Some e, False))"
proof -
  note found = yields_bind_yields [OF find_still [OF assms(1) _ assms(2), of "''CNAME''" Z "dr_Name d"]]
  show ?thesis
    unfolding SyncRecordWithPolicy_def assms(3)
    by (rule found) (use assms(4,5) in \<open>auto simp: Let_def sync_needed_def AllowsUpdate_def triple_def\<close>)
qed

lemma ownership_still:
  assumes "z \<in> ids" "\<forall>z \<in> ids. CHR '':'' \<notin> List.set z"
    and "d = BuildOwnershipTXTRecord (op_Hostname p) (op_OwnerID p) (op_Resource p) (op_Prefix p)"
    and "find_record (dr_Name d) ''TXT'' (Z z) = Some e" "dr_Content e = dr_Content d" "dr_Comment e = dr_Comment d"
  shows "yields (still zone ids Z) (CreateOwnershipRecord c z p) (\<lambda>_. True)"
proof -
  have t: "dr_Type d = ''TXT''" using assms(3) by (simp add: BuildOwnershipTXTRecord_def)
  note found = yields_bind_yields [OF find_still [OF assms(1) _ assms(2), of "''TXT''" Z "dr_Name d"]]
  show ?thesis
    unfolding CreateOwnershipRecord_def Let_def assms(3) [symmetric] t
    by (rule found) (use assms(4-6) in \<open>auto simp: triple_def\<close>)
qed

end

section \<open>The loop\<close>

definition ownership_record :: "CloudflareDNS \<Rightarrow> string \<Rightarrow> DNSRecord" where
  "ownership_record dns h = BuildOwnershipTXTRecord h (owner_id dns)
     (''CloudflareDNS/'' @ dns_ns dns @ ''/'' @ dns_name dns) (ownership_prefix dns)"

text \<open>The records of a hostname are in its zone and as the sync wants them.\<close>

definition in_order ::
  "'w DnsEnv \<Rightarrow> CloudflareDNS \<Rightarrow> string \<Rightarrow> strmap \<Rightarrow> (string \<Rightarrow> DNSRecord list) \<Rightarrow> string \<Rightarrow> HostnameConfig \<Rightarrow> bool" where
  "in_order env dns target zones Z h cfg \<longleftrightarrow> (\<forall>z. zone_of env zones h = Some z \<longrightarrow>
     (\<exists>e. find_record h ''CNAME'' (Z z) = Some e \<and>
        \<not> sync_needed (sync_policy dns) (owner_id dns) (desired_record dns target h cfg) e) \<and>
     (shouldCreateTXTRecords dns \<longrightarrow>
        (\<exists>e. find_record (dr_Name (ownership_record dns h)) ''TXT'' (Z z) = Some e \<and>
           dr_Content e = dr_Content (ownership_record dns h) \<and> dr_Comment e = dr_Comment (ownership_record dns h))))"

lemma zone_of_ids: "zone_of env zones h = Some z \<Longrightarrow> z \<in> snd ` List.set zones"
  unfolding zone_of_def by (force dest: map_of_SomeD)

context zone_env
begin

lemma hostname_still:
  assumes "in_order env dns target zones Z h cfg" "\<forall>z \<in> snd ` List.set zones. CHR '':'' \<notin> List.set z"
  shows "safe (proc_still zone (snd ` List.set zones) Z) (sync_hostname env c dns target zones h cfg)"
proof (cases "zone_of env zones h")
  case None
  then show ?thesis by (simp add: sync_hostname_def zone_of_def triple_def)
next
  case (Some z)
  let ?P = "proc_still zone (snd ` List.set zones) Z" and ?d = "desired_record dns target h cfg"
  note z = zone_of_ids [OF Some]
  obtain e where e: "find_record h ''CNAME'' (Z z) = Some e" "\<not> sync_needed (sync_policy dns) (owner_id dns) ?d e"
    using assms(1) Some by (auto simp: in_order_def)
  have "yields ?P (svc (SyncRecordWithPolicy c z ?d (owner_id dns) (sync_policy dns))) (\<lambda>x. x = (Some e, False))"
    using e by (intro yields_svc sync_still z assms(2)) simp_all
  note sync = triple_bind [OF this]
  let ?p = "\<lparr>op_Hostname = h, op_OwnerID = owner_id dns,
      op_Resource = ''CloudflareDNS/'' @ dns_ns dns @ ''/'' @ dns_name dns, op_Prefix = ownership_prefix dns\<rparr>"
  have owns: "keeps ?P (if shouldCreateTXTRecords dns then svc (CreateOwnershipRecord c z ?p) else ret (Inr ()))"
  proof (intro keeps)
    assume "shouldCreateTXTRecords dns"
    then obtain e where "find_record (dr_Name (ownership_record dns h)) ''TXT'' (Z z) = Some e"
      "dr_Content e = dr_Content (ownership_record dns h)" "dr_Comment e = dr_Comment (ownership_record dns h)"
      using assms(1) Some by (auto simp: in_order_def)
    then have "yields ?P (svc (CreateOwnershipRecord c z ?p)) (\<lambda>_. True)"
      by (intro yields_svc ownership_still [OF z assms(2), where d = "ownership_record dns h" and e = e])
         (simp_all add: ownership_record_def)
    then show "keeps ?P (svc (CreateOwnershipRecord c z ?p))" by simp
  qed
  have "safe ?P (do {
      r \<leftarrow> svc (SyncRecordWithPolicy c z ?d (owner_id dns) (sync_policy dns));
      case r of
        Inl err \<Rightarrow> ret (Done (failed_status h (err_msg err), False))
      | Inr (rcd, modified) \<Rightarrow> do {
          _ \<leftarrow> (if shouldCreateTXTRecords dns then svc (CreateOwnershipRecord c z ?p) else ret (Inr ()));
          case rcd of
            None \<Rightarrow> ret Panic
          | Some record \<Rightarrow> do {
              (if modified
               then k8s (de_Event env (dns_key dns) ''Normal'' ''RecordSynced'' ''Sync'' (''DNS record synced: '' @ h))
               else ret ());
              ret (Done (synced_status h z record, True))
            }
        }
    })"
  proof (rule sync, goal_cases)
    case (1 r)
    have after: "safe ?P (do {
        _ \<leftarrow> (if shouldCreateTXTRecords dns then svc (CreateOwnershipRecord c z ?p) else ret (Inr ()));
        ret (Done (synced_status h z e, True))
      })"
      by (rule triple_bind [OF owns safe_ret])
    show ?case
    proof (cases "\<forall>x. r = Inr x \<longrightarrow> x = (Some e, False)")
      case True
      with after show ?thesis by (cases r) (auto simp: triple_def)
    qed (auto simp: triple_def)
  qed
  then show ?thesis using Some by (simp add: sync_hostname_def zone_of_def)
qed

end

context zone_env
begin

lemma loop_still:
  assumes "\<forall>(h, cfg) \<in> List.set hs. in_order env dns target zones Z h cfg" "\<forall>z \<in> snd ` List.set zones. CHR '':'' \<notin> List.set z"
  shows "safe (proc_still zone (snd ` List.set zones) Z) (sync_loop env c dns target zones hs sts sy fl)"
  using assms(1)
proof (induction hs arbitrary: sts sy fl)
  case Nil
  show ?case unfolding sync_loop.simps by (rule safe_ret)
next
  case (Cons x hs)
  obtain h cfg where x: "x = (h, cfg)" by (rule prod.exhaust)
  have "safe (proc_still zone (snd ` List.set zones) Z) (sync_hostname env c dns target zones h cfg)"
    using Cons.prems x by (intro hostname_still assms(2)) simp
  then show ?case
    unfolding x sync_loop.simps by (rule safe_bind) (use Cons.IH Cons.prems in \<open>auto split: prod.split\<close>)
qed

lemma k8s_still: "keeps (\<lambda>w. zone w = Z) m \<Longrightarrow> keeps (proc_still zone ids Z) (k8s m)"
  by (simp add: keeps_iff proc_still_def still_def agrees_with_def service_def cached_def split_beta)

lemma range_still:
  "triple (proc_still zone ids Z) (k8s (de_Range env hs)) (\<lambda>order s. proc_still zone ids Z s \<and> mset order = mset hs)"
proof (rule tripleI)
  fix s order s'
  assume s: "proc_still zone ids Z s" and o: "run_state (k8s (de_Range env hs)) s = (order, s')"
  have "keeps (\<lambda>w. zone w = Z) (de_Range env hs)" using range_zone by (auto simp: triple_def)
  from tripleD [OF k8s_still [OF this] o s] show "proc_still zone ids Z s' \<and> mset order = mset hs"
    using service_k8s [OF o] range_zone by auto
qed

text \<open>No orphans are left to delete.\<close>

lemma orphans_still:
  assumes "\<forall>prev \<in> List.set (dst_Records (cdns_Status dns)). rs_Hostname prev \<in> fst ` List.set hs"
  shows "keeps (proc_still zone ids Z) (do {
    keys \<leftarrow> hostnameKeys env hs;
    _ \<leftarrow> deleteOrphanedRecords env c dns keys zones ownerID pre;
    ret ()
  })"
proof -
  have "triple (proc_still zone ids Z) (hostnameKeys env hs)
      (\<lambda>keys s. proc_still zone ids Z s \<and> List.set keys = fst ` List.set hs)"
    unfolding hostnameKeys_def by (rule triple_bind [OF range_still]) (auto simp: triple_def dest!: mset_eq_setD)
  then show ?thesis
    by (rule triple_bind) (use assms no_orphans in \<open>auto simp: triple_def deleteOrphanedRecords_def\<close>)
qed

lemma sync_leaves_still:
  assumes "ps_svc s = Some NewDNSRecordCache"
    and "\<forall>(h, cfg) \<in> List.set hs. in_order env dns target zones (zone (ps_world s)) h cfg"
    and "\<forall>z \<in> snd ` List.set zones. CHR '':'' \<notin> List.set z"
    and "\<forall>prev \<in> List.set (dst_Records (cdns_Status dns)). rs_Hostname prev \<in> fst ` List.set hs"
    and run: "run_state (syncRecords env c dns target hs zones) s = (r, s')"
  shows "zone (ps_world s') = zone (ps_world s) \<and> r \<noteq> Panic"
proof -
  let ?P = "proc_still zone (snd ` List.set zones) (zone (ps_world s))"
  have loop: "safe ?P (sync_loop env c dns target zones order [] 0 0)" if "mset order = mset hs" for order
    using assms(2) that by (intro loop_still assms(3)) (metis mset_eq_setD)
  have rest: "safe ?P (do {
      (if sync_policy dns = PolicySync then do {
         keys \<leftarrow> hostnameKeys env hs;
         _ \<leftarrow> deleteOrphanedRecords env c dns keys zones (owner_id dns) (ownership_prefix dns);
         ret ()
       } else ret ());
      ret (Done x)
    })" for x :: "CloudflareDNS res"
    by (rule triple_bind [OF triple_if [OF orphans_still [OF assms(4)] keeps_ret] safe_ret])
  have "safe ?P (syncRecords env c dns target hs zones)"
    unfolding syncRecords_def
    by (rule triple_bind [OF range_still], rule triple_pre, rule safe_bind [OF loop], assumption)
       (simp only: go_exn.case, intro triple_case_prod rest)
  moreover have "?P s"
    using assms(1) by (simp add: proc_still_def still_def agrees_with_def service_def cached_def NewDNSRecordCache_def cache_Get_def)
  ultimately show ?thesis using tripleD [OF _ run] by (fastforce simp: proc_still_def still_def service_def)
qed

end

section \<open>Zones that are not configured\<close>

text \<open>The records of zone \<open>z\<close> are \<open>R\<close>.\<close>

definition zone_is :: "('w \<Rightarrow> string \<Rightarrow> DNSRecord list) \<Rightarrow> string \<Rightarrow> DNSRecord list \<Rightarrow> 'w \<Rightarrow> bool" where
  "zone_is zone z R w \<longleftrightarrow> zone w z = R"

definition svc_zone_is :: "('w \<Rightarrow> string \<Rightarrow> DNSRecord list) \<Rightarrow> string \<Rightarrow> DNSRecord list \<Rightarrow> 'w DNSService \<Rightarrow> bool" where
  "svc_zone_is zone z R t \<longleftrightarrow> zone_is zone z R (svc_world t)"

definition proc_zone_is :: "('w \<Rightarrow> string \<Rightarrow> DNSRecord list) \<Rightarrow> string \<Rightarrow> DNSRecord list \<Rightarrow> 'w ProcState \<Rightarrow> bool" where
  "proc_zone_is zone z R s \<longleftrightarrow> zone_is zone z R (ps_world s)"

lemma zone_is_lifts [keeps]:
  "keeps (zone_is zone z R) m \<Longrightarrow> keeps (svc_zone_is zone z R) (api m)"
  "keeps (zone_is zone z R) m \<Longrightarrow> keeps (proc_zone_is zone z R) (k8s m)"
  "keeps (svc_zone_is zone z R) n \<Longrightarrow> keeps (proc_zone_is zone z R) (svc n)"
  "keeps (svc_zone_is zone z R) (cache_lookup x y t)" "keeps (svc_zone_is zone z R) (cache_store x y t r)"
  by (simp_all add: keeps_iff svc_zone_is_def proc_zone_is_def split_beta)

context zone_env
begin

lemma calls_away:
  "keeps (zone_is zone z R) (ListDNSRecordsByNameType c y n t)"
  "y \<noteq> z \<Longrightarrow> sendable d \<Longrightarrow> keeps (zone_is zone z R) (CreateDNSRecord c y d)"
  "y \<noteq> z \<Longrightarrow> sendable d \<Longrightarrow> keeps (zone_is zone z R) (UpdateDNSRecord c y i d)"
  "y \<noteq> z \<Longrightarrow> keeps (zone_is zone z R) (DeleteDNSRecord c y i)"
  "keeps (zone_is zone z R) (de_Event env k a b x q)" "keeps (zone_is zone z R) (de_Range env m)"
proof -
  show "keeps (zone_is zone z R) (ListDNSRecordsByNameType c y n t)"
    by (rule tripleI) (use list_by in \<open>auto simp: zone_is_def\<close>)
  show "keeps (zone_is zone z R) (CreateDNSRecord c y d)" if "y \<noteq> z" "sendable d"
    by (rule tripleI) (use create [OF that(2)] that(1) in \<open>fastforce simp: zone_is_def split: sum.splits\<close>)
  show "keeps (zone_is zone z R) (UpdateDNSRecord c y i d)" if "y \<noteq> z" "sendable d"
    by (rule tripleI) (use update [OF that(2)] that(1) in \<open>fastforce simp: zone_is_def split: sum.splits\<close>)
  show "keeps (zone_is zone z R) (DeleteDNSRecord c y i)" if "y \<noteq> z"
    by (rule tripleI) (use delete that in \<open>fastforce simp: zone_is_def split: sum.splits\<close>)
  show "keeps (zone_is zone z R) (de_Event env k a b x q)"
    by (rule tripleI) (use event_zone in \<open>auto simp: zone_is_def\<close>)
  show "keeps (zone_is zone z R) (de_Range env m)"
    by (rule tripleI) (use range_zone in \<open>auto simp: zone_is_def\<close>)
qed

lemma find_away: "keeps (svc_zone_is zone z R) (FindRecordByName c y n t)"
  unfolding FindRecordByName_def by (intro keeps calls_away)

lemma sync_away:
  "y \<noteq> z \<Longrightarrow> sendable d \<Longrightarrow> keeps (svc_zone_is zone z R) (SyncRecordWithPolicy c y d ownerID policy)"
  unfolding SyncRecordWithPolicy_def createRecord_def updateRecord_def by (intro keeps calls_away find_away)

lemma ownership_away: "y \<noteq> z \<Longrightarrow> keeps (svc_zone_is zone z R) (CreateOwnershipRecord c y p)"
  unfolding CreateOwnershipRecord_def
  by (intro keeps calls_away find_away) (simp_all add: BuildOwnershipTXTRecord_def sendable_def)

lemma delete_away:
  "y \<noteq> z \<Longrightarrow> keeps (svc_zone_is zone z R) (DeleteRecord c y i)"
  "y \<noteq> z \<Longrightarrow> keeps (svc_zone_is zone z R) (DeleteOwnershipRecord c y h pre)"
  unfolding DeleteOwnershipRecord_def DeleteRecord_def by (intro keeps calls_away find_away; assumption)+

lemma hostname_away:
  assumes "z \<notin> snd ` List.set zones"
  shows "keeps (proc_zone_is zone z R) (sync_hostname env c dns target zones h cfg)"
    "keeps (proc_zone_is zone z R) (delete_orphan env c dns zones ownerID pre prev)"
proof -
  have away: "y \<noteq> z" if "map_of zones k = Some y" for k y
    using that assms by (force dest: map_of_SomeD)
  show "keeps (proc_zone_is zone z R) (sync_hostname env c dns target zones h cfg)"
    unfolding sync_hostname_def
    by (intro keeps calls_away sync_away ownership_away away desired_record_key)
  show "keeps (proc_zone_is zone z R) (delete_orphan env c dns zones ownerID pre prev)"
    unfolding delete_orphan_def by (intro keeps calls_away find_away delete_away away)
qed

lemma loops_away:
  assumes "z \<notin> snd ` List.set zones"
  shows "keeps (proc_zone_is zone z R) (sync_loop env c dns target zones hs sts sy fl)"
    "keeps (proc_zone_is zone z R) (deleteOrphaned_loop env c dns hostnames zones ownerID pre prevs)"
proof -
  show "keeps (proc_zone_is zone z R) (sync_loop env c dns target zones hs sts sy fl)"
  proof (induction hs arbitrary: sts sy fl)
    case (Cons x hs)
    obtain h cfg where x: "x = (h, cfg)" by (rule prod.exhaust)
    show ?case unfolding x sync_loop.simps by (intro keeps hostname_away assms Cons.IH)
  qed (unfold sync_loop.simps, intro keeps)
  show "keeps (proc_zone_is zone z R) (deleteOrphaned_loop env c dns hostnames zones ownerID pre prevs)"
  proof (induction prevs)
    case (Cons x prevs)
    show ?case unfolding deleteOrphaned_loop.simps by (intro keeps hostname_away assms Cons.IH)
  qed (unfold deleteOrphaned_loop.simps, intro keeps)
qed

lemma syncRecords_away:
  "z \<notin> snd ` List.set zones \<Longrightarrow> keeps (proc_zone_is zone z R) (syncRecords env c dns target hs zones)"
  unfolding syncRecords_def deleteOrphanedRecords_def hostnameKeys_def by (intro keeps calls_away loops_away)

end

section \<open>Properties\<close>

text \<open>C6: Settled zones stay as they are. Against an API that keeps its promises, starting with an empty
  record cache and no entry of the previous status to delete: when every hostname with a configured
  zone has its CNAME there, as desired or out of the reach of the policy, and, where ownership
  records are on, its TXT record with the right content and comment, then a sync changes no zone at
  all and does not panic, whatever calls fail and in whatever order the hostnames come.\<close>

theorem settled_zones_stable:
  assumes "sdk_dns sdk store" "zone_env_axioms (client_zone store) env" "ps_svc s = Some NewDNSRecordCache"
    and "\<forall>(h, cfg) \<in> List.set hs. in_order env dns target zones (client_zone store (ps_world s)) h cfg"
    and "\<forall>z \<in> snd ` List.set zones. CHR '':'' \<notin> List.set z"
    and "\<forall>prev \<in> List.set (dst_Records (cdns_Status dns)). rs_Hostname prev \<in> fst ` List.set hs"
    and "run_state (syncRecords env (clientImpl sdk) dns target hs zones) s = (r, s')"
  shows "client_zone store (ps_world s') = client_zone store (ps_world s) \<and> r \<noteq> Panic"
proof -
  have "zone_env (clientImpl sdk) (client_zone store) env"
    using sdk_dns.client_provides [OF assms(1)] assms(2) by (rule zone_env.intro)
  from zone_env.sync_leaves_still [OF this assms(3-7)] show ?thesis .
qed

definition wit_settled_zone :: "string \<Rightarrow> SdkRecord list" where
  "wit_settled_zone z = (if z = ''z1'' then
     [mem_record ''a'' (CNAMERecordParam ''app.example.com'' ''t.cfargotunnel.com'' 600 True ''managed by cfgate, dns=infra/gw''),
      mem_record ''b'' (TXTRecordParam ''_cfgate.app.example.com''
        ''heritage=cfgate,cfgate/owner=infra/gw,cfgate/resource=CloudflareDNS/infra/gw'' 1 ''cfgate ownership record'')] else [])"

lemma wit_settled:
  "in_order wit_mem_env wit_dns ''t.cfargotunnel.com'' [(''example.com'', ''z1'')] (client_zone (\<lambda>w. w) wit_settled_zone)
     ''app.example.com'' \<lparr>hc_TTL = 0, hc_Proxied = None\<rparr>"
proof -
  have "desired_record wit_dns ''t.cfargotunnel.com'' ''app.example.com'' \<lparr>hc_TTL = 0, hc_Proxied = None\<rparr> =
      BuildCNAMERecord ''app.example.com'' ''t.cfargotunnel.com'' True 600 ''managed by cfgate, dns=infra/gw''"
    by (simp add: desired_record_def wit_dns_def wit_meta_def Let_def)
  moreover have "ownership_record wit_dns ''app.example.com'' =
      BuildOwnershipTXTRecord ''app.example.com'' ''infra/gw'' ''CloudflareDNS/infra/gw'' ''_cfgate''"
    by (simp add: ownership_record_def owner_id_def ownership_prefix_def dnsDefaultOwnershipPrefix_def wit_dns_def wit_meta_def)
  moreover have "zone_of wit_mem_env [(''example.com'', ''z1'')] ''app.example.com'' = Some ''z1''"
    by (simp add: zone_of_def ExtractZoneFromHostname_def wit_mem_env_def)
  ultimately show ?thesis
    by (simp add: in_order_def client_zone_def wit_settled_zone_def sync_needed_def recordsMatch_def BuildCNAMERecord_def
        BuildOwnershipTXTRecord_def)
qed

theorem settled_zones_stable_witness:
  "\<exists>r s'. run_state (syncRecords wit_mem_env (clientImpl mem_sdk) wit_dns ''t.cfargotunnel.com'' wit_hostnames
      [(''example.com'', ''z1'')]) (wit_zone_state\<lparr>ps_world := wit_settled_zone\<rparr>) = (r, s') \<and>
     client_zone (\<lambda>w. w) (ps_world s') = client_zone (\<lambda>w. w) wit_settled_zone \<and> r \<noteq> Panic"
proof -
  let ?s = "wit_zone_state\<lparr>ps_world := wit_settled_zone\<rparr>"
  obtain r s' where run: "run_state (syncRecords wit_mem_env (clientImpl mem_sdk) wit_dns ''t.cfargotunnel.com'' wit_hostnames
      [(''example.com'', ''z1'')]) ?s = (r, s')" by (rule prod.exhaust)
  have axioms: "zone_env_axioms (client_zone (\<lambda>w. w)) wit_mem_env"
    using mem_env.zone_env_axioms by (simp add: zone_env_def)
  have "\<forall>prev \<in> List.set (dst_Records (cdns_Status wit_dns)). rs_Hostname prev \<in> fst ` List.set wit_hostnames"
    by (simp add: wit_dns_def)
  from settled_zones_stable [OF mem.sdk_dns_axioms axioms _ _ _ this run] wit_settled
  have "client_zone (\<lambda>w. w) (ps_world s') = client_zone (\<lambda>w. w) wit_settled_zone \<and> r \<noteq> Panic"
    by (simp add: wit_zone_state_def wit_hostnames_def)
  with run show ?thesis by (intro exI conjI) auto
qed

text \<open>C7: A sync is confined to its zones. Whatever the hostnames, the policy, the record cache and the
  previous status say, and whatever calls fail, a sync changes no record of a zone that is not among
  the zones the resource resolved. In particular records in a zone that was taken out of the
  specification are not deleted with their hostnames.\<close>

theorem sync_confined:
  assumes "sdk_dns sdk store" "zone_env_axioms (client_zone store) env" "z \<notin> snd ` List.set zones"
    and "run_state (syncRecords env (clientImpl sdk) dns target hs zones) s = (r, s')"
  shows "client_zone store (ps_world s') z = client_zone store (ps_world s) z"
proof -
  have "zone_env (clientImpl sdk) (client_zone store) env"
    using sdk_dns.client_provides [OF assms(1)] assms(2) by (rule zone_env.intro)
  from tripleD [OF zone_env.syncRecords_away [OF this assms(3), of "client_zone store (ps_world s) z"] assms(4)]
  show ?thesis by (simp add: proc_zone_is_def zone_is_def)
qed

theorem sync_confined_witness:
  "\<exists>r s'. run_state (syncRecords wit_mem_env (clientImpl mem_sdk) wit_dns ''t.cfargotunnel.com'' wit_hostnames
      [(''example.com'', ''z2'')]) (wit_zone_state\<lparr>ps_world := wit_settled_zone\<rparr>) = (r, s') \<and>
     client_zone (\<lambda>w. w) (ps_world s') ''z1'' = client_zone (\<lambda>w. w) wit_settled_zone ''z1''"
proof -
  let ?s = "wit_zone_state\<lparr>ps_world := wit_settled_zone\<rparr>"
  obtain r s' where run: "run_state (syncRecords wit_mem_env (clientImpl mem_sdk) wit_dns ''t.cfargotunnel.com'' wit_hostnames
      [(''example.com'', ''z2'')]) ?s = (r, s')" by (rule prod.exhaust)
  have axioms: "zone_env_axioms (client_zone (\<lambda>w. w)) wit_mem_env"
    using mem_env.zone_env_axioms by (simp add: zone_env_def)
  from sync_confined [OF mem.sdk_dns_axioms axioms _ run, of "''z1''"]
  have "client_zone (\<lambda>w. w) (ps_world s') ''z1'' = client_zone (\<lambda>w. w) wit_settled_zone ''z1''" by simp
  with run show ?thesis by (intro exI conjI)
qed

end
