(* ===== verification/Spec2Isabelle.thy ===== *)
theory Spec2Isabelle
  imports Tunnel_Controller Access_Controller Cleanup_Tool Manager Route_Context
    Dns_Lifecycle Sync_Stable
begin

text \<open>
  cfgate is a Kubernetes operator that manages Cloudflare Tunnels, the DNS records that point at
  them and Cloudflare Access. This development models its Go sources as executable definitions and
  proves what makes them correct. Paths below are relative to the repository.

  \<^bold>\<open>The program.\<close> A CloudflareTunnel resource names a tunnel; its controller creates or adopts the
  tunnel through the Cloudflare API, deploys cloudflared with the tunnel's token and pushes the
  ingress rules collected from the HTTPRoutes of the Gateways that carry the annotation
  cfgate.io/tunnel-ref. A CloudflareDNS resource names a tunnel (or an external target), zones and
  hostnames; its controller keeps one CNAME record per hostname in step, with TXT records that say
  who owns it. Both controllers reach Cloudflare through a client that wraps cloudflare-go, share
  a cache of clients keyed by the version of the credentials, and are woken by watches with event
  filters. The Gateway, GatewayClass and HTTPRoute controllers report in the status of the Gateway
  API objects what the other two act on. A CloudflareAccessPolicy names Gateways or routes, also in
  other namespaces that grant it; its controller keeps an Access application with policies,
  service tokens and mTLS settings for the hostnames of these targets.

  \<^bold>\<open>Modelling.\<close> A Go struct is a record, a pointer an option, an error a value of type
  \<open>go_error\<close> on the left of a sum, a run-time panic the value \<open>Panic\<close>. A call that may have an
  effect is a state transformer: of the world \<open>'w\<close> behind the APIs, of a service (its cache and
  the world), or of the process state of a reconciler. Code outside the repository is a parameter:
  the cloudflare-go SDK (records \<open>Sdk\<close>, \<open>AccessSdk\<close>, \<open>CleanupSdk\<close>), the Kubernetes client, event recorder and clock (records
  \<open>DnsEnv\<close>, \<open>TunnelEnv\<close>, \<open>GwEnv\<close>, \<open>RouteEnv\<close>, \<open>AccEnv\<close>, \<open>K8sReader\<close>, \<open>RouteReader\<close>, \<open>Discovery\<close>), controller-runtime's manager (record \<open>Manager\<close>), controller-runtime's finalizer helpers and
  predicates, apimachinery's condition helpers, sort.Slice, JSON, YAML and SHA-256, and
  publicsuffix.EffectiveTLDPlusOne. What a theorem needs of them is a locale (\<open>sdk_dns\<close>,
  \<open>sdk_tunnels\<close>, \<open>sdk_policies\<close>, \<open>status_condition_lib\<close>, \<open>finalizer_lib\<close>, \<open>predicate_lib\<close>, \<open>sort_lib\<close>), and each locale has an
  interpretation: an in-memory API, or the documented behaviour of the library. The order in
  which Go ranges over a map is a parameter too. Logging is left out. Loops are structural
  recursions over the list they range over; the parser of durations is a function with a
  termination proof. So every operation is total and no fuel is needed. Integers are unbounded
  except where the code converts to 32 bits, counts in them or parses durations in 64 bits, which
  is written out.

  \<^bold>\<open>Theories.\<close>
  \<^item> \<open>Cfgate_Prelude\<close>: Go's strings and strconv as far as used, errors, maps, the interface
    \<open>keyed_store\<close> of a cache, shared lemmas.
  \<^item> \<open>Status_Conditions\<close> (internal/controller/status/conditions.go): merging of conditions,
    constructors, aggregated Ready conditions, policy ancestors; the interface \<open>condition_list\<close>.
  \<^item> \<open>Annotations\<close> (internal/controller/annotations/annotations.go): getters and validators; the
    hostname pattern as a regular expression with a derivative matcher, proved to be the RFC 1123
    label rule.
  \<^item> \<open>Cf_Types\<close>, \<open>Api_Types\<close> (internal/cloudflare/client.go, api/v1alpha1): data.
  \<^item> \<open>Dns_Service\<close> (internal/cloudflare/dns.go): record cache, policies, sync, ownership; the
    interface \<open>dns_zone_api\<close> with the abstract effect \<open>sync_zone\<close> of a sync on a zone.
  \<^item> \<open>Client_Impl\<close> (internal/cloudflare/client_impl.go): the client over the SDK; it provides
    \<open>dns_zone_api\<close> for every SDK with the laws \<open>sdk_dns\<close>, so a sync refines \<open>sync_zone\<close>.
  \<^item> \<open>Credential_Cache\<close> (internal/cloudflare/cache.go): the cache sequentially and as an
    interleaving step relation with its invariant.
  \<^item> \<open>Ingress_Rules\<close>, \<open>Tunnel_Service\<close> (internal/cloudflare/tunnel.go), \<open>Cloudflared\<close>
    (internal/cloudflared): first-match routing and the closing catch-all rule, shared by both
    configuration types through the locale \<open>rule_list\<close>; tunnels by name; the Deployment.
  \<^item> \<open>Predicates\<close> (internal/controller/predicates.go): event filters.
  \<^item> \<open>Controller_Base\<close>, \<open>Dns_Controller\<close>, \<open>Tunnel_Controller\<close>
    (internal/controller/cloudflaredns_controller.go, cloudflaretunnel_controller.go): the whole
    reconcile of each, with deletion, watches, clients and status writing.
  \<^item> \<open>Gateway_Controller\<close>, \<open>Httproute_Controller\<close> (internal/controller/gateway_controller.go,
    httproute_controller.go): what the Gateway API objects report; apimachinery's condition helpers
    are the interface \<open>status_condition_lib\<close>.
  \<^item> \<open>Access_Types\<close>, \<open>Access_Service\<close> (internal/cloudflare/access.go, client.go,
    api/v1alpha1/cloudflareaccesspolicy_types.go): data, and the service that ensures applications,
    policies, service tokens and certificates, over the interface \<open>access_policy_api\<close>.
  \<^item> \<open>Access_Client\<close> (the Access part of internal/cloudflare/client_impl.go): the client over the SDK
    (record \<open>AccessSdk\<close>), with every conversion. \<open>Access_Policies\<close>: it provides
    \<open>access_policy_api\<close> for every SDK with the laws \<open>sdk_policies\<close>.
  \<^item> \<open>Features\<close> (internal/controller/features/detection.go): which kinds of route the cluster knows.
  \<^item> \<open>Context_Wrappers\<close> (internal/controller/context/wrappers.go): targets of access policies, reference
    grants, hostnames; the settings of a DNS resource.
  \<^item> \<open>Access_Controller\<close> (internal/controller/cloudflareaccesspolicy_controller.go): every phase of the
    reconcile, deletion, credentials, watches, status.
  \<^item> \<open>Zone_Sync\<close>: the record sync and the cleanup of the DNS controller as effects on the zones, over
    the contract \<open>dns_zone_api\<close>, extended to \<open>zone_env\<close> and \<open>zone_lookup\<close>.
    \<open>Sync_Stable\<close>: settled zones as fixed points of the sync. \<open>Dns_Lifecycle\<close>: every handler of the DNS
    controller as steps of a transition system, over the contract \<open>dns_cluster\<close> of the cluster.
  \<^item> \<open>State_Triples\<close>: triples for programs in the state monad, for predicates that a whole handler keeps.
  \<^item> \<open>Durations\<close> (the rest of internal/controller/annotations/annotations.go): durations, over a model of
    time.ParseDuration with its float64 fractions and its wrap-around, and origin settings.
    \<open>Route_Context\<close>: RouteContext of wrappers.go.
  \<^item> \<open>Manager\<close> (cmd/manager/main.go, every SetupWithManager, tcproute_controller.go,
    udproute_controller.go): start-up over the interface \<open>manager_api\<close>, and the watches as data.
  \<^item> \<open>Cleanup_Tool\<close> (cmd/cleanup/main.go): the tool that removes leftovers of tests, over the
    interface \<open>cleanup_api\<close>.
  \<^item> this theory: properties that span components.

  \<^bold>\<open>What is shown.\<close> The DNS service refines an abstract zone and is idempotent; policies and
  ownership restrict what it calls; the record cache and the credential cache answer what they
  were told, the latter under every interleaving; configurations always end in a catch-all and
  route by first match; the controllers collect exactly the hostnames and rules of the attached
  routes, report what they did, put the finalizer before any effect and release it within a
  bounded time; the event filters pass exactly the intended events; the DNS controller covers the
  hostnames the tunnel controller serves and points them at its tunnel.
  For Access: no reconcile reaches Cloudflare while one target lacks its grant; the targets,
  hostnames, rules and policies that arrive are exactly those of the custom resource, or less where
  a theorem says so, and a second sync changes nothing; the status reports what was done; deletion
  always releases the finalizer. The Gateway and HTTPRoute controllers report exactly when a tunnel
  is there and when a route is accepted, count attached routes, and leave the statuses of other
  controllers alone.

  For the whole: after a sync without failures every hostname that a tunnel serves has a record in its
  zone that points at the tunnel, and the cleanup of a deleted resource leaves no owned record in its
  zones and every other record in place; in no history of reconciles, restarts and actions of others
  does a resource lose its finalizer before its records are gone, a sync of settled zones writes
  nothing, and no sync touches a zone outside the resolved ones; the manager starts only with all six controllers registered, and
  its watches decide which change wakes which controller; the cleanup tool spares what carries no
  mark. A duration annotation reads as the time it writes, in a number of steps bounded by half its
  length (the fuel of \<open>parse_fuel\<close>).
  Some theorems state what the code does where it differs from its documentation; their
  descriptions say so.

  \<^bold>\<open>Not modelled.\<close> Flag parsing, logging, printing and the registration of types in schemes; generated
  deep copies, since values of the model are immutable; and the web site, which is not part of the operator. Accessors that return a field are that field.
  controller-runtime's queue is not modelled: that a woken controller reconciles is its promise.
\<close>

section \<open>Properties that span components\<close>

lemma rules_covered:
  assumes "run_state (de_ListGateways denv) (ps_world s) = (Inr gws, ps_world s)"
    and "run_state (de_ListRoutes denv) (ps_world s) = (Inr routes, ps_world s)"
    and "run_state (te_ListGateways tenv) (ps_world u) = (Inr gws, ps_world u)"
    and "run_state (te_ListRoutes tenv) (ps_world u) = (Inr routes, ps_world u)"
    and "gr_Enabled (hs_GatewayRoutes (ds_Source (cdns_Spec dns)))"
    and "gr_AnnotationFilter (hs_GatewayRoutes (ds_Source (cdns_Spec dns))) = ''''"
    and "run_state (collectIngressRules tenv tunnel) u = (Inr (rules, n), u')"
  shows "\<exists>m. run_state (collectHostnames denv dns (Some tunnel)) s = (Inr m, s) \<and>
    ir_Hostname ` List.set rules \<subseteq> fst ` List.set m"
proof -
  obtain m where m: "run_state (collectHostnames denv dns (Some tunnel)) s = (Inr m, s)"
    and keys: "fst ` List.set m = eh_Hostname ` List.set (hs_Explicit (ds_Source (cdns_Spec dns))) \<union>
      {h. \<exists>r \<in> List.set routes. \<exists>gw \<in> List.set gws. h \<in> List.set (hr_Hostnames r) \<and>
        \<not> route_filtered '''' r \<and> attached r gw \<and>
        map_of (om_Annotations (gw_Meta gw)) AnnotationTunnelRef = Some (tunnel_ref tunnel)}"
    using collectHostnames_run [OF assms(1,2), of dns "Some tunnel"] assms(5,6) by (auto simp: Let_def)
  have "rules = concat (map (gateway_rules routes) (relevant_gateways tunnel gws))"
    using assms(3,7) rules_of_gateways_run [OF assms(4), of "relevant_gateways tunnel gws" "[]" 0]
    by (simp add: collectIngressRules_def)
  then have "ir_Hostname ` List.set rules \<subseteq> fst ` List.set m"
    by (auto simp: keys gateway_rules_def matching_parents_def relevant_gateways_def attached_def
        route_filtered_def dest!: buildRules_hostname)
  with m show ?thesis by blast
qed

text \<open>The DNS controller covers the tunnel controller. On the same unchanging cluster, with route
  discovery enabled and no annotation filter, every hostname for which the tunnel gets an ingress
  rule is among the hostnames for which the DNS resource of that tunnel syncs a record.\<close>

theorem dns_covers_tunnel_hostnames:
  assumes "run_state (de_ListGateways denv) (ps_world s) = (Inr gws, ps_world s)"
    and "run_state (de_ListRoutes denv) (ps_world s) = (Inr routes, ps_world s)"
    and "run_state (te_ListGateways tenv) (ps_world u) = (Inr gws, ps_world u)"
    and "run_state (te_ListRoutes tenv) (ps_world u) = (Inr routes, ps_world u)"
    and "gr_Enabled (hs_GatewayRoutes (ds_Source (cdns_Spec dns)))"
    and "gr_AnnotationFilter (hs_GatewayRoutes (ds_Source (cdns_Spec dns))) = ''''"
    and "run_state (collectIngressRules tenv tunnel) u = (Inr (rules, n), u')"
  shows "\<exists>m. run_state (collectHostnames denv dns (Some tunnel)) s = (Inr m, s) \<and>
    ir_Hostname ` List.set rules \<subseteq> fst ` List.set m"
  by (rule rules_covered [OF assms])

definition wit_served_route :: HTTPRoute where
  "wit_served_route = wit_route\<lparr>hr_Rules := [\<lparr>rr_Matches = [],
     rr_BackendRefs = [\<lparr>br_Kind = None, br_Namespace = None, br_Name = ''app'', br_Port = Some 80\<rparr>]\<rparr>]\<rparr>"

lemma wit_served_rules:
  "\<exists>r. concat (map (gateway_rules [wit_served_route]) (relevant_gateways wit_tunnel [wit_gateway])) = [r] \<and>
     ir_Hostname r = ''web.example.com''"
  by (simp add: relevant_gateways_def wit_gateway_def wit_tunnel_def tunnel_ref_def wit_meta_def
      gateway_rules_def matching_parents_def wit_served_route_def wit_route_def parent_is_gateway_def
      buildRulesFromHTTPRoute_def ingress_of_rule_def Let_def)

theorem dns_covers_tunnel_hostnames_witness:
  "\<exists>m. run_state (collectHostnames (wit_env\<lparr>de_ListRoutes := ret (Inr [wit_served_route])\<rparr>) wit_dns
      (Some wit_tunnel)) wit_state = (Inr m, wit_state) \<and> ''web.example.com'' \<in> fst ` List.set m"
proof -
  let ?tenv = "wit_tenv\<lparr>te_ListRoutes := ret (Inr [wit_served_route])\<rparr>"
  obtain r where r: "ir_Hostname r = ''web.example.com''"
    "concat (map (gateway_rules [wit_served_route]) (relevant_gateways wit_tunnel [wit_gateway])) = [r]"
    using wit_served_rules by blast
  obtain n where "run_state (collectIngressRules ?tenv wit_tunnel) wit_tstate = (Inr ([r], n), wit_tstate)"
    using rules_of_gateways_run [of ?tenv wit_tstate "[wit_served_route]"
        "relevant_gateways wit_tunnel [wit_gateway]" "[]" 0] r(2)
    by (simp add: wit_tenv_def collectIngressRules_def)
  from dns_covers_tunnel_hostnames [OF _ _ _ _ _ _ this, of _ wit_state "[wit_gateway]" "[wit_served_route]" wit_dns]
  show ?thesis by (simp add: wit_env_def wit_tenv_def wit_dns_def r(1))
qed

text \<open>C16: A record points at its tunnel. When the tunnel controller has ensured a tunnel and the DNS
  controller reads that object, the target it resolves is the domain of the Cloudflare tunnel's
  identifier, and this is the content of every record it wants, for every hostname and
  configuration.\<close>

theorem record_points_at_tunnel:
  assumes "run_state (ensureTunnel tenv tunnel) u = (Inr t, u')"
    and "run_state (de_GetTunnel denv \<lparr>nn_Namespace = ns, nn_Name = dt_Name ref\<rparr>) (ps_world s) = (Inr t, w)"
    and "ds_TunnelRef (cdns_Spec dns) = Some ref"
    and "ns = (if dt_Namespace ref = '''' then om_Namespace (cdns_Meta dns) else dt_Namespace ref)"
  shows "run_state (resolveTarget denv dns) s =
      (Inr (TunnelDomain (tst_TunnelID (ct_Status t)), Some t), s\<lparr>ps_world := w\<rparr>) \<and>
    dr_Content (desired_record dns (TunnelDomain (tst_TunnelID (ct_Status t))) h cfg) =
      tst_TunnelID (ct_Status t) @ ''.cfargotunnel.com''"
proof -
  have "tst_TunnelDomain (ct_Status t) = TunnelDomain (tst_TunnelID (ct_Status t))"
    using assms(1)
    by (auto simp: ensureTunnel_def Let_def split: prod.splits sum.splits if_splits)
  moreover have "TunnelDomain x \<noteq> ''''" for x by (simp add: TunnelDomain_def)
  ultimately show ?thesis using assms(2-4)
    by (simp add: resolveTarget_def resolveTunnel_def Let_def desired_record_def BuildCNAMERecord_def
        TunnelDomain_def split: prod.split)
qed

definition wit_cf_client :: "'w Client" where
  "wit_cf_client = (clientImpl down_sdk)\<lparr>GetTunnelByName := \<lambda>a n. ret (Inr (Some
     \<lparr>tn_ID = ''t7'', tn_Name = n, tn_Status = '''', tn_AccountTag = a, tn_CreatedAt = ''''\<rparr>))\<rparr>"

lemma wit_ensured:
  "\<exists>t u. run_state (ensureTunnel (wit_tenv\<lparr>te_CFClient := Some wit_cf_client\<rparr>) wit_tunnel) wit_tstate = (Inr t, u) \<and>
     tst_TunnelID (ct_Status t) = ''t7''"
  by (simp add: ensureTunnel_def tunnel_getCloudflareClient_def resolveAccountID_def EnsureTunnel_def
      wit_cf_client_def wit_tenv_def wit_tunnel_def Let_def split: prod.split)

theorem record_points_at_tunnel_witness:
  "\<exists>t. fst (run_state (resolveTarget (wit_env\<lparr>de_GetTunnel := \<lambda>n. ret (Inr t)\<rparr>)
       (wit_dns\<lparr>cdns_Spec := (cdns_Spec wit_dns)\<lparr>ds_TunnelRef := Some \<lparr>dt_Name = ''edge'', dt_Namespace = ''''\<rparr>\<rparr>\<rparr>))
       wit_state) = Inr (''t7.cfargotunnel.com'', Some t)"
proof -
  obtain t u where t: "tst_TunnelID (ct_Status t) = ''t7''"
    "run_state (ensureTunnel (wit_tenv\<lparr>te_CFClient := Some wit_cf_client\<rparr>) wit_tunnel) wit_tstate = (Inr t, u)"
    using wit_ensured by blast
  let ?env = "wit_env\<lparr>de_GetTunnel := \<lambda>n. ret (Inr t)\<rparr>"
  let ?dns = "wit_dns\<lparr>cdns_Spec := (cdns_Spec wit_dns)\<lparr>ds_TunnelRef := Some \<lparr>dt_Name = ''edge'', dt_Namespace = ''''\<rparr>\<rparr>\<rparr>"
  have "fst (run_state (resolveTarget ?env ?dns) wit_state) = Inr (''t7.cfargotunnel.com'', Some t)"
    using record_points_at_tunnel [OF t(2), of ?env _ "\<lparr>dt_Name = ''edge'', dt_Namespace = ''''\<rparr>" wit_state
        "ps_world wit_state" ?dns] t(1)
    by (simp add: TunnelDomain_def)
  then show ?thesis by blast
qed

text \<open>Policies may target what nobody watches. The manager creates the access policy controller
  without feature gates; then a policy passes the test of its target kinds when each is a Gateway or
  a route of one of the four kinds, but an event on a GRPCRoute, TCPRoute or UDPRoute wakes no
  controller, whatever the event, and the watch list of the controller itself has HTTPRoute only.\<close>

theorem unwatched_targets:
  assumes "ae_Gates env = None"
  shows "(validateTargetKinds (ae_Gates env) p = None \<longleftrightarrow>
      (\<forall>ref \<in> List.set (GetTargetRefs p). pt_Kind ref = ''Gateway'' \<or> pt_Kind ref \<in> List.set route_kinds)) \<and>
    (\<forall>ref \<in> List.set (GetTargetRefs p). pt_Kind ref \<in> List.set route_kinds \<and> pt_Kind ref \<noteq> ''HTTPRoute'' \<longrightarrow>
      woken lib (pt_Kind ref) e = []) \<and>
    map fst (access_watches env) = [''HTTPRoute''] \<and> \<not> watches_grants env"
proof (intro conjI)
  have "unsupported_kind None refs = None \<longleftrightarrow>
      (\<forall>ref \<in> List.set refs. pt_Kind ref = ''Gateway'' \<or> pt_Kind ref \<in> List.set route_kinds)" for refs
    by (induction refs) (simp_all add: route_kinds_def Let_def)
  then show "validateTargetKinds (ae_Gates env) p = None \<longleftrightarrow>
      (\<forall>ref \<in> List.set (GetTargetRefs p). pt_Kind ref = ''Gateway'' \<or> pt_Kind ref \<in> List.set route_kinds)"
    by (simp add: assms validateTargetKinds_def)
  have "kind \<notin> List.set watched_kinds" if "kind \<in> List.set route_kinds" "kind \<noteq> ''HTTPRoute''" for kind
    using that by (auto simp: route_kinds_def watched_kinds_def)
  then show "\<forall>ref \<in> List.set (GetTargetRefs p). pt_Kind ref \<in> List.set route_kinds \<and> pt_Kind ref \<noteq> ''HTTPRoute'' \<longrightarrow>
      woken lib (pt_Kind ref) e = []"
    by (simp add: woken_unwatched)
qed (simp_all add: assms access_watches_def watches_grants_def)

theorem unwatched_targets_witness:
  "\<forall>e. woken std_predicates ''TCPRoute'' e = []"
proof -
  let ?ref = "\<lparr>pt_Group = ''gateway.networking.k8s.io'', pt_Kind = ''TCPRoute'', pt_Name = ''db'',
     pt_Namespace = None, pt_SectionName = None\<rparr>"
  let ?p = "wit_policy\<lparr>acp_Spec := (acp_Spec wit_policy)\<lparr>as_TargetRef := Some ?ref\<rparr>\<rparr>"
  have "?ref \<in> List.set (GetTargetRefs ?p)" "pt_Kind ?ref \<in> List.set route_kinds"
    by (simp_all add: GetTargetRefs_def route_kinds_def)
  then have "woken std_predicates ''TCPRoute'' e = []" for e
    using unwatched_targets [of "wit_aenv\<lparr>ae_Gates := None\<rparr>" ?p std_predicates e] by fastforce
  then show ?thesis by blast
qed

text \<open>What the listeners of a Gateway admit plays no part in the rules: with any other listeners the
  tunnel gets the same ingress rules, also for routes that the HTTPRoute controller then rejects.\<close>

theorem rules_ignore_listeners:
  assumes "run_state (te_ListRoutes tenv) (ps_world u) = (Inr routes, ps_world u)"
  shows "run_state (collectIngressRules (tenv\<lparr>te_ListGateways := ret (Inr (map (\<lambda>gw. gw\<lparr>gw_Listeners := ls gw\<rparr>) gws))\<rparr>)
      tunnel) u =
    run_state (collectIngressRules (tenv\<lparr>te_ListGateways := ret (Inr gws)\<rparr>) tunnel) u"
proof -
  have "relevant_gateways tunnel (map (\<lambda>gw. gw\<lparr>gw_Listeners := ls gw\<rparr>) gws) =
      map (\<lambda>gw. gw\<lparr>gw_Listeners := ls gw\<rparr>) (relevant_gateways tunnel gws)"
    by (simp add: relevant_gateways_def filter_map o_def)
  moreover have "matching_parents (gw\<lparr>gw_Listeners := l\<rparr>) rt = matching_parents gw rt" for gw l rt
    by (simp add: matching_parents_def parent_is_gateway_def [abs_def])
  ultimately show ?thesis
    using assms by (simp add: collectIngressRules_def rules_of_gateways_run [of _ _ routes] o_def
        gateway_rules_def [abs_def] gateway_count_def [abs_def])
qed

text \<open>C2: Every hostname the tunnel serves resolves to the tunnel. On the same unchanging cluster the
  tunnel controller collects its ingress rules and the DNS controller its hostnames; when the sync
  of these hostnames with the domain of the tunnel as target reports every record as synced, then
  the zone holds a CNAME for the hostname of every rule, and this record points at the tunnel
  unless it is not owned by the resource or the policy is create-only. (Route discovery is enabled
  without filter, the record cache is new, and no earlier record is left to delete.)\<close>

theorem served_hostnames_resolve:
  assumes api: "sdk_dns sdk store" "zone_env_axioms (client_zone store) denv"
    and cluster: "run_state (de_ListGateways denv) (ps_world s) = (Inr gws, ps_world s)"
      "run_state (de_ListRoutes denv) (ps_world s) = (Inr routes, ps_world s)"
      "run_state (te_ListGateways tenv) (ps_world u) = (Inr gws, ps_world u)"
      "run_state (te_ListRoutes tenv) (ps_world u) = (Inr routes, ps_world u)"
    and source: "gr_Enabled (hs_GatewayRoutes (ds_Source (cdns_Spec dns)))"
      "gr_AnnotationFilter (hs_GatewayRoutes (ds_Source (cdns_Spec dns))) = ''''"
    and rules: "run_state (collectIngressRules tenv tunnel) u = (Inr (rules, n), u')"
    and m: "run_state (collectHostnames denv dns (Some tunnel)) s = (Inr m, s)"
    and start: "ps_svc s = Some NewDNSRecordCache" "\<forall>z. distinct (map dr_ID (client_zone store (ps_world s) z))"
      "\<forall>z \<in> snd ` List.set zones. CHR '':'' \<notin> List.set z"
      "\<forall>prev \<in> List.set (dst_Records (cdns_Status dns)). rs_Hostname prev \<in> fst ` List.set m"
    and sync: "run_state (syncRecords denv (clientImpl sdk) dns (TunnelDomain i) m zones) s = (Done (Inr dns'), s')"
    and synced: "\<forall>st \<in> List.set (dst_Records (cdns_Status dns')). rs_Status st = ''Synced''"
  shows "\<forall>rule \<in> List.set rules. \<exists>z e.
    map_of zones (ExtractZoneFromHostname (de_etld1 denv) (ir_Hostname rule)) = Some z \<and>
    find_record (ir_Hostname rule) ''CNAME'' (client_zone store (ps_world s') z) = Some e \<and>
    (IsOwnedByCfgate (Some e) (owner_id dns) \<and> sync_policy dns \<noteq> PolicyCreateOnly \<longrightarrow>
       dr_Content e = i @ ''.cfargotunnel.com'')"
proof
  fix rule
  assume "rule \<in> List.set rules"
  moreover have "ir_Hostname ` List.set rules \<subseteq> fst ` List.set m"
    using rules_covered [OF cluster source rules] m by simp
  ultimately obtain cfg where cfg: "(ir_Hostname rule, cfg) \<in> List.set m"
    by (metis (no_types) imageE image_subset_iff prod.collapse)
  have "distinct (map fst m)" using collectHostnames_run [OF cluster(1,2), of dns "Some tunnel"] m by (simp add: Let_def)
  from synced_in_zone [OF api start(1) this start(2-4) sync] obtain st where st:
    "st \<in> List.set (dst_Records (cdns_Status dns'))" "rs_Status st = ''Synced'' \<longrightarrow>
      (\<exists>z e. map_of zones (ExtractZoneFromHostname (de_etld1 denv) (ir_Hostname rule)) = Some z \<and>
        find_record (ir_Hostname rule) ''CNAME'' (client_zone store (ps_world s') z) = Some e \<and>
        st = synced_status (ir_Hostname rule) z e \<and>
        (IsOwnedByCfgate (Some e) (owner_id dns) \<and> sync_policy dns \<noteq> PolicyCreateOnly \<longrightarrow>
          recordsMatch e (desired_record dns (TunnelDomain i) (ir_Hostname rule) cfg)))"
    using cfg by blast
  then obtain z e where "map_of zones (ExtractZoneFromHostname (de_etld1 denv) (ir_Hostname rule)) = Some z"
    "find_record (ir_Hostname rule) ''CNAME'' (client_zone store (ps_world s') z) = Some e"
    "IsOwnedByCfgate (Some e) (owner_id dns) \<and> sync_policy dns \<noteq> PolicyCreateOnly \<longrightarrow>
       recordsMatch e (desired_record dns (TunnelDomain i) (ir_Hostname rule) cfg)" using synced by blast
  moreover have "dr_Content (desired_record dns (TunnelDomain i) h cfg) = i @ ''.cfargotunnel.com''" for h
    by (simp add: desired_record_def BuildCNAMERecord_def TunnelDomain_def Let_def split: prod.split)
  ultimately show "\<exists>z e.
    map_of zones (ExtractZoneFromHostname (de_etld1 denv) (ir_Hostname rule)) = Some z \<and>
    find_record (ir_Hostname rule) ''CNAME'' (client_zone store (ps_world s') z) = Some e \<and>
    (IsOwnedByCfgate (Some e) (owner_id dns) \<and> sync_policy dns \<noteq> PolicyCreateOnly \<longrightarrow>
       dr_Content e = i @ ''.cfargotunnel.com'')"
    by (auto simp: recordsMatch_def)
qed

text \<open>The witness: an HTTPRoute for web.example.com behind the tunnel, and an empty zone.\<close>

definition wit_zone_env :: "(string \<Rightarrow> SdkRecord list) DnsEnv" where
  "wit_zone_env = wit_mem_env\<lparr>de_ListGateways := ret (Inr [wit_gateway]), de_ListRoutes := ret (Inr [wit_served_route])\<rparr>"

definition wit_route_dns :: CloudflareDNS where
  "wit_route_dns = wit_plain_dns\<lparr>cdns_Spec := (cdns_Spec wit_plain_dns)\<lparr>ds_Source :=
     (ds_Source (cdns_Spec wit_plain_dns))\<lparr>hs_Explicit := []\<rparr>\<rparr>\<rparr>"

definition wit_web_names :: hostname_map where
  "wit_web_names = [(''web.example.com'', route_hostname_config wit_served_route)]"

lemma wit_web_collected:
  "run_state (collectHostnames wit_zone_env wit_route_dns (Some wit_tunnel)) wit_zone_state = (Inr wit_web_names, wit_zone_state)"
  by (simp add: collectHostnames_def collectHostnamesFromRoutes_def wit_zone_env_def wit_mem_env_def wit_route_dns_def
      wit_plain_dns_def wit_dns_def relevant_gateways_def wit_gateway_def wit_tunnel_def tunnel_ref_def wit_meta_def
      route_filtered_def parent_is_gateway_def wit_served_route_def wit_route_def wit_web_names_def Let_def)

lemma desired_record_CNAME: "\<exists>pr ttl com. desired_record dns target h cfg = BuildCNAMERecord h target pr ttl com"
  unfolding desired_record_def Let_def by (simp split: prod.split) blast

lemma wit_web_synced:
  "\<exists>dns' s'. run_state (syncRecords wit_zone_env (clientImpl mem_sdk) wit_route_dns (TunnelDomain ''t7'') wit_web_names
      [(''example.com'', ''z1'')]) wit_zone_state = (Done (Inr dns'), s') \<and>
     (\<forall>st \<in> List.set (dst_Records (cdns_Status dns')). rs_Status st = ''Synced'')"
proof -
  obtain ttl pr com where d: "desired_record wit_route_dns (TunnelDomain ''t7'') ''web.example.com''
      (route_hostname_config wit_served_route) = BuildCNAMERecord ''web.example.com'' (TunnelDomain ''t7'') pr ttl com"
    using desired_record_CNAME by blast
  have p: "sync_policy wit_route_dns = ''upsert-only''" "\<not> shouldCreateTXTRecords wit_route_dns"
    by (simp_all add: sync_policy_def wit_plain_dns_def wit_route_dns_def shouldCreateTXTRecords_def)
  show ?thesis
    by (simp add: syncRecords_def sync_hostname_def wit_web_names_def wit_zone_env_def wit_mem_env_def
        ExtractZoneFromHostname_def d p PolicySync_def BuildCNAMERecord_def SyncRecordWithPolicy_def
        FindRecordByName_def createRecord_def AllowsCreate_def ci_ListDNSRecordsByNameType_def mem_List_def Let_def
        ci_CreateDNSRecord_def record_body_def mem_New_def mem_fresh_def mem_conflict_def wit_zone_state_def
        cache_lookup_def cache_store_def NewDNSRecordCache_def cache_Get_def cache_Set_def synced_status_def)
qed

theorem served_hostnames_resolve_witness:
  "\<exists>dns' s' e. run_state (syncRecords wit_zone_env (clientImpl mem_sdk) wit_route_dns (TunnelDomain ''t7'') wit_web_names
      [(''example.com'', ''z1'')]) wit_zone_state = (Done (Inr dns'), s') \<and>
     find_record ''web.example.com'' ''CNAME'' (client_zone (\<lambda>w. w) (ps_world s') ''z1'') = Some e"
proof -
  let ?tenv = "wit_tenv\<lparr>te_ListRoutes := ret (Inr [wit_served_route])\<rparr>"
  obtain r where r: "ir_Hostname r = ''web.example.com''"
    "concat (map (gateway_rules [wit_served_route]) (relevant_gateways wit_tunnel [wit_gateway])) = [r]"
    using wit_served_rules by blast
  obtain n where rules: "run_state (collectIngressRules ?tenv wit_tunnel) wit_tstate = (Inr ([r], n), wit_tstate)"
    using rules_of_gateways_run [of ?tenv wit_tstate "[wit_served_route]"
        "relevant_gateways wit_tunnel [wit_gateway]" "[]" 0] r(2)
    by (simp add: wit_tenv_def collectIngressRules_def)
  obtain dns' s' where s': "run_state (syncRecords wit_zone_env (clientImpl mem_sdk) wit_route_dns (TunnelDomain ''t7'')
      wit_web_names [(''example.com'', ''z1'')]) wit_zone_state = (Done (Inr dns'), s')"
    "\<forall>st \<in> List.set (dst_Records (cdns_Status dns')). rs_Status st = ''Synced''" using wit_web_synced by blast
  have env: "zone_env_axioms (client_zone (\<lambda>w. w)) wit_zone_env"
    using mem_env.zone_env_axioms by (simp add: zone_env_def zone_env_axioms_def wit_zone_env_def)
  have zone: "ExtractZoneFromHostname (de_etld1 wit_zone_env) ''web.example.com'' = ''example.com''"
    by (simp add: ExtractZoneFromHostname_def wit_mem_env_def wit_zone_env_def)
  have "\<forall>rule \<in> List.set [r]. \<exists>z e.
      map_of [(''example.com'', ''z1'')] (ExtractZoneFromHostname (de_etld1 wit_zone_env) (ir_Hostname rule)) = Some z \<and>
      find_record (ir_Hostname rule) ''CNAME'' (client_zone (\<lambda>w. w) (ps_world s') z) = Some e \<and>
      (IsOwnedByCfgate (Some e) (owner_id wit_route_dns) \<and> sync_policy wit_route_dns \<noteq> PolicyCreateOnly \<longrightarrow>
         dr_Content e = ''t7'' @ ''.cfargotunnel.com'')"
    by (rule served_hostnames_resolve [OF mem.sdk_dns_axioms env _ _ _ _ _ _ rules wit_web_collected _ _ _ _ s',
          of "[wit_gateway]" "[wit_served_route]"])
      (simp_all add: wit_zone_env_def wit_tenv_def wit_route_dns_def wit_plain_dns_def wit_dns_def wit_zone_state_def
        client_zone_def)
  with r(1) zone obtain e where
    "find_record ''web.example.com'' ''CNAME'' (client_zone (\<lambda>w. w) (ps_world s') ''z1'') = Some e" by auto
  with s'(1) show ?thesis by (intro exI conjI) (rule s'(1))
qed

end
